(* ===== verification/Prelude.thy ===== *)
theory Prelude
  imports Main "HOL-Library.AList"
begin

text \<open>
  Shared vocabulary of the development.  The in-memory storage of the server
  (\<open>MemStorage\<close>) keeps four JavaScript \<open>Map\<close>s.  A JS \<open>Map\<close> iterates in
  insertion order, \<open>set\<close> on an existing key keeps the key's position and
  \<open>set\<close> on a new key appends it: that is exactly \<^const>\<open>AList.update\<close> on an
  association list, so every \<open>Map\<close> is modelled as a \<open>('k \<times> 'v) list\<close> with
  distinct keys.  \<open>Map.get\<close> is \<^const>\<open>map_of\<close>, \<open>Map.delete\<close> is
  \<^const>\<open>AList.delete\<close> together with the boolean it returns, and
  \<open>Array.from(m.values())\<close> is \<open>map snd\<close>.

  JavaScript's \<open>x || d\<close> replaces every falsy value by the default: for a
  string the empty string is falsy, for a number \<open>0\<close> is.  The helpers below
  write that out, since the storage code uses \<open>||\<close> for all its defaults.
\<close>

type_synonym ident = int
type_synonym timestamp = nat
type_synonym ('k, 'v) jsmap = "('k \<times> 'v) list"

named_theorems jsmap_simps "facts about the association-list model of JS maps"

subsection \<open>JavaScript defaulting with \<open>||\<close>\<close>

definition js_or_str :: "string option \<Rightarrow> string \<Rightarrow> string" where
  "js_or_str v d = (case v of None \<Rightarrow> d | Some s \<Rightarrow> if s = [] then d else s)"

definition js_or_null_str :: "string option \<Rightarrow> string option" where
  "js_or_null_str v = (case v of None \<Rightarrow> None | Some s \<Rightarrow> if s = [] then None else Some s)"

definition js_or_null_num :: "int option \<Rightarrow> int option" where
  "js_or_null_num v = (case v of None \<Rightarrow> None | Some n \<Rightarrow> if n = 0 then None else Some n)"

text \<open>Truthiness of an optional number, as in \<open>if (todo.assignedTo)\<close>.\<close>

definition js_truthy_num :: "int option \<Rightarrow> bool" where
  "js_truthy_num v = (case v of None \<Rightarrow> False | Some n \<Rightarrow> n \<noteq> 0)"

lemma js_or_str_simps [simp]:
  "js_or_str None d = d"
  "js_or_str (Some []) d = d"
  "s \<noteq> [] \<Longrightarrow> js_or_str (Some s) d = s"
  by (simp_all add: js_or_str_def)

lemma js_or_str_nonempty: "d \<noteq> [] \<Longrightarrow> js_or_str v d \<noteq> []"
  by (simp add: js_or_str_def split: option.splits)

lemma js_or_null_str_simps [simp]:
  "js_or_null_str None = None"
  "js_or_null_str (Some []) = None"
  "s \<noteq> [] \<Longrightarrow> js_or_null_str (Some s) = Some s"
  by (simp_all add: js_or_null_str_def)

lemma js_or_null_str_never_empty: "js_or_null_str v \<noteq> Some []"
  by (simp add: js_or_null_str_def split: option.splits)

lemma js_or_null_num_simps [simp]:
  "js_or_null_num None = None"
  "js_or_null_num (Some 0) = None"
  "n \<noteq> 0 \<Longrightarrow> js_or_null_num (Some n) = Some n"
  by (simp_all add: js_or_null_num_def)

lemma js_truthy_num_simps [simp]:
  "js_truthy_num None = False"
  "js_truthy_num (Some n) = (n \<noteq> 0)"
  by (simp_all add: js_truthy_num_def)

subsection \<open>Association lists as JS maps\<close>

abbreviation keys_of :: "('k, 'v) jsmap \<Rightarrow> 'k list" where
  "keys_of m \<equiv> map fst m"

abbreviation values_of :: "('k, 'v) jsmap \<Rightarrow> 'v list" where
  "values_of m \<equiv> map snd m"

definition keys_below :: "int \<Rightarrow> (int, 'v) jsmap \<Rightarrow> bool" where
  "keys_below c m \<longleftrightarrow> list_all (\<lambda>k. k < c) (keys_of m)"

text \<open>\<open>Map.delete\<close> returns whether the key was present.\<close>

definition js_map_delete :: "'k \<Rightarrow> ('k, 'v) jsmap \<Rightarrow> bool \<times> ('k, 'v) jsmap" where
  "js_map_delete k m = (map_of m k \<noteq> None, AList.delete k m)"

lemma keys_below_Nil [simp, jsmap_simps]: "keys_below c []"
  by (simp add: keys_below_def)

lemma keys_below_iff: "keys_below c m \<longleftrightarrow> (\<forall>k \<in> fst ` set m. k < c)"
  by (auto simp: keys_below_def list_all_iff)

lemma keys_below_mono: "keys_below c m \<Longrightarrow> c \<le> c' \<Longrightarrow> keys_below c' m"
  by (auto simp: keys_below_iff)

lemma keys_below_fresh [jsmap_simps]: "keys_below c m \<Longrightarrow> map_of m c = None"
  by (auto simp: keys_below_iff map_of_eq_None_iff)

lemma keys_below_filter [jsmap_simps]: "keys_below c m \<Longrightarrow> keys_below c (filter P m)"
  by (auto simp: keys_below_iff)

lemma keys_below_delete [jsmap_simps]: "keys_below c m \<Longrightarrow> keys_below c (AList.delete k m)"
  by (simp add: AList.delete_eq keys_below_filter)

lemma keys_below_update_existing [jsmap_simps]:
  "keys_below c m \<Longrightarrow> map_of m k \<noteq> None \<Longrightarrow> keys_below c (AList.update k v m)"
  by (force simp: keys_below_iff dom_update dest: map_of_SomeD)

lemma keys_below_update_fresh [jsmap_simps]:
  "keys_below c m \<Longrightarrow> keys_below (c + 1) (AList.update c v m)"
  by (auto simp: keys_below_iff dom_update)

lemma keys_below_snoc [jsmap_simps]: "keys_below c m \<Longrightarrow> keys_below (c + 1) (m @ [(c, v)])"
  by (auto simp: keys_below_iff)

text \<open>Setting a key not yet present appends the entry: insertion order.\<close>

lemma update_fresh_append [jsmap_simps]:
  "k \<notin> fst ` set m \<Longrightarrow> AList.update k v m = m @ [(k, v)]"
  by (induction m) auto

lemma update_keys_below_append:
  "keys_below c m \<Longrightarrow> AList.update c v m = m @ [(c, v)]"
  by (auto simp: keys_below_iff intro: update_fresh_append)

lemma distinct_keys_filter [jsmap_simps]:
  "distinct (keys_of m) \<Longrightarrow> distinct (keys_of (filter P m))"
  by (induction m) auto

lemma values_update_existing:
  "distinct (keys_of m) \<Longrightarrow> (k, w) \<in> set m \<Longrightarrow>
   values_of (AList.update k v m) = map (\<lambda>(k', x). if k' = k then v else x) m"
  by (induction m) (auto simp: rev_image_eqI)

lemma map_of_filter_snd:
  "distinct (keys_of m) \<Longrightarrow> map_of (filter (\<lambda>(k, x). P x) m) k = (case map_of m k of None \<Rightarrow> None
     | Some x \<Rightarrow> if P x then Some x else None)"
  by (induction m) (auto split: option.splits dest: map_of_SomeD intro: rev_image_eqI)

lemma find_append_none [jsmap_simps]:
  "find P xs = None \<Longrightarrow> find P (xs @ ys) = find P ys"
  by (induction xs) (auto split: if_splits)

lemma find_append_some [jsmap_simps]:
  "find P xs = Some x \<Longrightarrow> find P (xs @ ys) = Some x"
  by (induction xs) (auto split: if_splits)

lemma find_some_mem: "find P xs = Some x \<Longrightarrow> x \<in> set xs \<and> P x"
  by (induction xs) (auto split: if_splits)

lemma set_values_update [jsmap_simps]:
  "set (values_of (AList.update k v m)) \<subseteq> insert v (set (values_of m))"
  by (induction m) auto

lemma find_values_update_new [jsmap_simps]:
  "find P (values_of m) = None \<Longrightarrow> P v \<Longrightarrow> find P (values_of (AList.update k v m)) = Some v"
  by (induction m) auto

lemma distinct_map_values_update_new:
  "distinct (map f (values_of m)) \<Longrightarrow> f v \<notin> f ` set (values_of m) \<Longrightarrow>
   distinct (map f (values_of (AList.update k v m)))"
proof (induction m)
  case Nil
  then show ?case by simp
next
  case (Cons p m)
  have "f ` set (values_of (AList.update k v m)) \<subseteq> insert (f v) (f ` set (values_of m))"
    using set_values_update [of k v m] by blast
  moreover have "f (snd p) \<noteq> f v" and "f (snd p) \<notin> f ` set (values_of m)"
    using Cons.prems by auto
  ultimately have "f (snd p) \<notin> f ` set (values_of (AList.update k v m))"
    by blast
  with Cons show ?case by auto
qed

lemma distinct_map_values_update_same:
  "distinct (keys_of m) \<Longrightarrow> (k, w) \<in> set m \<Longrightarrow> f v = f w \<Longrightarrow>
   map f (values_of (AList.update k v m)) = map f (values_of m)"
  by (induction m) (auto simp: rev_image_eqI)

lemma filter_values_update_single:
  "P v \<Longrightarrow> \<forall>x \<in> set (values_of m). \<not> P x \<Longrightarrow> filter P (values_of (AList.update k v m)) = [v]"
  by (induction m) auto

lemma filter_values_update_other:
  "\<not> P v \<Longrightarrow> \<forall>x \<in> set (values_of m). \<not> P x \<Longrightarrow> filter P (values_of (AList.update k v m)) = []"
  by (induction m) auto

lemma filter_values_update_fresh:
  "k \<notin> fst ` set m \<Longrightarrow>
   filter P (values_of (AList.update k v m)) = filter P (values_of m) @ (if P v then [v] else [])"
  by (simp add: update_fresh_append)

text \<open>Every entry is stored under the id its value carries.\<close>

definition keyed_by :: "('v \<Rightarrow> 'k) \<Rightarrow> ('k, 'v) jsmap \<Rightarrow> bool" where
  "keyed_by f m \<longleftrightarrow> list_all (\<lambda>(k, v). f v = k) m"

lemma set_update_subset: "set (AList.update k v m) \<subseteq> insert (k, v) (set m)"
  by (induction m) auto

lemma keyed_by_update [jsmap_simps]:
  "keyed_by f m \<Longrightarrow> f v = k \<Longrightarrow> keyed_by f (AList.update k v m)"
  using set_update_subset [of k v m] by (auto simp: keyed_by_def list_all_iff)

lemma keyed_by_filter [jsmap_simps]: "keyed_by f m \<Longrightarrow> keyed_by f (filter P m)"
  by (auto simp: keyed_by_def list_all_iff)

lemma keyed_by_delete [jsmap_simps]: "keyed_by f m \<Longrightarrow> keyed_by f (AList.delete k m)"
  by (simp add: AList.delete_eq keyed_by_filter)

lemma keyed_by_Nil [simp, jsmap_simps]: "keyed_by f []"
  by (simp add: keyed_by_def)

lemma keyed_by_in: "keyed_by f m \<Longrightarrow> (k, v) \<in> set m \<Longrightarrow> f v = k"
  by (auto simp: keyed_by_def list_all_iff)

lemma distinct_replicate_iff: "distinct (replicate n x) \<longleftrightarrow> n \<le> 1"
  by (induction n) auto

subsection \<open>Two loop idioms of the storage code\<close>

text \<open>\<open>set.add(x)\<close> on a JS \<open>Set\<close>, whose iteration order is the order of
  first insertion.\<close>

definition js_set_add :: "'a \<Rightarrow> 'a list \<Rightarrow> 'a list" where
  "js_set_add x xs = (if x \<in> set xs then xs else xs @ [x])"

text \<open>\<open>for (const [k, v] of m.entries()) { if (P(v)) m.delete(k); }\<close>: the
  entries visited are those of the map when the loop starts (a JS map iterator
  skips entries deleted before it reaches them, and the loop only deletes the
  entry it is visiting), so the loop walks that list and deletes from the
  current map.\<close>

fun js_delete_where :: "('v \<Rightarrow> bool) \<Rightarrow> ('k, 'v) jsmap \<Rightarrow> ('k, 'v) jsmap \<Rightarrow> ('k, 'v) jsmap" where
  "js_delete_where P [] m = m"
| "js_delete_where P ((k, v) # es) m =
     js_delete_where P es (if P v then AList.delete k m else m)"

lemma set_fold_js_set_add: "set (fold js_set_add xs acc) = set acc \<union> set xs"
  by (induction xs arbitrary: acc) (auto simp: js_set_add_def)

lemma distinct_fold_js_set_add: "distinct acc \<Longrightarrow> distinct (fold js_set_add xs acc)"
  by (induction xs arbitrary: acc) (auto simp: js_set_add_def)

lemma js_delete_where_filter:
  "js_delete_where P es m = filter (\<lambda>(k, _). k \<notin> fst ` set (filter (P \<circ> snd) es)) m"
proof (induction P es m rule: js_delete_where.induct)
  case (1 P m)
  then show ?case by (simp add: filter_id_conv)
next
  case (2 P k v es m)
  then show ?case
    by (auto simp: AList.delete_eq filter_filter intro!: filter_cong)
qed

text \<open>On a map with distinct keys, visiting the map's own entries deletes
  exactly the entries whose value satisfies \<open>P\<close>.\<close>

lemma js_delete_where_self:
  assumes "distinct (keys_of m)"
  shows "js_delete_where P m m = filter (\<lambda>(k, v). \<not> P v) m"
proof -
  have "(k \<notin> fst ` set (filter (P \<circ> snd) m)) \<longleftrightarrow> \<not> P v" if "(k, v) \<in> set m" for k v
  proof
    assume "k \<notin> fst ` set (filter (P \<circ> snd) m)"
    with that show "\<not> P v" by (force simp: image_iff)
  next
    assume "\<not> P v"
    show "k \<notin> fst ` set (filter (P \<circ> snd) m)"
    proof
      assume "k \<in> fst ` set (filter (P \<circ> snd) m)"
      then obtain v' where "(k, v') \<in> set m" and "P v'" by auto
      with that assms have "v' = v" by (metis eq_key_imp_eq_value)
      with \<open>P v'\<close> \<open>\<not> P v\<close> show False by simp
    qed
  qed
  then show ?thesis
    by (auto simp: js_delete_where_filter intro!: filter_cong)
qed

text \<open>Whatever the keys, no visited entry satisfying \<open>P\<close> survives.\<close>

lemma js_delete_where_removes:
  "(k, v) \<in> set (js_delete_where P m m) \<Longrightarrow> (k, v) \<in> set m \<and> \<not> P v"
  by (force simp: js_delete_where_filter image_iff)

end
