(* ===== verification/Json.thy ===== *)
theory Json
  imports Prelude "HOL-Library.Monad_Syntax"
begin

text \<open>
  The values the HTTP layer (\<open>src/server/routes.ts\<close>) reads from a request:
  the JSON body that \<open>express.json()\<close> parses, property access on it, the
  truthiness tests \<open>if (!x)\<close>, the route parameters read by \<open>parseInt\<close>, and
  the field checks of the zod schemas.  \<open>JSON.parse\<close> keeps the last of
  duplicate keys, so a property read looks the key up from the end.  JSON
  numbers are modelled by their integer values (the ids, counters and flags
  the program sends are integers); \<open>undefined\<close>, an absent key, is \<open>None\<close>.
  \<open>parseInt\<close> is the algorithm of ECMAScript (\<open>Number.parseInt\<close>): leading
  white space, a sign, an optional \<open>0x\<close> prefix selecting radix 16, then the
  longest prefix of digits, \<open>NaN\<close> (here \<open>None\<close>) when there is none.
  Its value is exact, as it is for every id below \<open>2^53\<close>.
\<close>

datatype json = JNull | JBool bool | JNum int | JStr string | JArr "json list"
  | JObj "(string \<times> json) list"

definition json_get :: "json \<Rightarrow> string \<Rightarrow> json option" where
  "json_get v k = (case v of JObj kvs \<Rightarrow> map_of (rev kvs) k | _ \<Rightarrow> None)"

text \<open>Truthiness of a property read (\<open>None\<close> is \<open>undefined\<close>).\<close>

fun js_truthy_json :: "json option \<Rightarrow> bool" where
  "js_truthy_json None = False"
| "js_truthy_json (Some JNull) = False"
| "js_truthy_json (Some (JBool b)) = b"
| "js_truthy_json (Some (JNum n)) = (n \<noteq> 0)"
| "js_truthy_json (Some (JStr s)) = (s \<noteq> [])"
| "js_truthy_json (Some (JArr _)) = True"
| "js_truthy_json (Some (JObj _)) = True"

subsection \<open>\<open>parseInt\<close>\<close>

text \<open>The white space \<open>parseInt\<close> and \<open>trim\<close> skip (\<open>WhiteSpace\<close> and
  \<open>LineTerminator\<close> of ECMAScript) within the model's characters, which are
  Latin-1: tab, line feed, vertical tab, form feed, carriage return, space and
  no-break space (U+00A0).  The other Unicode spaces lie outside Latin-1.\<close>

definition js_whitespace :: "char \<Rightarrow> bool" where
  "js_whitespace c \<longleftrightarrow> of_char c \<in> {9, 10, 11, 12, 13, 32, 160 :: nat}"

definition digit_val :: "nat \<Rightarrow> char \<Rightarrow> nat option" where
  "digit_val r c =
     (let n = of_char c :: nat;
          d = (if 48 \<le> n \<and> n \<le> 57 then Some (n - 48)
               else if 97 \<le> n \<and> n \<le> 122 then Some (n - 87)
               else if 65 \<le> n \<and> n \<le> 90 then Some (n - 55) else None)
      in (case d of Some v \<Rightarrow> if v < r then Some v else None | None \<Rightarrow> None))"

fun digit_prefix :: "nat \<Rightarrow> string \<Rightarrow> nat list" where
  "digit_prefix r [] = []"
| "digit_prefix r (c # cs) = (case digit_val r c of None \<Rightarrow> [] | Some d \<Rightarrow> d # digit_prefix r cs)"

definition digits_value :: "nat \<Rightarrow> nat list \<Rightarrow> nat" where
  "digits_value r ds = foldl (\<lambda>a d. a * r + d) 0 ds"

definition split_sign :: "string \<Rightarrow> int \<times> string" where
  "split_sign s = (case s of c # cs \<Rightarrow>
       if c = CHR ''-'' then (-1, cs) else if c = CHR ''+'' then (1, cs) else (1, s)
     | [] \<Rightarrow> (1, []))"

definition split_radix :: "string \<Rightarrow> nat \<times> string" where
  "split_radix s = (if take 2 s = ''0x'' \<or> take 2 s = ''0X'' then (16, drop 2 s) else (10, s))"

definition parse_int :: "string \<Rightarrow> int option" where
  "parse_int str =
     (let (sg, s) = split_sign (dropWhile js_whitespace str);
          (r, z) = split_radix s;
          ds = digit_prefix r z
      in if ds = [] then None else Some (sg * int (digits_value r ds)))"

text \<open>\<open>String(n)\<close> of an integer-valued number, as the client writes ids into
  URLs (\<open>`/api/boards/${id}`\<close>).\<close>

definition digit_char :: "nat \<Rightarrow> char" where
  "digit_char d = char_of (48 + d)"

fun nat_digits :: "nat \<Rightarrow> nat list" where
  "nat_digits n = (if n < 10 then [n] else nat_digits (n div 10) @ [n mod 10])"

definition js_int_string :: "int \<Rightarrow> string" where
  "js_int_string i = (if i < 0 then CHR ''-'' # map digit_char (nat_digits (nat (- i)))
                      else map digit_char (nat_digits (nat i)))"

declare nat_digits.simps [simp del]

subsection \<open>Zod field checks\<close>

text \<open>A checker reads one property (\<open>None\<close> when absent) and gives the parsed
  value or fails.  \<open>z.string()\<close>, \<open>z.number()\<close> and \<open>z.date()\<close> are required;
  \<open>.optional()\<close> admits an absent key, \<open>.nullable().optional()\<close> also
  \<open>null\<close>.  No JSON value is a \<open>Date\<close>, so \<open>z.date()\<close> fails on every one.\<close>

type_synonym 'a zod = "json option \<Rightarrow> 'a option"

fun z_string :: "string zod" where
  "z_string (Some (JStr s)) = Some s"
| "z_string _ = None"

fun z_number :: "int zod" where
  "z_number (Some (JNum n)) = Some n"
| "z_number _ = None"

definition z_date :: "timestamp zod" where
  "z_date v = None"

definition z_optional :: "'a zod \<Rightarrow> 'a option zod" where
  "z_optional f v = (case v of None \<Rightarrow> Some None | Some _ \<Rightarrow> map_option Some (f v))"

definition z_nullish :: "'a zod \<Rightarrow> 'a option zod" where
  "z_nullish f v = (case v of None \<Rightarrow> Some None | Some JNull \<Rightarrow> Some None
                              | Some _ \<Rightarrow> map_option Some (f v))"

subsection \<open>\<open>parseInt\<close> reads back \<open>String(n)\<close>\<close>

lemma of_char_digit_char: "d < 10 \<Longrightarrow> of_char (digit_char d) = 48 + d"
  by (simp add: digit_char_def)

lemma digit_char_neq:
  assumes "d < 10"
  shows "\<not> js_whitespace (digit_char d)" "digit_char d \<noteq> CHR ''-''" "digit_char d \<noteq> CHR ''+''"
    "digit_char d \<noteq> CHR ''x''" "digit_char d \<noteq> CHR ''X''"
  using assms of_char_digit_char [OF assms]
  by (auto simp: js_whitespace_def dest: arg_cong [where f = "of_char :: char \<Rightarrow> nat"])

lemma digit_char_zero: "digit_char 0 = CHR ''0''"
  by (simp add: digit_char_def char_of_def bit_0)

lemma digit_val_digit_char: "d < 10 \<Longrightarrow> digit_val 10 (digit_char d) = Some d"
  by (simp add: digit_val_def of_char_digit_char)

lemma nat_digits_lt: "d \<in> set (nat_digits n) \<Longrightarrow> d < 10"
  by (induction n rule: nat_digits.induct) (subst (asm) nat_digits.simps, auto split: if_splits)

lemma nat_digits_ne: "nat_digits n \<noteq> []"
  by (subst nat_digits.simps) simp

lemma js_int_string_ne: "js_int_string i \<noteq> []"
  by (simp add: js_int_string_def nat_digits_ne)

lemma digit_prefix_digits: "\<forall>d\<in>set ds. d < 10 \<Longrightarrow> digit_prefix 10 (map digit_char ds) = ds"
  by (induction ds) (simp_all add: digit_val_digit_char)

lemma digits_value_snoc: "digits_value r (ds @ [d]) = digits_value r ds * r + d"
  by (simp add: digits_value_def)

lemma digits_value_nat_digits: "digits_value 10 (nat_digits n) = n"
  by (induction n rule: nat_digits.induct) (subst nat_digits.simps, simp add: digits_value_snoc digits_value_def)

lemma split_radix_digits: "\<forall>d\<in>set ds. d < 10 \<Longrightarrow> split_radix (map digit_char ds) = (10, map digit_char ds)"
  by (cases ds rule: remdups_adj.cases) (auto simp: split_radix_def digit_char_neq)

lemma digit_string_prefix:
  assumes "\<forall>d\<in>set ds. d < 10" "ds \<noteq> []"
  shows "dropWhile js_whitespace (map digit_char ds) = map digit_char ds"
    "split_sign (map digit_char ds) = (1, map digit_char ds)"
  using assms by (cases ds; simp add: digit_char_neq split_sign_def)+

lemma minus_not_whitespace: "\<not> js_whitespace CHR ''-''"
  by (simp add: js_whitespace_def)

lemma parse_int_digits:
  assumes "\<forall>d\<in>set ds. d < 10" "ds \<noteq> []"
  shows "parse_int (map digit_char ds) = Some (int (digits_value 10 ds))"
    "parse_int (CHR ''-'' # map digit_char ds) = Some (- int (digits_value 10 ds))"
  using assms digit_string_prefix [OF assms] split_radix_digits [OF assms(1)]
    digit_prefix_digits [OF assms(1)]
  by (simp_all add: parse_int_def minus_not_whitespace split_sign_def)

lemma parse_int_js_int_string [simp]: "parse_int (js_int_string i) = Some i"
proof (cases "i < 0")
  case True
  then show ?thesis
    using parse_int_digits(2) [of "nat_digits (nat (- i))"]
    by (simp add: js_int_string_def nat_digits_lt nat_digits_ne digits_value_nat_digits)
next
  case False
  then show ?thesis
    using parse_int_digits(1) [of "nat_digits (nat i)"]
    by (simp add: js_int_string_def nat_digits_lt nat_digits_ne digits_value_nat_digits)
qed
lemma z_optional_simps [simp]:
  "z_optional f None = Some None" "z_optional f (Some v) = map_option Some (f (Some v))"
  by (simp_all add: z_optional_def)

lemma z_nullish_simps [simp]:
  "z_nullish f None = Some None" "z_nullish f (Some JNull) = Some None"
  "v \<noteq> JNull \<Longrightarrow> z_nullish f (Some v) = map_option Some (f (Some v))"
  by (simp_all add: z_nullish_def split: json.split)

end
