(* ===== verification/Schema.thy ===== *)
theory Schema
  imports Prelude
begin

text \<open>
  The entity types of \<open>src/shared/schema.ts\<close>: one record per table row type
  (\<open>User\<close>, \<open>Board\<close>, \<open>BoardMember\<close>, \<open>Todo\<close>), one per insert type
  (\<open>InsertUser\<close>, \<dots>, the zod \<open>pick\<close>s), the joined read types
  (\<open>BoardWithMemberCount\<close>, \<open>TodoWithAssignee\<close>, \<open>BoardWithMembers\<close>) and the
  \<open>Partial<Board>\<close>/\<open>Partial<Todo>\<close> update objects.

  Columns declared \<open>text\<close> (role, status, priority, color) stay strings, as the
  code stores whatever string it is given; the enumerations the comments name are
  the datatypes at the end, with the parsing the HTTP layer applies.

  Nullable columns are \<open>option\<close>s (\<open>None\<close> is \<open>null\<close>).  A board's title and
  colour are \<open>option\<close>s too: the code can store \<open>undefined\<close> there (see
  \<open>Boards\<close>), and \<open>None\<close> is that \<open>undefined\<close>.  In an update object a field
  is \<open>Some v\<close> when the key is present (with value \<open>v\<close>, possibly
  \<open>undefined\<close>) and \<open>None\<close> when the key is absent, as object spread
  distinguishes the two.
\<close>

record user =
  user_id :: ident
  username :: string
  password :: string
  phone_number :: string
  display_name :: "string option"
  photo_url :: "string option"

record board =
  board_id :: ident
  board_title :: "string option"
  board_description :: "string option"
  board_color :: "string option"
  board_created_by :: ident
  board_created_at :: timestamp

record board_member =
  member_id :: ident
  member_board_id :: ident
  member_user_id :: ident
  member_role :: string

record todo =
  todo_id :: ident
  todo_board_id :: ident
  todo_title :: string
  todo_description :: "string option"
  todo_due_date :: "timestamp option"
  todo_priority :: string
  todo_status :: string
  todo_assigned_to :: "ident option"
  todo_created_by :: ident
  todo_created_at :: timestamp
  todo_updated_at :: timestamp

subsection \<open>Insert types\<close>

record insert_user =
  iu_username :: string
  iu_password :: string
  iu_phone_number :: string
  iu_display_name :: "string option"
  iu_photo_url :: "string option"

record insert_board =
  ib_title :: string
  ib_description :: "string option"
  ib_color :: "string option"
  ib_created_by :: ident

record insert_board_member =
  im_board_id :: ident
  im_user_id :: ident
  im_role :: "string option"

record insert_todo =
  it_board_id :: ident
  it_title :: string
  it_description :: "string option"
  it_due_date :: "timestamp option"
  it_priority :: "string option"
  it_status :: "string option"
  it_assigned_to :: "ident option"
  it_created_by :: ident

subsection \<open>Joined read types\<close>

text \<open>
  \<open>getBoardsByUser\<close> builds \<open>{ ...board, todoCount, memberCount }\<close> from
  \<open>this.boards.get(boardId)!\<close>; the \<open>!\<close> checks nothing at run time, so the
  board part is an \<open>option\<close>.  Likewise \<open>members\<close> of
  \<open>getBoardWithMembers\<close> holds \<open>this.users.get(userId)!\<close> for each member.
\<close>

record board_with_counts =
  bwc_board :: "board option"
  todo_count :: nat
  member_count :: nat

record board_with_members =
  bwm_board :: board
  members :: "user option list"

record todo_with_assignee =
  twa_todo :: todo
  assignee :: "user option"

subsection \<open>Update objects\<close>

record board_patch =
  bp_id :: "ident option"
  bp_title :: "string option option"
  bp_description :: "string option option"
  bp_color :: "string option option"
  bp_created_by :: "ident option"
  bp_created_at :: "timestamp option"

record todo_patch =
  tp_id :: "ident option"
  tp_board_id :: "ident option"
  tp_title :: "string option"
  tp_description :: "string option option"
  tp_due_date :: "timestamp option option"
  tp_priority :: "string option"
  tp_status :: "string option"
  tp_assigned_to :: "ident option option"
  tp_created_by :: "ident option"
  tp_created_at :: "timestamp option"
  tp_updated_at :: "timestamp option"

text \<open>Object spread \<open>{...x, ...p}\<close>, one field: a present key overrides.\<close>

definition spread :: "'a option \<Rightarrow> 'a \<Rightarrow> 'a" where
  "spread p x = (case p of None \<Rightarrow> x | Some v \<Rightarrow> v)"

lemma spread_simps [simp]: "spread None x = x" "spread (Some v) x = v"
  by (simp_all add: spread_def)

definition empty_board_patch :: board_patch where
  "empty_board_patch = \<lparr>bp_id = None, bp_title = None, bp_description = None,
     bp_color = None, bp_created_by = None, bp_created_at = None\<rparr>"

definition empty_todo_patch :: todo_patch where
  "empty_todo_patch = \<lparr>tp_id = None, tp_board_id = None, tp_title = None,
     tp_description = None, tp_due_date = None, tp_priority = None, tp_status = None,
     tp_assigned_to = None, tp_created_by = None, tp_created_at = None,
     tp_updated_at = None\<rparr>"

subsection \<open>Enumerations named by the schema comments\<close>

datatype role = Viewer | Editor | Admin

datatype status = Status_todo | Status_in_progress | Status_completed

fun role_name :: "role \<Rightarrow> string" where
  "role_name Viewer = ''viewer''"
| "role_name Editor = ''editor''"
| "role_name Admin = ''admin''"

fun status_name :: "status \<Rightarrow> string" where
  "status_name Status_todo = ''todo''"
| "status_name Status_in_progress = ''in-progress''"
| "status_name Status_completed = ''completed''"

text \<open>The role check of \<open>PATCH /api/boards/:boardId/members/:userId\<close>:
  \<open>['viewer', 'editor', 'admin'].includes(role)\<close>.\<close>

definition parse_role :: "string \<Rightarrow> role option" where
  "parse_role s = (if s = ''viewer'' then Some Viewer
     else if s = ''editor'' then Some Editor
     else if s = ''admin'' then Some Admin else None)"

definition valid_role :: "string \<Rightarrow> bool" where
  "valid_role s \<longleftrightarrow> s \<in> set [''viewer'', ''editor'', ''admin'']"

end
