(* ===== verification/Validation.thy ===== *)
theory Validation
  imports Json Schema
begin

text \<open>
  What the route handlers of \<open>src/server/routes.ts\<close> make of a request body
  before they call the store.  The POST handlers run the zod insert schemas of
  \<open>src/shared/schema.ts\<close> (\<open>createInsertSchema(table).pick({...})\<close>): a
  \<open>notNull\<close> column without default is required, a column with a default is
  \<open>.optional()\<close>, a nullable column is \<open>.nullable().optional()\<close>; unknown
  keys are stripped.  A parse either gives the insert record or fails (the
  \<open>ZodError\<close> the handlers answer with 400).

  The two PUT handlers validate nothing: \<open>PUT /api/boards/:id\<close> builds
  \<open>{ title, description, color }\<close> from the body and \<open>PUT /api/todos/:id\<close>
  passes the body itself.  Their conversion to the typed update objects of
  \<open>Schema\<close> gives \<open>None\<close> when a present key holds a value the declared field
  type cannot hold (a number as a title, a string as a date): the handler would
  store it, and such a state lies outside the typed model.  Keys that are not
  fields of \<open>Todo\<close> (the client adds \<open>_csrf\<close>) are copied into the stored
  object by the spread and read by no code; the conversion drops them.
\<close>

text \<open>The own enumerable properties an object spread copies: an object's
  entries, an array's or string's elements under their indices, nothing for
  \<open>null\<close>, numbers and booleans.\<close>

definition index_keys :: "'a list \<Rightarrow> string list" where
  "index_keys xs = map (\<lambda>i. js_int_string (int i)) [0..<length xs]"

fun own_props :: "json \<Rightarrow> (string \<times> json) list" where
  "own_props (JObj kvs) = kvs"
| "own_props (JArr xs) = zip (index_keys xs) xs"
| "own_props (JStr s) = zip (index_keys s) (map (\<lambda>c. JStr [c]) s)"
| "own_props _ = []"

text \<open>\<open>{ ...req.body, boardId }\<close>\<close>

definition json_with :: "json \<Rightarrow> string \<Rightarrow> json \<Rightarrow> json" where
  "json_with b k v = JObj (own_props b @ [(k, v)])"

subsection \<open>The insert schemas\<close>

definition parse_insert_user :: "json \<Rightarrow> insert_user option" where
  "parse_insert_user b = (case b of JObj _ \<Rightarrow> do {
       un \<leftarrow> z_string (json_get b ''username'');
       pw \<leftarrow> z_string (json_get b ''password'');
       ph \<leftarrow> z_string (json_get b ''phoneNumber'');
       dn \<leftarrow> z_nullish z_string (json_get b ''displayName'');
       pu \<leftarrow> z_nullish z_string (json_get b ''photoURL'');
       Some \<lparr>iu_username = un, iu_password = pw, iu_phone_number = ph,
             iu_display_name = dn, iu_photo_url = pu\<rparr>
     } | _ \<Rightarrow> None)"

definition parse_insert_board :: "json \<Rightarrow> insert_board option" where
  "parse_insert_board b = (case b of JObj _ \<Rightarrow> do {
       t \<leftarrow> z_string (json_get b ''title'');
       d \<leftarrow> z_nullish z_string (json_get b ''description'');
       c \<leftarrow> z_optional z_string (json_get b ''color'');
       cb \<leftarrow> z_number (json_get b ''createdBy'');
       Some \<lparr>ib_title = t, ib_description = d, ib_color = c, ib_created_by = cb\<rparr>
     } | _ \<Rightarrow> None)"

definition parse_insert_board_member :: "json \<Rightarrow> insert_board_member option" where
  "parse_insert_board_member b = (case b of JObj _ \<Rightarrow> do {
       bi \<leftarrow> z_number (json_get b ''boardId'');
       ui \<leftarrow> z_number (json_get b ''userId'');
       r \<leftarrow> z_optional z_string (json_get b ''role'');
       Some \<lparr>im_board_id = bi, im_user_id = ui, im_role = r\<rparr>
     } | _ \<Rightarrow> None)"

definition parse_insert_todo :: "json \<Rightarrow> insert_todo option" where
  "parse_insert_todo b = (case b of JObj _ \<Rightarrow> do {
       bi \<leftarrow> z_number (json_get b ''boardId'');
       t \<leftarrow> z_string (json_get b ''title'');
       d \<leftarrow> z_nullish z_string (json_get b ''description'');
       dd \<leftarrow> z_nullish z_date (json_get b ''dueDate'');
       p \<leftarrow> z_optional z_string (json_get b ''priority'');
       st \<leftarrow> z_optional z_string (json_get b ''status'');
       a \<leftarrow> z_nullish z_number (json_get b ''assignedTo'');
       cb \<leftarrow> z_number (json_get b ''createdBy'');
       Some \<lparr>it_board_id = bi, it_title = t, it_description = d, it_due_date = dd,
             it_priority = p, it_status = st, it_assigned_to = a, it_created_by = cb\<rparr>
     } | _ \<Rightarrow> None)"

subsection \<open>The update objects of the PUT handlers\<close>

text \<open>A value stored into a nullable field: \<open>null\<close> or a value of the type.\<close>

definition as_nullable :: "'a zod \<Rightarrow> 'a option zod" where
  "as_nullable f v = (case v of Some JNull \<Rightarrow> Some None | _ \<Rightarrow> map_option Some (f v))"

text \<open>\<open>const { title, description, color } = req.body;
  const updates = { title, description, color };\<close>: the three keys are always
  present, holding \<open>undefined\<close> (\<open>None\<close>) when the body lacks them.\<close>

definition board_updates :: "json \<Rightarrow> board_patch option" where
  "board_updates b = do {
       t \<leftarrow> z_optional (as_nullable z_string) (json_get b ''title'');
       d \<leftarrow> z_optional (as_nullable z_string) (json_get b ''description'');
       c \<leftarrow> z_optional (as_nullable z_string) (json_get b ''color'');
       Some (empty_board_patch\<lparr>bp_title := Some (case_option None id t),
         bp_description := Some (case_option None id d),
         bp_color := Some (case_option None id c)\<rparr>)
     }"

text \<open>\<open>const updates = req.body\<close>: every key of the body present in
  \<open>Todo\<close> overrides that field.  \<open>updatedAt\<close> is overwritten by the store in
  any case, so its value does not matter.\<close>

definition todo_updates :: "json \<Rightarrow> todo_patch option" where
  "todo_updates b = (let g = json_get (JObj (own_props b)) in do {
       i \<leftarrow> z_optional z_number (g ''id'');
       bi \<leftarrow> z_optional z_number (g ''boardId'');
       t \<leftarrow> z_optional z_string (g ''title'');
       d \<leftarrow> z_optional (as_nullable z_string) (g ''description'');
       dd \<leftarrow> z_optional (as_nullable z_date) (g ''dueDate'');
       p \<leftarrow> z_optional z_string (g ''priority'');
       st \<leftarrow> z_optional z_string (g ''status'');
       a \<leftarrow> z_optional (as_nullable z_number) (g ''assignedTo'');
       cb \<leftarrow> z_optional z_number (g ''createdBy'');
       ca \<leftarrow> z_optional z_date (g ''createdAt'');
       Some \<lparr>tp_id = i, tp_board_id = bi, tp_title = t, tp_description = d,
             tp_due_date = dd, tp_priority = p, tp_status = st, tp_assigned_to = a,
             tp_created_by = cb, tp_created_at = ca, tp_updated_at = None\<rparr>
     })"

end
