(* ===== verification/Store.thy ===== *)
theory Store
  imports Schema
begin

text \<open>
  The state of \<open>class MemStorage\<close> (\<open>src/unnamed/part_000\<close>, the server's
  \<open>storage.ts\<close>): four maps keyed by entity id and four id counters, and the
  user operations.  Every operation takes the state and returns its result with
  the new state; \<open>new Date()\<close> is an argument \<open>now\<close>, since the clock is
  outside the program.  The methods are \<open>async\<close> but none of them awaits
  anything except \<open>createBoard\<close>, whose only await comes after both of its
  writes, so each method is one atomic step on the state.
\<close>

record mem_storage =
  users :: "(ident, user) jsmap"
  boards :: "(ident, board) jsmap"
  board_members :: "(ident, board_member) jsmap"
  todos :: "(ident, todo) jsmap"
  current_user_id :: ident
  current_board_id :: ident
  current_board_member_id :: ident
  current_todo_id :: ident

definition init_storage :: mem_storage where
  "init_storage = \<lparr>users = [], boards = [], board_members = [], todos = [],
     current_user_id = 1, current_board_id = 1, current_board_member_id = 1,
     current_todo_id = 1\<rparr>"

subsection \<open>User operations\<close>

definition get_user :: "mem_storage \<Rightarrow> ident \<Rightarrow> user option" where
  "get_user s i = map_of (users s) i"

definition get_user_by_username :: "mem_storage \<Rightarrow> string \<Rightarrow> user option" where
  "get_user_by_username s name = find (\<lambda>u. username u = name) (values_of (users s))"

definition get_user_by_phone_number :: "mem_storage \<Rightarrow> string \<Rightarrow> user option" where
  "get_user_by_phone_number s phone =
     find (\<lambda>u. phone_number u = phone) (values_of (users s))"

definition new_user :: "ident \<Rightarrow> insert_user \<Rightarrow> user" where
  "new_user i iu = \<lparr>user_id = i, username = iu_username iu, password = iu_password iu,
     phone_number = iu_phone_number iu,
     display_name = js_or_null_str (iu_display_name iu),
     photo_url = js_or_null_str (iu_photo_url iu)\<rparr>"

definition create_user :: "insert_user \<Rightarrow> mem_storage \<Rightarrow> user \<times> mem_storage" where
  "create_user iu s =
     (let i = current_user_id s; u = new_user i iu
      in (u, s\<lparr>current_user_id := i + 1, users := AList.update i u (users s)\<rparr>))"

subsection \<open>Functional behaviour of the user operations\<close>

lemma create_user_result: "fst (create_user iu s) = new_user (current_user_id s) iu"
  by (simp add: create_user_def Let_def)

lemma create_user_state:
  "snd (create_user iu s) = s\<lparr>current_user_id := current_user_id s + 1,
     users := AList.update (current_user_id s) (new_user (current_user_id s) iu) (users s)\<rparr>"
  by (simp add: create_user_def Let_def)

lemma new_user_fields [simp]:
  "user_id (new_user i iu) = i"
  "username (new_user i iu) = iu_username iu"
  "password (new_user i iu) = iu_password iu"
  "phone_number (new_user i iu) = iu_phone_number iu"
  "display_name (new_user i iu) = js_or_null_str (iu_display_name iu)"
  "photo_url (new_user i iu) = js_or_null_str (iu_photo_url iu)"
  by (simp_all add: new_user_def)

lemmas user_op_defs = get_user_def get_user_by_username_def get_user_by_phone_number_def

text \<open>Registering a user whose phone number no stored user has makes
  \<open>getUserByPhoneNumber\<close> return exactly the new user.\<close>

lemma create_user_phone_lookup:
  "get_user_by_phone_number s (iu_phone_number iu) = None \<Longrightarrow>
   get_user_by_phone_number (snd (create_user iu s)) (iu_phone_number iu) = Some (fst (create_user iu s))"
  by (simp add: get_user_by_phone_number_def create_user_def Let_def find_values_update_new)

theorem create_user_phone_lookup_witness:
  "let iu = \<lparr>iu_username = ''alice'', iu_password = ''hash'', iu_phone_number = ''+15550001'',
              iu_display_name = None, iu_photo_url = None\<rparr>
   in get_user_by_phone_number init_storage (iu_phone_number iu) = None \<and>
      get_user_by_phone_number (snd (create_user iu init_storage)) (iu_phone_number iu) =
        Some (fst (create_user iu init_storage))"
proof -
  let ?iu = "\<lparr>iu_username = ''alice'', iu_password = ''hash'', iu_phone_number = ''+15550001'',
              iu_display_name = None, iu_photo_url = None\<rparr>"
  have h: "get_user_by_phone_number init_storage (iu_phone_number ?iu) = None"
    by (simp add: init_storage_def get_user_by_phone_number_def)
  show ?thesis unfolding Let_def by (rule conjI [OF h create_user_phone_lookup [OF h]])
qed

end
