(* ===== verification/Members.thy ===== *)
theory Members
  imports Store
begin

text \<open>
  Board membership operations of \<open>MemStorage\<close>: \<open>getBoardMembers\<close>,
  \<open>addBoardMember\<close> (idempotent on the pair board/user), \<open>removeBoardMember\<close>
  and \<open>updateBoardMemberRole\<close>.  The last two are \<open>for ... of entries()\<close>
  loops that stop at the first entry for the pair; the loop is the recursive
  search \<open>find_member_entry\<close>.  The invariant of this component is that no two
  memberships share a board and a user (\<open>unique_members\<close>).
\<close>

definition member_of :: "ident \<Rightarrow> ident \<Rightarrow> board_member \<Rightarrow> bool" where
  "member_of b u m \<longleftrightarrow> member_board_id m = b \<and> member_user_id m = u"

definition get_board_members :: "mem_storage \<Rightarrow> ident \<Rightarrow> board_member list" where
  "get_board_members s b = filter (\<lambda>m. member_board_id m = b) (values_of (board_members s))"

definition new_member :: "ident \<Rightarrow> insert_board_member \<Rightarrow> board_member" where
  "new_member i im = \<lparr>member_id = i, member_board_id = im_board_id im,
     member_user_id = im_user_id im, member_role = js_or_str (im_role im) ''editor''\<rparr>"

definition add_board_member ::
  "insert_board_member \<Rightarrow> mem_storage \<Rightarrow> board_member \<times> mem_storage" where
  "add_board_member im s =
     (case find (member_of (im_board_id im) (im_user_id im)) (values_of (board_members s)) of
        Some m \<Rightarrow> (m, s)
      | None \<Rightarrow>
          (let i = current_board_member_id s; m = new_member i im
           in (m, s\<lparr>current_board_member_id := i + 1,
                    board_members := AList.update i m (board_members s)\<rparr>)))"

text \<open>The loop of \<open>removeBoardMember\<close> and \<open>updateBoardMemberRole\<close>.\<close>

fun find_member_entry ::
  "ident \<Rightarrow> ident \<Rightarrow> (ident, board_member) jsmap \<Rightarrow> (ident \<times> board_member) option" where
  "find_member_entry b u [] = None"
| "find_member_entry b u ((k, m) # es) =
     (if member_of b u m then Some (k, m) else find_member_entry b u es)"

definition remove_board_member :: "ident \<Rightarrow> ident \<Rightarrow> mem_storage \<Rightarrow> bool \<times> mem_storage" where
  "remove_board_member b u s =
     (case find_member_entry b u (board_members s) of
        None \<Rightarrow> (False, s)
      | Some (k, _) \<Rightarrow> (True, s\<lparr>board_members := AList.delete k (board_members s)\<rparr>))"

definition update_board_member_role ::
  "ident \<Rightarrow> ident \<Rightarrow> string \<Rightarrow> mem_storage \<Rightarrow> board_member option \<times> mem_storage" where
  "update_board_member_role b u r s =
     (case find_member_entry b u (board_members s) of
        None \<Rightarrow> (None, s)
      | Some (k, m) \<Rightarrow>
          (let m' = m\<lparr>member_role := r\<rparr>
           in (Some m', s\<lparr>board_members := AList.update k m' (board_members s)\<rparr>)))"

definition unique_members :: "(ident, board_member) jsmap \<Rightarrow> bool" where
  "unique_members ms \<longleftrightarrow>
     distinct (map (\<lambda>m. (member_board_id m, member_user_id m)) (values_of ms))"

subsection \<open>The search loop\<close>

lemma find_member_entry_find:
  "map_option snd (find_member_entry b u ms) = find (member_of b u) (values_of ms)"
  by (induction b u ms rule: find_member_entry.induct) auto

lemma find_member_entry_in:
  "find_member_entry b u ms = Some (k, m) \<Longrightarrow> (k, m) \<in> set ms \<and> member_of b u m"
  by (induction b u ms rule: find_member_entry.induct) (auto split: if_splits)

lemma find_member_entry_None:
  "find_member_entry b u ms = None \<longleftrightarrow> (\<forall>m \<in> set (values_of ms). \<not> member_of b u m)"
  by (induction b u ms rule: find_member_entry.induct) auto

lemma find_member_None_iff:
  "find (member_of b u) (values_of ms) = None \<longleftrightarrow> find_member_entry b u ms = None"
  by (metis find_member_entry_find option.map_disc_iff)

lemma new_member_fields [simp]:
  "member_id (new_member i im) = i"
  "member_board_id (new_member i im) = im_board_id im"
  "member_user_id (new_member i im) = im_user_id im"
  "member_role (new_member i im) = js_or_str (im_role im) ''editor''"
  by (simp_all add: new_member_def)

lemma member_of_new_member [simp]: "member_of (im_board_id im) (im_user_id im) (new_member i im)"
  by (simp add: member_of_def)

lemma unique_members_pair:
  "unique_members ms \<Longrightarrow> (k, m) \<in> set ms \<Longrightarrow> (k', m') \<in> set ms \<Longrightarrow>
   member_of b u m \<Longrightarrow> member_of b u m' \<Longrightarrow> k = k'"
proof -
  assume u: "unique_members ms" and in1: "(k, m) \<in> set ms" and in2: "(k', m') \<in> set ms"
    and p1: "member_of b u m" and p2: "member_of b u m'"
  let ?f = "\<lambda>(k :: ident, m). (member_board_id m, member_user_id m)"
  from u have "inj_on ?f (set ms)"
    by (simp add: unique_members_def distinct_map comp_def case_prod_beta')
  moreover from p1 p2 have "?f (k, m) = ?f (k', m')" by (simp add: member_of_def)
  ultimately have "(k, m) = (k', m')" using in1 in2 by (rule inj_onD)
  then show "k = k'" by simp
qed

subsection \<open>Functional behaviour and the uniqueness invariant\<close>

text \<open>C2: adding a member is idempotent on the pair (board, user): a second \<open>addBoardMember\<close> for the same pair, with any role, returns the membership the first call returned and leaves the store exactly as the first call left it; in particular the role stays the first one.\<close>

lemma add_board_member_idempotent:
  "add_board_member \<lparr>im_board_id = b, im_user_id = u, im_role = r2\<rparr>
     (snd (add_board_member \<lparr>im_board_id = b, im_user_id = u, im_role = r1\<rparr> s)) =
   add_board_member \<lparr>im_board_id = b, im_user_id = u, im_role = r1\<rparr> s"
proof (cases "find (member_of b u) (values_of (board_members s))")
  case None
  let ?i = "current_board_member_id s"
  let ?m = "new_member ?i \<lparr>im_board_id = b, im_user_id = u, im_role = r1\<rparr>"
  have "find (member_of b u) (values_of (AList.update ?i ?m (board_members s))) = Some ?m"
    by (rule find_values_update_new) (simp_all add: None member_of_def)
  with None show ?thesis
    by (simp add: add_board_member_def Let_def)
next
  case (Some m)
  then show ?thesis by (simp add: add_board_member_def)
qed

lemma add_board_member_unique:
  "unique_members (board_members s) \<Longrightarrow>
   unique_members (board_members (snd (add_board_member im s)))"
proof (cases "find (member_of (im_board_id im) (im_user_id im)) (values_of (board_members s))")
  case None
  assume u: "unique_members (board_members s)"
  from None have "\<forall>m \<in> set (values_of (board_members s)). \<not> member_of (im_board_id im) (im_user_id im) m"
    by (simp add: find_None_iff)
  then have "(im_board_id im, im_user_id im) \<notin>
      (\<lambda>m. (member_board_id m, member_user_id m)) ` set (values_of (board_members s))"
    by (auto simp: member_of_def)
  with u have "unique_members (AList.update i (new_member i im) (board_members s))" for i
    using distinct_map_values_update_new [where f = "\<lambda>m. (member_board_id m, member_user_id m)"
        and m = "board_members s" and v = "new_member i im" and k = i]
    by (simp add: unique_members_def)
  with None show ?thesis
    by (simp add: add_board_member_def Let_def)
next
  case (Some m)
  then show "unique_members (board_members s) \<Longrightarrow> ?thesis" by (simp add: add_board_member_def)
qed

text \<open>\<open>removeBoardMember b u\<close> reports true exactly when the board has a member with user \<open>u\<close>.\<close>

lemma remove_board_member_result:
  "fst (remove_board_member b u s) \<longleftrightarrow> (\<exists>m \<in> set (get_board_members s b). member_user_id m = u)"
proof (cases "find_member_entry b u (board_members s)")
  case None
  then have "remove_board_member b u s = (False, s)"
    by (simp add: remove_board_member_def)
  with None show ?thesis
    by (auto simp: get_board_members_def find_member_entry_None member_of_def)
next
  case (Some e)
  then obtain k m where "find_member_entry b u (board_members s) = Some (k, m)"
    by (cases e) auto
  moreover from this have "(k, m) \<in> set (board_members s)" and "member_of b u m"
    by (auto dest: find_member_entry_in)
  ultimately show ?thesis
    by (force simp: remove_board_member_def get_board_members_def member_of_def)
qed

text \<open>C10: when memberships are unique per (board, user), after \<open>removeBoardMember b u\<close> the board has no member with user \<open>u\<close> left.\<close>

lemma remove_board_member_gone:
  assumes "unique_members (board_members s)"
  shows "\<forall>m \<in> set (get_board_members (snd (remove_board_member b u s)) b). member_user_id m \<noteq> u"
proof (cases "find_member_entry b u (board_members s)")
  case None
  then have "snd (remove_board_member b u s) = s"
    by (simp add: remove_board_member_def)
  with None show ?thesis
    by (auto simp: get_board_members_def find_member_entry_None member_of_def)
next
  case (Some e)
  obtain k m where e: "e = (k, m)" by fastforce
  with Some have km: "(k, m) \<in> set (board_members s)" "member_of b u m"
    by (auto dest: find_member_entry_in)
  have "\<not> member_of b u m'" if "(k', m') \<in> set (AList.delete k (board_members s))" for k' m'
  proof
    assume "member_of b u m'"
    moreover from that have "(k', m') \<in> set (board_members s)" and "k' \<noteq> k"
      by (auto simp: AList.delete_eq)
    ultimately show False using unique_members_pair [OF assms km(1) _ km(2)] by blast
  qed
  moreover from Some e have "board_members (snd (remove_board_member b u s)) =
      AList.delete k (board_members s)"
    by (simp add: remove_board_member_def)
  ultimately show ?thesis
    by (fastforce simp: get_board_members_def member_of_def)
qed

theorem remove_board_member_gone_witness:
  "let s = snd (add_board_member \<lparr>im_board_id = 1, im_user_id = 5, im_role = None\<rparr> init_storage)
   in unique_members (board_members s) \<and>
      (\<forall>m \<in> set (get_board_members (snd (remove_board_member 1 5 s)) 1). member_user_id m \<noteq> 5)"
proof -
  let ?s = "snd (add_board_member \<lparr>im_board_id = 1, im_user_id = 5, im_role = None\<rparr> init_storage)"
  have h: "unique_members (board_members ?s)"
    by (simp add: add_board_member_def init_storage_def unique_members_def Let_def new_member_def
        member_of_def)
  show ?thesis unfolding Let_def by (rule conjI [OF h remove_board_member_gone [OF h]])
qed

text \<open>\<open>updateBoardMemberRole b u r\<close> returns the first membership of the pair with its role replaced by \<open>r\<close>, and nothing when the pair has no membership.\<close>

lemma update_board_member_role_result:
  "fst (update_board_member_role b u r s) =
   map_option (\<lambda>m. m\<lparr>member_role := r\<rparr>) (find (member_of b u) (values_of (board_members s)))"
proof -
  have "fst (update_board_member_role b u r s) =
      map_option (\<lambda>m. m\<lparr>member_role := r\<rparr>) (map_option snd (find_member_entry b u (board_members s)))"
    by (auto simp: update_board_member_role_def Let_def split: option.splits)
  then show ?thesis by (simp only: find_member_entry_find)
qed

lemma update_board_member_role_unique:
  "unique_members (board_members s) \<Longrightarrow> distinct (keys_of (board_members s)) \<Longrightarrow>
   unique_members (board_members (snd (update_board_member_role b u r s)))"
proof (cases "find_member_entry b u (board_members s)")
  case None
  then show "unique_members (board_members s) \<Longrightarrow> ?thesis"
    by (simp add: update_board_member_role_def)
next
  case (Some e)
  assume u: "unique_members (board_members s)" and d: "distinct (keys_of (board_members s))"
  obtain k m where e: "e = (k, m)" by fastforce
  with Some have "(k, m) \<in> set (board_members s)"
    by (auto dest: find_member_entry_in)
  then have "map (\<lambda>m. (member_board_id m, member_user_id m))
      (values_of (AList.update k (m\<lparr>member_role := r\<rparr>) (board_members s))) =
    map (\<lambda>m. (member_board_id m, member_user_id m)) (values_of (board_members s))"
    using d by (intro distinct_map_values_update_same) simp_all
  then have "unique_members (AList.update k (m\<lparr>member_role := r\<rparr>) (board_members s))"
    using u by (simp only: unique_members_def)
  with Some e show ?thesis
    by (simp add: update_board_member_role_def Let_def)
qed

end
