(* ===== verification/Todos.thy ===== *)
theory Todos
  imports Store
begin

text \<open>
  Todo operations of \<open>MemStorage\<close>: \<open>getTodos\<close> (the join with the assignee),
  \<open>getTodo\<close>, \<open>createTodo\<close> (defaults by \<open>||\<close>), \<open>updateTodo\<close> (object
  spread of the update, then \<open>updatedAt: new Date()\<close>) and \<open>deleteTodo\<close>.
  The clock reading \<open>new Date()\<close> is the argument \<open>now\<close>.
\<close>

text \<open>\<open>if (todo.assignedTo) { const assignee = this.users.get(todo.assignedTo); ... }\<close>\<close>

definition todo_assignee :: "mem_storage \<Rightarrow> todo \<Rightarrow> user option" where
  "todo_assignee s t =
     (if js_truthy_num (todo_assigned_to t)
      then (case todo_assigned_to t of None \<Rightarrow> None | Some a \<Rightarrow> map_of (users s) a)
      else None)"

definition get_todos :: "mem_storage \<Rightarrow> ident \<Rightarrow> todo_with_assignee list" where
  "get_todos s b =
     map (\<lambda>t. \<lparr>twa_todo = t, assignee = todo_assignee s t\<rparr>)
       (filter (\<lambda>t. todo_board_id t = b) (values_of (todos s)))"

definition get_todo :: "mem_storage \<Rightarrow> ident \<Rightarrow> todo option" where
  "get_todo s i = map_of (todos s) i"

text \<open>\<open>dueDate: insertTodo.dueDate || null\<close>: a \<open>Date\<close> object is always truthy,
  so the default only replaces an absent date.\<close>

definition new_todo :: "ident \<Rightarrow> timestamp \<Rightarrow> insert_todo \<Rightarrow> todo" where
  "new_todo i now it = \<lparr>todo_id = i, todo_board_id = it_board_id it, todo_title = it_title it,
     todo_description = js_or_null_str (it_description it),
     todo_due_date = it_due_date it,
     todo_priority = js_or_str (it_priority it) ''medium'',
     todo_status = js_or_str (it_status it) ''todo'',
     todo_assigned_to = js_or_null_num (it_assigned_to it),
     todo_created_by = it_created_by it,
     todo_created_at = now, todo_updated_at = now\<rparr>"

definition create_todo :: "insert_todo \<Rightarrow> timestamp \<Rightarrow> mem_storage \<Rightarrow> todo \<times> mem_storage" where
  "create_todo it now s =
     (let i = current_todo_id s; t = new_todo i now it
      in (t, s\<lparr>current_todo_id := i + 1, todos := AList.update i t (todos s)\<rparr>))"

text \<open>\<open>{ ...todo, ...updates }\<close>: every key present in the update overrides.\<close>

definition apply_todo_patch :: "todo_patch \<Rightarrow> todo \<Rightarrow> todo" where
  "apply_todo_patch p t = \<lparr>todo_id = spread (tp_id p) (todo_id t),
     todo_board_id = spread (tp_board_id p) (todo_board_id t),
     todo_title = spread (tp_title p) (todo_title t),
     todo_description = spread (tp_description p) (todo_description t),
     todo_due_date = spread (tp_due_date p) (todo_due_date t),
     todo_priority = spread (tp_priority p) (todo_priority t),
     todo_status = spread (tp_status p) (todo_status t),
     todo_assigned_to = spread (tp_assigned_to p) (todo_assigned_to t),
     todo_created_by = spread (tp_created_by p) (todo_created_by t),
     todo_created_at = spread (tp_created_at p) (todo_created_at t),
     todo_updated_at = spread (tp_updated_at p) (todo_updated_at t)\<rparr>"

definition update_todo ::
  "ident \<Rightarrow> todo_patch \<Rightarrow> timestamp \<Rightarrow> mem_storage \<Rightarrow> todo option \<times> mem_storage" where
  "update_todo i p now s =
     (case map_of (todos s) i of
        None \<Rightarrow> (None, s)
      | Some t \<Rightarrow>
          (let t' = (apply_todo_patch p t)\<lparr>todo_updated_at := now\<rparr>
           in (Some t', s\<lparr>todos := AList.update i t' (todos s)\<rparr>)))"

definition delete_todo :: "ident \<Rightarrow> mem_storage \<Rightarrow> bool \<times> mem_storage" where
  "delete_todo i s = (let (r, m) = js_map_delete i (todos s) in (r, s\<lparr>todos := m\<rparr>))"

subsection \<open>Basic facts\<close>

lemma new_todo_fields [simp]:
  "todo_id (new_todo i now it) = i"
  "todo_board_id (new_todo i now it) = it_board_id it"
  "todo_title (new_todo i now it) = it_title it"
  "todo_status (new_todo i now it) = js_or_str (it_status it) ''todo''"
  "todo_priority (new_todo i now it) = js_or_str (it_priority it) ''medium''"
  "todo_description (new_todo i now it) = js_or_null_str (it_description it)"
  "todo_assigned_to (new_todo i now it) = js_or_null_num (it_assigned_to it)"
  "todo_created_at (new_todo i now it) = now"
  "todo_updated_at (new_todo i now it) = now"
  by (simp_all add: new_todo_def)

lemma apply_empty_todo_patch [simp]: "apply_todo_patch empty_todo_patch t = t"
  by (simp add: apply_todo_patch_def empty_todo_patch_def)

lemma update_todo_None:
  "map_of (todos s) i = None \<Longrightarrow> update_todo i p now s = (None, s)"
  by (simp add: update_todo_def)

lemma update_todo_Some:
  "map_of (todos s) i = Some t \<Longrightarrow>
   update_todo i p now s = (Some ((apply_todo_patch p t)\<lparr>todo_updated_at := now\<rparr>),
     s\<lparr>todos := AList.update i ((apply_todo_patch p t)\<lparr>todo_updated_at := now\<rparr>) (todos s)\<rparr>)"
  by (simp add: update_todo_def Let_def)

lemma delete_todo_eq:
  "delete_todo i s = (map_of (todos s) i \<noteq> None, s\<lparr>todos := AList.delete i (todos s)\<rparr>)"
  by (simp add: delete_todo_def js_map_delete_def)

subsection \<open>Functional behaviour\<close>

lemma create_todo_counter: "create_todo it now s = (t, s') \<Longrightarrow>
   todo_id t = current_todo_id s \<and> current_todo_id s' = current_todo_id s + 1"
  by (auto simp: create_todo_def Let_def)


lemma todo_assignee_users: "users s' = users s \<Longrightarrow> todo_assignee s' = todo_assignee s"
  by (rule ext) (simp add: todo_assignee_def split: option.splits)

text \<open>\<open>updateTodo i p\<close> returns the stored todo with every field present in the update object overridden and \<open>updatedAt\<close> set to the clock, or nothing when no todo has id \<open>i\<close>.\<close>

lemma update_todo_result:
  "fst (update_todo i p now s) =
   map_option (\<lambda>t. (apply_todo_patch p t)\<lparr>todo_updated_at := now\<rparr>) (get_todo s i)"
  by (cases "map_of (todos s) i") (simp_all add: get_todo_def update_todo_None update_todo_Some)

text \<open>Every successful \<open>updateTodo\<close>, whatever the update holds (even an \<open>updatedAt\<close> of its own or no field at all), stores and returns a todo whose \<open>updatedAt\<close> is the clock reading of the call.\<close>

lemma update_todo_refreshes:
  "update_todo i p now s = (Some t', s') \<Longrightarrow> todo_updated_at t' = now \<and> get_todo s' i = Some t'"
  by (cases "map_of (todos s) i") (auto simp: get_todo_def update_todo_None update_todo_Some update_conv')

theorem update_todo_refreshes_witness:
  "let s = snd (create_todo \<lparr>it_board_id = 1, it_title = ''Write spec'', it_description = None, it_due_date = None,
     it_priority = None, it_status = None, it_assigned_to = None, it_created_by = 1\<rparr> 0 init_storage);
       p = empty_todo_patch\<lparr>tp_updated_at := Some 3\<rparr>
   in update_todo 1 p 5 s = (Some (the (fst (update_todo 1 p 5 s))), snd (update_todo 1 p 5 s)) \<and>
      todo_updated_at (the (fst (update_todo 1 p 5 s))) = 5 \<and>
      get_todo (snd (update_todo 1 p 5 s)) 1 = Some (the (fst (update_todo 1 p 5 s)))"
proof -
  let ?s = "snd (create_todo \<lparr>it_board_id = 1, it_title = ''Write spec'', it_description = None, it_due_date = None,
     it_priority = None, it_status = None, it_assigned_to = None, it_created_by = 1\<rparr> 0 init_storage)"
  let ?p = "empty_todo_patch\<lparr>tp_updated_at := Some 3\<rparr>"
  have h: "update_todo 1 ?p 5 ?s = (Some (the (fst (update_todo 1 ?p 5 ?s))), snd (update_todo 1 ?p 5 ?s))"
    by (simp add: create_todo_def get_todo_def init_storage_def new_todo_def Let_def update_todo_def)
  show ?thesis unfolding Let_def by (rule conjI [OF h update_todo_refreshes [OF h]])
qed

text \<open>An update makes \<open>updatedAt\<close> strictly larger exactly when the clock has advanced past the stored \<open>updatedAt\<close>: two calls within one millisecond leave it equal.\<close>

lemma update_todo_strict_iff:
  "get_todo s i = Some t \<Longrightarrow> update_todo i p now s = (Some t', s') \<Longrightarrow>
   todo_updated_at t < todo_updated_at t' \<longleftrightarrow> todo_updated_at t < now"
  by (auto simp: get_todo_def update_todo_Some)

theorem update_todo_strict_iff_witness:
  "let s = snd (create_todo \<lparr>it_board_id = 1, it_title = ''Write spec'', it_description = None, it_due_date = None,
     it_priority = None, it_status = None, it_assigned_to = None, it_created_by = 1\<rparr> 0 init_storage);
       t = new_todo 1 0 \<lparr>it_board_id = 1, it_title = ''Write spec'', it_description = None, it_due_date = None,
     it_priority = None, it_status = None, it_assigned_to = None, it_created_by = 1\<rparr>;
       p = empty_todo_patch\<lparr>tp_status := Some ''completed''\<rparr>
   in get_todo s 1 = Some t \<and>
      update_todo 1 p 0 s = (Some (the (fst (update_todo 1 p 0 s))), snd (update_todo 1 p 0 s)) \<and>
      (todo_updated_at t < todo_updated_at (the (fst (update_todo 1 p 0 s))) \<longleftrightarrow> todo_updated_at t < 0)"
proof -
  let ?s = "snd (create_todo \<lparr>it_board_id = 1, it_title = ''Write spec'', it_description = None, it_due_date = None,
     it_priority = None, it_status = None, it_assigned_to = None, it_created_by = 1\<rparr> 0 init_storage)"
  let ?t = "new_todo 1 0 \<lparr>it_board_id = 1, it_title = ''Write spec'', it_description = None, it_due_date = None,
     it_priority = None, it_status = None, it_assigned_to = None, it_created_by = 1\<rparr>"
  let ?p = "empty_todo_patch\<lparr>tp_status := Some ''completed''\<rparr>"
  have h1: "get_todo ?s 1 = Some ?t"
    by (simp add: create_todo_def get_todo_def init_storage_def new_todo_def Let_def)
  have h2: "update_todo 1 ?p 0 ?s = (Some (the (fst (update_todo 1 ?p 0 ?s))), snd (update_todo 1 ?p 0 ?s))"
    by (simp add: create_todo_def get_todo_def init_storage_def new_todo_def Let_def update_todo_def)
  show ?thesis unfolding Let_def
    by (rule conjI [OF h1 conjI [OF h2 update_todo_strict_iff [OF h1 h2]]])
qed

text \<open>The todo status has no transition guard: an update carrying only a status moves a todo from any status to any status and changes nothing else but \<open>updatedAt\<close>.\<close>

lemma update_todo_status:
  "get_todo s i = Some t \<Longrightarrow>
   update_todo i (empty_todo_patch\<lparr>tp_status := Some (status_name st)\<rparr>) now s = (Some t', s') \<Longrightarrow>
   t' = t\<lparr>todo_status := status_name st, todo_updated_at := now\<rparr>"
  by (auto simp: get_todo_def update_todo_Some apply_todo_patch_def empty_todo_patch_def)

theorem update_todo_status_witness:
  "let s = snd (create_todo \<lparr>it_board_id = 1, it_title = ''Write spec'', it_description = None, it_due_date = None,
     it_priority = None, it_status = None, it_assigned_to = None, it_created_by = 1\<rparr> 0 init_storage);
       t = new_todo 1 0 \<lparr>it_board_id = 1, it_title = ''Write spec'', it_description = None, it_due_date = None,
     it_priority = None, it_status = None, it_assigned_to = None, it_created_by = 1\<rparr>;
       p = empty_todo_patch\<lparr>tp_status := Some (status_name Status_completed)\<rparr>
   in get_todo s 1 = Some t \<and>
      update_todo 1 p 5 s = (Some (the (fst (update_todo 1 p 5 s))), snd (update_todo 1 p 5 s)) \<and>
      the (fst (update_todo 1 p 5 s)) = t\<lparr>todo_status := status_name Status_completed, todo_updated_at := 5\<rparr>"
proof -
  let ?s = "snd (create_todo \<lparr>it_board_id = 1, it_title = ''Write spec'', it_description = None, it_due_date = None,
     it_priority = None, it_status = None, it_assigned_to = None, it_created_by = 1\<rparr> 0 init_storage)"
  let ?t = "new_todo 1 0 \<lparr>it_board_id = 1, it_title = ''Write spec'', it_description = None, it_due_date = None,
     it_priority = None, it_status = None, it_assigned_to = None, it_created_by = 1\<rparr>"
  let ?p = "empty_todo_patch\<lparr>tp_status := Some (status_name Status_completed)\<rparr>"
  have h1: "get_todo ?s 1 = Some ?t"
    by (simp add: create_todo_def get_todo_def init_storage_def new_todo_def Let_def)
  have h2: "update_todo 1 ?p 5 ?s = (Some (the (fst (update_todo 1 ?p 5 ?s))), snd (update_todo 1 ?p 5 ?s))"
    by (simp add: create_todo_def get_todo_def init_storage_def new_todo_def Let_def update_todo_def)
  show ?thesis unfolding Let_def
    by (rule conjI [OF h1 conjI [OF h2 update_todo_status [OF h1 h2]]])
qed

text \<open>A created todo is found by its id, is listed last by \<open>getTodos\<close> of its board (insertion order) after the todos listed before, and has equal \<open>createdAt\<close> and \<open>updatedAt\<close>.\<close>

lemma create_todo_lookup:
  assumes "keys_below (current_todo_id s) (todos s)" and "create_todo it now s = (t, s')"
  shows "get_todo s' (todo_id t) = Some t \<and>
    get_todos s' (it_board_id it) = get_todos s (it_board_id it) @ [\<lparr>twa_todo = t, assignee = todo_assignee s t\<rparr>] \<and>
    todo_created_at t = todo_updated_at t"
proof -
  have t: "t = new_todo (current_todo_id s) now it"
    and s': "s' = s\<lparr>current_todo_id := current_todo_id s + 1,
        todos := todos s @ [(current_todo_id s, t)]\<rparr>"
    using assms by (auto simp: create_todo_def Let_def update_keys_below_append)
  have "todo_assignee s' = todo_assignee s"
    by (rule todo_assignee_users) (simp add: s')
  then show ?thesis
    by (simp add: t s' get_todo_def get_todos_def map_of_append map_add_def
        assms(1)[THEN keys_below_fresh])
qed

theorem create_todo_lookup_witness:
  "let it = \<lparr>it_board_id = 1, it_title = ''Write spec'', it_description = None, it_due_date = None,
     it_priority = None, it_status = None, it_assigned_to = None, it_created_by = 1\<rparr>
   in keys_below (current_todo_id init_storage) (todos init_storage) \<and>
      create_todo it 0 init_storage = (fst (create_todo it 0 init_storage), snd (create_todo it 0 init_storage)) \<and>
      get_todo (snd (create_todo it 0 init_storage)) (todo_id (fst (create_todo it 0 init_storage))) =
        Some (fst (create_todo it 0 init_storage)) \<and>
      get_todos (snd (create_todo it 0 init_storage)) (it_board_id it) = get_todos init_storage (it_board_id it) @
        [\<lparr>twa_todo = fst (create_todo it 0 init_storage),
           assignee = todo_assignee init_storage (fst (create_todo it 0 init_storage))\<rparr>] \<and>
      todo_created_at (fst (create_todo it 0 init_storage)) = todo_updated_at (fst (create_todo it 0 init_storage))"
proof -
  let ?it = "\<lparr>it_board_id = 1, it_title = ''Write spec'', it_description = None, it_due_date = None,
     it_priority = None, it_status = None, it_assigned_to = None, it_created_by = 1\<rparr>"
  have h1: "keys_below (current_todo_id init_storage) (todos init_storage)"
    by (simp add: init_storage_def)
  have h2: "create_todo ?it 0 init_storage = (fst (create_todo ?it 0 init_storage), snd (create_todo ?it 0 init_storage))"
    by simp
  show ?thesis unfolding Let_def
    by (rule conjI [OF h1 conjI [OF h2 create_todo_lookup [OF h1 h2]]])
qed

text \<open>\<open>getTodos b\<close> lists todos of board \<open>b\<close> only, each with the stored user it is assigned to, and no assignee when it is unassigned (or assigned to the falsy id 0).\<close>

lemma get_todos_assignee:
  "r \<in> set (get_todos s b) \<Longrightarrow> todo_board_id (twa_todo r) = b \<and>
   assignee r = (case todo_assigned_to (twa_todo r) of None \<Rightarrow> None
                  | Some a \<Rightarrow> if a = 0 then None else get_user s a)"
  by (auto simp: get_todos_def todo_assignee_def get_user_def split: option.splits)

theorem get_todos_assignee_witness:
  "let s = snd (create_todo \<lparr>it_board_id = 1, it_title = ''Write spec'', it_description = None, it_due_date = None,
     it_priority = None, it_status = None, it_assigned_to = Some 1, it_created_by = 1\<rparr> 0
             (snd (create_user \<lparr>iu_username = ''alice'', iu_password = ''hash'',
                iu_phone_number = ''+15550001'', iu_display_name = None, iu_photo_url = None\<rparr>
                init_storage)));
       r = hd (get_todos s 1)
   in r \<in> set (get_todos s 1) \<and> todo_board_id (twa_todo r) = 1 \<and>
      assignee r = (case todo_assigned_to (twa_todo r) of None \<Rightarrow> None
                     | Some a \<Rightarrow> if a = 0 then None else get_user s a)"
proof -
  let ?s = "snd (create_todo \<lparr>it_board_id = 1, it_title = ''Write spec'', it_description = None, it_due_date = None,
     it_priority = None, it_status = None, it_assigned_to = Some 1, it_created_by = 1\<rparr> 0
             (snd (create_user \<lparr>iu_username = ''alice'', iu_password = ''hash'',
                iu_phone_number = ''+15550001'', iu_display_name = None, iu_photo_url = None\<rparr>
                init_storage)))"
  have h: "hd (get_todos ?s 1) \<in> set (get_todos ?s 1)"
    by (simp add: create_todo_def create_user_def init_storage_def get_todos_def Let_def)
  show ?thesis unfolding Let_def by (rule conjI [OF h get_todos_assignee [OF h]])
qed

end
