(* ===== verification/Boards.thy ===== *)
theory Boards
  imports Members Todos
begin

text \<open>
  Board operations of \<open>MemStorage\<close>, the component that composes the others:
  the read joins \<open>getBoards\<close>, \<open>getBoardsByUser\<close> (a union of boards created
  by the user and boards the user is a member of, through a JS \<open>Set\<close>) and
  \<open>getBoardWithMembers\<close>; the compound writes \<open>createBoard\<close> (which calls
  \<open>addBoardMember\<close> for the creator with role admin) and \<open>deleteBoard\<close>
  (which cascades to memberships and todos through two delete-while-iterating
  loops); and \<open>updateBoard\<close> (object spread of a \<open>Partial<Board>\<close>).
\<close>

definition count_todos :: "mem_storage \<Rightarrow> ident \<Rightarrow> nat" where
  "count_todos s b = length (filter (\<lambda>t. todo_board_id t = b) (values_of (todos s)))"

definition count_members :: "mem_storage \<Rightarrow> ident \<Rightarrow> nat" where
  "count_members s b = length (filter (\<lambda>m. member_board_id m = b) (values_of (board_members s)))"

definition get_boards :: "mem_storage \<Rightarrow> board_with_counts list" where
  "get_boards s = map (\<lambda>b. \<lparr>bwc_board = Some b, todo_count = count_todos s (board_id b),
       member_count = count_members s (board_id b)\<rparr>) (values_of (boards s))"

definition user_board_ids :: "mem_storage \<Rightarrow> ident \<Rightarrow> ident list" where
  "user_board_ids s u =
     fold js_set_add
       (map board_id (filter (\<lambda>b. board_created_by b = u) (values_of (boards s))) @
        map member_board_id (filter (\<lambda>m. member_user_id m = u) (values_of (board_members s))))
       []"

definition get_boards_by_user :: "mem_storage \<Rightarrow> ident \<Rightarrow> board_with_counts list" where
  "get_boards_by_user s u =
     map (\<lambda>i. \<lparr>bwc_board = map_of (boards s) i, todo_count = count_todos s i,
            member_count = count_members s i\<rparr>) (user_board_ids s u)"

definition get_board :: "mem_storage \<Rightarrow> ident \<Rightarrow> board option" where
  "get_board s i = map_of (boards s) i"

definition get_board_with_members :: "mem_storage \<Rightarrow> ident \<Rightarrow> board_with_members option" where
  "get_board_with_members s i =
     (case map_of (boards s) i of
        None \<Rightarrow> None
      | Some b \<Rightarrow> Some \<lparr>bwm_board = b,
          members = map (\<lambda>m. map_of (users s) (member_user_id m))
                      (filter (\<lambda>m. member_board_id m = i) (values_of (board_members s)))\<rparr>)"

definition new_board :: "ident \<Rightarrow> timestamp \<Rightarrow> insert_board \<Rightarrow> board" where
  "new_board i now ib = \<lparr>board_id = i, board_title = Some (ib_title ib),
     board_description = js_or_null_str (ib_description ib),
     board_color = Some (js_or_str (ib_color ib) ''primary''),
     board_created_by = ib_created_by ib, board_created_at = now\<rparr>"

definition admin_membership :: "ident \<Rightarrow> ident \<Rightarrow> insert_board_member" where
  "admin_membership b u = \<lparr>im_board_id = b, im_user_id = u, im_role = Some ''admin''\<rparr>"

definition create_board :: "insert_board \<Rightarrow> timestamp \<Rightarrow> mem_storage \<Rightarrow> board \<times> mem_storage" where
  "create_board ib now s =
     (let i = current_board_id s; b = new_board i now ib;
          s1 = s\<lparr>current_board_id := i + 1, boards := AList.update i b (boards s)\<rparr>;
          s2 = snd (add_board_member (admin_membership i (ib_created_by ib)) s1)
      in (b, s2))"

definition apply_board_patch :: "board_patch \<Rightarrow> board \<Rightarrow> board" where
  "apply_board_patch p b = \<lparr>board_id = spread (bp_id p) (board_id b),
     board_title = spread (bp_title p) (board_title b),
     board_description = spread (bp_description p) (board_description b),
     board_color = spread (bp_color p) (board_color b),
     board_created_by = spread (bp_created_by p) (board_created_by b),
     board_created_at = spread (bp_created_at p) (board_created_at b)\<rparr>"

definition update_board :: "ident \<Rightarrow> board_patch \<Rightarrow> mem_storage \<Rightarrow> board option \<times> mem_storage" where
  "update_board i p s =
     (case map_of (boards s) i of
        None \<Rightarrow> (None, s)
      | Some b \<Rightarrow> (let b' = apply_board_patch p b
                   in (Some b', s\<lparr>boards := AList.update i b' (boards s)\<rparr>)))"

definition delete_board :: "ident \<Rightarrow> mem_storage \<Rightarrow> bool \<times> mem_storage" where
  "delete_board i s =
     (let (deleted, bs) = js_map_delete i (boards s); s1 = s\<lparr>boards := bs\<rparr>
      in if deleted
         then (True, s1\<lparr>board_members :=
                 js_delete_where (\<lambda>m. member_board_id m = i) (board_members s1) (board_members s1),
               todos := js_delete_where (\<lambda>t. todo_board_id t = i) (todos s1) (todos s1)\<rparr>)
         else (False, s1))"

subsection \<open>Basic facts\<close>

lemma new_board_fields [simp]:
  "board_id (new_board i now ib) = i"
  "board_title (new_board i now ib) = Some (ib_title ib)"
  "board_description (new_board i now ib) = js_or_null_str (ib_description ib)"
  "board_color (new_board i now ib) = Some (js_or_str (ib_color ib) ''primary'')"
  "board_created_by (new_board i now ib) = ib_created_by ib"
  "board_created_at (new_board i now ib) = now"
  by (simp_all add: new_board_def)

lemma admin_membership_fields [simp]:
  "im_board_id (admin_membership b u) = b"
  "im_user_id (admin_membership b u) = u"
  "im_role (admin_membership b u) = Some ''admin''"
  by (simp_all add: admin_membership_def)

lemma apply_empty_board_patch [simp]: "apply_board_patch empty_board_patch b = b"
  by (simp add: apply_board_patch_def empty_board_patch_def)

lemma delete_board_absent:
  "map_of (boards s) i = None \<Longrightarrow> delete_board i s = (False, s)"
  by (simp add: delete_board_def js_map_delete_def map_of_eq_None_iff)

lemma delete_board_present:
  "map_of (boards s) i \<noteq> None \<Longrightarrow> delete_board i s =
     (True, s\<lparr>boards := AList.delete i (boards s),
        board_members := js_delete_where (\<lambda>m. member_board_id m = i) (board_members s) (board_members s),
        todos := js_delete_where (\<lambda>t. todo_board_id t = i) (todos s) (todos s)\<rparr>)"
  by (simp add: delete_board_def js_map_delete_def)

subsection \<open>Cascade, union and bootstrap membership\<close>

text \<open>C1: a successful \<open>deleteBoard i\<close> leaves no board with key \<open>i\<close>, no membership of board \<open>i\<close> and no todo of board \<open>i\<close>: the cascade is complete.\<close>

lemma delete_board_cascade:
  "delete_board i s = (True, s') \<Longrightarrow>
   get_board s' i = None \<and> get_board_members s' i = [] \<and> get_todos s' i = []"
proof -
  assume del: "delete_board i s = (True, s')"
  have present: "map_of (boards s) i \<noteq> None"
  proof
    assume "map_of (boards s) i = None"
    with del show False by (simp add: delete_board_absent)
  qed
  with del have s': "s' = s\<lparr>boards := AList.delete i (boards s),
        board_members := js_delete_where (\<lambda>m. member_board_id m = i) (board_members s) (board_members s),
        todos := js_delete_where (\<lambda>t. todo_board_id t = i) (todos s) (todos s)\<rparr>"
    by (simp add: delete_board_present)
  have "get_board s' i = None"
    by (simp add: s' get_board_def delete_conv')
  moreover have "get_board_members s' i = []"
    by (force simp: s' get_board_members_def filter_empty_conv dest: js_delete_where_removes)
  moreover have "get_todos s' i = []"
    by (force simp: s' get_todos_def filter_empty_conv dest: js_delete_where_removes)
  ultimately show ?thesis by simp
qed

theorem delete_board_cascade_witness:
  "let s = snd (create_todo \<lparr>it_board_id = 1, it_title = ''Write spec'', it_description = None, it_due_date = None,
        it_priority = None, it_status = None, it_assigned_to = None, it_created_by = 1\<rparr> 0
        (snd (create_board \<lparr>ib_title = ''Launch Plan'', ib_description = None, ib_color = None, ib_created_by = 1\<rparr> 0 init_storage)))
   in delete_board 1 s = (True, snd (delete_board 1 s)) \<and>
      get_board (snd (delete_board 1 s)) 1 = None \<and> get_board_members (snd (delete_board 1 s)) 1 = [] \<and>
      get_todos (snd (delete_board 1 s)) 1 = []"
proof -
  let ?s = "snd (create_todo \<lparr>it_board_id = 1, it_title = ''Write spec'', it_description = None, it_due_date = None,
        it_priority = None, it_status = None, it_assigned_to = None, it_created_by = 1\<rparr> 0
        (snd (create_board \<lparr>ib_title = ''Launch Plan'', ib_description = None, ib_color = None, ib_created_by = 1\<rparr> 0 init_storage)))"
  have h: "delete_board 1 ?s = (True, snd (delete_board 1 ?s))"
    by (simp add: create_board_def add_board_member_def create_todo_def init_storage_def new_member_def member_of_def Let_def delete_board_def js_map_delete_def)
  show ?thesis unfolding Let_def by (rule conjI [OF h delete_board_cascade [OF h]])
qed

text \<open>\<open>deleteBoard i\<close> reports true exactly when a board with key \<open>i\<close> was stored (the not-found case is a false result, not an error).\<close>

lemma delete_board_result: "fst (delete_board i s) \<longleftrightarrow> get_board s i \<noteq> None"
  by (cases "map_of (boards s) i") (simp_all add: get_board_def delete_board_absent delete_board_present)

text \<open>C16: on a map with distinct keys, the delete-while-iterating loop of \<open>deleteBoard\<close> leaves exactly the memberships of other boards, in their order: it equals a filter.\<close>

lemma delete_board_members_filter:
  "distinct (keys_of (board_members s)) \<Longrightarrow> get_board s i \<noteq> None \<Longrightarrow>
   board_members (snd (delete_board i s)) = filter (\<lambda>(k, m). member_board_id m \<noteq> i) (board_members s)"
  by (simp add: get_board_def delete_board_present js_delete_where_self)

theorem delete_board_members_filter_witness:
  "let s = snd (create_todo \<lparr>it_board_id = 1, it_title = ''Write spec'', it_description = None, it_due_date = None,
        it_priority = None, it_status = None, it_assigned_to = None, it_created_by = 1\<rparr> 0
        (snd (create_board \<lparr>ib_title = ''Launch Plan'', ib_description = None, ib_color = None, ib_created_by = 1\<rparr> 0 init_storage)))
   in distinct (keys_of (board_members s)) \<and> get_board s 1 \<noteq> None \<and>
      board_members (snd (delete_board 1 s)) = filter (\<lambda>(k, m). member_board_id m \<noteq> 1) (board_members s)"
proof -
  let ?s = "snd (create_todo \<lparr>it_board_id = 1, it_title = ''Write spec'', it_description = None, it_due_date = None,
        it_priority = None, it_status = None, it_assigned_to = None, it_created_by = 1\<rparr> 0
        (snd (create_board \<lparr>ib_title = ''Launch Plan'', ib_description = None, ib_color = None, ib_created_by = 1\<rparr> 0 init_storage)))"
  have h1: "distinct (keys_of (board_members ?s))"
    by (simp add: create_board_def add_board_member_def create_todo_def init_storage_def new_member_def member_of_def Let_def)
  have h2: "get_board ?s 1 \<noteq> None"
    by (simp add: create_board_def add_board_member_def create_todo_def init_storage_def new_member_def member_of_def Let_def get_board_def)
  show ?thesis unfolding Let_def
    by (rule conjI [OF h1 conjI [OF h2 delete_board_members_filter [OF h1 h2]]])
qed

text \<open>C6: the boards \<open>getBoardsByUser u\<close> lists are the union of the boards \<open>u\<close> created and the boards \<open>u\<close> is a member of, each listed once.\<close>

lemma user_board_ids_union:
  "set (user_board_ids s u) =
     board_id ` {b \<in> set (values_of (boards s)). board_created_by b = u} \<union>
     member_board_id ` {m \<in> set (values_of (board_members s)). member_user_id m = u}
   \<and> distinct (user_board_ids s u)"
  by (auto simp: user_board_ids_def set_fold_js_set_add distinct_fold_js_set_add)

text \<open>C7: when no membership yet names the id the new board gets, \<open>createBoard\<close> stores the board and exactly one membership of it: the creator, with role admin.\<close>

lemma create_board_admin:
  assumes fresh: "\<forall>m \<in> set (values_of (board_members s)). member_board_id m \<noteq> current_board_id s"
    and cb: "create_board ib now s = (b, s')"
  shows "get_board s' (board_id b) = Some b \<and>
    get_board_members s' (board_id b) =
      [new_member (current_board_member_id s) (admin_membership (board_id b) (ib_created_by ib))]"
proof -
  let ?i = "current_board_id s"
  let ?s1 = "s\<lparr>current_board_id := ?i + 1, boards := AList.update ?i (new_board ?i now ib) (boards s)\<rparr>"
  have b: "b = new_board ?i now ib" and s': "s' = snd (add_board_member (admin_membership ?i (ib_created_by ib)) ?s1)"
    using cb by (auto simp: create_board_def Let_def)
  from fresh have none: "find (member_of ?i (ib_created_by ib)) (values_of (board_members ?s1)) = None"
    by (auto simp: find_None_iff member_of_def)
  have "get_board s' ?i = Some (new_board ?i now ib)"
    using none by (simp add: s' add_board_member_def Let_def get_board_def update_conv')
  moreover have "get_board_members s' ?i =
      [new_member (current_board_member_id s) (admin_membership ?i (ib_created_by ib))]"
    using none fresh by (simp add: s' add_board_member_def Let_def get_board_members_def
        filter_values_update_single)
  ultimately show ?thesis by (simp add: b)
qed

theorem create_board_admin_witness:
  "let ib = \<lparr>ib_title = ''Launch Plan'', ib_description = None, ib_color = None, ib_created_by = 1\<rparr>
   in (\<forall>m \<in> set (values_of (board_members init_storage)). member_board_id m \<noteq> current_board_id init_storage) \<and>
      create_board ib 0 init_storage = (fst (create_board ib 0 init_storage), snd (create_board ib 0 init_storage)) \<and>
      get_board (snd (create_board ib 0 init_storage)) (board_id (fst (create_board ib 0 init_storage))) =
        Some (fst (create_board ib 0 init_storage)) \<and>
      get_board_members (snd (create_board ib 0 init_storage)) (board_id (fst (create_board ib 0 init_storage))) =
        [new_member (current_board_member_id init_storage)
           (admin_membership (board_id (fst (create_board ib 0 init_storage))) (ib_created_by ib))]"
proof -
  let ?ib = "\<lparr>ib_title = ''Launch Plan'', ib_description = None, ib_color = None, ib_created_by = 1\<rparr>"
  have h1: "\<forall>m \<in> set (values_of (board_members init_storage)). member_board_id m \<noteq> current_board_id init_storage"
    by (simp add: init_storage_def)
  have h2: "create_board ?ib 0 init_storage = (fst (create_board ?ib 0 init_storage), snd (create_board ?ib 0 init_storage))"
    by simp
  show ?thesis unfolding Let_def
    by (rule conjI [OF h1 conjI [OF h2 create_board_admin [OF h1 h2]]])
qed

text \<open>C8: \<open>createBoard\<close> does not make its creator admin when a membership of
  the creator for the new board's id already exists (\<open>POST
  /api/boards/:id/members\<close> does not check that the board exists, so one can
  be added before the board is created): \<open>addBoardMember\<close> then finds that
  membership and returns it, the memberships are left as they were, and the
  creator keeps the role the earlier membership has.\<close>

theorem create_board_inherits_membership:
  assumes found: "find (member_of (current_board_id s) (ib_created_by ib)) (values_of (board_members s)) = Some m"
    and cb: "create_board ib now s = (b, s')"
  shows "board_members s' = board_members s \<and> board_id b = current_board_id s \<and>
         m \<in> set (get_board_members s' (board_id b)) \<and> member_user_id m = ib_created_by ib"
proof -
  let ?i = "current_board_id s"
  let ?s1 = "s\<lparr>current_board_id := ?i + 1, boards := AList.update ?i (new_board ?i now ib) (boards s)\<rparr>"
  have b: "b = new_board ?i now ib" and s': "s' = snd (add_board_member (admin_membership ?i (ib_created_by ib)) ?s1)"
    using cb by (auto simp: create_board_def Let_def)
  have same: "board_members s' = board_members s"
    using found by (simp add: s' add_board_member_def admin_membership_def)
  from find_some_mem [OF found]
  have "m \<in> set (values_of (board_members s))" "member_of ?i (ib_created_by ib) m" by simp_all
  then show ?thesis
    by (simp add: same b get_board_members_def member_of_def)
qed

text \<open>A witness for C8: a viewer membership of user 5 for board 1, added
  before any board exists; user 5 then creates board 1 and stays a viewer.\<close>

theorem create_board_inherits_membership_witness:
  "let s = snd (add_board_member \<lparr>im_board_id = 1, im_user_id = 5, im_role = Some ''viewer''\<rparr> init_storage);
       ib = \<lparr>ib_title = ''Launch Plan'', ib_description = None, ib_color = None, ib_created_by = 5\<rparr>
   in find (member_of (current_board_id s) (ib_created_by ib)) (values_of (board_members s)) =
        Some \<lparr>member_id = 1, member_board_id = 1, member_user_id = 5, member_role = ''viewer''\<rparr> \<and>
      board_members (snd (create_board ib 0 s)) = board_members s \<and>
      get_board_members (snd (create_board ib 0 s)) 1 =
        [\<lparr>member_id = 1, member_board_id = 1, member_user_id = 5, member_role = ''viewer''\<rparr>]"
proof -
  let ?s = "snd (add_board_member \<lparr>im_board_id = 1, im_user_id = 5, im_role = Some ''viewer''\<rparr> init_storage)"
  let ?ib = "\<lparr>ib_title = ''Launch Plan'', ib_description = None, ib_color = None, ib_created_by = 5\<rparr>"
  let ?m = "\<lparr>member_id = 1, member_board_id = 1, member_user_id = 5, member_role = ''viewer''\<rparr>"
  have h: "find (member_of (current_board_id ?s) (ib_created_by ?ib)) (values_of (board_members ?s)) = Some ?m"
    by (simp add: add_board_member_def init_storage_def member_of_def new_member_def Let_def)
  have r: "board_members (snd (create_board ?ib 0 ?s)) = board_members ?s"
    using create_board_inherits_membership [OF h surjective_pairing] by simp
  have "get_board_members ?s 1 = [?m]"
    by (simp add: add_board_member_def init_storage_def get_board_members_def new_member_def Let_def)
  with h r show ?thesis by (simp add: get_board_members_def)
qed

text \<open>\<open>getBoardWithMembers\<close> resolves members with \<open>this.users.get(userId)!\<close>,
  and the \<open>!\<close> checks nothing: a board created by a user id that is not stored
  (nothing checks \<open>createdBy\<close>) lists an \<open>undefined\<close> member.\<close>

theorem get_board_with_members_dangling:
  "get_board_with_members
     (snd (create_board \<lparr>ib_title = ''Launch Plan'', ib_description = None, ib_color = None,
                         ib_created_by = 7\<rparr> 0 init_storage)) 1 =
   Some \<lparr>bwm_board = new_board 1 0 \<lparr>ib_title = ''Launch Plan'', ib_description = None,
            ib_color = None, ib_created_by = 7\<rparr>,
         members = [None]\<rparr>"
  by (simp add: create_board_def add_board_member_def init_storage_def get_board_with_members_def
      Let_def member_of_def new_member_def)

text \<open>\<open>getBoardsByUser\<close> reads \<open>this.boards.get(boardId)!\<close> for every id
  collected from the memberships; a membership of a board id that is not stored
  (\<open>addBoardMember\<close> does not check the board) yields an entry with no board
  fields, only the counts.\<close>

theorem get_boards_by_user_dangling:
  "get_boards_by_user
     (snd (add_board_member \<lparr>im_board_id = 3, im_user_id = 5, im_role = None\<rparr> init_storage)) 5 =
   [\<lparr>bwc_board = None, todo_count = 0, member_count = 1\<rparr>]"
  by (simp add: add_board_member_def init_storage_def get_boards_by_user_def user_board_ids_def
      js_set_add_def count_todos_def count_members_def Let_def member_of_def new_member_def)

end
