(* ===== verification/Routes.thy ===== *)
theory Routes
  imports Validation Boards
begin

text \<open>
  The handlers of \<open>registerRoutes\<close> (\<open>src/server/routes.ts\<close>), one
  definition per route, over the store of \<open>Store\<close>.  A handler takes the
  route parameters (strings, read by \<open>parseInt\<close>), the parsed body and the
  state, and returns the status code with the JSON body it sends, and the new
  state when it writes.  Every early \<open>return res.status(..)\<close> and every
  \<open>catch\<close> branch that a modelled call can reach is a branch of the definition.
  The store methods never throw, so the only 500 is the one of \<open>/login\<close>,
  where \<open>bcrypt.compare\<close> rejects a password that is not a string.

  Password hashing and checking (\<open>hashPassword\<close>, \<open>comparePassword\<close>, bcrypt)
  are parameters: the hash \<open>h\<close> that \<open>hashPassword\<close> produced, and the
  predicate \<open>cmp\<close> that says whether a plain password matches a hash.
  Registration awaits the hash between its check and its write; it is split at
  that \<open>await\<close> into \<open>register_check\<close> and \<open>register_commit\<close>, which
  \<open>Server\<close> interleaves with other requests.
\<close>

text \<open>\<open>const { password, ...userWithoutPassword } = user\<close>\<close>

record user_public =
  pub_id :: ident
  pub_username :: string
  pub_phone_number :: string
  pub_display_name :: "string option"
  pub_photo_url :: "string option"

definition without_password :: "user \<Rightarrow> user_public" where
  "without_password u = \<lparr>pub_id = user_id u, pub_username = username u,
     pub_phone_number = phone_number u, pub_display_name = display_name u,
     pub_photo_url = photo_url u\<rparr>"

text \<open>The JSON bodies the handlers send.  \<open>Invalid_input\<close> is
  \<open>{ message: "Invalid input data", errors }\<close> of a \<open>ZodError\<close>.\<close>

datatype resp_body =
    Message string
  | Invalid_input
  | Body_user user_public
  | Body_exists bool
  | Body_boards "board_with_counts list"
  | Body_board_with_members board_with_members
  | Body_board board
  | Body_members "board_member list"
  | Body_member board_member
  | Body_todos "todo_with_assignee list"
  | Body_todo todo
  | No_content

type_synonym response = "nat \<times> resp_body"

subsection \<open>Authentication routes\<close>

text \<open>\<open>storage.getUserByPhoneNumber(phoneNumber)\<close> with a \<open>phoneNumber\<close> taken
  from the body: the store compares with \<open>===\<close>, which no non-string equals.\<close>

definition user_by_phone_json :: "mem_storage \<Rightarrow> json option \<Rightarrow> user option" where
  "user_by_phone_json s v = (case v of Some (JStr p) \<Rightarrow> get_user_by_phone_number s p | _ \<Rightarrow> None)"

text \<open>\<open>POST /api/auth/register\<close>, up to the \<open>await hashPassword\<close>: the
  parse and the duplicate check.  \<open>Inr\<close> carries the parsed user on.\<close>

definition register_check :: "json \<Rightarrow> mem_storage \<Rightarrow> response + insert_user" where
  "register_check b s =
     (case parse_insert_user b of
        None \<Rightarrow> Inl (400, Invalid_input)
      | Some iu \<Rightarrow>
          if get_user_by_phone_number s (iu_phone_number iu) \<noteq> None
          then Inl (409, Message ''User with this phone number already exists'')
          else Inr iu)"

text \<open>After the \<open>await\<close>: \<open>storage.createUser({ ...userData, password:
  hashedPassword })\<close> and the 201 answer without the password.\<close>

definition register_commit :: "insert_user \<Rightarrow> string \<Rightarrow> mem_storage \<Rightarrow> response \<times> mem_storage" where
  "register_commit iu h s =
     (let (u, s') = create_user (iu\<lparr>iu_password := h\<rparr>) s in ((201, Body_user (without_password u)), s'))"

definition register :: "json \<Rightarrow> string \<Rightarrow> mem_storage \<Rightarrow> response \<times> mem_storage" where
  "register b h s = (case register_check b s of Inl r \<Rightarrow> (r, s) | Inr iu \<Rightarrow> register_commit iu h s)"

definition verify_phone :: "json \<Rightarrow> mem_storage \<Rightarrow> response" where
  "verify_phone b s =
     (if \<not> js_truthy_json (json_get b ''phoneNumber'')
      then (400, Message ''Phone number is required'')
      else (200, Body_exists (user_by_phone_json s (json_get b ''phoneNumber'') \<noteq> None)))"

definition login :: "(string \<Rightarrow> string \<Rightarrow> bool) \<Rightarrow> json \<Rightarrow> mem_storage \<Rightarrow> response" where
  "login cmp b s =
     (let ph = json_get b ''phoneNumber''; pw = json_get b ''password''
      in if \<not> js_truthy_json ph then (400, Message ''Phone number is required'')
      else if \<not> js_truthy_json pw then (400, Message ''Password is required'')
      else case user_by_phone_json s ph of
        None \<Rightarrow> (404, Message ''User not found'')
      | Some u \<Rightarrow> (case pw of
          Some (JStr p) \<Rightarrow>
            if cmp p (password u) then (200, Body_user (without_password u))
            else (401, Message ''Invalid credentials'')
        | _ \<Rightarrow> (500, Message ''Failed to login'')))"

subsection \<open>Board routes\<close>

definition board_id_required :: response where
  "board_id_required = (400, Message ''Valid board ID is required'')"

definition board_not_found :: response where
  "board_not_found = (404, Message ''Board not found'')"

text \<open>\<open>GET /api/boards?userId=..\<close>; an absent parameter is \<open>parseInt(undefined)\<close>,
  which is \<open>NaN\<close>.\<close>

definition get_boards_route :: "string option \<Rightarrow> mem_storage \<Rightarrow> response" where
  "get_boards_route q s =
     (case q \<bind> parse_int of
        None \<Rightarrow> (400, Message ''Valid user ID is required'')
      | Some u \<Rightarrow> (200, Body_boards (get_boards_by_user s u)))"

definition get_board_route :: "string \<Rightarrow> mem_storage \<Rightarrow> response" where
  "get_board_route p s =
     (case parse_int p of
        None \<Rightarrow> board_id_required
      | Some i \<Rightarrow> (case get_board_with_members s i of
          None \<Rightarrow> board_not_found
        | Some b \<Rightarrow> (200, Body_board_with_members b)))"

definition post_board_route :: "json \<Rightarrow> timestamp \<Rightarrow> mem_storage \<Rightarrow> response \<times> mem_storage" where
  "post_board_route b now s =
     (case parse_insert_board b of
        None \<Rightarrow> ((400, Invalid_input), s)
      | Some ib \<Rightarrow> (let (bd, s') = create_board ib now s in ((201, Body_board bd), s')))"

text \<open>\<open>PUT /api/boards/:id\<close>; \<open>None\<close> when the body would store a value outside
  the declared field types (see \<open>Validation\<close>).\<close>

definition put_board_route :: "string \<Rightarrow> json \<Rightarrow> mem_storage \<Rightarrow> (response \<times> mem_storage) option" where
  "put_board_route p b s =
     (case parse_int p of
        None \<Rightarrow> Some (board_id_required, s)
      | Some i \<Rightarrow> map_option (\<lambda>u. case update_board i u s of
            (None, s') \<Rightarrow> (board_not_found, s')
          | (Some bd, s') \<Rightarrow> ((200, Body_board bd), s')) (board_updates b))"

definition delete_board_route :: "string \<Rightarrow> mem_storage \<Rightarrow> response \<times> mem_storage" where
  "delete_board_route p s =
     (case parse_int p of
        None \<Rightarrow> (board_id_required, s)
      | Some i \<Rightarrow> (let (r, s') = delete_board i s
                   in (if r then (204, No_content) else board_not_found, s')))"

subsection \<open>Board member routes\<close>

definition member_ids_required :: response where
  "member_ids_required = (400, Message ''Valid board ID and user ID are required'')"

definition member_not_found :: response where
  "member_not_found = (404, Message ''Board member not found'')"

definition get_members_route :: "string \<Rightarrow> mem_storage \<Rightarrow> response" where
  "get_members_route p s =
     (case parse_int p of
        None \<Rightarrow> board_id_required
      | Some i \<Rightarrow> (200, Body_members (get_board_members s i)))"

definition post_member_route :: "string \<Rightarrow> json \<Rightarrow> mem_storage \<Rightarrow> response \<times> mem_storage" where
  "post_member_route p b s =
     (case parse_int p of
        None \<Rightarrow> (board_id_required, s)
      | Some i \<Rightarrow> (case parse_insert_board_member (json_with b ''boardId'' (JNum i)) of
          None \<Rightarrow> ((400, Invalid_input), s)
        | Some im \<Rightarrow> (let (m, s') = add_board_member im s in ((201, Body_member m), s'))))"

definition delete_member_route :: "string \<Rightarrow> string \<Rightarrow> mem_storage \<Rightarrow> response \<times> mem_storage" where
  "delete_member_route pb pu s =
     (case (parse_int pb, parse_int pu) of
        (Some bi, Some ui) \<Rightarrow> (let (r, s') = remove_board_member bi ui s
                               in (if r then (204, No_content) else member_not_found, s'))
      | _ \<Rightarrow> (member_ids_required, s))"

text \<open>\<open>if (!role || !['viewer', 'editor', 'admin'].includes(role))\<close>:
  \<open>includes\<close> compares with SameValueZero, so only those three strings pass.\<close>

definition patch_member_route :: "string \<Rightarrow> string \<Rightarrow> json \<Rightarrow> mem_storage \<Rightarrow> response \<times> mem_storage" where
  "patch_member_route pb pu b s =
     (case (parse_int pb, parse_int pu) of
        (Some bi, Some ui) \<Rightarrow>
          (case json_get b ''role'' of
             Some (JStr r) \<Rightarrow>
               if valid_role r then
                 (case update_board_member_role bi ui r s of
                    (None, s') \<Rightarrow> (member_not_found, s')
                  | (Some m, s') \<Rightarrow> ((200, Body_member m), s'))
               else ((400, Message ''Valid role is required''), s)
           | _ \<Rightarrow> ((400, Message ''Valid role is required''), s))
      | _ \<Rightarrow> (member_ids_required, s))"

subsection \<open>Todo routes\<close>

definition todo_id_required :: response where
  "todo_id_required = (400, Message ''Valid todo ID is required'')"

definition todo_not_found :: response where
  "todo_not_found = (404, Message ''Todo not found'')"

definition get_todos_route :: "string \<Rightarrow> mem_storage \<Rightarrow> response" where
  "get_todos_route p s =
     (case parse_int p of
        None \<Rightarrow> board_id_required
      | Some i \<Rightarrow> (200, Body_todos (get_todos s i)))"

definition post_todo_route :: "string \<Rightarrow> json \<Rightarrow> timestamp \<Rightarrow> mem_storage \<Rightarrow> response \<times> mem_storage" where
  "post_todo_route p b now s =
     (case parse_int p of
        None \<Rightarrow> (board_id_required, s)
      | Some i \<Rightarrow> (case parse_insert_todo (json_with b ''boardId'' (JNum i)) of
          None \<Rightarrow> ((400, Invalid_input), s)
        | Some it \<Rightarrow> (let (t, s') = create_todo it now s in ((201, Body_todo t), s'))))"

definition put_todo_route ::
  "string \<Rightarrow> json \<Rightarrow> timestamp \<Rightarrow> mem_storage \<Rightarrow> (response \<times> mem_storage) option" where
  "put_todo_route p b now s =
     (case parse_int p of
        None \<Rightarrow> Some (todo_id_required, s)
      | Some i \<Rightarrow> map_option (\<lambda>u. case update_todo i u now s of
            (None, s') \<Rightarrow> (todo_not_found, s')
          | (Some t, s') \<Rightarrow> ((200, Body_todo t), s')) (todo_updates b))"

definition delete_todo_route :: "string \<Rightarrow> mem_storage \<Rightarrow> response \<times> mem_storage" where
  "delete_todo_route p s =
     (case parse_int p of
        None \<Rightarrow> (todo_id_required, s)
      | Some i \<Rightarrow> (let (r, s') = delete_todo i s
                   in (if r then (204, No_content) else todo_not_found, s')))"

subsection \<open>Request helpers\<close>

lemma json_get_JObj [simp]: "json_get (JObj kvs) k = map_of (rev kvs) k"
  by (simp add: json_get_def)

lemma json_get_own_props: "json_get b k = Some v \<Longrightarrow> map_of (rev (own_props b)) k = Some v"
  by (cases b) (simp_all add: json_get_def)

lemma apply_board_patch_upd:
  "apply_board_patch p b = b\<lparr>board_id := spread (bp_id p) (board_id b),
     board_title := spread (bp_title p) (board_title b),
     board_description := spread (bp_description p) (board_description b),
     board_color := spread (bp_color p) (board_color b),
     board_created_by := spread (bp_created_by p) (board_created_by b),
     board_created_at := spread (bp_created_at p) (board_created_at b)\<rparr>"
  by (cases b) (simp add: apply_board_patch_def)

lemma apply_todo_patch_upd:
  "apply_todo_patch p t = t\<lparr>todo_id := spread (tp_id p) (todo_id t),
     todo_board_id := spread (tp_board_id p) (todo_board_id t),
     todo_title := spread (tp_title p) (todo_title t),
     todo_description := spread (tp_description p) (todo_description t),
     todo_due_date := spread (tp_due_date p) (todo_due_date t),
     todo_priority := spread (tp_priority p) (todo_priority t),
     todo_status := spread (tp_status p) (todo_status t),
     todo_assigned_to := spread (tp_assigned_to p) (todo_assigned_to t),
     todo_created_by := spread (tp_created_by p) (todo_created_by t),
     todo_created_at := spread (tp_created_at p) (todo_created_at t),
     todo_updated_at := spread (tp_updated_at p) (todo_updated_at t)\<rparr>"
  by (cases t) (simp add: apply_todo_patch_def)

lemma register_check_Inr:
  "register_check b s = Inr iu \<Longrightarrow>
   parse_insert_user b = Some iu \<and> get_user_by_phone_number s (iu_phone_number iu) = None"
  by (simp add: register_check_def split: option.splits if_splits)

lemma register_Inr:
  "register_check b s = Inr iu \<Longrightarrow> register b h s = register_commit iu h s"
  by (simp add: register_def)

lemma register_commit_lookup:
  "get_user_by_phone_number s (iu_phone_number iu) = None \<Longrightarrow>
   get_user_by_phone_number (snd (register_commit iu h s)) (iu_phone_number iu) =
     Some (fst (create_user (iu\<lparr>iu_password := h\<rparr>) s))"
  by (simp add: register_commit_def create_user_def get_user_by_phone_number_def Let_def
      find_values_update_new)

subsection \<open>Properties of the handlers\<close>

text \<open>A \<open>PUT /api/boards/:id\<close> that sends only a title, on an existing board, answers 200 and stores the board with that title and with description and colour \<open>undefined\<close>: the handler always writes all three keys, so every field the client leaves out is erased.\<close>

lemma put_board_route_title_only:
  "get_board s i = Some bd \<Longrightarrow>
   put_board_route (js_int_string i) (JObj [(''title'', JStr t)]) s =
     (let bd' = bd\<lparr>board_title := Some t, board_description := None, board_color := None\<rparr>
      in Some ((200, Body_board bd'), s\<lparr>boards := AList.update i bd' (boards s)\<rparr>))"
  by (simp add: put_board_route_def board_updates_def update_board_def get_board_def
      apply_board_patch_upd empty_board_patch_def as_nullable_def Let_def)

theorem put_board_route_title_only_witness:
  "let s = snd (create_board \<lparr>ib_title = ''B'', ib_description = Some ''d'', ib_color = Some ''red'',
                 ib_created_by = 1\<rparr> 0 init_storage);
       bd = new_board 1 0 \<lparr>ib_title = ''B'', ib_description = Some ''d'', ib_color = Some ''red'',
                 ib_created_by = 1\<rparr>
   in get_board s 1 = Some bd \<and>
      put_board_route (js_int_string 1) (JObj [(''title'', JStr ''X'')]) s =
       (let bd' = bd\<lparr>board_title := Some ''X'', board_description := None, board_color := None\<rparr>
        in Some ((200, Body_board bd'), s\<lparr>boards := AList.update 1 bd' (boards s)\<rparr>))"
proof -
  let ?ib = "\<lparr>ib_title = ''B'', ib_description = Some ''d'', ib_color = Some ''red'', ib_created_by = 1\<rparr>"
  let ?s = "snd (create_board ?ib 0 init_storage)"
  have h: "get_board ?s 1 = Some (new_board 1 0 ?ib)"
    by (simp add: create_board_def init_storage_def get_board_def add_board_member_def Let_def)
  show ?thesis unfolding Let_def by (rule conjI [OF h put_board_route_title_only [OF h, unfolded Let_def]])
qed

text \<open>\<open>PUT /api/todos/:id\<close> forwards the body unchecked: a body with \<open>id\<close> and \<open>boardId\<close> answers 200 and stores, under the old key, a todo that reports the new id and belongs to the new board.\<close>

lemma put_todo_route_id_board:
  "get_todo s i = Some t \<Longrightarrow>
   put_todo_route (js_int_string i) (JObj [(''id'', JNum k), (''boardId'', JNum j)]) now s =
     (let t' = t\<lparr>todo_id := k, todo_board_id := j, todo_updated_at := now\<rparr>
      in Some ((200, Body_todo t'), s\<lparr>todos := AList.update i t' (todos s)\<rparr>))"
  by (simp add: put_todo_route_def todo_updates_def update_todo_def get_todo_def
      apply_todo_patch_upd Let_def)

theorem put_todo_route_id_board_witness:
  "let it = \<lparr>it_board_id = 1, it_title = ''t'', it_description = None, it_due_date = None,
              it_priority = None, it_status = None, it_assigned_to = None, it_created_by = 1\<rparr>;
       s = snd (create_todo it 0 init_storage); t = new_todo 1 0 it
   in get_todo s 1 = Some t \<and>
      put_todo_route (js_int_string 1) (JObj [(''id'', JNum 7), (''boardId'', JNum 2)]) 5 s =
       (let t' = t\<lparr>todo_id := 7, todo_board_id := 2, todo_updated_at := 5\<rparr>
        in Some ((200, Body_todo t'), s\<lparr>todos := AList.update 1 t' (todos s)\<rparr>))"
proof -
  let ?it = "\<lparr>it_board_id = 1, it_title = ''t'', it_description = None, it_due_date = None,
              it_priority = None, it_status = None, it_assigned_to = None, it_created_by = 1\<rparr>"
  let ?s = "snd (create_todo ?it 0 init_storage)"
  have h: "get_todo ?s 1 = Some (new_todo 1 0 ?it)"
    by (simp add: create_todo_def init_storage_def get_todo_def Let_def)
  show ?thesis unfolding Let_def by (rule conjI [OF h put_todo_route_id_board [OF h, unfolded Let_def]])
qed

text \<open>\<open>POST /api/boards/:id/todos\<close> with a due date sent as a JSON string (as the create-todo dialog sends it) is rejected with 400 and changes nothing: the insert schema wants a \<open>Date\<close>, which no JSON value is.\<close>

lemma post_todo_route_due_date:
  "parse_int p = Some i \<Longrightarrow> json_get b ''dueDate'' = Some (JStr d) \<Longrightarrow>
   post_todo_route p b now s = ((400, Invalid_input), s)"
  by (simp add: post_todo_route_def parse_insert_todo_def json_with_def json_get_own_props z_date_def
      split: option.splits)

theorem post_todo_route_due_date_witness:
  "let b = JObj [(''title'', JStr ''t''), (''createdBy'', JNum 1), (''dueDate'', JStr ''2025-01-01T00:00:00.000Z'')]
   in parse_int ''1'' = Some 1 \<and> json_get b ''dueDate'' = Some (JStr ''2025-01-01T00:00:00.000Z'') \<and>
      post_todo_route ''1'' b 0 init_storage = ((400, Invalid_input), init_storage)"
proof -
  let ?b = "JObj [(''title'', JStr ''t''), (''createdBy'', JNum 1), (''dueDate'', JStr ''2025-01-01T00:00:00.000Z'')]"
  have h1: "parse_int ''1'' = Some 1"
    by (simp add: parse_int_def split_sign_def split_radix_def digit_val_def js_whitespace_def digits_value_def)
  have h2: "json_get ?b ''dueDate'' = Some (JStr ''2025-01-01T00:00:00.000Z'')" by simp
  show ?thesis unfolding Let_def by (intro conjI h1 h2 post_todo_route_due_date [OF h1 h2])
qed

text \<open>Every route whose id parameter \<open>parseInt\<close> reads as \<open>NaN\<close> answers 400 and leaves the store unchanged.\<close>

lemma routes_bad_id:
  "parse_int p = None \<Longrightarrow>
   get_board_route p s = board_id_required \<and>
   put_board_route p b s = Some (board_id_required, s) \<and>
   delete_board_route p s = (board_id_required, s) \<and>
   get_members_route p s = board_id_required \<and>
   post_member_route p b s = (board_id_required, s) \<and>
   delete_member_route p q s = (member_ids_required, s) \<and>
   delete_member_route q p s = (member_ids_required, s) \<and>
   patch_member_route p q b s = (member_ids_required, s) \<and>
   patch_member_route q p b s = (member_ids_required, s) \<and>
   get_todos_route p s = board_id_required \<and>
   post_todo_route p b now s = (board_id_required, s) \<and>
   put_todo_route p b now s = Some (todo_id_required, s) \<and>
   delete_todo_route p s = (todo_id_required, s)"
  by (simp add: get_board_route_def put_board_route_def delete_board_route_def get_members_route_def
      post_member_route_def delete_member_route_def patch_member_route_def get_todos_route_def
      post_todo_route_def put_todo_route_def delete_todo_route_def split: option.splits)

theorem routes_bad_id_witness:
  "parse_int ''abc'' = None \<and>
   get_board_route ''abc'' init_storage = board_id_required \<and>
   put_board_route ''abc'' (JObj []) init_storage = Some (board_id_required, init_storage) \<and>
   delete_board_route ''abc'' init_storage = (board_id_required, init_storage) \<and>
   get_members_route ''abc'' init_storage = board_id_required \<and>
   post_member_route ''abc'' (JObj []) init_storage = (board_id_required, init_storage) \<and>
   delete_member_route ''abc'' ''1'' init_storage = (member_ids_required, init_storage) \<and>
   delete_member_route ''1'' ''abc'' init_storage = (member_ids_required, init_storage) \<and>
   patch_member_route ''abc'' ''1'' (JObj []) init_storage = (member_ids_required, init_storage) \<and>
   patch_member_route ''1'' ''abc'' (JObj []) init_storage = (member_ids_required, init_storage) \<and>
   get_todos_route ''abc'' init_storage = board_id_required \<and>
   post_todo_route ''abc'' (JObj []) 0 init_storage = (board_id_required, init_storage) \<and>
   put_todo_route ''abc'' (JObj []) 0 init_storage = Some (todo_id_required, init_storage) \<and>
   delete_todo_route ''abc'' init_storage = (todo_id_required, init_storage)"
proof -
  have h: "parse_int ''abc'' = None"
    by (simp add: parse_int_def split_sign_def split_radix_def digit_val_def js_whitespace_def)
  show ?thesis by (rule conjI [OF h routes_bad_id [OF h]])
qed

text \<open>C28: on a board id the store does not hold, \<open>GET\<close>, \<open>DELETE\<close> and (for any well-typed body) \<open>PUT /api/boards/:id\<close> answer 404 and leave the store unchanged.\<close>

lemma board_routes_not_found:
  "get_board s i = None \<Longrightarrow>
   get_board_route (js_int_string i) s = board_not_found \<and>
   delete_board_route (js_int_string i) s = (board_not_found, s) \<and>
   (board_updates b \<noteq> None \<longrightarrow> put_board_route (js_int_string i) b s = Some (board_not_found, s))"
  by (auto simp: get_board_route_def delete_board_route_def put_board_route_def get_board_def
      get_board_with_members_def delete_board_absent update_board_def)

theorem board_routes_not_found_witness:
  "get_board init_storage 1 = None \<and>
   get_board_route (js_int_string 1) init_storage = board_not_found \<and>
   delete_board_route (js_int_string 1) init_storage = (board_not_found, init_storage) \<and>
   board_updates (JObj []) \<noteq> None \<and>
   put_board_route (js_int_string 1) (JObj []) init_storage = Some (board_not_found, init_storage)"
proof -
  have h: "get_board init_storage 1 = None" by (simp add: get_board_def init_storage_def)
  have u: "board_updates (JObj []) \<noteq> None" by (simp add: board_updates_def)
  from board_routes_not_found [OF h, of "JObj []"] u
  show ?thesis by (simp only: h u simp_thms)
qed

text \<open>C29: \<open>PATCH /api/boards/:boardId/members/:userId\<close> with a role that is not one of viewer, editor, admin (or no role, or a non-string) answers 400 and leaves the store unchanged.\<close>

lemma patch_member_route_role_check:
  "(\<forall>r. json_get b ''role'' = Some (JStr r) \<longrightarrow> \<not> valid_role r) \<Longrightarrow>
   snd (patch_member_route pb pu b s) = s \<and> fst (fst (patch_member_route pb pu b s)) = 400"
  by (auto simp: patch_member_route_def member_ids_required_def split: option.splits json.splits)

theorem patch_member_route_role_check_witness:
  "json_get (JObj [(''role'', JStr ''owner'')]) ''role'' = Some (JStr ''owner'') \<and> \<not> valid_role ''owner'' \<and>
   snd (patch_member_route ''1'' ''1'' (JObj [(''role'', JStr ''owner'')]) init_storage) = init_storage \<and>
   fst (fst (patch_member_route ''1'' ''1'' (JObj [(''role'', JStr ''owner'')]) init_storage)) = 400"
proof -
  have h: "\<forall>r. json_get (JObj [(''role'', JStr ''owner'')]) ''role'' = Some (JStr r) \<longrightarrow> \<not> valid_role r"
    by (simp add: valid_role_def)
  have "json_get (JObj [(''role'', JStr ''owner'')]) ''role'' = Some (JStr ''owner'') \<and> \<not> valid_role ''owner''"
    by (simp add: valid_role_def)
  with patch_member_route_role_check [OF h] show ?thesis by blast
qed

text \<open>\<open>POST /api/boards/:id/members\<close> for a new (board, user) pair answers 201 with a membership of the board named in the URL, whatever \<open>boardId\<close> the body holds, and with the role string given, which it does not check.\<close>

lemma post_member_route_url_board:
  "find (member_of i u) (values_of (board_members s)) = None \<Longrightarrow> r \<noteq> [] \<Longrightarrow>
   post_member_route (js_int_string i)
     (JObj [(''boardId'', JNum j), (''userId'', JNum u), (''role'', JStr r)]) s =
   ((201, Body_member \<lparr>member_id = current_board_member_id s, member_board_id = i,
       member_user_id = u, member_role = r\<rparr>),
    snd (add_board_member \<lparr>im_board_id = i, im_user_id = u, im_role = Some r\<rparr> s))"
  by (simp add: post_member_route_def parse_insert_board_member_def json_with_def
      add_board_member_def new_member_def Let_def)

theorem post_member_route_url_board_witness:
  "find (member_of 1 2) (values_of (board_members init_storage)) = None \<and> ''owner'' \<noteq> [] \<and>
   post_member_route (js_int_string 1)
     (JObj [(''boardId'', JNum 9), (''userId'', JNum 2), (''role'', JStr ''owner'')]) init_storage =
   ((201, Body_member \<lparr>member_id = current_board_member_id init_storage, member_board_id = 1,
       member_user_id = 2, member_role = ''owner''\<rparr>),
    snd (add_board_member \<lparr>im_board_id = 1, im_user_id = 2, im_role = Some ''owner''\<rparr> init_storage))"
proof -
  have h1: "find (member_of 1 2) (values_of (board_members init_storage)) = None"
    by (simp add: init_storage_def)
  have h2: "''owner'' \<noteq> []" by simp
  show ?thesis by (intro conjI h1 h2 post_member_route_url_board [OF h1 h2])
qed

text \<open>C31: \<open>/api/auth/login\<close> answers 200 only when the body holds a string password that the password check accepts against the stored hash of the user with the given phone number, and then it returns that user without the password.\<close>

lemma login_ok:
  "fst (login cmp b s) = 200 \<Longrightarrow>
   \<exists>p u. json_get b ''password'' = Some (JStr p) \<and>
     user_by_phone_json s (json_get b ''phoneNumber'') = Some u \<and> cmp p (password u) \<and>
     snd (login cmp b s) = Body_user (without_password u)"
  by (auto simp: login_def Let_def split: if_splits option.splits json.splits)

theorem login_ok_witness:
  "let cmp = (\<lambda>p h. h = p @ ''#'');
       s = snd (create_user \<lparr>iu_username = ''alice'', iu_password = ''pw#'', iu_phone_number = ''+1555'',
              iu_display_name = None, iu_photo_url = None\<rparr> init_storage);
       b = JObj [(''phoneNumber'', JStr ''+1555''), (''password'', JStr ''pw'')]
   in fst (login cmp b s) = 200 \<and>
      (\<exists>p u. json_get b ''password'' = Some (JStr p) \<and>
        user_by_phone_json s (json_get b ''phoneNumber'') = Some u \<and> cmp p (password u) \<and>
        snd (login cmp b s) = Body_user (without_password u))"
proof -
  let ?cmp = "\<lambda>p h. h = p @ ''#''"
  let ?s = "snd (create_user \<lparr>iu_username = ''alice'', iu_password = ''pw#'', iu_phone_number = ''+1555'',
              iu_display_name = None, iu_photo_url = None\<rparr> init_storage)"
  let ?b = "JObj [(''phoneNumber'', JStr ''+1555''), (''password'', JStr ''pw'')]"
  have h: "fst (login ?cmp ?b ?s) = 200"
    by (simp add: login_def user_by_phone_json_def get_user_by_phone_number_def create_user_def
        init_storage_def Let_def)
  show ?thesis unfolding Let_def by (rule conjI [OF h login_ok [OF h]])
qed

text \<open>C32: after a registration that passes its checks, logging in with the same phone number and password (non-empty, and accepted by the password check against the hash stored) answers 200 with the new user.\<close>

lemma register_then_login:
  "register_check b s = Inr iu \<Longrightarrow> cmp (iu_password iu) h \<Longrightarrow>
   iu_password iu \<noteq> [] \<Longrightarrow> iu_phone_number iu \<noteq> [] \<Longrightarrow>
   login cmp (JObj [(''phoneNumber'', JStr (iu_phone_number iu)), (''password'', JStr (iu_password iu))])
     (snd (register b h s)) =
   (200, Body_user (without_password (fst (create_user (iu\<lparr>iu_password := h\<rparr>) s))))"
  using register_check_Inr [of b s iu] register_commit_lookup [of s iu h]
  by (simp add: register_Inr login_def user_by_phone_json_def Let_def create_user_def)

theorem register_then_login_witness:
  "let b = JObj [(''username'', JStr ''alice''), (''password'', JStr ''pw''), (''phoneNumber'', JStr ''+1555'')];
       iu = \<lparr>iu_username = ''alice'', iu_password = ''pw'', iu_phone_number = ''+1555'',
              iu_display_name = None, iu_photo_url = None\<rparr>;
       cmp = (\<lambda>p h. h = p @ ''#'')
   in register_check b init_storage = Inr iu \<and> cmp (iu_password iu) ''pw#'' \<and>
      iu_password iu \<noteq> [] \<and> iu_phone_number iu \<noteq> [] \<and>
      login cmp (JObj [(''phoneNumber'', JStr (iu_phone_number iu)), (''password'', JStr (iu_password iu))])
        (snd (register b ''pw#'' init_storage)) =
      (200, Body_user (without_password (fst (create_user (iu\<lparr>iu_password := ''pw#''\<rparr>) init_storage))))"
proof -
  let ?b = "JObj [(''username'', JStr ''alice''), (''password'', JStr ''pw''), (''phoneNumber'', JStr ''+1555'')]"
  let ?iu = "\<lparr>iu_username = ''alice'', iu_password = ''pw'', iu_phone_number = ''+1555'',
              iu_display_name = None, iu_photo_url = None\<rparr>"
  let ?cmp = "\<lambda>p h. h = p @ ''#''"
  have h1: "register_check ?b init_storage = Inr ?iu"
    by (simp add: register_check_def parse_insert_user_def get_user_by_phone_number_def init_storage_def)
  have h2: "?cmp (iu_password ?iu) ''pw#''" by simp
  have h3: "iu_password ?iu \<noteq> []" "iu_phone_number ?iu \<noteq> []" by simp_all
  show ?thesis unfolding Let_def
    by (intro conjI h1 h2 h3 register_then_login [of ?b init_storage ?iu ?cmp, OF h1 h2 h3])
qed

text \<open>A board URL built by the client from an id (\<open>`/api/boards/${id}`\<close>) is read back by
  \<open>parseInt\<close> as that id, so \<open>GET\<close> answers with that board and its members, or 404.\<close>

lemma get_board_route_id:
  "get_board_route (js_int_string i) s =
   (case get_board_with_members s i of None \<Rightarrow> board_not_found
    | Some bw \<Rightarrow> (200, Body_board_with_members bw))"
  by (simp add: get_board_route_def)

end
