(* ===== verification/Operations.thy ===== *)
theory Operations
  imports Boards
begin

text \<open>
  The storage as a state machine.  Every state-changing method of
  \<open>IStorage\<close>/\<open>MemStorage\<close> is a constructor of \<open>storage_op\<close>, with the
  arguments the method takes (and the clock reading where it calls
  \<open>new Date()\<close>); \<open>exec_op\<close> runs one call and keeps the state, as the
  route handlers do (the read methods change nothing).  The reachable states
  are those of any sequence of calls from the constructor's state; the
  invariant \<open>store_inv\<close> holds in each of them, by rule induction.
\<close>

datatype storage_op =
    Op_create_user insert_user
  | Op_create_board insert_board timestamp
  | Op_update_board ident board_patch
  | Op_delete_board ident
  | Op_add_board_member insert_board_member
  | Op_remove_board_member ident ident
  | Op_update_board_member_role ident ident string
  | Op_create_todo insert_todo timestamp
  | Op_update_todo ident todo_patch timestamp
  | Op_delete_todo ident

fun exec_op :: "storage_op \<Rightarrow> mem_storage \<Rightarrow> mem_storage" where
  "exec_op (Op_create_user iu) s = snd (create_user iu s)"
| "exec_op (Op_create_board ib now) s = snd (create_board ib now s)"
| "exec_op (Op_update_board i p) s = snd (update_board i p s)"
| "exec_op (Op_delete_board i) s = snd (delete_board i s)"
| "exec_op (Op_add_board_member im) s = snd (add_board_member im s)"
| "exec_op (Op_remove_board_member b u) s = snd (remove_board_member b u s)"
| "exec_op (Op_update_board_member_role b u r) s = snd (update_board_member_role b u r s)"
| "exec_op (Op_create_todo it now) s = snd (create_todo it now s)"
| "exec_op (Op_update_todo i p now) s = snd (update_todo i p now s)"
| "exec_op (Op_delete_todo i) s = snd (delete_todo i s)"

fun exec_run :: "storage_op list \<Rightarrow> mem_storage \<Rightarrow> mem_storage" where
  "exec_run [] s = s"
| "exec_run (op # ops) s = exec_run ops (exec_op op s)"

inductive reachable :: "mem_storage \<Rightarrow> bool" where
  init: "reachable init_storage"
| step: "reachable s \<Longrightarrow> reachable (exec_op op s)"

definition members_inv :: "ident \<Rightarrow> (ident, board_member) jsmap \<Rightarrow> bool" where
  "members_inv c ms \<longleftrightarrow> distinct (keys_of ms) \<and> keys_below c ms \<and>
     keyed_by member_id ms \<and> unique_members ms"

definition store_inv :: "mem_storage \<Rightarrow> bool" where
  "store_inv s \<longleftrightarrow>
     distinct (keys_of (users s)) \<and> keys_below (current_user_id s) (users s) \<and>
     keyed_by user_id (users s) \<and>
     distinct (keys_of (boards s)) \<and> keys_below (current_board_id s) (boards s) \<and>
     distinct (keys_of (todos s)) \<and> keys_below (current_todo_id s) (todos s) \<and>
     members_inv (current_board_member_id s) (board_members s)"

subsection \<open>The invariant holds in every reachable state\<close>

lemma unique_members_filter: "unique_members ms \<Longrightarrow> unique_members (filter P ms)"
  by (simp add: unique_members_def distinct_map_filter)

lemma members_inv_filter: "members_inv c ms \<Longrightarrow> members_inv c (filter P ms)"
  by (simp add: members_inv_def distinct_keys_filter keys_below_filter keyed_by_filter unique_members_filter)

lemma members_inv_delete: "members_inv c ms \<Longrightarrow> members_inv c (AList.delete k ms)"
  by (simp add: AList.delete_eq members_inv_filter)

lemma add_board_member_frame:
  "users (snd (add_board_member im s)) = users s \<and> boards (snd (add_board_member im s)) = boards s \<and>
   todos (snd (add_board_member im s)) = todos s \<and>
   current_user_id (snd (add_board_member im s)) = current_user_id s \<and>
   current_board_id (snd (add_board_member im s)) = current_board_id s \<and>
   current_todo_id (snd (add_board_member im s)) = current_todo_id s"
  by (simp add: add_board_member_def Let_def split: option.splits)

lemma add_board_member_members_inv:
  "members_inv (current_board_member_id s) (board_members s) \<Longrightarrow>
   members_inv (current_board_member_id (snd (add_board_member im s)))
     (board_members (snd (add_board_member im s)))"
  using add_board_member_unique [of s im]
  by (auto simp: members_inv_def add_board_member_def Let_def distinct_update
      keys_below_update_fresh keyed_by_update split: option.splits)

lemma remove_board_member_members_inv:
  "members_inv c (board_members s) \<Longrightarrow> members_inv c (board_members (snd (remove_board_member b u s)))"
  by (auto simp: remove_board_member_def members_inv_delete split: option.splits)

lemma update_board_member_role_members_inv:
  "members_inv c (board_members s) \<Longrightarrow>
   members_inv c (board_members (snd (update_board_member_role b u r s)))"
proof (cases "find_member_entry b u (board_members s)")
  case None
  then show "members_inv c (board_members s) \<Longrightarrow> ?thesis"
    by (simp add: update_board_member_role_def)
next
  case (Some e)
  assume inv: "members_inv c (board_members s)"
  obtain k m where e: "e = (k, m)" by fastforce
  with Some have km: "(k, m) \<in> set (board_members s)"
    by (auto dest: find_member_entry_in)
  with inv have "member_id m = k" by (auto simp: members_inv_def dest: keyed_by_in)
  moreover from km have "map_of (board_members s) k \<noteq> None"
    by (auto dest: weak_map_of_SomeI)
  moreover have "unique_members (board_members (snd (update_board_member_role b u r s)))"
    using inv by (intro update_board_member_role_unique) (simp_all add: members_inv_def)
  ultimately show ?thesis using inv Some e
    by (simp add: update_board_member_role_def Let_def members_inv_def distinct_update
        keys_below_update_existing keyed_by_update)
qed

lemma exec_op_store_inv: "store_inv s \<Longrightarrow> store_inv (exec_op op s)"
proof (induction op)
  case (Op_create_user iu)
  then show ?case
    by (simp add: store_inv_def create_user_state distinct_update keys_below_update_fresh
        keyed_by_update)
next
  case (Op_create_board ib now)
  let ?s1 = "s\<lparr>current_board_id := current_board_id s + 1,
     boards := AList.update (current_board_id s) (new_board (current_board_id s) now ib) (boards s)\<rparr>"
  have "store_inv ?s1" using Op_create_board
    by (simp add: store_inv_def distinct_update keys_below_update_fresh)
  then have "store_inv (snd (add_board_member (admin_membership (current_board_id s) (ib_created_by ib)) ?s1))"
    using add_board_member_frame add_board_member_members_inv unfolding store_inv_def by metis
  then show ?case by (simp add: create_board_def Let_def)
next
  case (Op_update_board i p)
  then show ?case
    by (auto simp: store_inv_def update_board_def Let_def distinct_update
        keys_below_update_existing split: option.splits)
next
  case (Op_delete_board i)
  then show ?case
    by (cases "map_of (boards s) i")
      (simp_all add: store_inv_def delete_board_absent delete_board_present js_delete_where_filter
        members_inv_filter distinct_delete keys_below_delete distinct_keys_filter keys_below_filter)
next
  case (Op_add_board_member im)
  then show ?case
    using add_board_member_frame add_board_member_members_inv unfolding store_inv_def
    by (metis exec_op.simps(5))
next
  case (Op_remove_board_member b u)
  then show ?case
    by (simp add: store_inv_def remove_board_member_members_inv)
       (auto simp: remove_board_member_def members_inv_delete split: option.splits)
next
  case (Op_update_board_member_role b u r)
  let ?ms = "board_members (snd (update_board_member_role b u r s))"
  have eq: "snd (update_board_member_role b u r s) = s\<lparr>board_members := ?ms\<rparr>"
    by (auto simp: update_board_member_role_def Let_def split: option.splits)
  have "members_inv (current_board_member_id s) ?ms"
    using Op_update_board_member_role by (simp add: store_inv_def update_board_member_role_members_inv)
  with Op_update_board_member_role show ?case
    by (subst exec_op.simps, subst eq) (simp add: store_inv_def)
next
  case (Op_create_todo it now)
  then show ?case
    by (simp add: store_inv_def create_todo_def Let_def distinct_update keys_below_update_fresh)
next
  case (Op_update_todo i p now)
  then show ?case
    by (cases "map_of (todos s) i")
      (simp_all add: store_inv_def update_todo_None update_todo_Some distinct_update
        keys_below_update_existing)
next
  case (Op_delete_todo i)
  then show ?case
    by (simp add: store_inv_def delete_todo_eq distinct_delete keys_below_delete)
qed

lemma store_inv_init: "store_inv init_storage"
  by (simp add: store_inv_def init_storage_def members_inv_def unique_members_def)

lemma reachable_store_inv: "reachable s \<Longrightarrow> store_inv s"
  by (induction rule: reachable.induct) (simp_all add: store_inv_init exec_op_store_inv)

lemma exec_op_counters_mono:
  "current_user_id s \<le> current_user_id (exec_op op s) \<and>
   current_board_id s \<le> current_board_id (exec_op op s) \<and>
   current_board_member_id s \<le> current_board_member_id (exec_op op s) \<and>
   current_todo_id s \<le> current_todo_id (exec_op op s)"
proof (cases op)
  case (Op_create_board ib now)
  then show ?thesis
    by (simp add: create_board_def Let_def add_board_member_def split: option.splits)
next
  case (Op_add_board_member im)
  then show ?thesis by (simp add: add_board_member_def Let_def split: option.splits)
qed (auto simp: create_user_state update_board_def delete_board_def remove_board_member_def
       update_board_member_role_def create_todo_def update_todo_def delete_todo_def Let_def
       js_map_delete_def split: option.splits prod.splits)

lemma exec_run_todo_counter_mono: "current_todo_id s \<le> current_todo_id (exec_run ops s)"
  by (induction ops arbitrary: s) (auto intro: order_trans exec_op_counters_mono [THEN conjunct2, THEN conjunct2, THEN conjunct2])

text \<open>C4: handles are monotonic and never reused: a todo created after any sequence of calls (deletions included) gets a larger id than every todo created before.\<close>

theorem todo_ids_increase:
  "create_todo it1 n1 s = (t1, s1) \<Longrightarrow> create_todo it2 n2 (exec_run ops s1) = (t2, s2) \<Longrightarrow>
   todo_id t1 < todo_id t2"
  using create_todo_counter exec_run_todo_counter_mono by (metis add1_zle_eq dual_order.strict_trans1 less_add_one)

theorem todo_ids_increase_witness:
  "let it = \<lparr>it_board_id = 1, it_title = ''Write spec'', it_description = None, it_due_date = None,
        it_priority = None, it_status = None, it_assigned_to = None, it_created_by = 1\<rparr>;
       s1 = snd (create_todo it 0 init_storage);
       s2 = exec_run [Op_delete_todo 1] s1
   in create_todo it 0 init_storage = (fst (create_todo it 0 init_storage), s1) \<and>
      create_todo it 5 s2 = (fst (create_todo it 5 s2), snd (create_todo it 5 s2)) \<and>
      todo_id (fst (create_todo it 0 init_storage)) < todo_id (fst (create_todo it 5 s2))"
proof -
  let ?it = "\<lparr>it_board_id = 1, it_title = ''Write spec'', it_description = None, it_due_date = None,
        it_priority = None, it_status = None, it_assigned_to = None, it_created_by = 1\<rparr>"
  let ?s1 = "snd (create_todo ?it 0 init_storage)"
  let ?s2 = "exec_run [Op_delete_todo 1] ?s1"
  have h1: "create_todo ?it 0 init_storage = (fst (create_todo ?it 0 init_storage), ?s1)"
    by simp
  have h2: "create_todo ?it 5 ?s2 = (fst (create_todo ?it 5 ?s2), snd (create_todo ?it 5 ?s2))"
    by simp
  show ?thesis unfolding Let_def
    by (rule conjI [OF h1 conjI [OF h2 todo_ids_increase [OF h1 h2]]])
qed

text \<open>C5: in every reachable store the id \<open>createTodo\<close> assigns is not in use and exceeds every stored todo id.\<close>

theorem reachable_todo_id_fresh:
  "reachable s \<Longrightarrow> create_todo it now s = (t, s') \<Longrightarrow>
   get_todo s (todo_id t) = None \<and> (\<forall>k \<in> fst ` set (todos s). k < todo_id t)"
  using reachable_store_inv [of s] create_todo_counter [of it now s t s']
  by (auto simp: store_inv_def get_todo_def keys_below_fresh keys_below_iff)

theorem reachable_todo_id_fresh_witness:
  "let s = exec_op (Op_create_todo \<lparr>it_board_id = 1, it_title = ''Write spec'', it_description = None, it_due_date = None,
        it_priority = None, it_status = None, it_assigned_to = None, it_created_by = 1\<rparr> 0) init_storage
   in reachable s \<and>
      create_todo \<lparr>it_board_id = 1, it_title = ''Write spec'', it_description = None, it_due_date = None,
        it_priority = None, it_status = None, it_assigned_to = None, it_created_by = 1\<rparr> 1 s = (fst (create_todo \<lparr>it_board_id = 1, it_title = ''Write spec'', it_description = None, it_due_date = None,
        it_priority = None, it_status = None, it_assigned_to = None, it_created_by = 1\<rparr> 1 s), snd (create_todo \<lparr>it_board_id = 1, it_title = ''Write spec'', it_description = None, it_due_date = None,
        it_priority = None, it_status = None, it_assigned_to = None, it_created_by = 1\<rparr> 1 s)) \<and>
      get_todo s (todo_id (fst (create_todo \<lparr>it_board_id = 1, it_title = ''Write spec'', it_description = None, it_due_date = None,
        it_priority = None, it_status = None, it_assigned_to = None, it_created_by = 1\<rparr> 1 s))) = None \<and>
      (\<forall>k \<in> fst ` set (todos s). k < todo_id (fst (create_todo \<lparr>it_board_id = 1, it_title = ''Write spec'', it_description = None, it_due_date = None,
        it_priority = None, it_status = None, it_assigned_to = None, it_created_by = 1\<rparr> 1 s)))"
proof -
  let ?s = "exec_op (Op_create_todo \<lparr>it_board_id = 1, it_title = ''Write spec'', it_description = None, it_due_date = None,
        it_priority = None, it_status = None, it_assigned_to = None, it_created_by = 1\<rparr> 0) init_storage"
  have h1: "reachable ?s" by (rule reachable.step [OF reachable.init])
  have h2: "create_todo \<lparr>it_board_id = 1, it_title = ''Write spec'', it_description = None, it_due_date = None,
        it_priority = None, it_status = None, it_assigned_to = None, it_created_by = 1\<rparr> 1 ?s = (fst (create_todo \<lparr>it_board_id = 1, it_title = ''Write spec'', it_description = None, it_due_date = None,
        it_priority = None, it_status = None, it_assigned_to = None, it_created_by = 1\<rparr> 1 ?s), snd (create_todo \<lparr>it_board_id = 1, it_title = ''Write spec'', it_description = None, it_due_date = None,
        it_priority = None, it_status = None, it_assigned_to = None, it_created_by = 1\<rparr> 1 ?s))"
    by simp
  show ?thesis unfolding Let_def
    by (rule conjI [OF h1 conjI [OF h2 reachable_todo_id_fresh [OF h1 h2]]])
qed

text \<open>C3: in every reachable store a board has at most one membership per user: the at-most-one-membership-per-(board, account) invariant.\<close>

theorem reachable_unique_membership:
  "reachable s \<Longrightarrow> length (filter (\<lambda>m. member_user_id m = u) (get_board_members s b)) \<le> 1"
proof -
  assume "reachable s"
  then have "unique_members (board_members s)"
    by (auto dest: reachable_store_inv simp: store_inv_def members_inv_def)
  define xs where "xs = values_of (board_members s)"
  let ?P = "\<lambda>m. member_board_id m = b \<and> member_user_id m = u"
  let ?f = "\<lambda>m. (member_board_id m, member_user_id m)"
  have "distinct (map ?f xs)"
    using \<open>unique_members (board_members s)\<close> by (simp add: xs_def unique_members_def)
  then have "distinct (map ?f (filter ?P xs))"
    by (rule distinct_map_filter)
  moreover have "map ?f (filter ?P ys) = replicate (length (filter ?P ys)) (b, u)" for ys
    by (induction ys) auto
  ultimately have "length (filter ?P xs) \<le> 1"
    by (metis distinct_replicate_iff)
  moreover have "filter (\<lambda>m. member_user_id m = u) (get_board_members s b) = filter ?P xs"
    by (simp add: get_board_members_def xs_def filter_filter conj_commute)
  ultimately show ?thesis by simp
qed

theorem reachable_unique_membership_witness:
  "let s = exec_op (Op_add_board_member \<lparr>im_board_id = 1, im_user_id = 5, im_role = None\<rparr>) init_storage
   in reachable s \<and> length (filter (\<lambda>m. member_user_id m = 5) (get_board_members s 1)) \<le> 1"
proof -
  let ?s = "exec_op (Op_add_board_member \<lparr>im_board_id = 1, im_user_id = 5, im_role = None\<rparr>) init_storage"
  have h: "reachable ?s" by (rule reachable.step [OF reachable.init])
  show ?thesis unfolding Let_def by (rule conjI [OF h reachable_unique_membership [OF h]])
qed

end
