(* ===== verification/Server.thy ===== *)
theory Server
  imports Routes Operations
begin

text \<open>
  The server as a whole: \<open>request\<close> has one constructor per route of
  \<open>registerRoutes\<close> (\<open>src/server/routes.ts\<close>), \<open>serve\<close> runs one request to
  its end, and \<open>req_op\<close> names the one store call (a \<open>storage_op\<close> of
  \<open>Operations\<close>) a request makes, if any.  Every handler but registration makes
  at most one store call and writes nothing after an \<open>await\<close>, so it runs as
  one step.  Registration awaits \<open>hashPassword\<close> between its duplicate check
  and its \<open>createUser\<close>, and Node serves other requests meanwhile: the
  interleaved server \<open>server_step\<close> keeps the registrations waiting for their
  hash in \<open>pending\<close>, and an event \<open>Resume k h\<close> delivers hash \<open>h\<close> to the
  \<open>k\<close>-th of them.  The environment \<open>env\<close> of a request holds what the program
  gets from outside: the clock, the hash, the password check.
\<close>

datatype request =
    Req_register json
  | Req_verify_phone json
  | Req_login json
  | Req_get_boards "string option"
  | Req_get_board string
  | Req_post_board json
  | Req_put_board string json
  | Req_delete_board string
  | Req_get_members string
  | Req_post_member string json
  | Req_delete_member string string
  | Req_patch_member string string json
  | Req_get_todos string
  | Req_post_todo string json
  | Req_put_todo string json
  | Req_delete_todo string

record env =
  env_now :: timestamp
  env_hash :: string
  env_cmp :: "string \<Rightarrow> string \<Rightarrow> bool"

fun serve :: "env \<Rightarrow> request \<Rightarrow> mem_storage \<Rightarrow> (response \<times> mem_storage) option" where
  "serve e (Req_register b) s = Some (register b (env_hash e) s)"
| "serve e (Req_verify_phone b) s = Some (verify_phone b s, s)"
| "serve e (Req_login b) s = Some (login (env_cmp e) b s, s)"
| "serve e (Req_get_boards q) s = Some (get_boards_route q s, s)"
| "serve e (Req_get_board p) s = Some (get_board_route p s, s)"
| "serve e (Req_post_board b) s = Some (post_board_route b (env_now e) s)"
| "serve e (Req_put_board p b) s = put_board_route p b s"
| "serve e (Req_delete_board p) s = Some (delete_board_route p s)"
| "serve e (Req_get_members p) s = Some (get_members_route p s, s)"
| "serve e (Req_post_member p b) s = Some (post_member_route p b s)"
| "serve e (Req_delete_member pb pu) s = Some (delete_member_route pb pu s)"
| "serve e (Req_patch_member pb pu b) s = Some (patch_member_route pb pu b s)"
| "serve e (Req_get_todos p) s = Some (get_todos_route p s, s)"
| "serve e (Req_post_todo p b) s = Some (post_todo_route p b (env_now e) s)"
| "serve e (Req_put_todo p b) s = put_todo_route p b (env_now e) s"
| "serve e (Req_delete_todo p) s = Some (delete_todo_route p s)"

text \<open>The store call of a request, as its handler makes it.\<close>

fun req_op :: "env \<Rightarrow> request \<Rightarrow> mem_storage \<Rightarrow> storage_op option" where
  "req_op e (Req_register b) s = (case register_check b s of
       Inl _ \<Rightarrow> None | Inr iu \<Rightarrow> Some (Op_create_user (iu\<lparr>iu_password := env_hash e\<rparr>)))"
| "req_op e (Req_post_board b) s = map_option (\<lambda>ib. Op_create_board ib (env_now e)) (parse_insert_board b)"
| "req_op e (Req_put_board p b) s = do { i \<leftarrow> parse_int p; u \<leftarrow> board_updates b; Some (Op_update_board i u) }"
| "req_op e (Req_delete_board p) s = map_option Op_delete_board (parse_int p)"
| "req_op e (Req_post_member p b) s = do { i \<leftarrow> parse_int p;
       im \<leftarrow> parse_insert_board_member (json_with b ''boardId'' (JNum i)); Some (Op_add_board_member im) }"
| "req_op e (Req_delete_member pb pu) s = do { bi \<leftarrow> parse_int pb; ui \<leftarrow> parse_int pu;
       Some (Op_remove_board_member bi ui) }"
| "req_op e (Req_patch_member pb pu b) s = do { bi \<leftarrow> parse_int pb; ui \<leftarrow> parse_int pu;
       case json_get b ''role'' of
         Some (JStr r) \<Rightarrow> if valid_role r then Some (Op_update_board_member_role bi ui r) else None
       | _ \<Rightarrow> None }"
| "req_op e (Req_post_todo p b) s = do { i \<leftarrow> parse_int p;
       it \<leftarrow> parse_insert_todo (json_with b ''boardId'' (JNum i)); Some (Op_create_todo it (env_now e)) }"
| "req_op e (Req_put_todo p b) s = do { i \<leftarrow> parse_int p; u \<leftarrow> todo_updates b;
       Some (Op_update_todo i u (env_now e)) }"
| "req_op e (Req_delete_todo p) s = map_option Op_delete_todo (parse_int p)"
| "req_op e _ s = None"

subsection \<open>The interleaved server\<close>

record server =
  store :: mem_storage
  pending :: "insert_user list"

datatype event = Arrive env request | Resume nat string

definition remove_nth :: "nat \<Rightarrow> 'a list \<Rightarrow> 'a list" where
  "remove_nth k xs = take k xs @ drop (Suc k) xs"

text \<open>One event: a request arrives (a registration runs up to its \<open>await\<close>,
  every other request to its end), or a waiting registration gets its hash
  and finishes.  The response is \<open>None\<close> while a registration waits.\<close>

fun server_step :: "event \<Rightarrow> server \<Rightarrow> (response option \<times> server) option" where
  "server_step (Arrive e (Req_register b)) st =
     (case register_check b (store st) of
        Inl r \<Rightarrow> Some (Some r, st)
      | Inr iu \<Rightarrow> Some (None, st\<lparr>pending := pending st @ [iu]\<rparr>))"
| "server_step (Arrive e rq) st =
     map_option (\<lambda>(r, s'). (Some r, st\<lparr>store := s'\<rparr>)) (serve e rq (store st))"
| "server_step (Resume k h) st =
     (if k < length (pending st)
      then (let (r, s') = register_commit (pending st ! k) h (store st)
            in Some (Some r, \<lparr>store = s', pending = remove_nth k (pending st)\<rparr>))
      else None)"

fun server_run :: "event list \<Rightarrow> server \<Rightarrow> (response option list \<times> server) option" where
  "server_run [] st = Some ([], st)"
| "server_run (ev # evs) st = (case server_step ev st of
       None \<Rightarrow> None
     | Some (r, st') \<Rightarrow> map_option (\<lambda>(rs, st''). (r # rs, st'')) (server_run evs st'))"

definition init_server :: server where
  "init_server = \<lparr>store = init_storage, pending = []\<rparr>"

inductive server_reach :: "server \<Rightarrow> bool" where
  init: "server_reach init_server"
| step: "server_reach st \<Longrightarrow> server_step ev st = Some (r, st') \<Longrightarrow> server_reach st'"

text \<open>\<open>securityHeaders\<close> (\<open>src/server/middleware/security-headers.ts\<close>) runs
  before every route and sets these headers; the content security policy only
  when \<open>NODE_ENV\<close> is \<open>production\<close>.\<close>

definition security_headers :: "bool \<Rightarrow> (string \<times> string) list" where
  "security_headers production =
     [(''X-XSS-Protection'', ''1; mode=block''), (''X-Content-Type-Options'', ''nosniff''),
      (''Referrer-Policy'', ''strict-origin-when-cross-origin''), (''X-Frame-Options'', ''SAMEORIGIN'')] @
     (if production then [(''Content-Security-Policy'',
        ''default-src 'self'; script-src 'self' 'unsafe-inline'; style-src 'self' 'unsafe-inline'; img-src 'self' data:; font-src 'self' data:; connect-src 'self'' @ [CHR 0x27])]
      else [])"

text \<open>The schema declares \<open>phoneNumber\<close> unique.\<close>

definition phones_unique :: "mem_storage \<Rightarrow> bool" where
  "phones_unique s \<longleftrightarrow> distinct (map phone_number (values_of (users s)))"

subsection \<open>The server refines the store\<close>

lemma put_board_route_state:
  "put_board_route p b s = Some (r, s') \<Longrightarrow>
   s' = (case parse_int p \<bind> (\<lambda>i. board_updates b \<bind> (\<lambda>u. Some (Op_update_board i u))) of
           None \<Rightarrow> s | Some op \<Rightarrow> exec_op op s)"
  by (cases "parse_int p"; cases "board_updates b";
      cases "update_board (the (parse_int p)) (the (board_updates b)) s";
      auto simp: put_board_route_def split: option.splits)

lemma put_todo_route_state:
  "put_todo_route p b now s = Some (r, s') \<Longrightarrow>
   s' = (case parse_int p \<bind> (\<lambda>i. todo_updates b \<bind> (\<lambda>u. Some (Op_update_todo i u now))) of
           None \<Rightarrow> s | Some op \<Rightarrow> exec_op op s)"
  by (cases "parse_int p"; cases "todo_updates b";
      cases "update_todo (the (parse_int p)) (the (todo_updates b)) now s";
      auto simp: put_todo_route_def split: option.splits)

lemma serve_req_op:
  assumes "serve e rq s = Some (r, s')"
  shows "s' = (case req_op e rq s of None \<Rightarrow> s | Some op \<Rightarrow> exec_op op s)"
proof (cases rq)
  case (Req_register b)
  then show ?thesis using assms
    by (auto simp: register_def register_commit_def split: sum.splits prod.splits)
next
  case (Req_put_board p b)
  then show ?thesis using assms put_board_route_state by simp
next
  case (Req_put_todo p b)
  then show ?thesis using assms put_todo_route_state by simp
qed (use assms in \<open>auto simp: delete_board_route_def post_board_route_def
      post_member_route_def delete_member_route_def patch_member_route_def post_todo_route_def
      delete_todo_route_def split: option.splits prod.splits json.splits if_splits\<close>)

lemma reachable_exec_run: "reachable s \<Longrightarrow> reachable (exec_run ops s)"
  by (induction ops arbitrary: s) (auto intro: reachable.step)

lemma exec_run_refl: "\<exists>ops. s = exec_run ops s"
  by (rule exI [of _ "[]"]) simp

lemma serve_exec_run: "serve e rq s = Some (r, s') \<Longrightarrow> \<exists>ops. s' = exec_run ops s"
  by (drule serve_req_op) (auto intro: exI [of _ "[]"] exI [of _ "[_]"] split: option.splits)

lemma server_step_Arrive:
  "(\<forall>b. rq \<noteq> Req_register b) \<Longrightarrow>
   server_step (Arrive e rq) st = map_option (\<lambda>(r, s'). (Some r, st\<lparr>store := s'\<rparr>)) (serve e rq (store st))"
  by (cases rq) simp_all

lemma server_step_store:
  "server_step ev st = Some (r, st') \<Longrightarrow> \<exists>ops. store st' = exec_run ops (store st)"
proof (cases ev)
  case (Arrive e rq)
  assume step: "server_step ev st = Some (r, st')"
  show ?thesis
  proof (cases "\<exists>b. rq = Req_register b")
    case True
    with step Arrive show ?thesis by (auto simp: exec_run_refl split: sum.splits)
  next
    case False
    with step Arrive obtain r' s' where "serve e rq (store st) = Some (r', s')" "st' = st\<lparr>store := s'\<rparr>"
      by (auto simp: server_step_Arrive)
    then show ?thesis by (auto dest: serve_exec_run)
  qed
next
  case (Resume k h)
  assume "server_step ev st = Some (r, st')"
  with Resume show ?thesis
    by (auto simp: register_commit_def Let_def
        intro!: exI [of _ "[Op_create_user ((pending st ! k)\<lparr>iu_password := h\<rparr>)]"]
        split: if_splits prod.splits)
qed


lemma exec_op_users_frame: "(\<forall>iu. op \<noteq> Op_create_user iu) \<Longrightarrow> users (exec_op op s) = users s"
  by (cases op) (auto simp: create_board_def update_board_def delete_board_def js_map_delete_def
      add_board_member_frame remove_board_member_def update_board_member_role_def create_todo_def
      update_todo_def delete_todo_def Let_def split: option.splits prod.splits)

lemma req_op_create_user:
  "req_op e rq s = Some (Op_create_user iu) \<Longrightarrow> get_user_by_phone_number s (iu_phone_number iu) = None"
  by (cases rq) (auto simp: register_check_def split: sum.splits option.splits if_splits json.splits
      bind_split_asm)

lemma phones_unique_create_user:
  "get_user_by_phone_number s (iu_phone_number iu) = None \<Longrightarrow> phones_unique s \<Longrightarrow>
   phones_unique (snd (create_user iu s))"
proof -
  assume "get_user_by_phone_number s (iu_phone_number iu) = None" "phones_unique s"
  then have "distinct (map phone_number (values_of
      (AList.update (current_user_id s) (new_user (current_user_id s) iu) (users s))))"
    by (intro distinct_map_values_update_new)
       (auto simp: phones_unique_def get_user_by_phone_number_def find_None_iff)
  then show ?thesis by (simp add: phones_unique_def create_user_state)
qed

lemma security_headers_frame:
  "map_of (security_headers p) ''X-Frame-Options'' = Some ''SAMEORIGIN'' \<and>
   map_of (security_headers p) ''X-Content-Type-Options'' = Some ''nosniff'' \<and>
   (map_of (security_headers p) ''Content-Security-Policy'' \<noteq> None \<longleftrightarrow> p)"
  by (simp add: security_headers_def)

subsection \<open>Properties of the server\<close>

text \<open>C34: two registrations with the same phone number that both pass the duplicate check before either has its password hash (the \<open>await hashPassword\<close> lets the second request in) both answer 201 and leave two users with that phone number: the check and the write of \<open>/api/auth/register\<close> are not atomic.\<close>

lemma register_race:
  "keys_below (current_user_id s) (users s) \<Longrightarrow>
   register_check b1 s = Inr iu1 \<Longrightarrow> register_check b2 s = Inr iu2 \<Longrightarrow>
   iu_phone_number iu2 = iu_phone_number iu1 \<Longrightarrow>
   map_option (\<lambda>(rs, st'). (map (map_option fst) rs, phones_unique (store st')))
     (server_run [Arrive e1 (Req_register b1), Arrive e2 (Req_register b2), Resume 0 h1, Resume 0 h2]
        \<lparr>store = s, pending = []\<rparr>) = Some ([None, None, Some 201, Some 201], False)"
  by (simp add: register_commit_def create_user_def remove_nth_def phones_unique_def Let_def
      update_keys_below_append keys_below_snoc)

theorem register_race_witness:
  "let b1 = JObj [(''username'', JStr ''alice''), (''password'', JStr ''pw1''), (''phoneNumber'', JStr ''+1555'')];
       b2 = JObj [(''username'', JStr ''mallory''), (''password'', JStr ''pw2''), (''phoneNumber'', JStr ''+1555'')];
       iu1 = \<lparr>iu_username = ''alice'', iu_password = ''pw1'', iu_phone_number = ''+1555'',
              iu_display_name = None, iu_photo_url = None\<rparr>;
       iu2 = \<lparr>iu_username = ''mallory'', iu_password = ''pw2'', iu_phone_number = ''+1555'',
              iu_display_name = None, iu_photo_url = None\<rparr>;
       e = \<lparr>env_now = 0, env_hash = '''', env_cmp = (\<lambda>_ _. False)\<rparr>
   in keys_below (current_user_id init_storage) (users init_storage) \<and>
      register_check b1 init_storage = Inr iu1 \<and> register_check b2 init_storage = Inr iu2 \<and>
      iu_phone_number iu2 = iu_phone_number iu1 \<and>
      map_option (\<lambda>(rs, st'). (map (map_option fst) rs, phones_unique (store st')))
        (server_run [Arrive e (Req_register b1), Arrive e (Req_register b2), Resume 0 ''h1'', Resume 0 ''h2'']
           \<lparr>store = init_storage, pending = []\<rparr>) = Some ([None, None, Some 201, Some 201], False)"
proof -
  let ?b1 = "JObj [(''username'', JStr ''alice''), (''password'', JStr ''pw1''), (''phoneNumber'', JStr ''+1555'')]"
  let ?b2 = "JObj [(''username'', JStr ''mallory''), (''password'', JStr ''pw2''), (''phoneNumber'', JStr ''+1555'')]"
  let ?iu1 = "\<lparr>iu_username = ''alice'', iu_password = ''pw1'', iu_phone_number = ''+1555'',
              iu_display_name = None, iu_photo_url = None\<rparr>"
  let ?iu2 = "\<lparr>iu_username = ''mallory'', iu_password = ''pw2'', iu_phone_number = ''+1555'',
              iu_display_name = None, iu_photo_url = None\<rparr>"
  have h0: "keys_below (current_user_id init_storage) (users init_storage)"
    by (simp add: init_storage_def)
  have h1: "register_check ?b1 init_storage = Inr ?iu1"
    by (simp add: register_check_def parse_insert_user_def get_user_by_phone_number_def init_storage_def)
  have h2: "register_check ?b2 init_storage = Inr ?iu2"
    by (simp add: register_check_def parse_insert_user_def get_user_by_phone_number_def init_storage_def)
  have h3: "iu_phone_number ?iu2 = iu_phone_number ?iu1" by simp
  show ?thesis unfolding Let_def
    by (intro conjI h0 h1 h2 h3 register_race [OF h0 h1 h2 h3])
qed

text \<open>C35: served one request at a time, the server keeps phone numbers unique: no request, registration included, adds a user whose phone number a stored user has.\<close>

lemma serve_phones_unique:
  "phones_unique s \<Longrightarrow> serve e rq s = Some (r, s') \<Longrightarrow> phones_unique s'"
proof (drule serve_req_op, cases "req_op e rq s")
  case (Some op)
  assume u: "phones_unique s" and s': "s' = (case req_op e rq s of None \<Rightarrow> s | Some op \<Rightarrow> exec_op op s)"
  show ?thesis
  proof (cases "\<exists>iu. op = Op_create_user iu")
    case True
    then obtain iu where "op = Op_create_user iu" by blast
    with Some s' u show ?thesis by (simp add: phones_unique_create_user req_op_create_user)
  next
    case False
    with Some s' u show ?thesis by (simp add: phones_unique_def exec_op_users_frame)
  qed
qed simp

theorem serve_phones_unique_witness:
  "let e = \<lparr>env_now = 0, env_hash = ''h'', env_cmp = (\<lambda>_ _. False)\<rparr>;
       rq = Req_register (JObj [(''username'', JStr ''alice''), (''password'', JStr ''pw''),
              (''phoneNumber'', JStr ''+1555'')]);
       s = snd (create_user \<lparr>iu_username = ''bob'', iu_password = ''x'', iu_phone_number = ''+1666'',
              iu_display_name = None, iu_photo_url = None\<rparr> init_storage)
   in phones_unique s \<and>
      serve e rq s = Some (fst (the (serve e rq s)), snd (the (serve e rq s))) \<and>
      phones_unique (snd (the (serve e rq s)))"
proof -
  let ?e = "\<lparr>env_now = 0, env_hash = ''h'', env_cmp = (\<lambda>_ _. False)\<rparr>"
  let ?rq = "Req_register (JObj [(''username'', JStr ''alice''), (''password'', JStr ''pw''),
              (''phoneNumber'', JStr ''+1555'')])"
  let ?s = "snd (create_user \<lparr>iu_username = ''bob'', iu_password = ''x'', iu_phone_number = ''+1666'',
              iu_display_name = None, iu_photo_url = None\<rparr> init_storage)"
  have h1: "phones_unique ?s"
    by (simp add: phones_unique_def create_user_def init_storage_def Let_def)
  have h2: "serve ?e ?rq ?s = Some (fst (the (serve ?e ?rq ?s)), snd (the (serve ?e ?rq ?s)))"
    by (simp add: register_def register_check_def parse_insert_user_def get_user_by_phone_number_def
        create_user_def init_storage_def register_commit_def Let_def)
  show ?thesis unfolding Let_def by (intro conjI h1 h2 serve_phones_unique [OF h1 h2])
qed

text \<open>Every store state of the interleaved server, under any order of requests and hash completions, is a reachable state of the store (each request makes at most one store call), so the store invariant (distinct ids below the counters, one membership per pair) holds in it.\<close>

lemma server_reach_store: "server_reach st \<Longrightarrow> reachable (store st) \<and> store_inv (store st)"
proof (induction rule: server_reach.induct)
  case init
  then show ?case by (simp add: init_server_def reachable.init store_inv_init)
next
  case (step st ev r st')
  then obtain ops where "store st' = exec_run ops (store st)" by (blast dest: server_step_store)
  with step show ?case by (simp add: reachable_exec_run reachable_store_inv)
qed

theorem server_reach_store_witness:
  "let e = \<lparr>env_now = 0, env_hash = ''h'', env_cmp = (\<lambda>_ _. False)\<rparr>;
       ev = Arrive e (Req_post_board (JObj [(''title'', JStr ''Launch''), (''createdBy'', JNum 1)]));
       st = snd (the (server_step ev init_server))
   in server_reach st \<and> reachable (store st) \<and> store_inv (store st)"
proof -
  let ?e = "\<lparr>env_now = 0, env_hash = ''h'', env_cmp = (\<lambda>_ _. False)\<rparr>"
  let ?ev = "Arrive ?e (Req_post_board (JObj [(''title'', JStr ''Launch''), (''createdBy'', JNum 1)]))"
  have step: "server_step ?ev init_server = Some (fst (the (server_step ?ev init_server)),
                 snd (the (server_step ?ev init_server)))"
    by (simp add: post_board_route_def parse_insert_board_def create_board_def add_board_member_def
        init_server_def init_storage_def Let_def)
  have h: "server_reach (snd (the (server_step ?ev init_server)))"
    by (rule server_reach.step [OF server_reach.init step])
  show ?thesis unfolding Let_def by (intro conjI h server_reach_store [OF h, THEN conjunct1]
      server_reach_store [OF h, THEN conjunct2])
qed

subsection \<open>Every waiting registration is answered\<close>

lemma server_step_Resume_first:
  "pending st = iu # rest \<Longrightarrow>
   server_step (Resume 0 h) st =
     Some (Some (fst (register_commit iu h (store st))), \<lparr>store = snd (register_commit iu h (store st)), pending = rest\<rparr>)"
  by (simp add: remove_nth_def split: prod.splits)

lemma register_commit_created: "\<exists>u. fst (register_commit iu h s) = (201, Body_user u)"
  by (simp add: register_commit_def split: prod.splits)

text \<open>Every registration waiting for its password hash is answered: from
  any server state, delivering the hashes to the waiting registrations in the
  order they arrived runs to the end, answers each of them with 201 and leaves
  no registration waiting.\<close>

theorem pending_registrations_complete:
  "length hs = length (pending st) \<Longrightarrow>
   \<exists>rs st'. server_run (map (Resume 0) hs) st = Some (rs, st') \<and> pending st' = [] \<and>
     length rs = length hs \<and> list_all (\<lambda>r. \<exists>u. r = Some (201, Body_user u)) rs"
proof (induction hs arbitrary: st)
  case Nil
  then show ?case by simp
next
  case (Cons h hs)
  then obtain iu rest where p: "pending st = iu # rest" by (cases "pending st") auto
  let ?st1 = "\<lparr>store = snd (register_commit iu h (store st)), pending = rest\<rparr>"
  from Cons.prems p have "length hs = length (pending ?st1)" by simp
  from Cons.IH [OF this] obtain rs st' where
    run: "server_run (map (Resume 0) hs) ?st1 = Some (rs, st')" and rest: "pending st' = []"
      "length rs = length hs" "list_all (\<lambda>r. \<exists>u. r = Some (201, Body_user u)) rs" by blast
  from register_commit_created [of iu h "store st"] obtain u
    where "fst (register_commit iu h (store st)) = (201, Body_user u)" by blast
  with run have "server_run (map (Resume 0) (h # hs)) st = Some (Some (201, Body_user u) # rs, st')"
    by (simp add: server_step_Resume_first [OF p] del: server_step.simps)
  with rest show ?case by auto
qed

theorem pending_registrations_complete_witness:
  "let iu1 = \<lparr>iu_username = ''ann'', iu_password = ''pw1'', iu_phone_number = ''+1555'', iu_display_name = None, iu_photo_url = None\<rparr>;
       iu2 = \<lparr>iu_username = ''bob'', iu_password = ''pw2'', iu_phone_number = ''+1666'', iu_display_name = None, iu_photo_url = None\<rparr>;
       st = \<lparr>store = init_storage, pending = [iu1, iu2]\<rparr>
   in length [''h1'', ''h2''] = length (pending st) \<and>
      (\<exists>rs st'. server_run (map (Resume 0) [''h1'', ''h2'']) st = Some (rs, st') \<and> pending st' = [] \<and>
         length rs = length [''h1'', ''h2''] \<and> list_all (\<lambda>r. \<exists>u. r = Some (201, Body_user u)) rs)"
  unfolding Let_def
proof (rule conjI)
  let ?st = "\<lparr>store = init_storage, pending =
    [\<lparr>iu_username = ''ann'', iu_password = ''pw1'', iu_phone_number = ''+1555'', iu_display_name = None, iu_photo_url = None\<rparr>,
     \<lparr>iu_username = ''bob'', iu_password = ''pw2'', iu_phone_number = ''+1666'', iu_display_name = None, iu_photo_url = None\<rparr>]\<rparr>"
  show h: "length [''h1'', ''h2''] = length (pending ?st)" by simp
  show "\<exists>rs st'. server_run (map (Resume 0) [''h1'', ''h2'']) ?st = Some (rs, st') \<and> pending st' = [] \<and>
         length rs = length [''h1'', ''h2''] \<and> list_all (\<lambda>r. \<exists>u. r = Some (201, Body_user u)) rs"
    by (rule pending_registrations_complete [OF h])
qed

end
