(* ===== verification/Client.thy ===== *)
theory Client
  imports Server "HOL-Library.Sublist" "HOL-Library.Multiset" "HOL-Library.Product_Lexorder"
begin

text \<open>
  The logic of the React client that decides what it sends and shows: the
  request helper \<open>apiRequest\<close> (\<open>src/client/src/lib/queryClient.ts\<close>), the
  sign-in flow of \<open>src/client/src/lib/auth.ts\<close> run against the server model,
  the board page (\<open>BoardDetail\<close>, \<open>src/unnamed/part_006\<close>: title and
  description saves, todo filter and sort), the todo item
  (\<open>TodoItem\<close>, \<open>src/unnamed/part_004\<close>: status toggle, overdue test, labels,
  initials) and the auth page (\<open>Auth\<close>, \<open>src/unnamed/part_006\<close>: phone input,
  the six OTP boxes, the resend timer and its display).  Each event handler is
  a function from the component state (or the value it reads) to the new state
  or the request it sends; rendering, toasts and focus moves are not modelled.
  Case conversion and white space are those of ASCII; timestamps are
  milliseconds, as \<open>new Date(iso).getTime()\<close> reads them back.
\<close>

subsection \<open>String helpers\<close>

definition is_digit :: "char \<Rightarrow> bool" where
  "is_digit c \<longleftrightarrow> 48 \<le> (of_char c :: nat) \<and> (of_char c :: nat) \<le> 57"

text \<open>\<open>s.replace(/\D/g, '')\<close>\<close>

definition digits_only :: "string \<Rightarrow> string" where
  "digits_only s = filter is_digit s"

definition js_lower :: "string \<Rightarrow> string" where
  "js_lower s = map (\<lambda>c. if 65 \<le> (of_char c :: nat) \<and> (of_char c :: nat) \<le> 90
                         then char_of (of_char c + (32 :: nat)) else c) s"

definition js_upper :: "string \<Rightarrow> string" where
  "js_upper s = map (\<lambda>c. if 97 \<le> (of_char c :: nat) \<and> (of_char c :: nat) \<le> 122
                         then char_of (of_char c - (32 :: nat)) else c) s"

definition js_includes :: "string \<Rightarrow> string \<Rightarrow> bool" where
  "js_includes s q \<longleftrightarrow> sublist q s"

definition js_trim :: "string \<Rightarrow> string" where
  "js_trim s = rev (dropWhile js_whitespace (rev (dropWhile js_whitespace s)))"

text \<open>\<open>s.split(' ')\<close>: every space separates, empty parts included.\<close>

fun split_space :: "string \<Rightarrow> string list" where
  "split_space [] = [[]]"
| "split_space (c # cs) = (if c = CHR '' '' then [] # split_space cs
     else (case split_space cs of p # ps \<Rightarrow> (c # p) # ps | [] \<Rightarrow> [[c]]))"

text \<open>\<open>n.toString().padStart(2, '0')\<close>\<close>

definition pad2 :: "string \<Rightarrow> string" where
  "pad2 s = replicate (2 - length s) CHR ''0'' @ s"

text \<open>The remainder \<open>%\<close> of JavaScript takes the sign of the dividend.\<close>

definition js_rem :: "int \<Rightarrow> int \<Rightarrow> int" where
  "js_rem a b = sgn a * (\<bar>a\<bar> mod \<bar>b\<bar>)"

subsection \<open>\<open>apiRequest\<close>\<close>

text \<open>A request other than \<open>GET\<close> carries the CSRF token from the cookie, when
  there is a non-empty one (\<open>csrfToken &&\<close>), in its body too:
  \<open>{ ...data, _csrf: csrfToken }\<close>.\<close>

definition with_csrf :: "string option \<Rightarrow> string \<Rightarrow> json \<Rightarrow> json" where
  "with_csrf tok method data = (case tok of
       Some t \<Rightarrow> if method \<noteq> ''GET'' \<and> t \<noteq> [] then json_with data ''_csrf'' (JStr t) else data
     | None \<Rightarrow> data)"

text \<open>\<open>throwIfResNotOk\<close>: \<open>res.ok\<close> is a status in 200..299; any other throws.\<close>

definition res_ok :: "nat \<Rightarrow> bool" where
  "res_ok st \<longleftrightarrow> 200 \<le> st \<and> st \<le> 299"

subsection \<open>Sign-in (\<open>auth.ts\<close>)\<close>

text \<open>\<open>sendOTP\<close>: a number without \<open>+\<close> gets the Indian country code.\<close>

definition format_phone :: "string \<Rightarrow> string" where
  "format_phone p = (if take 1 p = ''+'' then p else ''+91'' @ p)"

text \<open>\<open>`user_${phoneNumber.replace(/\D/g, '').slice(-10)}`\<close>\<close>

definition username_of_phone :: "string \<Rightarrow> string" where
  "username_of_phone p = ''user_'' @ (let ds = digits_only p in drop (length ds - 10) ds)"

datatype auth_result = Auth_failed | Auth_user resp_body

text \<open>The backend part of \<open>verifyOTP\<close>, after Firebase confirmed the code:
  \<open>phone\<close>, \<open>dn\<close>, \<open>photo\<close> are the Firebase user's phone number, display
  name and photo URL, \<open>pw\<close> the random password and \<open>h\<close> its hash on the
  server.  Every \<open>apiRequest\<close> that is not \<open>ok\<close> throws into the \<open>catch\<close>
  that answers \<open>{ success: false }\<close>.\<close>

definition verify_otp_backend ::
  "(string \<Rightarrow> string \<Rightarrow> bool) \<Rightarrow> string option \<Rightarrow> string option \<Rightarrow> string option \<Rightarrow>
   string option \<Rightarrow> string \<Rightarrow> string \<Rightarrow> mem_storage \<Rightarrow> auth_result \<times> mem_storage" where
  "verify_otp_backend cmp tok phone dn photo pw h s =
     (case phone of
        None \<Rightarrow> (Auth_failed, s)
      | Some p \<Rightarrow>
          if p = [] then (Auth_failed, s)
          else (let (st, body) = login cmp (with_csrf tok ''POST'' (JObj [(''phoneNumber'', JStr p)])) s
                in if \<not> res_ok st then (Auth_failed, s)
                else if st = 404 then
                  (let un = username_of_phone p;
                       rb = with_csrf tok ''POST'' (JObj [(''username'', JStr un), (''phoneNumber'', JStr p),
                              (''password'', JStr pw), (''displayName'', JStr (js_or_str dn un)),
                              (''photoURL'', case photo of None \<Rightarrow> JNull | Some u \<Rightarrow> JStr u)]);
                       ((st2, b2), s2) = register rb h s
                   in if res_ok st2 then (Auth_user b2, s2) else (Auth_failed, s2))
                else (Auth_user body, s)))"

datatype otp_result = Otp_failed | Otp_sent bool

text \<open>\<open>sendOTP\<close>: check the formatted number with
  \<open>POST /api/auth/verify-phone\<close> (\<open>apiRequest\<close> throws on a status that is
  not ok), then Firebase's \<open>signInWithPhoneNumber\<close> (its outcome \<open>fb_ok\<close>,
  false also when \<open>auth\<close> is not initialised); any throw answers
  \<open>{ success: false }\<close>, otherwise \<open>{ success: true, exists }\<close>.  The
  check reads the store and does not change it.\<close>

definition send_otp_backend :: "string option \<Rightarrow> bool \<Rightarrow> string \<Rightarrow> mem_storage \<Rightarrow> otp_result" where
  "send_otp_backend tok fb_ok phone s =
     (let (st, body) = verify_phone (with_csrf tok ''POST'' (JObj [(''phoneNumber'', JStr (format_phone phone))])) s
      in if \<not> res_ok st \<or> \<not> fb_ok then Otp_failed
         else (case body of Body_exists e \<Rightarrow> Otp_sent e | _ \<Rightarrow> Otp_failed))"

subsection \<open>Board page (\<open>BoardDetail\<close>)\<close>

text \<open>\<open>handleSaveTitle\<close>: an all-blank title sends nothing; otherwise
  \<open>PUT /api/boards/${boardId}\<close> with \<open>{ title }\<close>.  The result is the
  response, if a request was sent, and the server's new state.\<close>

definition save_title ::
  "ident \<Rightarrow> string \<Rightarrow> string option \<Rightarrow> mem_storage \<Rightarrow> (response option \<times> mem_storage) option" where
  "save_title bid t tok s =
     (if js_trim t = [] then Some (None, s)
      else map_option (\<lambda>(r, s'). (Some r, s'))
             (put_board_route (js_int_string bid) (with_csrf tok ''PUT'' (JObj [(''title'', JStr t)])) s))"

definition save_description ::
  "ident \<Rightarrow> string \<Rightarrow> string option \<Rightarrow> mem_storage \<Rightarrow> (response option \<times> mem_storage) option" where
  "save_description bid d tok s =
     map_option (\<lambda>(r, s'). (Some r, s'))
       (put_board_route (js_int_string bid) (with_csrf tok ''PUT'' (JObj [(''description'', JStr d)])) s)"

text \<open>The filter of the todo list: status, assignee (\<open>me\<close> is the signed-in
  user \<open>uid\<close>, \<open>None\<close> when there is none), then the search text in the title
  or a non-empty description, case-insensitively.\<close>

definition todo_visible :: "string \<Rightarrow> string \<Rightarrow> string \<Rightarrow> ident option \<Rightarrow> todo_with_assignee \<Rightarrow> bool" where
  "todo_visible status_filter assignee_filter query uid x =
     (let t = twa_todo x in
      if status_filter \<noteq> ''all'' \<and> todo_status t \<noteq> status_filter then False
      else if assignee_filter = ''me'' \<and>
              (\<not> js_truthy_num (todo_assigned_to t) \<or> todo_assigned_to t \<noteq> uid) then False
      else if assignee_filter = ''unassigned'' \<and> js_truthy_num (todo_assigned_to t) then False
      else if query \<noteq> [] then
        (let q = js_lower query in
         js_includes (js_lower (todo_title t)) q \<or>
         (case todo_description t of None \<Rightarrow> False
          | Some d \<Rightarrow> d \<noteq> [] \<and> js_includes (js_lower d) q))
      else True)"

text \<open>\<open>Array.prototype.sort\<close> with a comparator is stable: an element is
  placed after every element it does not compare below.\<close>

fun insort_cmp :: "('a \<Rightarrow> 'a \<Rightarrow> int) \<Rightarrow> 'a \<Rightarrow> 'a list \<Rightarrow> 'a list" where
  "insort_cmp c x [] = [x]"
| "insort_cmp c x (y # ys) = (if c x y < 0 then x # y # ys else y # insort_cmp c x ys)"

definition js_sort :: "('a \<Rightarrow> 'a \<Rightarrow> int) \<Rightarrow> 'a list \<Rightarrow> 'a list" where
  "js_sort c xs = fold (insort_cmp c) xs []"

text \<open>The comparator of each sort option; \<open>localeCompare\<close> is the parameter
  \<open>collate\<close>, as the collation depends on the browser's locale.\<close>

definition todo_cmp ::
  "string \<Rightarrow> (string \<Rightarrow> string \<Rightarrow> int) \<Rightarrow> todo_with_assignee \<Rightarrow> todo_with_assignee \<Rightarrow> int" where
  "todo_cmp opt collate a b =
     (let ta = twa_todo a; tb = twa_todo b in
      if opt = ''due-date'' then
        (case (todo_due_date ta, todo_due_date tb) of
           (None, None) \<Rightarrow> 0
         | (None, Some _) \<Rightarrow> 1
         | (Some _, None) \<Rightarrow> -1
         | (Some da, Some db) \<Rightarrow> int da - int db)
      else if opt = ''name-asc'' then collate (todo_title ta) (todo_title tb)
      else if opt = ''name-desc'' then collate (todo_title tb) (todo_title ta)
      else int (todo_updated_at tb) - int (todo_updated_at ta))"

definition board_todo_list ::
  "string \<Rightarrow> string \<Rightarrow> string \<Rightarrow> ident option \<Rightarrow> string \<Rightarrow> (string \<Rightarrow> string \<Rightarrow> int) \<Rightarrow>
   todo_with_assignee list \<Rightarrow> todo_with_assignee list" where
  "board_todo_list sf af q uid opt collate ts =
     js_sort (todo_cmp opt collate) (filter (todo_visible sf af q uid) ts)"

subsection \<open>Todo item (\<open>TodoItem\<close>)\<close>

definition toggle_status :: "string \<Rightarrow> string" where
  "toggle_status st = (if st = ''completed'' then ''todo'' else ''completed'')"

text \<open>\<open>toggleStatus\<close>: \<open>PUT /api/todos/${todo.id}\<close> with the new status.\<close>

definition toggle_request :: "string option \<Rightarrow> todo \<Rightarrow> string \<times> json" where
  "toggle_request tok t = (js_int_string (todo_id t),
     with_csrf tok ''PUT'' (JObj [(''status'', JStr (toggle_status (todo_status t)))]))"

definition is_overdue :: "timestamp \<Rightarrow> todo \<Rightarrow> bool" where
  "is_overdue now t \<longleftrightarrow>
     (case todo_due_date t of None \<Rightarrow> False
      | Some d \<Rightarrow> todo_status t \<noteq> ''completed'' \<and> d < now)"

definition status_text :: "string \<Rightarrow> string" where
  "status_text st = (if st = ''in-progress'' then ''In Progress''
     else if st = ''completed'' then ''Completed'' else ''To Do'')"

text \<open>\<open>getInitials\<close>: \<open>part[0]\<close> of an empty part is \<open>undefined\<close>, which
  \<open>join\<close> writes as nothing.\<close>

definition initials :: "string \<Rightarrow> string" where
  "initials name = take 2 (js_upper (concat (map (take 1) (split_space name))))"

subsection \<open>Auth page (\<open>Auth\<close>)\<close>

text \<open>\<open>handlePhoneChange\<close>: digits only, at most ten.\<close>

definition phone_input :: "string \<Rightarrow> string" where
  "phone_input v = take 10 (digits_only v)"

text \<open>\<open>handleOTPChange\<close>: a box receiving several digits (a paste) spreads
  them over the boxes from this one on; otherwise the box takes the value.\<close>

fun put_digits :: "nat \<Rightarrow> string list \<Rightarrow> string list \<Rightarrow> string list" where
  "put_digits k [] otp = otp"
| "put_digits k (d # ds) otp = put_digits (Suc k) ds (if k < 6 then otp[k := d] else otp)"

definition otp_change :: "string \<Rightarrow> nat \<Rightarrow> string list \<Rightarrow> string list" where
  "otp_change input index otp =
     (let value = digits_only input in
      if length value > 1 then put_digits index (take (6 - index) (map (\<lambda>c. [c]) value)) otp
      else otp[index := value])"

text \<open>\<open>handleKeyDown\<close>: Backspace on an empty box clears the previous one.\<close>

definition otp_key_down :: "string \<Rightarrow> nat \<Rightarrow> string list \<Rightarrow> string list" where
  "otp_key_down key index otp =
     (if key = ''Backspace'' \<and> otp ! index = [] \<and> index > 0 then otp[index - 1 := []] else otp)"

text \<open>\<open>handleVerifyOTP\<close> sends the code only when the joined boxes have six
  characters.\<close>

definition otp_complete :: "string list \<Rightarrow> bool" where
  "otp_complete otp \<longleftrightarrow> length (concat otp) = 6"

text \<open>The countdown effect: while the code is sent and the timer positive, one
  tick each second; resending is allowed at zero.\<close>

definition timer_tick :: "bool \<Rightarrow> int \<Rightarrow> int" where
  "timer_tick sent t = (if sent \<and> t > 0 then t - 1 else t)"

definition can_resend :: "int \<Rightarrow> bool" where
  "can_resend t \<longleftrightarrow> t = 0"

definition format_time :: "int \<Rightarrow> string" where
  "format_time sec = pad2 (js_int_string (sec div 60)) @ '':'' @ pad2 (js_int_string (js_rem sec 60))"

text \<open>The shape the component keeps its six boxes in.\<close>

definition otp_ok :: "string list \<Rightarrow> bool" where
  "otp_ok otp \<longleftrightarrow> length otp = 6 \<and> (\<forall>c \<in> set otp. length c \<le> 1 \<and> (\<forall>ch \<in> set c. is_digit ch))"

text \<open>The order the two date sorts produce, as a key: undated todos after dated ones.\<close>

definition due_key :: "todo_with_assignee \<Rightarrow> bool \<times> nat" where
  "due_key x = (case todo_due_date (twa_todo x) of None \<Rightarrow> (True, 0) | Some d \<Rightarrow> (False, d))"

subsection \<open>Helper facts\<close>

lemma json_get_with_csrf:
  "k \<noteq> ''_csrf'' \<Longrightarrow> json_get (with_csrf tok m (JObj kvs)) k = json_get (JObj kvs) k"
  by (simp add: with_csrf_def json_with_def split: option.splits)



lemma digits_only_digits: "c \<in> set (digits_only v) \<Longrightarrow> is_digit c"
  by (simp add: digits_only_def)

lemma otp_ok_update:
  "otp_ok otp \<Longrightarrow> length v \<le> 1 \<Longrightarrow> \<forall>c \<in> set v. is_digit c \<Longrightarrow> otp_ok (otp[i := v])"
  by (auto simp: otp_ok_def dest: set_update_subset_insert [THEN subsetD])

lemma put_digits_ok:
  "otp_ok otp \<Longrightarrow> \<forall>d \<in> set ds. length d \<le> 1 \<and> (\<forall>c \<in> set d. is_digit c) \<Longrightarrow>
   otp_ok (put_digits k ds otp)"
  by (induction k ds otp rule: put_digits.induct) (simp_all add: otp_ok_update)

lemma otp_complete_iff:
  "otp_ok otp \<Longrightarrow> otp_complete otp \<longleftrightarrow> (\<forall>c \<in> set otp. c \<noteq> [])"
proof -
  assume ok: "otp_ok otp"
  then have len: "length otp = 6" and le: "\<forall>c \<in> set otp. length c \<le> 1" by (simp_all add: otp_ok_def)
  have "length (concat otp) = sum_list (map length otp)" by (simp add: length_concat)
  also have "\<dots> \<le> sum_list (map (\<lambda>_. 1::nat) otp)" using le by (intro sum_list_mono) simp
  finally have "length (concat otp) \<le> length otp" by (simp add: sum_list_triv)
  show ?thesis
  proof
    assume c: "otp_complete otp"
    show "\<forall>c \<in> set otp. c \<noteq> []"
    proof (rule ccontr)
      assume "\<not> (\<forall>c \<in> set otp. c \<noteq> [])"
      then obtain xs ys where "otp = xs @ [] # ys" by (auto simp: in_set_conv_decomp)
      moreover have "sum_list (map length xs) \<le> length xs" "sum_list (map length ys) \<le> length ys"
        using le calculation by (auto intro!: sum_list_mono [where g = "\<lambda>_. 1::nat", simplified sum_list_triv, simplified])
      ultimately show False using c len by (simp add: otp_complete_def length_concat)
    qed
  next
    assume "\<forall>c \<in> set otp. c \<noteq> []"
    with le have one: "\<forall>c \<in> set otp. length c = 1" by (auto simp: le_Suc_eq)
    have "sum_list (map length xs) = length xs" if "\<forall>c \<in> set xs. length c = 1" for xs :: "string list"
      using that by (induction xs) auto
    from this [OF one] show "otp_complete otp" using len by (simp add: otp_complete_def length_concat)
  qed
qed

lemma pasted_digits:
  "d \<in> set (take n (map (\<lambda>c. [c]) (digits_only v))) \<Longrightarrow> length d \<le> 1 \<and> (\<forall>c \<in> set d. is_digit c)"
  by (auto dest!: in_set_takeD simp: digits_only_def)


lemma otp_edit_ok:
  "otp_ok otp \<Longrightarrow> otp_ok (otp_change v i otp) \<and> otp_ok (otp_key_down k i otp)"
  by (auto simp: otp_change_def otp_key_down_def Let_def digits_only_digits
      intro!: put_digits_ok otp_ok_update dest!: pasted_digits)

lemma mset_insort_cmp: "mset (insort_cmp c x ys) = add_mset x (mset ys)"
  by (induction ys) auto

lemma mset_js_sort_fold: "mset (fold (insort_cmp c) xs acc) = mset xs + mset acc"
  by (induction xs arbitrary: acc) (auto simp: mset_insort_cmp)

lemma set_insort_cmp: "set (insort_cmp c x ys) = insert x (set ys)"
  by (induction ys) auto

lemma sorted_insort_cmp:
  fixes k :: "'a \<Rightarrow> 'b :: linorder"
  assumes "\<forall>a b. c a b < 0 \<longleftrightarrow> k a < k b" "sorted (map k ys)"
  shows "sorted (map k (insort_cmp c x ys))"
  using assms(2)
proof (induction ys)
  case (Cons y ys)
  then show ?case using assms(1) by (auto simp: set_insort_cmp)
qed simp

lemma filter_insort_cmp:
  fixes k :: "'a \<Rightarrow> 'b :: linorder"
  assumes "\<forall>a b. c a b < 0 \<longleftrightarrow> k a < k b" "sorted (map k ys)"
  shows "filter (\<lambda>y. k0 = k y) (insort_cmp c x ys) =
    filter (\<lambda>y. k0 = k y) ys @ (if k0 = k x then [x] else [])"
  using assms(2)
proof (induction ys)
  case (Cons y ys)
  show ?case
  proof (cases "k x < k y")
    case True
    with Cons.prems have "\<forall>z \<in> set (y # ys). k x < k z" by auto
    then have "filter (\<lambda>z. k x = k z) (y # ys) = []" by (auto simp: filter_empty_conv)
    with True assms(1) show ?thesis by auto
  next
    case False
    with Cons assms(1) show ?thesis by auto
  qed
qed simp

lemma js_sort_fold_props:
  fixes k :: "'a \<Rightarrow> 'b :: linorder"
  assumes "\<forall>a b. c a b < 0 \<longleftrightarrow> k a < k b" "sorted (map k acc)"
  shows "sorted (map k (fold (insort_cmp c) xs acc)) \<and>
    filter (\<lambda>y. k0 = k y) (fold (insort_cmp c) xs acc) = filter (\<lambda>y. k0 = k y) acc @ filter (\<lambda>y. k0 = k y) xs"
  using assms(2)
proof (induction xs arbitrary: acc)
  case (Cons x xs)
  have "sorted (map k (insort_cmp c x acc))" by (rule sorted_insort_cmp [OF assms(1) Cons.prems])
  from Cons.IH [OF this] show ?case using filter_insort_cmp [OF assms(1) Cons.prems, of k0 x] by simp
qed simp

text \<open>A comparator whose sign is that of a key comparison sorts as the stable
  \<open>sort_key\<close> of the library.\<close>

lemma js_sort_key:
  fixes k :: "'a \<Rightarrow> 'b :: linorder"
  assumes "\<forall>a b. c a b < 0 \<longleftrightarrow> k a < k b"
  shows "js_sort c xs = sort_key k xs"
proof (rule properties_for_sort_key [symmetric])
  show "mset (js_sort c xs) = mset xs" by (simp add: js_sort_def mset_js_sort_fold)
  show "sorted (map k (js_sort c xs))"
    using js_sort_fold_props [OF assms, of "[]"] by (simp add: js_sort_def)
  show "filter (\<lambda>x. k y = k x) (js_sort c xs) = filter (\<lambda>x. k y = k x) xs" for y
    using js_sort_fold_props [OF assms, of "[]"] by (simp add: js_sort_def)
qed

text \<open>Two phone numbers that differ only in the country code get the same
  username.\<close>

lemma username_of_phone_collision:
  "username_of_phone ''+919876543210'' = username_of_phone ''+19876543210''"
  by (simp add: username_of_phone_def digits_only_def is_digit_def)

lemma pad2_js_int_string:
  assumes "0 \<le> n" "n < 100"
  shows "pad2 (js_int_string n) = map digit_char [nat n div 10, nat n mod 10]"
proof (cases "n < 10")
  case True
  then have "nat n < 10" by simp
  with assms show ?thesis
    by (simp add: pad2_def js_int_string_def digit_char_zero nat_digits.simps [of "nat n"])
next
  case False
  with assms have "nat n div 10 < 10" by simp
  with False assms show ?thesis
    by (simp add: pad2_def js_int_string_def nat_digits.simps [of "nat n"] nat_digits.simps [of "nat n div 10"])
qed

lemma parse_int_two_digits:
  "n < 100 \<Longrightarrow> parse_int (map digit_char [n div 10, n mod 10]) = Some (int n)"
  using parse_int_digits(1) [of "[n div 10, n mod 10]"] by (simp add: digits_value_def)

lemma js_rem_nonneg: "0 \<le> a \<Longrightarrow> 0 < b \<Longrightarrow> js_rem a b = a mod b"
  by (cases "a = 0") (simp_all add: js_rem_def)

text \<open>\<open>formatTime\<close> on the countdown's values shows two-digit minutes and
  seconds that read back.\<close>

lemma format_time_read_back:
  assumes "0 \<le> sec" "sec < 6000"
  shows "length (format_time sec) = 5 \<and> format_time sec ! 2 = CHR '':'' \<and>
         parse_int (take 2 (format_time sec)) = Some (sec div 60) \<and>
         parse_int (drop 3 (format_time sec)) = Some (sec mod 60)"
proof -
  have m: "pad2 (js_int_string (sec div 60)) = map digit_char [nat (sec div 60) div 10, nat (sec div 60) mod 10]"
    using assms by (intro pad2_js_int_string) simp_all
  have s: "pad2 (js_int_string (js_rem sec 60)) = map digit_char [nat (sec mod 60) div 10, nat (sec mod 60) mod 10]"
    using assms by (simp add: js_rem_nonneg pad2_js_int_string)
  have "nat (sec div 60) < 100" "nat (sec mod 60) < 100" using assms by simp_all
  from parse_int_two_digits [OF this(1)] parse_int_two_digits [OF this(2)] assms
  show ?thesis by (simp add: format_time_def m s)
qed

text \<open>Once the code is sent, the countdown falls by one a second to zero, when
  the resend button is enabled, and not before; before sending it stands still.\<close>

lemma timer_ticks:
  "0 \<le> t \<Longrightarrow> (timer_tick True ^^ n) t = max 0 (t - int n)"
  by (induction n) (auto simp: timer_tick_def)

lemma timer_reaches_resend:
  "0 \<le> t \<Longrightarrow> can_resend ((timer_tick True ^^ nat t) t) \<and>
     (\<forall>n < nat t. \<not> can_resend ((timer_tick True ^^ n) t))"
  by (auto simp: timer_ticks can_resend_def)

lemma timer_stopped: "(timer_tick False ^^ n) t = t"
  by (induction n) (simp_all add: timer_tick_def)

subsection \<open>Properties of the client\<close>

text \<open>The backend part of \<open>verifyOTP\<close> never signs anyone in, whatever the
  store holds: it logs in with the phone number only, the server answers 400 (no
  password), and \<open>apiRequest\<close> throws on it, so the register-on-404 branch is
  unreachable; the store is unchanged.\<close>

text \<open>\<open>sendOTP\<close> always gets past the number check (the formatted number
  is never empty), so its \<open>success\<close> is Firebase's outcome, and
  \<open>exists\<close> tells whether a user with the formatted number is stored.\<close>

lemma format_phone_ne: "format_phone p \<noteq> []"
  by (cases p) (simp_all add: format_phone_def)

lemma send_otp_backend_result:
  "send_otp_backend tok fb_ok phone s =
   (if fb_ok then Otp_sent (user_by_phone_json s (Some (JStr (format_phone phone))) \<noteq> None) else Otp_failed)"
  by (simp add: send_otp_backend_def verify_phone_def json_get_with_csrf format_phone_ne res_ok_def)

lemma verify_otp_backend_fails: "verify_otp_backend cmp tok phone dn photo pw h s = (Auth_failed, s)"
  by (simp add: verify_otp_backend_def login_def json_get_with_csrf res_ok_def Let_def
      split: option.splits)

text \<open>C38: saving a board's description from the board page (\<open>handleSaveDescription\<close>, sending \<open>{ description }\<close>) answers 200 and leaves the board without a title and without a colour.\<close>

lemma save_description_erases_title:
  "get_board s i = Some bd \<Longrightarrow>
   save_description i d tok s =
     (let bd' = bd\<lparr>board_title := None, board_description := Some d, board_color := None\<rparr>
      in Some (Some (200, Body_board bd'), s\<lparr>boards := AList.update i bd' (boards s)\<rparr>))"
  by (simp add: save_description_def put_board_route_def board_updates_def json_get_with_csrf
      update_board_def get_board_def apply_board_patch_upd empty_board_patch_def as_nullable_def Let_def)

theorem save_description_erases_title_witness:
  "let ib = \<lparr>ib_title = ''Launch'', ib_description = None, ib_color = Some ''red'', ib_created_by = 1\<rparr>;
       s = snd (create_board ib 0 init_storage); bd = new_board 1 0 ib
   in get_board s 1 = Some bd \<and>
      save_description 1 ''Q3 goals'' (Some ''tok'') s =
       (let bd' = bd\<lparr>board_title := None, board_description := Some ''Q3 goals'', board_color := None\<rparr>
        in Some (Some (200, Body_board bd'), s\<lparr>boards := AList.update 1 bd' (boards s)\<rparr>))"
proof -
  let ?ib = "\<lparr>ib_title = ''Launch'', ib_description = None, ib_color = Some ''red'', ib_created_by = 1\<rparr>"
  let ?s = "snd (create_board ?ib 0 init_storage)"
  have h: "get_board ?s 1 = Some (new_board 1 0 ?ib)"
    by (simp add: create_board_def init_storage_def get_board_def add_board_member_def Let_def)
  show ?thesis unfolding Let_def
    by (rule conjI [OF h save_description_erases_title [OF h, unfolded Let_def]])
qed

text \<open>The six OTP boxes keep their shape under every typed or pasted input and
  every key press, and the code counts as complete exactly when every box is filled.\<close>

lemma otp_handlers_ok:
  "otp_ok otp \<Longrightarrow> otp_ok (otp_change v i otp) \<and> otp_ok (otp_key_down k i otp) \<and>
     (otp_complete otp \<longleftrightarrow> (\<forall>c \<in> set otp. c \<noteq> []))"
  by (simp add: otp_edit_ok otp_complete_iff)

text \<open>The board page's "recent" sort lists todos by decreasing \<open>updatedAt\<close> and its "due-date" sort by increasing due date with undated todos last, both stably: each equals the library's stable \<open>sort_key\<close> by the corresponding key.\<close>

lemma board_sorts_by_date:
  "js_sort (todo_cmp ''recent'' collate) ts = sort_key (\<lambda>x. - int (todo_updated_at (twa_todo x))) ts \<and>
   js_sort (todo_cmp ''due-date'' collate) ts = sort_key due_key ts"
proof
  show "js_sort (todo_cmp ''recent'' collate) ts = sort_key (\<lambda>x. - int (todo_updated_at (twa_todo x))) ts"
    by (rule js_sort_key) (auto simp: todo_cmp_def Let_def)
  show "js_sort (todo_cmp ''due-date'' collate) ts = sort_key due_key ts"
    by (rule js_sort_key) (auto simp: todo_cmp_def due_key_def Let_def split: option.splits)
qed

end
