(* ===== verification/Dialogs.thy ===== *)
theory Dialogs
  imports Client
begin

text \<open>
  The client's dialogs and display components: the request bodies of the
  create-board and create-todo dialogs
  (\<open>src/client/src/components/boards/create-board-dialog.tsx\<close>,
  \<open>src/client/src/components/todos/create-todo-dialog.tsx\<close>) run through the
  \<open>Routes\<close> handlers; the invite dialog of \<open>src/unnamed/part_003\<close> as a
  state machine on its invite list; and the small pure helpers of the board
  card (\<open>board-card.tsx\<close>) and the avatar group (\<open>avatar-group.tsx\<close>).
  The form values are those \<open>zodResolver\<close> hands to the submit handler: the
  dialog's own schema has already accepted them.  \<open>JSON.stringify\<close> omits
  keys whose value is \<open>undefined\<close> and writes \<open>NaN\<close> as \<open>null\<close>.
\<close>

subsection \<open>Create-board dialog\<close>

record board_form =
  bf_title :: string
  bf_description :: string
  bf_color :: string

text \<open>\<open>apiRequest('POST', '/api/boards', { ...values, createdBy: user.id })\<close>\<close>

definition board_dialog_body :: "ident \<Rightarrow> board_form \<Rightarrow> json" where
  "board_dialog_body uid f = JObj [(''title'', JStr (bf_title f)), (''description'', JStr (bf_description f)),
     (''color'', JStr (bf_color f)), (''createdBy'', JNum uid)]"

subsection \<open>Create-todo dialog\<close>

record todo_form =
  tf_title :: string
  tf_description :: string
  tf_due_date :: string
  tf_priority :: string
  tf_status :: string
  tf_assigned_to :: "string option"

text \<open>\<open>formattedValues\<close>: the form values with \<open>boardId\<close>, \<open>assignedTo\<close>
  read by \<open>parseInt\<close>, \<open>dueDate\<close> as \<open>new Date(..).toISOString()\<close> (the
  parameter \<open>to_iso\<close>, \<open>None\<close> where it throws on an invalid date) and
  \<open>createdBy\<close>.  Keys keep the position of their first definition.\<close>

definition todo_dialog_body :: "ident \<Rightarrow> ident \<Rightarrow> (string \<Rightarrow> string option) \<Rightarrow> todo_form \<Rightarrow> json option" where
  "todo_dialog_body bid uid to_iso f =
     (let due = (if tf_due_date f = [] then Some [] else case to_iso (tf_due_date f) of
                   None \<Rightarrow> None | Some v \<Rightarrow> Some [(''dueDate'', JStr v)]);
          asg = (case tf_assigned_to f of
                   None \<Rightarrow> []
                 | Some a \<Rightarrow> if a = [] then []
                     else [(''assignedTo'', case parse_int a of None \<Rightarrow> JNull | Some n \<Rightarrow> JNum n)])
      in map_option (\<lambda>d. JObj ([(''title'', JStr (tf_title f)), (''description'', JStr (tf_description f))] @ d @
            [(''priority'', JStr (tf_priority f)), (''status'', JStr (tf_status f))] @ asg @
            [(''boardId'', JNum bid), (''createdBy'', JNum uid)])) due)"

subsection \<open>Invite dialog\<close>

record invite =
  inv_email :: string
  inv_role :: string

text \<open>\<open>addInvite\<close>: a valid form (the parameter \<open>valid\<close>, the result of the
  dialog's zod check) with an email not yet in the list and not the username or
  phone number of a member is appended.\<close>

definition add_invite :: "bool \<Rightarrow> user list \<Rightarrow> string \<Rightarrow> string \<Rightarrow> invite list \<Rightarrow> invite list" where
  "add_invite valid mems email role invites =
     (if \<not> valid then invites
      else if list_ex (\<lambda>i. inv_email i = email) invites then invites
      else if list_ex (\<lambda>m. username m = email \<or> phone_number m = email) mems then invites
      else invites @ [\<lparr>inv_email = email, inv_role = role\<rparr>])"

definition remove_invite :: "string \<Rightarrow> invite list \<Rightarrow> invite list" where
  "remove_invite email invites = filter (\<lambda>i. inv_email i \<noteq> email) invites"

text \<open>\<open>sendInvites\<close> and its mutation: with invites, report them sent and
  clear the list.  No request is made, so the store is passed through.\<close>

definition send_invites :: "invite list \<Rightarrow> mem_storage \<Rightarrow> (nat option \<times> invite list) \<times> mem_storage" where
  "send_invites invites s =
     (if invites = [] then ((None, invites), s) else ((Some (length invites), []), s))"

subsection \<open>Board card and avatar group\<close>

definition board_color_class :: "string option \<Rightarrow> string" where
  "board_color_class c = (case c of
       Some ''secondary'' \<Rightarrow> ''bg-secondary-500'' | Some ''accent'' \<Rightarrow> ''bg-accent-500''
     | Some ''warning'' \<Rightarrow> ''bg-yellow-500'' | Some ''error'' \<Rightarrow> ''bg-destructive''
     | _ \<Rightarrow> ''bg-primary'')"

definition todo_count_label :: "nat \<Rightarrow> string" where
  "todo_count_label n = js_int_string (int n) @ '' '' @ (if n = 1 then ''todo'' else ''todos'')"

text \<open>\<open>displayItems = items.slice(0, limit)\<close>, \<open>overflowCount = items.length -
  limit\<close>, the \<open>+n\<close> badge shown when it is positive.\<close>

definition avatar_group :: "nat \<Rightarrow> 'a list \<Rightarrow> 'a list \<times> int" where
  "avatar_group limit items = (take limit items, int (length items) - int limit)"

text \<open>The invite list the dialog keeps: no email twice.\<close>

definition invites_ok :: "invite list \<Rightarrow> bool" where
  "invites_ok invites \<longleftrightarrow> distinct (map inv_email invites)"

subsection \<open>The dialogs against the server\<close>

lemma with_csrf_JObj:
  "with_csrf tok m (JObj kvs) =
   JObj (kvs @ (case tok of Some t \<Rightarrow> if m \<noteq> ''GET'' \<and> t \<noteq> [] then [(''_csrf'', JStr t)] else [] | None \<Rightarrow> []))"
  by (simp add: with_csrf_def json_with_def split: option.splits)

text \<open>The create-board dialog's request always succeeds and stores exactly its
  form values; an empty description is stored as \<open>null\<close> by the store.\<close>

lemma board_dialog_creates:
  "post_board_route (with_csrf tok ''POST'' (board_dialog_body uid f)) now s =
   (let ib = \<lparr>ib_title = bf_title f, ib_description = Some (bf_description f),
              ib_color = Some (bf_color f), ib_created_by = uid\<rparr>
    in ((201, Body_board (fst (create_board ib now s))), snd (create_board ib now s)))"
  by (simp add: post_board_route_def parse_insert_board_def board_dialog_body_def with_csrf_JObj
      Let_def split: option.splits prod.splits)

text \<open>A todo created in the dialog with a due date is rejected with 400;
  without a due date and an assignee it is created with the form's values.\<close>

lemma todo_dialog_due_date_rejected:
  "tf_due_date f \<noteq> [] \<Longrightarrow> todo_dialog_body bid uid to_iso f = Some b \<Longrightarrow>
   post_todo_route (js_int_string bid) (with_csrf tok ''POST'' b) now s = ((400, Invalid_input), s)"
  by (auto simp: todo_dialog_body_def post_todo_route_def parse_insert_todo_def with_csrf_JObj
      json_with_def z_date_def Let_def split: option.splits if_splits)

lemma todo_dialog_creates:
  "tf_due_date f = [] \<Longrightarrow> tf_assigned_to f = None \<Longrightarrow>
   map_option (\<lambda>b. post_todo_route (js_int_string bid) (with_csrf tok ''POST'' b) now s)
     (todo_dialog_body bid uid to_iso f) =
   (let it = \<lparr>it_board_id = bid, it_title = tf_title f, it_description = Some (tf_description f),
              it_due_date = None, it_priority = Some (tf_priority f), it_status = Some (tf_status f),
              it_assigned_to = None, it_created_by = uid\<rparr>
    in Some ((201, Body_todo (fst (create_todo it now s))), snd (create_todo it now s)))"
  by (simp add: todo_dialog_body_def post_todo_route_def parse_insert_todo_def with_csrf_JObj
      json_with_def Let_def split: option.splits prod.splits)

text \<open>The invite list never holds an email twice, and an email is only added
  when the form is valid and no member or listed invite has it.\<close>

lemma invites_ok_add_remove:
  "invites_ok invites \<Longrightarrow>
   invites_ok (add_invite valid mems email role invites) \<and> invites_ok (remove_invite email invites)"
  by (auto simp: invites_ok_def add_invite_def remove_invite_def list_ex_iff distinct_map_filter)

lemma add_invite_not_member:
  "add_invite valid mems email role invites \<noteq> invites \<Longrightarrow>
   valid \<and> (\<forall>m \<in> set mems. username m \<noteq> email \<and> phone_number m \<noteq> email) \<and>
   (\<forall>i \<in> set invites. inv_email i \<noteq> email)"
  by (auto simp: add_invite_def list_ex_iff split: if_splits)

lemma avatar_group_counts:
  "length (fst (avatar_group limit items)) + nat (snd (avatar_group limit items)) = length items \<and>
   (0 < snd (avatar_group limit items) \<longleftrightarrow> limit < length items)"
  by (auto simp: avatar_group_def)

end
