(* ===== verification/AuthPage.thy ===== *)
theory AuthPage
  imports Client
begin

text \<open>
  The sign-in page \<open>Auth\<close> (\<open>src/unnamed/part_006\<close>, the client's
  \<open>pages/auth.tsx\<close>) as a state machine.  Its state is the component's
  \<open>useState\<close> hooks, with the user handed to \<open>setUser\<close> and the path handed
  to \<open>setLocation\<close>; an event is a handler the page runs, and its step
  threads the server store, which \<open>verifyOTP\<close> reaches through the
  \<open>Routes\<close> handlers.  The buttons are disabled while \<open>loading\<close>, so each
  handler runs as one step; \<open>loading\<close> is false between steps and is not
  kept.  Firebase is outside the program: its answers (whether the code was
  sent, and the confirmed user's phone number, display name and photo URL, or
  \<open>None\<close> when \<open>confirm\<close> throws) are parameters of the events.
\<close>

record auth_page =
  ap_phone :: string
  ap_otp_sent :: bool
  ap_otp :: "string list"
  ap_timer :: int
  ap_user :: "resp_body option"
  ap_location :: "string option"

definition init_auth_page :: auth_page where
  "init_auth_page = \<lparr>ap_phone = [], ap_otp_sent = False, ap_otp = replicate 6 [], ap_timer = 60,
     ap_user = None, ap_location = None\<rparr>"

datatype auth_event =
    Phone_change string
  | Send_otp bool
  | Resend_otp bool
  | Otp_change string nat
  | Otp_key_down string nat
  | Verify_otp "(string option \<times> string option \<times> string option) option" string string
  | Tick
  | Back

text \<open>\<open>handleSendOTP\<close>, given whether \<open>sendOTP\<close> succeeded: a phone number
  of other than ten digits is refused; on success the code boxes are shown and
  the countdown restarts at 60.\<close>

definition send_otp :: "bool \<Rightarrow> auth_page \<Rightarrow> auth_page" where
  "send_otp ok p =
     (if length (ap_phone p) \<noteq> 10 then p
      else if ok then p\<lparr>ap_otp_sent := True, ap_timer := 60\<rparr> else p)"

text \<open>\<open>handleVerifyOTP\<close>: nothing is sent unless six digits are entered; a
  confirmed Firebase user goes through the backend part of \<open>verifyOTP\<close>, and
  only \<open>{ success: true, user }\<close> signs in and navigates to \<open>/\<close>.\<close>

definition verify_otp ::
  "(string \<Rightarrow> string \<Rightarrow> bool) \<Rightarrow> string option \<Rightarrow> (string option \<times> string option \<times> string option) option \<Rightarrow>
   string \<Rightarrow> string \<Rightarrow> auth_page \<times> mem_storage \<Rightarrow> auth_page \<times> mem_storage" where
  "verify_otp cmp tok fb pw h ps =
     (let (p, s) = ps in
      if \<not> otp_complete (ap_otp p) then (p, s)
      else case fb of
        None \<Rightarrow> (p, s)
      | Some (phone, dn, photo) \<Rightarrow>
          (case verify_otp_backend cmp tok phone dn photo pw h s of
             (Auth_failed, s') \<Rightarrow> (p, s')
           | (Auth_user u, s') \<Rightarrow> (p\<lparr>ap_user := Some u, ap_location := Some ''/''\<rparr>, s')))"

fun auth_step ::
  "(string \<Rightarrow> string \<Rightarrow> bool) \<Rightarrow> string option \<Rightarrow> auth_event \<Rightarrow> auth_page \<times> mem_storage \<Rightarrow> auth_page \<times> mem_storage" where
  "auth_step cmp tok (Phone_change v) (p, s) = (p\<lparr>ap_phone := phone_input v\<rparr>, s)"
| "auth_step cmp tok (Send_otp ok) (p, s) = (send_otp ok p, s)"
| "auth_step cmp tok (Resend_otp ok) (p, s) = ((if ap_timer p = 0 then send_otp ok p else p), s)"
| "auth_step cmp tok (Otp_change v i) (p, s) = (p\<lparr>ap_otp := otp_change v i (ap_otp p)\<rparr>, s)"
| "auth_step cmp tok (Otp_key_down k i) (p, s) = (p\<lparr>ap_otp := otp_key_down k i (ap_otp p)\<rparr>, s)"
| "auth_step cmp tok (Verify_otp fb pw h) (p, s) = verify_otp cmp tok fb pw h (p, s)"
| "auth_step cmp tok Tick (p, s) = (p\<lparr>ap_timer := timer_tick (ap_otp_sent p) (ap_timer p)\<rparr>, s)"
| "auth_step cmp tok Back (p, s) = (p\<lparr>ap_otp_sent := False\<rparr>, s)"

definition auth_run ::
  "(string \<Rightarrow> string \<Rightarrow> bool) \<Rightarrow> string option \<Rightarrow> auth_event list \<Rightarrow> auth_page \<times> mem_storage \<Rightarrow> auth_page \<times> mem_storage" where
  "auth_run cmp tok evs = fold (auth_step cmp tok) evs"

definition is_tick :: "auth_event \<Rightarrow> bool" where
  "is_tick e \<longleftrightarrow> e = Tick"

text \<open>The page's invariant: the phone field holds at most ten digits, the
  boxes keep their shape, and the countdown lies in \<open>[0, 60]\<close>.\<close>

definition auth_inv :: "auth_page \<Rightarrow> bool" where
  "auth_inv p \<longleftrightarrow> length (ap_phone p) \<le> 10 \<and> (\<forall>c \<in> set (ap_phone p). is_digit c) \<and>
     otp_ok (ap_otp p) \<and> 0 \<le> ap_timer p \<and> ap_timer p \<le> 60"

text \<open>The countdown effect as a loop: each time \<open>timer\<close> changes the effect
  re-runs, and while the code is sent and the timer positive it arms an
  interval whose tick lowers the timer by one; it arms nothing once the timer is
  0.  \<open>countdown\<close> lists the values the timer takes until the effect stops
  re-arming.\<close>

function countdown :: "bool \<Rightarrow> int \<Rightarrow> int list" where
  "countdown sent t = (if sent \<and> t > 0 then t # countdown sent (t - 1) else [t])"
  by pat_completeness auto
termination by (relation "measure (\<lambda>(sent, t). nat t)") auto

declare countdown.simps [simp del]

subsection \<open>Lemmas\<close>

lemma auth_inv_init: "auth_inv init_auth_page"
  by (simp add: auth_inv_def init_auth_page_def otp_ok_def)

lemma phone_input_ok: "length (phone_input v) \<le> 10 \<and> (\<forall>c \<in> set (phone_input v). is_digit c)"
  by (auto simp: phone_input_def dest: in_set_takeD digits_only_digits)

lemma verify_otp_page: "verify_otp cmp tok fb pw h (p, s) = (p, s)"
  by (simp add: verify_otp_def verify_otp_backend_fails split: option.splits prod.splits)

lemma auth_step_inv:
  "auth_inv p \<Longrightarrow> auth_inv (fst (auth_step cmp tok e (p, s)))"
  by (cases e) (auto simp: auth_inv_def send_otp_def timer_tick_def phone_input_ok otp_edit_ok
      verify_otp_page)

text \<open>After a successful send the countdown shows 60 and falls by one each tick
  to zero.\<close>

lemma send_then_ticks:
  "length (ap_phone p) = 10 \<Longrightarrow>
   ap_timer (fst (auth_run cmp tok (Send_otp True # replicate n Tick) (p, s))) = max 0 (60 - int n)"
proof -
  have "fst (fold (auth_step cmp tok) (replicate n Tick) (q, s)) = q\<lparr>ap_timer := (timer_tick (ap_otp_sent q) ^^ n) (ap_timer q)\<rparr>" for q
    by (induction n arbitrary: q) (simp_all add: funpow_Suc_right del: funpow.simps)
  moreover assume "length (ap_phone p) = 10"
  ultimately show ?thesis by (simp add: auth_run_def send_otp_def timer_ticks)
qed

text \<open>Along any sequence of page events (typing and pasting into the phone
  field and the code boxes, Backspace, sending, resending, verifying, Back, timer
  ticks), the sign-in page keeps its invariant: the phone field holds at most ten
  digits, the code is six boxes each empty or one digit, and the resend countdown
  stays within 0 to 60 seconds.\<close>

lemma auth_run_inv:
  "auth_inv p \<Longrightarrow> auth_inv (fst (auth_run cmp tok evs (p, s)))"
proof (induction evs arbitrary: p s)
  case (Cons e evs)
  obtain p' s' where "auth_step cmp tok e (p, s) = (p', s')" by fastforce
  with auth_step_inv [OF Cons.prems, of cmp tok e s] Cons.IH show ?case
    by (simp add: auth_run_def)
qed (simp add: auth_run_def)

lemma auth_step_timer:
  "auth_inv p \<Longrightarrow> ap_timer p - (if is_tick e then 1 else 0) \<le> ap_timer (fst (auth_step cmp tok e (p, s)))"
  by (cases e) (auto simp: auth_inv_def send_otp_def timer_tick_def is_tick_def verify_otp_page)

lemma auth_run_timer:
  "auth_inv p \<Longrightarrow> ap_timer p - int (length (filter is_tick evs)) \<le> ap_timer (fst (auth_run cmp tok evs (p, s)))"
proof (induction evs arbitrary: p s)
  case (Cons e evs)
  obtain p' s' where st: "auth_step cmp tok e (p, s) = (p', s')" by fastforce
  with auth_step_inv [OF Cons.prems, of cmp tok e s] have "auth_inv p'" by simp
  from Cons.IH [OF this, of s'] auth_step_timer [OF Cons.prems, of e cmp tok s] st show ?case
    by (auto simp: auth_run_def)
qed (simp add: auth_run_def)

lemma auth_run_snoc:
  "auth_run cmp tok (evs @ [e]) ps = auth_step cmp tok e (auth_run cmp tok evs ps)"
  by (simp add: auth_run_def)

text \<open>C37: whatever the user does on the sign-in page, in any order and with any
  answer from Firebase, nobody is signed in: the page never calls \<open>setUser\<close>
  or navigates, and the server store is unchanged.  \<open>verifyOTP\<close> logs in with
  the phone number only, the server answers 400 (no password), \<open>apiRequest\<close>
  throws on it, and the register-on-404 branch is unreachable.\<close>

lemma auth_page_never_signs_in:
  "ap_user (fst (auth_run cmp tok evs (p, s))) = ap_user p \<and>
   ap_location (fst (auth_run cmp tok evs (p, s))) = ap_location p \<and> snd (auth_run cmp tok evs (p, s)) = s"
proof (induction evs arbitrary: p)
  case (Cons e evs)
  obtain p' s' where st: "auth_step cmp tok e (p, s) = (p', s')" by fastforce
  have "ap_user p' = ap_user p \<and> ap_location p' = ap_location p \<and> s' = s"
    using st by (cases e) (auto simp: send_otp_def verify_otp_page)
  with st Cons.IH [of p'] show ?case by (simp add: auth_run_def)
qed (simp add: auth_run_def)

text \<open>C20: the resend cooldown: while fewer ticks have passed than the countdown
  showed, whatever else happens on the page, pressing "Resend code" does
  nothing; \<open>sendOTP\<close> is not called again before the countdown reaches zero.\<close>

lemma resend_cooldown:
  "auth_inv p \<Longrightarrow> int (length (filter is_tick evs)) < ap_timer p \<Longrightarrow>
   auth_run cmp tok (evs @ [Resend_otp ok]) (p, s) = auth_run cmp tok evs (p, s)"
proof -
  assume inv: "auth_inv p" and few: "int (length (filter is_tick evs)) < ap_timer p"
  obtain p' s' where r: "auth_run cmp tok evs (p, s) = (p', s')" by fastforce
  from auth_run_timer [OF inv, of evs cmp tok s] few r have "ap_timer p' \<noteq> 0" by simp
  with r show ?thesis by (simp add: auth_run_snoc)
qed


text \<open>A witness for C20: after two ticks of a fresh countdown, with a code box
  typed in between, the resend link does nothing.\<close>

theorem resend_cooldown_witness:
  "let p = init_auth_page\<lparr>ap_phone := ''5550001234'', ap_otp_sent := True\<rparr>;
       evs = [Tick, Otp_change ''1'' 0, Tick]
   in auth_inv p \<and> int (length (filter is_tick evs)) < ap_timer p \<and>
      auth_run (\<lambda>a b. a = b) None (evs @ [Resend_otp True]) (p, init_storage) =
      auth_run (\<lambda>a b. a = b) None evs (p, init_storage)"
  unfolding Let_def
proof (intro conjI)
  show h1: "auth_inv (init_auth_page\<lparr>ap_phone := ''5550001234'', ap_otp_sent := True\<rparr>)"
    by (simp add: auth_inv_def init_auth_page_def otp_ok_def is_digit_def)
  show h2: "int (length (filter is_tick [Tick, Otp_change ''1'' 0, Tick]))
      < ap_timer (init_auth_page\<lparr>ap_phone := ''5550001234'', ap_otp_sent := True\<rparr>)"
    by (simp add: is_tick_def init_auth_page_def)
  show "auth_run (\<lambda>a b. a = b) None ([Tick, Otp_change ''1'' 0, Tick] @ [Resend_otp True])
      (init_auth_page\<lparr>ap_phone := ''5550001234'', ap_otp_sent := True\<rparr>, init_storage) =
    auth_run (\<lambda>a b. a = b) None [Tick, Otp_change ''1'' 0, Tick]
      (init_auth_page\<lparr>ap_phone := ''5550001234'', ap_otp_sent := True\<rparr>, init_storage)"
    by (rule resend_cooldown [OF h1 h2])
qed

text \<open>A witness of the invariant: from the initial page, a phone number typed with
  punctuation, a successful send, a pasted code and a tick.\<close>

theorem auth_run_inv_witness:
  "auth_inv init_auth_page \<and>
   auth_inv (fst (auth_run (\<lambda>a b. a = b) None
     [Phone_change ''555-000-1234'', Send_otp True, Otp_change ''123456'' 0, Tick] (init_auth_page, init_storage)))"
proof
  show h: "auth_inv init_auth_page" by (rule auth_inv_init)
  show "auth_inv (fst (auth_run (\<lambda>a b. a = b) None
     [Phone_change ''555-000-1234'', Send_otp True, Otp_change ''123456'' 0, Tick] (init_auth_page, init_storage)))"
    by (rule auth_run_inv [OF h])
qed

subsection \<open>The countdown loop terminates\<close>

lemma countdown_step:
  "sent \<and> t > 0 \<Longrightarrow> countdown sent t = t # countdown sent (t - 1)"
  "\<not> (sent \<and> t > 0) \<Longrightarrow> countdown sent t = [t]"
  by (rule trans [OF countdown.simps], auto)+

lemma upt_0_Suc_shift: "[0..<Suc n] = 0 # map Suc [0..<n]"
  by (simp add: map_Suc_upt upt_conv_Cons del: upt_Suc)

lemma countdown_ticks: "countdown sent t = map (\<lambda>n. (timer_tick sent ^^ n) t) [0..<length (countdown sent t)]"
proof (induction sent t rule: countdown.induct)
  case (1 sent t)
  show ?case
  proof (cases "sent \<and> t > 0")
    case True
    have f: "(timer_tick sent ^^ Suc n) t = (timer_tick sent ^^ n) (t - 1)" for n
      using True by (simp add: funpow_Suc_right timer_tick_def del: funpow.simps)
    from 1 True have ih: "countdown sent (t - 1) =
        map (\<lambda>n. (timer_tick sent ^^ n) (t - 1)) [0..<length (countdown sent (t - 1))]" by blast
    have "map (\<lambda>n. (timer_tick sent ^^ n) t) [0..<Suc (length (countdown sent (t - 1)))] = t # countdown sent (t - 1)"
      by (simp only: map_upt_Suc f) (simp add: ih [symmetric])
    then show ?thesis by (simp add: countdown_step(1) [OF True])
  next
    case False
    then show ?thesis by (simp add: countdown_step)
  qed
qed

lemma countdown_pos_step:
  assumes pos: "0 < t" and ih: "countdown True (t - 1) = map (\<lambda>k. t - 1 - int k) [0..<Suc (nat (t - 1))]"
  shows "countdown True t = map (\<lambda>k. t - int k) [0..<Suc (nat t)]"
proof -
  from pos have n: "nat t = Suc (nat (t - 1))" by simp
  have shift: "[0..<Suc (nat t)] = 0 # map Suc [0..<Suc (nat (t - 1))]"
    unfolding n by (rule upt_0_Suc_shift)
  have "countdown True t = t # countdown True (t - 1)"
    using pos by (simp add: countdown_step(1))
  also have "\<dots> = t # map (\<lambda>k. t - 1 - int k) [0..<Suc (nat (t - 1))]"
    by (simp only: ih)
  also have "\<dots> = map (\<lambda>k. t - int k) (0 # map Suc [0..<Suc (nat (t - 1))])"
    by (simp add: algebra_simps del: upt_Suc)
  also have "\<dots> = map (\<lambda>k. t - int k) [0..<Suc (nat t)]"
    by (simp only: shift)
  finally show ?thesis .
qed

lemma countdown_int: "countdown True (int n) = map (\<lambda>k. int n - int k) [0..<Suc n]"
proof (induction n)
  case 0
  then show ?case by (simp add: countdown_step(2))
next
  case (Suc n)
  have pos: "0 < int (Suc n)" by simp
  have e: "int (Suc n) - 1 = int n" by simp
  have "countdown True (int (Suc n) - 1) = map (\<lambda>k. int (Suc n) - 1 - int k) [0..<Suc (nat (int (Suc n) - 1))]"
    unfolding e nat_int by (rule Suc.IH)
  from countdown_pos_step [OF pos this] show ?case unfolding nat_int .
qed

text \<open>C23: the countdown loop of the sign-in page terminates: once the code is
  sent, starting from any non-negative value \<open>t\<close> the timer shows
  \<open>t, t - 1, ..., 0\<close>, exactly \<open>t + 1\<close> values, each one tick after the
  previous, and then the effect stops re-arming; before the code is sent it
  shows its value and arms nothing.\<close>

theorem countdown_terminates:
  "0 \<le> t \<Longrightarrow> countdown True t = map (\<lambda>k. t - int k) [0..<Suc (nat t)] \<and>
     countdown True t = map (\<lambda>n. (timer_tick True ^^ n) t) [0..<Suc (nat t)] \<and> countdown False t = [t]"
proof -
  assume t: "0 \<le> t"
  then have a: "countdown True t = map (\<lambda>k. t - int k) [0..<Suc (nat t)]"
    using countdown_int [of "nat t"] by simp
  then have len: "length (countdown True t) = Suc (nat t)" by simp
  have b: "countdown True t = map (\<lambda>n. (timer_tick True ^^ n) t) [0..<Suc (nat t)]"
    using countdown_ticks [of True t] unfolding len .
  have c: "countdown False t = [t]" by (simp add: countdown_step(2))
  from a b c show ?thesis by blast
qed

theorem countdown_terminates_witness:
  "0 \<le> (3::int) \<and> countdown True 3 = [3, 2, 1, 0] \<and>
   countdown True 3 = map (\<lambda>n. (timer_tick True ^^ n) 3) [0..<4] \<and> countdown False 3 = [3]"
proof -
  have h: "0 \<le> (3::int)" by simp
  from countdown_terminates [OF h] show ?thesis by (simp add: upt_rec timer_tick_def)
qed

end
