(* ===== verification/Abstract.thy ===== *)
theory Abstract
  imports Operations
begin

text \<open>
  The contract of the entity store as the specification states it (sections
  3 and 4): each entity kind is a finite partial map from handles to entities,
  with no order; handles come from per-kind counters.  \<open>a_exec\<close> gives each
  state-changing operation of \<open>storage_op\<close> its specified effect on these
  maps: idempotent membership, the admin bootstrap of board creation, the
  cascade of board deletion, merge-and-refresh of todo updates.  \<open>abs_of\<close>
  forgets the insertion order of \<open>MemStorage\<close>'s \<open>Map\<close>s; the refinement
  theorem shows that every call of the implementation does what \<open>a_exec\<close>
  specifies, in every state satisfying \<open>store_inv\<close>.
\<close>

record abs_store =
  a_users :: "ident \<rightharpoonup> user"
  a_boards :: "ident \<rightharpoonup> board"
  a_members :: "ident \<rightharpoonup> board_member"
  a_todos :: "ident \<rightharpoonup> todo"
  a_next_user :: ident
  a_next_board :: ident
  a_next_member :: ident
  a_next_todo :: ident

definition abs_of :: "mem_storage \<Rightarrow> abs_store" where
  "abs_of s = \<lparr>a_users = map_of (users s), a_boards = map_of (boards s),
     a_members = map_of (board_members s), a_todos = map_of (todos s),
     a_next_user = current_user_id s, a_next_board = current_board_id s,
     a_next_member = current_board_member_id s, a_next_todo = current_todo_id s\<rparr>"

text \<open>The entries of a map whose value satisfies \<open>Q\<close>.\<close>

definition keep_where :: "('v \<Rightarrow> bool) \<Rightarrow> ('k \<rightharpoonup> 'v) \<Rightarrow> ('k \<rightharpoonup> 'v)" where
  "keep_where Q f = (\<lambda>k. case f k of Some v \<Rightarrow> if Q v then Some v else None | None \<Rightarrow> None)"

subsection \<open>The specified operations\<close>

definition a_add_member :: "insert_board_member \<Rightarrow> abs_store \<Rightarrow> abs_store" where
  "a_add_member im A =
     (if \<exists>m \<in> ran (a_members A). member_of (im_board_id im) (im_user_id im) m then A
      else A\<lparr>a_members := (a_members A)(a_next_member A \<mapsto> new_member (a_next_member A) im),
             a_next_member := a_next_member A + 1\<rparr>)"

definition a_update_board :: "ident \<Rightarrow> board_patch \<Rightarrow> abs_store \<Rightarrow> abs_store" where
  "a_update_board i p A = (case a_boards A i of
       None \<Rightarrow> A
     | Some b \<Rightarrow> A\<lparr>a_boards := (a_boards A)(i \<mapsto> b\<lparr>board_title := spread (bp_title p) (board_title b),
          board_description := spread (bp_description p) (board_description b),
          board_color := spread (bp_color p) (board_color b)\<rparr>)\<rparr>)"

fun a_exec :: "storage_op \<Rightarrow> abs_store \<Rightarrow> abs_store" where
  "a_exec (Op_create_user iu) A =
     A\<lparr>a_users := (a_users A)(a_next_user A \<mapsto> new_user (a_next_user A) iu),
       a_next_user := a_next_user A + 1\<rparr>"
| "a_exec (Op_create_board ib now) A =
     a_add_member (admin_membership (a_next_board A) (ib_created_by ib))
       (A\<lparr>a_boards := (a_boards A)(a_next_board A \<mapsto> new_board (a_next_board A) now ib),
          a_next_board := a_next_board A + 1\<rparr>)"
| "a_exec (Op_update_board i p) A = a_update_board i p A"
| "a_exec (Op_delete_board i) A =
     (if a_boards A i = None then A
      else A\<lparr>a_boards := (a_boards A)(i := None),
             a_members := keep_where (\<lambda>m. member_board_id m \<noteq> i) (a_members A),
             a_todos := keep_where (\<lambda>t. todo_board_id t \<noteq> i) (a_todos A)\<rparr>)"
| "a_exec (Op_add_board_member im) A = a_add_member im A"
| "a_exec (Op_remove_board_member b u) A =
     A\<lparr>a_members := keep_where (\<lambda>m. \<not> member_of b u m) (a_members A)\<rparr>"
| "a_exec (Op_update_board_member_role b u r) A =
     A\<lparr>a_members := (\<lambda>k. map_option (\<lambda>m. if member_of b u m then m\<lparr>member_role := r\<rparr> else m)
                          (a_members A k))\<rparr>"
| "a_exec (Op_create_todo it now) A =
     A\<lparr>a_todos := (a_todos A)(a_next_todo A \<mapsto> new_todo (a_next_todo A) now it),
       a_next_todo := a_next_todo A + 1\<rparr>"
| "a_exec (Op_update_todo i p now) A = (case a_todos A i of
       None \<Rightarrow> A
     | Some t \<Rightarrow> A\<lparr>a_todos := (a_todos A)(i \<mapsto> (apply_todo_patch p t)\<lparr>todo_updated_at := now\<rparr>)\<rparr>)"
| "a_exec (Op_delete_todo i) A = A\<lparr>a_todos := (a_todos A)(i := None)\<rparr>"

text \<open>The calling-layer contract: an update of a board names only the fields to
  change, and never \<open>id\<close>, \<open>createdBy\<close> or \<open>createdAt\<close>.\<close>

fun op_ok :: "storage_op \<Rightarrow> bool" where
  "op_ok (Op_update_board i p) \<longleftrightarrow> bp_id p = None \<and> bp_created_by p = None \<and> bp_created_at p = None"
| "op_ok _ \<longleftrightarrow> True"

subsection \<open>How the maps of \<open>MemStorage\<close> implement the specified updates\<close>

lemma map_of_filter_keep_at:
  "distinct (keys_of m) \<Longrightarrow> map_of (filter (\<lambda>(k, v). Q v) m) x = keep_where Q (map_of m) x"
proof (induction m)
  case (Cons e m)
  obtain k v where e: "e = (k, v)" by fastforce
  with Cons have "map_of m k = None" by (simp add: map_of_eq_None_iff)
  with Cons e show ?case by (auto simp: keep_where_def)
qed (simp add: keep_where_def)

lemma map_of_filter_keep:
  "distinct (keys_of m) \<Longrightarrow> map_of (filter (\<lambda>(k, v). Q v) m) = keep_where Q (map_of m)"
  by (rule ext) (rule map_of_filter_keep_at)

lemma find_values_None_ran:
  "distinct (keys_of m) \<Longrightarrow> find P (values_of m) = None \<longleftrightarrow> \<not> (\<exists>v \<in> ran (map_of m). P v)"
  by (simp add: find_None_iff ran_distinct)

lemma keep_where_all: "\<forall>v \<in> ran f. Q v \<Longrightarrow> keep_where Q f = f"
  by (auto simp: keep_where_def fun_eq_iff ranI split: option.splits)

lemma member_entry_unique:
  assumes "members_inv c ms" "find_member_entry b u ms = Some (k, m)" "map_of ms k' = Some m'"
    "member_of b u m'"
  shows "k' = k"
proof -
  from assms(2) have "(k, m) \<in> set ms" "member_of b u m" by (auto dest: find_member_entry_in)
  moreover from assms(3) have "(k', m') \<in> set ms" by (rule map_of_SomeD)
  ultimately show ?thesis using assms(1,4) unique_members_pair [of ms k' m' k m b u]
    by (auto simp: members_inv_def)
qed

lemma remove_member_abs:
  assumes "members_inv c (board_members s)"
  shows "map_of (board_members (snd (remove_board_member b u s))) =
         keep_where (\<lambda>m. \<not> member_of b u m) (map_of (board_members s))"
proof (cases "find_member_entry b u (board_members s)")
  case None
  then have "\<forall>v \<in> ran (map_of (board_members s)). \<not> member_of b u v"
    using assms by (auto simp: find_member_entry_None members_inv_def ran_distinct)
  with None show ?thesis by (simp add: remove_board_member_def keep_where_all)
next
  case (Some e)
  obtain k m where e: "e = (k, m)" by fastforce
  have dk: "distinct (keys_of (board_members s))" using assms by (simp add: members_inv_def)
  have "map_of (AList.delete k (board_members s)) k' =
        keep_where (\<lambda>m. \<not> member_of b u m) (map_of (board_members s)) k'" for k'
    using member_entry_unique [OF assms, of b u k m k'] Some e find_member_entry_in [of b u "board_members s" k m]
    by (cases "map_of (board_members s) k'")
       (auto simp: keep_where_def delete_conv' dest: map_of_is_SomeI [OF dk])
  with Some e show ?thesis by (auto simp: remove_board_member_def)
qed

lemma update_role_abs:
  assumes "members_inv c (board_members s)"
  shows "map_of (board_members (snd (update_board_member_role b u r s))) =
         (\<lambda>k. map_option (\<lambda>m. if member_of b u m then m\<lparr>member_role := r\<rparr> else m)
                (map_of (board_members s) k))"
proof (cases "find_member_entry b u (board_members s)")
  case None
  then have "\<forall>v \<in> ran (map_of (board_members s)). \<not> member_of b u v"
    using assms by (auto simp: find_member_entry_None members_inv_def ran_distinct)
  then have "map_option (\<lambda>m. if member_of b u m then m\<lparr>member_role := r\<rparr> else m)
      (map_of (board_members s) x) = map_of (board_members s) x" for x
    by (cases "map_of (board_members s) x") (auto intro: ranI)
  with None show ?thesis by (simp add: update_board_member_role_def fun_eq_iff)
next
  case (Some e)
  obtain k m where e: "e = (k, m)" by fastforce
  have dk: "distinct (keys_of (board_members s))" using assms by (simp add: members_inv_def)
  have "((map_of (board_members s))(k \<mapsto> m\<lparr>member_role := r\<rparr>)) k' =
        map_option (\<lambda>m. if member_of b u m then m\<lparr>member_role := r\<rparr> else m) (map_of (board_members s) k')" for k'
    using member_entry_unique [OF assms, of b u k m k'] Some e find_member_entry_in [of b u "board_members s" k m]
    by (cases "map_of (board_members s) k'") (auto dest: map_of_is_SomeI [OF dk])
  with Some e show ?thesis
    by (auto simp: update_board_member_role_def Let_def update_conv' fun_eq_iff)
qed

lemma add_member_abs:
  assumes dk: "distinct (keys_of (board_members s))"
  shows "abs_of (snd (add_board_member im s)) = a_add_member im (abs_of s)"
proof (cases "find (member_of (im_board_id im) (im_user_id im)) (values_of (board_members s))")
  case None
  with find_values_None_ran [OF dk, of "member_of (im_board_id im) (im_user_id im)"]
  have "\<not> (\<exists>v \<in> ran (map_of (board_members s)). member_of (im_board_id im) (im_user_id im) v)" by simp
  with None show ?thesis
    by (simp add: add_board_member_def a_add_member_def abs_of_def Let_def update_conv')
next
  case (Some m)
  with find_values_None_ran [OF dk, of "member_of (im_board_id im) (im_user_id im)"]
  have "\<exists>v \<in> ran (map_of (board_members s)). member_of (im_board_id im) (im_user_id im) v" by simp
  with Some show ?thesis by (simp add: add_board_member_def a_add_member_def abs_of_def)
qed

lemma apply_board_patch_ok:
  "bp_id p = None \<Longrightarrow> bp_created_by p = None \<Longrightarrow> bp_created_at p = None \<Longrightarrow>
   apply_board_patch p b = b\<lparr>board_title := spread (bp_title p) (board_title b),
     board_description := spread (bp_description p) (board_description b),
     board_color := spread (bp_color p) (board_color b)\<rparr>"
  by (cases b) (simp add: apply_board_patch_def)

subsection \<open>Refinement\<close>

text \<open>One call of the implementation does what \<open>a_exec\<close> specifies.\<close>

lemma exec_op_refines:
  "store_inv s \<Longrightarrow> op_ok op \<Longrightarrow> abs_of (exec_op op s) = a_exec op (abs_of s)"
proof (induction op)
  case (Op_create_user iu)
  then show ?case by (simp add: abs_of_def create_user_state update_conv')
next
  case (Op_create_board ib now)
  let ?i = "current_board_id s"
  let ?s1 = "s\<lparr>current_board_id := ?i + 1, boards := AList.update ?i (new_board ?i now ib) (boards s)\<rparr>"
  have "distinct (keys_of (board_members ?s1))"
    using Op_create_board by (simp add: store_inv_def members_inv_def)
  from add_member_abs [OF this] show ?case
    by (simp add: create_board_def Let_def abs_of_def update_conv')
next
  case (Op_update_board i p)
  then show ?case
    by (auto simp: update_board_def a_update_board_def abs_of_def Let_def update_conv'
        apply_board_patch_ok split: option.splits)
next
  case (Op_delete_board i)
  then have "distinct (keys_of (board_members s))" "distinct (keys_of (todos s))"
    by (simp_all add: store_inv_def members_inv_def)
  then show ?case
    by (auto simp: delete_board_def js_map_delete_def abs_of_def Let_def delete_conv'
        js_delete_where_self map_of_filter_keep)
next
  case (Op_add_board_member im)
  then show ?case by (simp add: add_member_abs store_inv_def members_inv_def)
next
  case (Op_remove_board_member b u)
  then have "members_inv (current_board_member_id s) (board_members s)" by (simp add: store_inv_def)
  from remove_member_abs [OF this, of b u] show ?case
    by (simp add: abs_of_def remove_board_member_def split: option.splits prod.splits)
next
  case (Op_update_board_member_role b u r)
  then have "members_inv (current_board_member_id s) (board_members s)" by (simp add: store_inv_def)
  from update_role_abs [OF this, of b u r] show ?case
    by (simp add: abs_of_def update_board_member_role_def Let_def split: option.splits prod.splits)
next
  case (Op_create_todo it now)
  then show ?case by (simp add: abs_of_def create_todo_def Let_def update_conv')
next
  case (Op_update_todo i p now)
  then show ?case
    by (auto simp: abs_of_def update_todo_def Let_def update_conv' split: option.splits)
next
  case (Op_delete_todo i)
  then show ?case by (simp add: abs_of_def delete_todo_eq delete_conv')
qed

text \<open>C33: the store refines its specification: from any state satisfying the
  store invariant (every reachable state does), every sequence of calls that
  respects the calling-layer contract changes the handle-indexed collections and
  counters exactly as the specified operations do, composed in the same order.\<close>

theorem exec_run_refines:
  "store_inv s \<Longrightarrow> list_all op_ok ops \<Longrightarrow> abs_of (exec_run ops s) = fold a_exec ops (abs_of s)"
proof (induction ops arbitrary: s)
  case (Cons op ops)
  then have "abs_of (exec_run ops (exec_op op s)) = fold a_exec ops (abs_of (exec_op op s))"
    by (simp add: exec_op_store_inv)
  with Cons.prems show ?case by (simp add: exec_op_refines)
qed simp

theorem exec_run_refines_witness:
  "let ops = [Op_create_board \<lparr>ib_title = ''Launch'', ib_description = None, ib_color = None, ib_created_by = 1\<rparr> 0,
              Op_add_board_member \<lparr>im_board_id = 1, im_user_id = 2, im_role = None\<rparr>,
              Op_update_board 1 (empty_board_patch\<lparr>bp_title := Some (Some ''Q3'')\<rparr>),
              Op_delete_board 1]
   in store_inv init_storage \<and> list_all op_ok ops \<and>
      abs_of (exec_run ops init_storage) = fold a_exec ops (abs_of init_storage)"
proof -
  let ?ops = "[Op_create_board \<lparr>ib_title = ''Launch'', ib_description = None, ib_color = None, ib_created_by = 1\<rparr> 0,
              Op_add_board_member \<lparr>im_board_id = 1, im_user_id = 2, im_role = None\<rparr>,
              Op_update_board 1 (empty_board_patch\<lparr>bp_title := Some (Some ''Q3'')\<rparr>),
              Op_delete_board 1]"
  have h1: "store_inv init_storage" by (rule store_inv_init)
  have h2: "list_all op_ok ?ops" by (simp add: empty_board_patch_def)
  show ?thesis unfolding Let_def by (intro conjI h1 h2 exec_run_refines [OF h1 h2])
qed

end
