(* ===== verification/BoardPage.thy ===== *)
theory BoardPage
  imports Client Abstract
begin

text \<open>
  The board page \<open>BoardDetail\<close> (\<open>src/unnamed/part_006\<close>, lines 51-540) as a
  state machine over its \<open>useState\<close> hooks and the server store.  The two
  queries (\<open>GET /api/boards/:id\<close> and \<open>GET /api/boards/:id/todos\<close>) are
  read from the store when rendered (\<open>page_board\<close>, \<open>page_todos\<close>); the two
  mutations run the \<open>Routes\<close> handlers through \<open>save_title\<close>,
  \<open>save_description\<close> and \<open>DELETE\<close>.  The board id is
  \<open>parseInt(params.id)\<close>: \<open>None\<close> is \<open>NaN\<close>, which the URLs spell
  \<open>"NaN"\<close>, and \<open>0\<close> stands for a missing parameter; both disable the
  queries (\<open>enabled: !!boardId\<close>).  The edited title is an option: the
  board's \<open>title\<close> is \<open>undefined\<close> once a PUT has erased it, and the effect
  copies it as it is.  Toasts, focus and the loading skeletons are presentation.
\<close>

record board_page =
  pg_board_id :: "int option"
  pg_editing_title :: bool
  pg_edit_title :: "string option"
  pg_editing_description :: bool
  pg_edit_description :: string
  pg_status_filter :: string
  pg_assignee_filter :: string
  pg_search :: string
  pg_sort :: string
  pg_create_todo_open :: bool
  pg_invite_open :: bool
  pg_sidebar_open :: bool
  pg_location :: "string option"

definition init_board_page :: "string option \<Rightarrow> board_page" where
  "init_board_page param =
     \<lparr>pg_board_id = (case param of None \<Rightarrow> Some 0 | Some p \<Rightarrow> if p = [] then Some 0 else parse_int p),
      pg_editing_title = False, pg_edit_title = Some [], pg_editing_description = False, pg_edit_description = [],
      pg_status_filter = ''all'', pg_assignee_filter = ''all'', pg_search = [], pg_sort = ''recent'',
      pg_create_todo_open = False, pg_invite_open = False, pg_sidebar_open = False, pg_location = None\<rparr>"

text \<open>\<open>`/api/boards/${boardId}`\<close>\<close>

definition id_url :: "int option \<Rightarrow> string" where
  "id_url bid = (case bid of None \<Rightarrow> ''NaN'' | Some i \<Rightarrow> js_int_string i)"

text \<open>A query runs when \<open>!!boardId && !!user\<close>; its data is the body of a
  response that is \<open>ok\<close>, and nothing otherwise (the query function throws).\<close>

definition query_enabled :: "ident option \<Rightarrow> board_page \<Rightarrow> bool" where
  "query_enabled uid pg \<longleftrightarrow> uid \<noteq> None \<and> (case pg_board_id pg of None \<Rightarrow> False | Some i \<Rightarrow> i \<noteq> 0)"

definition page_board :: "ident option \<Rightarrow> board_page \<Rightarrow> mem_storage \<Rightarrow> board_with_members option" where
  "page_board uid pg s =
     (if \<not> query_enabled uid pg then None
      else case get_board_route (id_url (pg_board_id pg)) s of
             (st, Body_board_with_members b) \<Rightarrow> if res_ok st then Some b else None
           | _ \<Rightarrow> None)"

definition page_todos :: "ident option \<Rightarrow> board_page \<Rightarrow> mem_storage \<Rightarrow> todo_with_assignee list" where
  "page_todos uid pg s =
     (if \<not> query_enabled uid pg then []
      else case get_todos_route (id_url (pg_board_id pg)) s of
             (st, Body_todos ts) \<Rightarrow> if res_ok st then ts else []
           | _ \<Rightarrow> [])"

text \<open>The list the page renders: \<open>sortedTodos\<close>.\<close>

definition shown_todos ::
  "(string \<Rightarrow> string \<Rightarrow> int) \<Rightarrow> ident option \<Rightarrow> board_page \<Rightarrow> mem_storage \<Rightarrow> todo_with_assignee list" where
  "shown_todos collate uid pg s =
     board_todo_list (pg_status_filter pg) (pg_assignee_filter pg) (pg_search pg) uid (pg_sort pg) collate
       (page_todos uid pg s)"

text \<open>The avatars of the board's members, computed on every render:
  \<open>(board?.members || []).map(member => ({ name: member.displayName ||
  member.username, image: member.photoURL }))\<close>.  A member the server could
  not find is \<open>undefined\<close> in \<open>getBoardWithMembers\<close>, sent as \<open>null\<close>,
  and reading \<open>null.displayName\<close> throws: \<open>None\<close> is that
  \<open>TypeError\<close>, which unmounts the page.\<close>

definition avatar_items :: "user option list \<Rightarrow> (string \<times> string option) list option" where
  "avatar_items ms = those (map (map_option (\<lambda>u. (js_or_str (display_name u) (username u), photo_url u))) ms)"

definition board_avatar_items :: "ident option \<Rightarrow> board_page \<Rightarrow> mem_storage \<Rightarrow> (string \<times> string option) list option" where
  "board_avatar_items uid pg s = avatar_items (case page_board uid pg s of None \<Rightarrow> [] | Some b \<Rightarrow> members b)"

text \<open>\<open>renderTodoList\<close>: three skeletons while the todos load; when the
  sorted list is empty, a message that names the filters (\<open>True\<close>) when a
  search or a filter is set, and says the board has no todos yet otherwise;
  the todo items otherwise.\<close>

datatype todo_list_view = Todo_skeletons nat | Todo_empty bool | Todo_items "todo_with_assignee list"

definition render_todo_list ::
  "bool \<Rightarrow> (string \<Rightarrow> string \<Rightarrow> int) \<Rightarrow> ident option \<Rightarrow> board_page \<Rightarrow> mem_storage \<Rightarrow> todo_list_view" where
  "render_todo_list loading collate uid pg s =
     (if loading then Todo_skeletons 3
      else let ts = shown_todos collate uid pg s
           in if ts = [] then Todo_empty (pg_search pg \<noteq> [] \<or> pg_status_filter pg \<noteq> ''all'' \<or> pg_assignee_filter pg \<noteq> ''all'')
              else Todo_items ts)"

text \<open>A store with the user \<open>alice\<close> (id 1) and her board 1.\<close>

definition example_board_store :: mem_storage where
  "example_board_store =
     snd (create_board \<lparr>ib_title = ''Launch'', ib_description = None, ib_color = None, ib_created_by = 1\<rparr> 0
       (snd (create_user \<lparr>iu_username = ''alice'', iu_password = ''h'', iu_phone_number = ''+15550100'',
                           iu_display_name = None, iu_photo_url = None\<rparr> init_storage)))"

datatype board_event =
    Title_edit
  | Title_input string
  | Title_key string
  | Title_save
  | Description_edit
  | Description_input string
  | Description_key string
  | Description_cancel
  | Description_save
  | Delete_click bool
  | Status_filter string
  | Assignee_filter string
  | Search_input string
  | Sort_select string
  | Create_todo_open bool
  | Invite_open bool
  | Sidebar_toggle
  | Sidebar_close
  | Back_click
  | Board_synced

text \<open>The store after a PUT of the page; a request to \<open>/api/boards/NaN\<close>
  is answered 400 and changes nothing.\<close>

definition put_after :: "(ident \<Rightarrow> mem_storage \<Rightarrow> (response option \<times> mem_storage) option) \<Rightarrow>
    int option \<Rightarrow> mem_storage \<Rightarrow> mem_storage" where
  "put_after save bid s = (case bid of None \<Rightarrow> s
     | Some i \<Rightarrow> (case save i s of None \<Rightarrow> s | Some (_, s') \<Rightarrow> s'))"

text \<open>\<open>handleSaveTitle\<close>: \<open>editTitle.trim()\<close> throws on \<open>undefined\<close>, a
  blank title is refused, otherwise the PUT is sent and editing ends.\<close>

definition handle_save_title :: "string option \<Rightarrow> board_page \<times> mem_storage \<Rightarrow> board_page \<times> mem_storage" where
  "handle_save_title tok ps = (let (pg, s) = ps in
     case pg_edit_title pg of
       None \<Rightarrow> (pg, s)
     | Some t \<Rightarrow> if js_trim t = [] then (pg, s)
                 else (pg\<lparr>pg_editing_title := False\<rparr>,
                       put_after (\<lambda>i. save_title i t tok) (pg_board_id pg) s))"

definition handle_save_description :: "string option \<Rightarrow> board_page \<times> mem_storage \<Rightarrow> board_page \<times> mem_storage" where
  "handle_save_description tok ps = (let (pg, s) = ps in
     (pg\<lparr>pg_editing_description := False\<rparr>,
      put_after (\<lambda>i. save_description i (pg_edit_description pg) tok) (pg_board_id pg) s))"

text \<open>\<open>handleDeleteBoard\<close>: after \<open>window.confirm\<close>, \<open>DELETE\<close>; only a
  successful answer navigates to \<open>/\<close> (\<open>apiRequest\<close> throws otherwise).\<close>

definition handle_delete_board :: "bool \<Rightarrow> board_page \<times> mem_storage \<Rightarrow> board_page \<times> mem_storage" where
  "handle_delete_board confirmed ps = (let (pg, s) = ps in
     if \<not> confirmed then (pg, s)
     else (let ((st, _), s') = delete_board_route (id_url (pg_board_id pg)) s
           in (if res_ok st then pg\<lparr>pg_location := Some ''/''\<rparr> else pg, s')))"

text \<open>The effect on \<open>[board]\<close>: copy the fetched title and description.\<close>

definition sync_board :: "ident option \<Rightarrow> board_page \<times> mem_storage \<Rightarrow> board_page \<times> mem_storage" where
  "sync_board uid ps = (let (pg, s) = ps in
     case page_board uid pg s of
       None \<Rightarrow> (pg, s)
     | Some b \<Rightarrow> (pg\<lparr>pg_edit_title := board_title (bwm_board b),
                      pg_edit_description := js_or_str (board_description (bwm_board b)) []\<rparr>, s))"

fun board_step ::
  "string option \<Rightarrow> ident option \<Rightarrow> board_event \<Rightarrow> board_page \<times> mem_storage \<Rightarrow> board_page \<times> mem_storage" where
  "board_step tok uid Title_edit (pg, s) = (pg\<lparr>pg_editing_title := True\<rparr>, s)"
| "board_step tok uid (Title_input v) (pg, s) = (pg\<lparr>pg_edit_title := Some v\<rparr>, s)"
| "board_step tok uid (Title_key k) (pg, s) =
     (if k = ''Enter'' then handle_save_title tok (pg, s)
      else if k = ''Escape'' then (pg\<lparr>pg_editing_title := False\<rparr>, s) else (pg, s))"
| "board_step tok uid Title_save (pg, s) = handle_save_title tok (pg, s)"
| "board_step tok uid Description_edit (pg, s) = (pg\<lparr>pg_editing_description := True\<rparr>, s)"
| "board_step tok uid (Description_input v) (pg, s) = (pg\<lparr>pg_edit_description := v\<rparr>, s)"
| "board_step tok uid (Description_key k) (pg, s) =
     (if k = ''Enter'' then handle_save_description tok (pg, s)
      else if k = ''Escape'' then (pg\<lparr>pg_editing_description := False\<rparr>, s) else (pg, s))"
| "board_step tok uid Description_cancel (pg, s) = (pg\<lparr>pg_editing_description := False\<rparr>, s)"
| "board_step tok uid Description_save (pg, s) = handle_save_description tok (pg, s)"
| "board_step tok uid (Delete_click c) (pg, s) = handle_delete_board c (pg, s)"
| "board_step tok uid (Status_filter v) (pg, s) = (pg\<lparr>pg_status_filter := v\<rparr>, s)"
| "board_step tok uid (Assignee_filter v) (pg, s) = (pg\<lparr>pg_assignee_filter := v\<rparr>, s)"
| "board_step tok uid (Search_input v) (pg, s) = (pg\<lparr>pg_search := v\<rparr>, s)"
| "board_step tok uid (Sort_select v) (pg, s) = (pg\<lparr>pg_sort := v\<rparr>, s)"
| "board_step tok uid (Create_todo_open b) (pg, s) = (pg\<lparr>pg_create_todo_open := b\<rparr>, s)"
| "board_step tok uid (Invite_open b) (pg, s) = (pg\<lparr>pg_invite_open := b\<rparr>, s)"
| "board_step tok uid Sidebar_toggle (pg, s) = (pg\<lparr>pg_sidebar_open := \<not> pg_sidebar_open pg\<rparr>, s)"
| "board_step tok uid Sidebar_close (pg, s) = (pg\<lparr>pg_sidebar_open := False\<rparr>, s)"
| "board_step tok uid Back_click (pg, s) = (pg\<lparr>pg_location := Some ''/''\<rparr>, s)"
| "board_step tok uid Board_synced (pg, s) = sync_board uid (pg, s)"

definition board_run ::
  "string option \<Rightarrow> ident option \<Rightarrow> board_event list \<Rightarrow> board_page \<times> mem_storage \<Rightarrow> board_page \<times> mem_storage" where
  "board_run tok uid evs = fold (board_step tok uid) evs"

text \<open>The store calls the page can make: updates and deletion of its own
  board, with update objects naming only \<open>title\<close>, \<open>description\<close> and
  \<open>color\<close>.\<close>

fun board_op :: "ident \<Rightarrow> storage_op \<Rightarrow> bool" where
  "board_op b (Op_update_board i p) \<longleftrightarrow> i = b \<and> op_ok (Op_update_board i p)"
| "board_op b (Op_delete_board i) \<longleftrightarrow> i = b"
| "board_op b _ \<longleftrightarrow> False"

text \<open>Two abstract stores agree outside board \<open>b\<close>: same users and counters,
  same boards other than \<open>b\<close>, same memberships and todos of other boards.\<close>

definition board_frame :: "ident \<Rightarrow> abs_store \<Rightarrow> abs_store \<Rightarrow> bool" where
  "board_frame b A A' \<longleftrightarrow> a_users A' = a_users A \<and> (a_boards A')(b := None) = (a_boards A)(b := None) \<and>
     keep_where (\<lambda>m. member_board_id m \<noteq> b) (a_members A') = keep_where (\<lambda>m. member_board_id m \<noteq> b) (a_members A) \<and>
     keep_where (\<lambda>t. todo_board_id t \<noteq> b) (a_todos A') = keep_where (\<lambda>t. todo_board_id t \<noteq> b) (a_todos A) \<and>
     a_next_user A' = a_next_user A \<and> a_next_board A' = a_next_board A \<and>
     a_next_member A' = a_next_member A \<and> a_next_todo A' = a_next_todo A"

subsection \<open>Lemmas: the page's store calls\<close>

lemma board_updates_ok:
  "board_updates j = Some p \<Longrightarrow> bp_id p = None \<and> bp_created_by p = None \<and> bp_created_at p = None"
  by (auto simp: board_updates_def empty_board_patch_def split: Option.bind_splits)

lemma put_after_save_title:
  "put_after (\<lambda>i. save_title i t tok) (Some b) s = s \<or>
   (\<exists>op. board_op b op \<and> put_after (\<lambda>i. save_title i t tok) (Some b) s = exec_op op s)"
proof -
  let ?body = "with_csrf tok ''PUT'' (JObj [(''title'', JStr t)])"
  show ?thesis
  proof (cases "js_trim t = [] \<or> put_board_route (js_int_string b) ?body s = None")
    case True
    then show ?thesis by (auto simp: put_after_def save_title_def)
  next
    case False
    then obtain r s' where put: "put_board_route (js_int_string b) ?body s = Some (r, s')" "js_trim t \<noteq> []" by auto
    from put(1) obtain p where p: "board_updates ?body = Some p"
      by (auto simp: put_board_route_def split: option.splits)
    with put_board_route_state [OF put(1)] have "s' = exec_op (Op_update_board b p) s" by simp
    moreover from p have "board_op b (Op_update_board b p)" by (simp add: board_updates_ok)
    ultimately have "board_op b (Op_update_board b p) \<and>
        put_after (\<lambda>i. save_title i t tok) (Some b) s = exec_op (Op_update_board b p) s"
      using put by (simp add: put_after_def save_title_def del: exec_op.simps board_op.simps)
    then show ?thesis by blast
  qed
qed

lemma put_after_save_description:
  "put_after (\<lambda>i. save_description i d tok) (Some b) s = s \<or>
   (\<exists>op. board_op b op \<and> put_after (\<lambda>i. save_description i d tok) (Some b) s = exec_op op s)"
proof -
  let ?body = "with_csrf tok ''PUT'' (JObj [(''description'', JStr d)])"
  show ?thesis
  proof (cases "put_board_route (js_int_string b) ?body s")
    case None
    then show ?thesis by (simp add: put_after_def save_description_def)
  next
    case (Some rs)
    then obtain r s' where put: "put_board_route (js_int_string b) ?body s = Some (r, s')" by (cases rs) auto
    from put obtain p where p: "board_updates ?body = Some p"
      by (auto simp: put_board_route_def split: option.splits)
    with put_board_route_state [OF put] have "s' = exec_op (Op_update_board b p) s" by simp
    moreover from p have "board_op b (Op_update_board b p)" by (simp add: board_updates_ok)
    ultimately have "board_op b (Op_update_board b p) \<and>
        put_after (\<lambda>i. save_description i d tok) (Some b) s = exec_op (Op_update_board b p) s"
      using put by (simp add: put_after_def save_description_def del: exec_op.simps board_op.simps)
    then show ?thesis by blast
  qed
qed

lemma delete_board_route_id:
  "snd (delete_board_route (js_int_string b) s) = exec_op (Op_delete_board b) s"
  by (simp add: delete_board_route_def split: prod.splits)

text \<open>One step of the page keeps its board id and makes at most one store
  call, and that call is about its board.\<close>

definition step_on_board :: "ident \<Rightarrow> board_page \<times> mem_storage \<Rightarrow> board_page \<times> mem_storage \<Rightarrow> bool" where
  "step_on_board b ps ps' \<longleftrightarrow> pg_board_id (fst ps') = pg_board_id (fst ps) \<and>
     (snd ps' = snd ps \<or> (\<exists>op. board_op b op \<and> snd ps' = exec_op op (snd ps)))"

lemma handle_save_title_on_board:
  "pg_board_id pg = Some b \<Longrightarrow> step_on_board b (pg, s) (handle_save_title tok (pg, s))"
  using put_after_save_title [of _ tok b s]
  by (auto simp: step_on_board_def handle_save_title_def split: option.splits)

lemma handle_save_description_on_board:
  "pg_board_id pg = Some b \<Longrightarrow> step_on_board b (pg, s) (handle_save_description tok (pg, s))"
  using put_after_save_description [of "pg_edit_description pg" tok b s]
  by (auto simp: step_on_board_def handle_save_description_def)

lemma step_on_board_same:
  "pg_board_id pg' = pg_board_id pg \<Longrightarrow> step_on_board b (pg, s) (pg', s)"
  by (simp add: step_on_board_def)

lemma handle_delete_board_on_board:
  assumes "pg_board_id pg = Some b"
  shows "step_on_board b (pg, s) (handle_delete_board c (pg, s))"
proof (cases c)
  case True
  obtain st body s' where d: "delete_board_route (js_int_string b) s = ((st, body), s')"
    by (metis prod.exhaust)
  with delete_board_route_id [of b s] have "s' = exec_op (Op_delete_board b) s" by simp
  moreover have "board_op b (Op_delete_board b)" by simp
  ultimately have "\<exists>op. board_op b op \<and> s' = exec_op op s" by blast
  with True d assms show ?thesis by (simp add: step_on_board_def handle_delete_board_def id_url_def)
qed (simp add: handle_delete_board_def step_on_board_same)

lemma board_step_on_board:
  assumes "pg_board_id pg = Some b"
  shows "step_on_board b (pg, s) (board_step tok uid ev (pg, s))"
proof (cases ev)
  case Title_save
  then show ?thesis using handle_save_title_on_board [OF assms] by simp
next
  case (Title_key k)
  then show ?thesis using handle_save_title_on_board [OF assms] by (simp add: step_on_board_same)
next
  case Description_save
  then show ?thesis using handle_save_description_on_board [OF assms] by simp
next
  case (Description_key k)
  then show ?thesis using handle_save_description_on_board [OF assms] by (simp add: step_on_board_same)
next
  case (Delete_click c)
  then show ?thesis using handle_delete_board_on_board [OF assms] by simp
next
  case Board_synced
  then show ?thesis by (simp add: sync_board_def step_on_board_same split: option.splits)
qed (simp_all add: step_on_board_same)

subsection \<open>What the page shows\<close>

lemma page_todos_enabled:
  "uid \<noteq> None \<Longrightarrow> pg_board_id pg = Some b \<Longrightarrow> b \<noteq> 0 \<Longrightarrow> page_todos uid pg s = get_todos s b"
  by (simp add: page_todos_def query_enabled_def id_url_def get_todos_route_def res_ok_def)

text \<open>The rendered list holds exactly the board's todos that pass the filters,
  each as often as it is stored, in the order of the chosen sort.\<close>

lemma shown_todos_mset:
  "uid \<noteq> None \<Longrightarrow> pg_board_id pg = Some b \<Longrightarrow> b \<noteq> 0 \<Longrightarrow>
   mset (shown_todos collate uid pg s) =
   mset (filter (todo_visible (pg_status_filter pg) (pg_assignee_filter pg) (pg_search pg) uid) (get_todos s b))"
  by (simp add: shown_todos_def board_todo_list_def js_sort_def mset_js_sort_fold page_todos_enabled)

text \<open>After a description is saved from the page, the PUT has erased the title;
  the effect copies the now \<open>undefined\<close> title into the edit box, and saving the
  title without typing in it first does nothing: \<open>editTitle.trim()\<close> throws.\<close>

lemma title_save_undefined:
  "pg_edit_title pg = None \<Longrightarrow> handle_save_title tok (pg, s) = (pg, s)"
  by (simp add: handle_save_title_def)

lemma description_save_blocks_title_save:
  "let ib = \<lparr>ib_title = ''Launch'', ib_description = None, ib_color = None, ib_created_by = 1\<rparr>;
       s = exec_op (Op_create_board ib 1000) init_storage;
       pg = init_board_page (Some ''1'');
       (pg1, s1) = board_run None (Some 1) [Board_synced, Description_edit, Description_input ''Q3 goals'',
                                           Description_save, Board_synced, Title_edit, Title_save] (pg, s)
   in pg_edit_title pg1 = None \<and> pg_editing_title pg1 \<and>
      map_option board_title (get_board s1 1) = Some None"
  by code_simp

subsection \<open>The page touches only its own board\<close>

lemma keep_where_idem: "keep_where Q (keep_where Q f) = keep_where Q f"
  by (auto simp: keep_where_def fun_eq_iff split: option.splits)

lemma board_frame_refl: "board_frame b A A"
  by (simp add: board_frame_def)

lemma board_frame_trans: "board_frame b A A' \<Longrightarrow> board_frame b A' A'' \<Longrightarrow> board_frame b A A''"
  by (simp add: board_frame_def)

lemma board_op_ok: "board_op b op \<Longrightarrow> op_ok op"
  by (cases op) auto

lemma a_exec_board_frame: "board_op b op \<Longrightarrow> board_frame b A (a_exec op A)"
  by (cases op) (auto simp: board_frame_def a_update_board_def keep_where_idem split: option.splits)

lemma exec_op_board_frame:
  "store_inv s \<Longrightarrow> board_op b op \<Longrightarrow> board_frame b (abs_of s) (abs_of (exec_op op s))"
  using exec_op_refines [of s op] board_op_ok [of b op] a_exec_board_frame [of b op "abs_of s"] by simp

lemma board_step_frame:
  assumes inv: "store_inv s" and b: "pg_board_id pg = Some b" and st: "board_step tok uid e (pg, s) = (pg', s')"
  shows "pg_board_id pg' = Some b \<and> store_inv s' \<and> board_frame b (abs_of s) (abs_of s')"
proof -
  from board_step_on_board [OF b, of s tok uid e] st
  have on: "pg_board_id pg' = Some b" "s' = s \<or> (\<exists>op. board_op b op \<and> s' = exec_op op s)"
    using b by (simp_all add: step_on_board_def)
  then show ?thesis using inv exec_op_store_inv [OF inv] exec_op_board_frame [OF inv]
    by (auto simp: board_frame_refl)
qed

text \<open>C13: whatever the user does on a board's page, in any order (edits of
  title and description, saves by button or Enter, cancels, filters, search,
  sort, dialogs, sidebar, deletion), the server store changes only at that
  board: users, counters, every other board, and the memberships and todos of
  other boards stay exactly as they were.\<close>

theorem board_page_frame:
  "store_inv s \<Longrightarrow> pg_board_id pg = Some b \<Longrightarrow>
   board_frame b (abs_of s) (abs_of (snd (board_run tok uid evs (pg, s))))"
proof (induction evs arbitrary: pg s)
  case Nil
  then show ?case by (simp add: board_run_def board_frame_refl)
next
  case (Cons e evs)
  obtain pg' s' where st: "board_step tok uid e (pg, s) = (pg', s')" by fastforce
  from board_step_frame [OF Cons.prems st]
  have "pg_board_id pg' = Some b" "store_inv s'" "board_frame b (abs_of s) (abs_of s')" by simp_all
  with Cons.IH [of s' pg'] st show ?case
    by (auto simp: board_run_def intro: board_frame_trans)
qed

theorem board_page_frame_witness:
  "let ib = \<lparr>ib_title = ''Launch'', ib_description = None, ib_color = None, ib_created_by = 1\<rparr>;
       s = exec_op (Op_create_board ib 1000) init_storage;
       pg = init_board_page (Some (js_int_string 1))
   in store_inv s \<and> pg_board_id pg = Some 1 \<and>
      board_frame 1 (abs_of s) (abs_of (snd (board_run None (Some 1)
        [Title_input ''Q3'', Title_save, Description_save, Delete_click True] (pg, s))))"
  unfolding Let_def
proof (intro conjI)
  let ?s = "exec_op (Op_create_board \<lparr>ib_title = ''Launch'', ib_description = None, ib_color = None, ib_created_by = 1\<rparr> 1000) init_storage"
  show h1: "store_inv ?s" by (rule exec_op_store_inv [OF store_inv_init])
  show h2: "pg_board_id (init_board_page (Some (js_int_string 1))) = Some 1"
    by (simp add: init_board_page_def js_int_string_ne)
  show "board_frame 1 (abs_of ?s) (abs_of (snd (board_run None (Some 1)
        [Title_input ''Q3'', Title_save, Description_save, Delete_click True]
        (init_board_page (Some (js_int_string 1)), ?s))))"
    by (rule board_page_frame [OF h1 h2])
qed

subsection \<open>Members the store does not know\<close>

lemma those_None: "None \<in> set xs \<Longrightarrow> those xs = None"
  by (induction xs) (auto split: option.split)

lemma add_board_member_present:
  "\<exists>m \<in> set (values_of (board_members (snd (add_board_member im s)))). member_of (im_board_id im) (im_user_id im) m"
proof (cases "find (member_of (im_board_id im) (im_user_id im)) (values_of (board_members s))")
  case None
  let ?m = "new_member (current_board_member_id s) im"
  have "find (member_of (im_board_id im) (im_user_id im)) (values_of (AList.update (current_board_member_id s) ?m (board_members s))) = Some ?m"
    by (rule find_values_update_new) (simp_all add: None)
  then have "?m \<in> set (values_of (AList.update (current_board_member_id s) ?m (board_members s))) \<and>
      member_of (im_board_id im) (im_user_id im) ?m" by (rule find_some_mem)
  with None show ?thesis by (force simp: add_board_member_def Let_def)
next
  case (Some m)
  then have "m \<in> set (values_of (board_members s)) \<and> member_of (im_board_id im) (im_user_id im) m"
    by (rule find_some_mem)
  with Some show ?thesis by (force simp: add_board_member_def)
qed

lemma avatar_items_None: "None \<in> set ms \<Longrightarrow> avatar_items ms = None"
  unfolding avatar_items_def by (rule those_None) force

lemma add_board_member_keeps:
  "users (snd (add_board_member im s)) = users s" "boards (snd (add_board_member im s)) = boards s"
  by (simp_all add: add_board_member_def Let_def split: option.split)

lemma post_member_route_body:
  "post_member_route (js_int_string i) (JObj [(''userId'', JNum u), (''role'', JStr r)]) s =
   (let (m, s') = add_board_member \<lparr>im_board_id = i, im_user_id = u, im_role = Some r\<rparr> s in ((201, Body_member m), s'))"
  by (simp add: post_member_route_def parse_insert_board_member_def json_with_def json_get_def)

text \<open>C22: adding a member whose user id no user has is accepted (201, the
  route checks neither the user nor the board's members), and from then on
  every render of that board's page throws while computing the member
  avatars, for every signed-in visitor.\<close>

theorem unknown_member_breaks_board_page:
  assumes "query_enabled uid pg" "pg_board_id pg = Some i" "map_of (boards s) i \<noteq> None" "map_of (users s) u = None"
    and "post_member_route (js_int_string i) (JObj [(''userId'', JNum u), (''role'', JStr r)]) s = (resp, s')"
  shows "fst resp = 201 \<and> board_avatar_items uid pg s' = None"
proof -
  let ?im = "\<lparr>im_board_id = i, im_user_id = u, im_role = Some r\<rparr>"
  have s': "s' = snd (add_board_member ?im s)" and r: "fst resp = 201"
    using assms(5) by (auto simp: post_member_route_body split: prod.splits)
  obtain m where m: "m \<in> set (values_of (board_members s'))" "member_of i u m"
    using add_board_member_present [of ?im s] s' by auto
  obtain b where b: "map_of (boards s') i = Some b"
    using assms(3) by (auto simp: s' add_board_member_keeps)
  let ?ms = "map (\<lambda>m. map_of (users s') (member_user_id m)) (filter (\<lambda>m. member_board_id m = i) (values_of (board_members s')))"
  have "None \<in> set ?ms"
    using m assms(4) by (force simp: s' add_board_member_keeps member_of_def)
  moreover have "page_board uid pg s' = Some \<lparr>bwm_board = b, members = ?ms\<rparr>"
    using b assms(1,2) by (simp add: page_board_def get_board_route_def id_url_def get_board_with_members_def res_ok_def)
  ultimately show ?thesis by (simp add: r board_avatar_items_def avatar_items_None)
qed

text \<open>A witness for C22: on the page of alice's board the avatars are fine
  until user 9, who does not exist, is added as a viewer.\<close>

theorem unknown_member_breaks_board_page_witness:
  "board_avatar_items (Some 1) (init_board_page (Some ''1'')) example_board_store = Some [(''alice'', None)] \<and>
   fst (fst (post_member_route (js_int_string 1) (JObj [(''userId'', JNum 9), (''role'', JStr ''viewer'')])
     example_board_store)) = 201 \<and>
   board_avatar_items (Some 1) (init_board_page (Some ''1''))
     (snd (post_member_route (js_int_string 1) (JObj [(''userId'', JNum 9), (''role'', JStr ''viewer'')])
       example_board_store)) = None"
proof -
  have pi: "parse_int ''1'' = Some 1" by code_simp
  have h1: "query_enabled (Some 1) (init_board_page (Some ''1''))"
    by (simp add: query_enabled_def init_board_page_def pi)
  have h2: "pg_board_id (init_board_page (Some ''1'')) = Some 1"
    by (simp add: init_board_page_def pi)
  have h3: "map_of (boards example_board_store) 1 \<noteq> None" by code_simp
  have h4: "map_of (users example_board_store) 9 = None" by code_simp
  have h0: "board_avatar_items (Some 1) (init_board_page (Some ''1'')) example_board_store = Some [(''alice'', None)]"
    by code_simp
  from h0 unknown_member_breaks_board_page [OF h1 h2 h3 h4 surjective_pairing] show ?thesis by simp
qed

subsection \<open>The todo list's empty states\<close>

lemma shown_todos_Nil_iff:
  "shown_todos collate uid pg s = [] \<longleftrightarrow>
   filter (todo_visible (pg_status_filter pg) (pg_assignee_filter pg) (pg_search pg) uid) (page_todos uid pg s) = []"
proof -
  have "mset (shown_todos collate uid pg s) =
        mset (filter (todo_visible (pg_status_filter pg) (pg_assignee_filter pg) (pg_search pg) uid) (page_todos uid pg s))"
    by (simp add: shown_todos_def board_todo_list_def js_sort_def mset_js_sort_fold)
  then show ?thesis by (metis mset_zero_iff)
qed

text \<open>With no search and both filters at \<open>all\<close> (as the page starts), the
  list says the board has no todos exactly when the todos query has none; a
  message about the filters appears only when one is set.\<close>

lemma render_todo_list_empty:
  "render_todo_list False collate uid pg s = Todo_empty False \<longleftrightarrow>
     pg_search pg = [] \<and> pg_status_filter pg = ''all'' \<and> pg_assignee_filter pg = ''all'' \<and> page_todos uid pg s = []"
proof -
  have "pg_search pg = [] \<Longrightarrow> pg_status_filter pg = ''all'' \<Longrightarrow> pg_assignee_filter pg = ''all'' \<Longrightarrow>
        todo_visible (pg_status_filter pg) (pg_assignee_filter pg) (pg_search pg) uid = (\<lambda>_. True)"
    by (simp add: todo_visible_def fun_eq_iff Let_def)
  then show ?thesis
    by (auto simp: render_todo_list_def shown_todos_Nil_iff Let_def)
qed

end
