(* ===== verification/Typing.thy ===== *)
theory Typing
  imports Validation
begin

text \<open>
  The types the request bodies must have.  \<open>src/shared/schema.ts\<close> declares
  each table as a list of columns (\<open>pgTable\<close>), and \<open>createInsertSchema\<close> of
  drizzle-zod derives from each column a zod field: a \<open>notNull\<close> column
  without default is required, one with a default (\<open>serial\<close>,
  \<open>.default(..)\<close>, \<open>.defaultNow()\<close>) is \<open>.optional()\<close>, a nullable column is
  \<open>.nullable().optional()\<close>.  A text column takes a JSON string, an integer
  column a JSON number, a timestamp column a \<open>Date\<close>, which no JSON value is.
  \<open>conforms\<close> is the typing judgement of a body against such a schema; the
  theorems relate it to the validators of \<open>Validation\<close>.
\<close>

datatype col_type = Col_serial | Col_text | Col_integer | Col_timestamp

record column =
  col_name :: string
  col_type :: col_type
  col_not_null :: bool
  col_default :: bool

definition col :: "string \<Rightarrow> col_type \<Rightarrow> bool \<Rightarrow> bool \<Rightarrow> column" where
  "col n t nn d = \<lparr>col_name = n, col_type = t, col_not_null = nn, col_default = d\<rparr>"

definition users_table :: "column list" where
  "users_table = [col ''id'' Col_serial True True, col ''username'' Col_text True False,
     col ''password'' Col_text True False, col ''phoneNumber'' Col_text True False,
     col ''displayName'' Col_text False False, col ''photoURL'' Col_text False False]"

definition boards_table :: "column list" where
  "boards_table = [col ''id'' Col_serial True True, col ''title'' Col_text True False,
     col ''description'' Col_text False False, col ''color'' Col_text True True,
     col ''createdBy'' Col_integer True False, col ''createdAt'' Col_timestamp True True]"

definition board_members_table :: "column list" where
  "board_members_table = [col ''id'' Col_serial True True, col ''boardId'' Col_integer True False,
     col ''userId'' Col_integer True False, col ''role'' Col_text True True]"

definition todos_table :: "column list" where
  "todos_table = [col ''id'' Col_serial True True, col ''boardId'' Col_integer True False,
     col ''title'' Col_text True False, col ''description'' Col_text False False,
     col ''dueDate'' Col_timestamp False False, col ''priority'' Col_text True True,
     col ''status'' Col_text True True, col ''assignedTo'' Col_integer False False,
     col ''createdBy'' Col_integer True False, col ''createdAt'' Col_timestamp True True,
     col ''updatedAt'' Col_timestamp True True]"

datatype field = Required col_type | Optional col_type | Nullish col_type

text \<open>The zod field \<open>createInsertSchema\<close> derives from a column.\<close>

definition insert_field :: "column \<Rightarrow> field" where
  "insert_field c = (if \<not> col_not_null c then Nullish (col_type c)
                     else if col_default c then Optional (col_type c) else Required (col_type c))"

text \<open>\<open>createInsertSchema(table).pick({..})\<close>: the fields of the picked
  columns, in the table's order.\<close>

definition insert_schema :: "column list \<Rightarrow> string list \<Rightarrow> (string \<times> field) list" where
  "insert_schema tbl picks = map (\<lambda>c. (col_name c, insert_field c)) (filter (\<lambda>c. col_name c \<in> set picks) tbl)"

fun has_col_type :: "col_type \<Rightarrow> json \<Rightarrow> bool" where
  "has_col_type Col_serial (JNum _) = True"
| "has_col_type Col_text (JStr _) = True"
| "has_col_type Col_integer (JNum _) = True"
| "has_col_type _ _ = False"

fun field_ok :: "field \<Rightarrow> json option \<Rightarrow> bool" where
  "field_ok (Required t) v = (case v of None \<Rightarrow> False | Some x \<Rightarrow> has_col_type t x)"
| "field_ok (Optional t) v = (case v of None \<Rightarrow> True | Some x \<Rightarrow> has_col_type t x)"
| "field_ok (Nullish t) v = (case v of None \<Rightarrow> True | Some JNull \<Rightarrow> True | Some x \<Rightarrow> has_col_type t x)"

definition conforms :: "json \<Rightarrow> (string \<times> field) list \<Rightarrow> bool" where
  "conforms b sch = (case b of JObj _ \<Rightarrow> list_all (\<lambda>(k, f). field_ok f (json_get b k)) sch | _ \<Rightarrow> False)"

subsection \<open>Each zod field checker accepts exactly the values of its field\<close>

lemma z_string_ok: "(\<exists>a. z_string v = Some a) = field_ok (Required Col_text) v"
  by (cases v rule: z_string.cases) auto

lemma z_number_ok: "(\<exists>a. z_number v = Some a) = field_ok (Required Col_integer) v"
  by (cases v rule: z_number.cases) auto

lemma z_optional_string_ok: "(\<exists>a. z_optional z_string v = Some a) = field_ok (Optional Col_text) v"
  by (cases v rule: z_string.cases) auto

lemma z_nullish_ok:
  "(\<exists>a. z_nullish z_string v = Some a) = field_ok (Nullish Col_text) v"
  "(\<exists>a. z_nullish z_number v = Some a) = field_ok (Nullish Col_integer) v"
  "(\<exists>a. z_nullish z_date v = Some a) = field_ok (Nullish Col_timestamp) v"
  by (cases v rule: z_string.cases; simp add: z_nullish_def z_date_def)+

lemmas field_checks_ok = z_string_ok z_number_ok z_optional_string_ok z_nullish_ok

lemma bind_ex_Some: "(\<exists>y. x \<bind> f = Some y) = (\<exists>a. x = Some a \<and> (\<exists>y. f a = Some y))"
  by (cases x) simp_all

lemma schema_board_member:
  "insert_schema board_members_table [''boardId'', ''userId'', ''role''] =
   [(''boardId'', Required Col_integer), (''userId'', Required Col_integer), (''role'', Optional Col_text)]"
  by (simp add: insert_schema_def insert_field_def col_def board_members_table_def)

lemma member_typed:
  "(parse_insert_board_member b \<noteq> None) = conforms b (insert_schema board_members_table
      [''boardId'', ''userId'', ''role''])"
  unfolding schema_board_member
  by (cases b) (simp_all add: parse_insert_board_member_def conforms_def bind_ex_Some
      field_checks_ok del: field_ok.simps)

lemma schema_user:
  "insert_schema users_table [''username'', ''password'', ''phoneNumber'', ''displayName'', ''photoURL''] =
   [(''username'', Required Col_text), (''password'', Required Col_text), (''phoneNumber'', Required Col_text),
    (''displayName'', Nullish Col_text), (''photoURL'', Nullish Col_text)]"
  by (simp add: insert_schema_def insert_field_def col_def users_table_def)

lemma schema_board:
  "insert_schema boards_table [''title'', ''description'', ''color'', ''createdBy''] =
   [(''title'', Required Col_text), (''description'', Nullish Col_text), (''color'', Optional Col_text),
    (''createdBy'', Required Col_integer)]"
  by (simp add: insert_schema_def insert_field_def col_def boards_table_def)

lemma schema_todo:
  "insert_schema todos_table [''boardId'', ''title'', ''description'', ''dueDate'', ''priority'', ''status'',
     ''assignedTo'', ''createdBy''] =
   [(''boardId'', Required Col_integer), (''title'', Required Col_text), (''description'', Nullish Col_text),
    (''dueDate'', Nullish Col_timestamp), (''priority'', Optional Col_text), (''status'', Optional Col_text),
    (''assignedTo'', Nullish Col_integer), (''createdBy'', Required Col_integer)]"
  by (simp add: insert_schema_def insert_field_def col_def todos_table_def)

lemma user_typed:
  "(parse_insert_user b \<noteq> None) = conforms b (insert_schema users_table
      [''username'', ''password'', ''phoneNumber'', ''displayName'', ''photoURL''])"
  unfolding schema_user
  by (cases b) (simp_all add: parse_insert_user_def conforms_def bind_ex_Some field_checks_ok del: field_ok.simps)

lemma board_typed:
  "(parse_insert_board b \<noteq> None) = conforms b (insert_schema boards_table
      [''title'', ''description'', ''color'', ''createdBy''])"
  unfolding schema_board
  by (cases b) (simp_all add: parse_insert_board_def conforms_def bind_ex_Some field_checks_ok del: field_ok.simps)

lemma todo_typed:
  "(parse_insert_todo b \<noteq> None) = conforms b (insert_schema todos_table
      [''boardId'', ''title'', ''description'', ''dueDate'', ''priority'', ''status'', ''assignedTo'', ''createdBy''])"
  unfolding schema_todo
  by (cases b) (simp_all add: parse_insert_todo_def conforms_def bind_ex_Some field_checks_ok del: field_ok.simps)

subsection \<open>The validators are typed by the schema\<close>

text \<open>Each insert validator the POST routes run accepts a request body
  exactly when the body has the type \<open>createInsertSchema(table).pick(..)\<close>
  derives from the table's columns in \<open>schema.ts\<close>: an object whose required
  fields hold values of their column's type, whose defaulted fields are absent
  or of that type, and whose nullable fields are absent, \<open>null\<close> or of that
  type.\<close>

theorem insert_validators_typed:
  "(parse_insert_user b \<noteq> None) = conforms b (insert_schema users_table
      [''username'', ''password'', ''phoneNumber'', ''displayName'', ''photoURL'']) \<and>
   (parse_insert_board b \<noteq> None) = conforms b (insert_schema boards_table
      [''title'', ''description'', ''color'', ''createdBy'']) \<and>
   (parse_insert_board_member b \<noteq> None) = conforms b (insert_schema board_members_table
      [''boardId'', ''userId'', ''role'']) \<and>
   (parse_insert_todo b \<noteq> None) = conforms b (insert_schema todos_table
      [''boardId'', ''title'', ''description'', ''dueDate'', ''priority'', ''status'', ''assignedTo'', ''createdBy''])"
  by (intro conjI user_typed board_typed member_typed todo_typed)

end
