(* ===== verification/Middleware.thy ===== *)
theory Middleware
  imports Client
begin

text \<open>
  The Express application of \<open>src/unnamed/part_001\<close> (the server's
  \<open>index.ts\<close> and \<open>middleware/csrf.ts\<close>): the middleware chain every request
  runs before its route, the CSRF token scheme with the client side of it in
  \<open>apiRequest\<close> and \<open>getCsrfToken\<close> (\<open>src/client/src/lib/queryClient.ts\<close>),
  the request log line and the error handler.  HMAC-SHA256 keyed with
  \<open>CSRF_SECRET\<close> is the parameter \<open>hmac\<close> (a hex digest), the random bytes
  of the unused fallback are \<open>rnd\<close>, and \<open>decodeURIComponent\<close> is \<open>dec\<close>.
  The browser's \<open>document.cookie\<close> is \<open>document_cookie\<close>: the stored
  cookies as \<open>name=value\<close> pairs joined by \<open>"; "\<close>.
\<close>

subsection \<open>The request as the middleware sees it\<close>

record http_req =
  hr_method :: string
  hr_ip :: "string option"
  hr_remote :: "string option"
  hr_headers :: "(string \<times> string) list"
  hr_body :: json

text \<open>\<open>req.headers[name]\<close>: Node lowercases header names; a client sends each
  header once.\<close>

definition req_header :: "http_req \<Rightarrow> string \<Rightarrow> string option" where
  "req_header r n = map_of (map (\<lambda>(k, v). (js_lower k, v)) (hr_headers r)) n"

subsection \<open>CSRF tokens (\<open>csrf.ts\<close>)\<close>

text \<open>\<open>generateCsrfToken\<close>: \<open>`${clientIp}-${userAgent}` || random\<close>.\<close>

definition session_id :: "string \<Rightarrow> http_req \<Rightarrow> string" where
  "session_id rnd r =
     (let ip = js_or_str (hr_ip r) (js_or_str (hr_remote r) []);
          ua = js_or_str (req_header r ''user-agent'') []
      in js_or_str (Some (ip @ ''-'' @ ua)) rnd)"

definition generate_csrf_token :: "(string \<Rightarrow> string) \<Rightarrow> string \<Rightarrow> http_req \<Rightarrow> string" where
  "generate_csrf_token hmac rnd r = hmac (session_id rnd r)"

text \<open>\<open>req.headers['x-csrf-token'] || req.body._csrf\<close>\<close>

definition sent_csrf_token :: "http_req \<Rightarrow> json option" where
  "sent_csrf_token r = (case req_header r ''x-csrf-token'' of
       Some h \<Rightarrow> if h = [] then json_get (hr_body r) ''_csrf'' else Some (JStr h)
     | None \<Rightarrow> json_get (hr_body r) ''_csrf'')"

text \<open>\<open>csrfProtection\<close>: \<open>None\<close> is \<open>next()\<close>.\<close>

definition csrf_protection :: "(string \<Rightarrow> string) \<Rightarrow> string \<Rightarrow> http_req \<Rightarrow> response option" where
  "csrf_protection hmac rnd r =
     (if hr_method r \<in> set [''GET'', ''HEAD'', ''OPTIONS''] then None
      else let tok = sent_csrf_token r
           in if \<not> js_truthy_json tok \<or> tok \<noteq> Some (JStr (generate_csrf_token hmac rnd r))
              then Some (403, Message ''CSRF token validation failed'') else None)"

record cookie =
  ck_name :: string
  ck_value :: string
  ck_http_only :: bool
  ck_secure :: bool
  ck_same_site :: string

text \<open>\<open>setCsrfToken\<close>, run on every request: the cookie it sets.  The value is
  a hex digest, which \<open>res.cookie\<close>'s URI encoding leaves as it is.\<close>

definition set_csrf_token :: "(string \<Rightarrow> string) \<Rightarrow> string \<Rightarrow> bool \<Rightarrow> http_req \<Rightarrow> cookie" where
  "set_csrf_token hmac rnd production r =
     \<lparr>ck_name = ''XSRF-TOKEN'', ck_value = generate_csrf_token hmac rnd r, ck_http_only = False,
      ck_secure = production, ck_same_site = ''strict''\<rparr>"

subsection \<open>The client's side (\<open>queryClient.ts\<close>)\<close>

text \<open>\<open>String.prototype.split\<close> with a one-character separator.\<close>

fun split_on :: "char \<Rightarrow> string \<Rightarrow> string list" where
  "split_on c [] = [[]]"
| "split_on c (x # xs) = (let ws = split_on c xs in if x = c then [] # ws else (x # hd ws) # tl ws)"

text \<open>\<open>const [name, value] = cookie.trim().split('=')\<close>; \<open>value\<close> is
  \<open>undefined\<close> (\<open>None\<close>) when there is no \<open>=\<close>.\<close>

definition cookie_pair :: "string \<Rightarrow> string \<times> string option" where
  "cookie_pair ck = (let parts = split_on (CHR ''='') (js_trim ck)
                     in (hd parts, case tl parts of [] \<Rightarrow> None | v # _ \<Rightarrow> Some v))"

text \<open>The loop of \<open>getCsrfToken\<close>: the first cookie named \<open>XSRF-TOKEN\<close>;
  \<open>decodeURIComponent(undefined)\<close> is the string \<open>"undefined"\<close>.\<close>

fun find_csrf_cookie :: "(string \<Rightarrow> string) \<Rightarrow> string list \<Rightarrow> string option" where
  "find_csrf_cookie dec [] = None"
| "find_csrf_cookie dec (ck # cks) = (case cookie_pair ck of
       (name, v) \<Rightarrow> if name = ''XSRF-TOKEN'' then Some (dec (case v of None \<Rightarrow> ''undefined'' | Some x \<Rightarrow> x))
                    else find_csrf_cookie dec cks)"

definition get_csrf_token :: "(string \<Rightarrow> string) \<Rightarrow> string \<Rightarrow> string option" where
  "get_csrf_token dec doc_cookie = find_csrf_cookie dec (split_on (CHR '';'') doc_cookie)"

text \<open>The headers \<open>apiRequest\<close> sends: the token in \<open>X-CSRF-Token\<close> when the
  method is not \<open>GET\<close> and the token is non-empty.\<close>

definition api_headers :: "string option \<Rightarrow> string \<Rightarrow> (string \<times> string) list" where
  "api_headers tok method =
     [(''Content-Type'', ''application/json'')] @
     (case tok of Some t \<Rightarrow> if method \<noteq> ''GET'' \<and> t \<noteq> [] then [(''X-CSRF-Token'', t)] else [] | None \<Rightarrow> [])"

text \<open>The request \<open>apiRequest(method, url, data)\<close> makes, as the server
  receives it from a browser with the given cookies, user agent and address:
  the browser adds its \<open>User-Agent\<close> header; \<open>express.json()\<close> leaves
  \<open>{}\<close> as the body when none is sent.\<close>

definition api_request ::
  "(string \<Rightarrow> string) \<Rightarrow> string \<Rightarrow> string \<Rightarrow> string option \<Rightarrow> string \<Rightarrow> json option \<Rightarrow> http_req" where
  "api_request dec doc_cookie ua ip method data =
     (let tok = get_csrf_token dec doc_cookie
      in \<lparr>hr_method = method, hr_ip = ip, hr_remote = None,
          hr_headers = (''User-Agent'', ua) # api_headers tok method,
          hr_body = (case data of None \<Rightarrow> JObj [] | Some d \<Rightarrow> with_csrf tok method d)\<rparr>)"

text \<open>The browser's \<open>document.cookie\<close>.\<close>

fun document_cookie :: "(string \<times> string) list \<Rightarrow> string" where
  "document_cookie [] = []"
| "document_cookie [(n, v)] = n @ ''='' @ v"
| "document_cookie ((n, v) # jar) = n @ ''='' @ v @ ''; '' @ document_cookie jar"

text \<open>The characters a cookie name or value of the model holds: no separator
  of \<open>document.cookie\<close> and no whitespace (a hex digest qualifies).\<close>

definition cookie_chars :: "string \<Rightarrow> bool" where
  "cookie_chars s \<longleftrightarrow> (\<forall>c \<in> set s. c \<noteq> CHR '';'' \<and> c \<noteq> CHR ''='' \<and> \<not> js_whitespace c)"

subsection \<open>The middleware chain (\<open>index.ts\<close>)\<close>

text \<open>\<open>app.use\<close> installs, in order, \<open>securityHeaders\<close>, \<open>express.json()\<close>,
  \<open>express.urlencoded\<close>, \<open>setCsrfToken\<close> and the request logger, then
  \<open>registerRoutes\<close>: a request is answered by its route (\<open>serve\<close>), with
  the security headers and the CSRF cookie set on the response.
  \<open>csrfProtection\<close> is not installed.\<close>

definition app_handle ::
  "env \<Rightarrow> (string \<Rightarrow> string) \<Rightarrow> string \<Rightarrow> bool \<Rightarrow> http_req \<Rightarrow> request \<Rightarrow> mem_storage \<Rightarrow>
   (((string \<times> string) list \<times> cookie \<times> response) \<times> mem_storage) option" where
  "app_handle e hmac rnd production r rq s =
     map_option (\<lambda>(resp, s'). ((security_headers production, set_csrf_token hmac rnd production r, resp), s'))
       (serve e rq s)"

subsection \<open>The request log\<close>

text \<open>The line logged when a response to an \<open>/api\<close> path finishes:
  method, path, status, duration and, when the handler called \<open>res.json\<close>,
  the \<open>JSON.stringify\<close> of its body (the parameter \<open>captured\<close>).\<close>

definition log_line :: "string \<Rightarrow> string \<Rightarrow> nat \<Rightarrow> nat \<Rightarrow> string option \<Rightarrow> string" where
  "log_line method path status duration captured =
     method @ '' '' @ path @ '' '' @ js_int_string (int status) @ '' in '' @ js_int_string (int duration) @ ''ms'' @
     (case captured of None \<Rightarrow> [] | Some j \<Rightarrow> '' :: '' @ j)"

text \<open>\<open>if (logLine.length > 80) logLine = logLine.slice(0, 79) + "\<dots>"\<close>, over
  UTF-16 code units \<open>'u\<close>; the ellipsis U+2026 is one code unit, \<open>ell\<close>.\<close>

definition truncate_log :: "'u list \<Rightarrow> 'u \<Rightarrow> 'u list" where
  "truncate_log l ell = (if length l > 80 then take 79 l @ [ell] else l)"

definition request_log :: "char \<Rightarrow> string \<Rightarrow> string \<Rightarrow> nat \<Rightarrow> nat \<Rightarrow> string option \<Rightarrow> string option" where
  "request_log ell method path status duration captured =
     (if take 4 path = ''/api'' then Some (truncate_log (log_line method path status duration captured) ell) else None)"

subsection \<open>The error handler\<close>

record js_error =
  err_status :: "nat option"
  err_status_code :: "nat option"
  err_message :: "string option"

text \<open>\<open>err.status || err.statusCode || 500\<close> and
  \<open>err.message || "Internal Server Error"\<close>, answered as \<open>{ message }\<close>.\<close>

definition error_handler :: "js_error \<Rightarrow> response" where
  "error_handler err =
     (let st = (case err_status err of Some n \<Rightarrow> if n \<noteq> 0 then n else 0 | None \<Rightarrow> 0);
          st' = (if st \<noteq> 0 then st else case err_status_code err of Some n \<Rightarrow> if n \<noteq> 0 then n else 500 | None \<Rightarrow> 500)
      in (st', Message (js_or_str (err_message err) ''Internal Server Error'')))"

subsection \<open>Lemmas: reading the cookie back\<close>

lemma space_ws: "js_whitespace CHR '' ''" "\<not> js_whitespace CHR ''=''"
  by (simp_all add: js_whitespace_def)

lemma js_trim_Cons_ws: "js_whitespace c \<Longrightarrow> js_trim (c # s) = js_trim s"
  by (simp add: js_trim_def)

lemma split_on_no_sep: "c \<notin> set x \<Longrightarrow> split_on c x = [x]"
  by (induction x) (auto simp: Let_def)

lemma split_on_append_sep: "c \<notin> set x \<Longrightarrow> split_on c (x @ c # y) = x # split_on c y"
  by (induction x) (auto simp: Let_def)

lemma dropWhile_none: "\<forall>c \<in> set s. \<not> P c \<Longrightarrow> dropWhile P s = s"
  by (cases s) auto

lemma js_trim_no_ws: "\<forall>c \<in> set s. \<not> js_whitespace c \<Longrightarrow> js_trim s = s"
  by (simp add: js_trim_def dropWhile_none)

lemma cookie_pair_safe:
  assumes "cookie_chars n" "cookie_chars v"
  shows "cookie_pair (n @ CHR ''='' # v) = (n, Some v)" "cookie_pair (CHR '' '' # n @ CHR ''='' # v) = (n, Some v)"
proof -
  have eq: "CHR ''='' \<notin> set n" "CHR ''='' \<notin> set v" using assms by (auto simp: cookie_chars_def)
  have "\<forall>c \<in> set (n @ CHR ''='' # v). \<not> js_whitespace c" using assms space_ws(2) by (auto simp: cookie_chars_def)
  then have t: "js_trim (n @ CHR ''='' # v) = n @ CHR ''='' # v" by (rule js_trim_no_ws)
  have s: "split_on (CHR ''='') (n @ CHR ''='' # v) = [n, v]"
    using eq by (simp add: split_on_append_sep split_on_no_sep)
  show "cookie_pair (n @ CHR ''='' # v) = (n, Some v)"
    by (simp add: cookie_pair_def t s)
  show "cookie_pair (CHR '' '' # n @ CHR ''='' # v) = (n, Some v)"
    by (simp add: cookie_pair_def js_trim_Cons_ws [OF space_ws(1)] t s)
qed

lemma split_document_cookie_single:
  "cookie_chars n \<Longrightarrow> cookie_chars v \<Longrightarrow> split_on (CHR '';'') (document_cookie [(n, v)]) = [n @ CHR ''='' # v]"
proof -
  assume "cookie_chars n" "cookie_chars v"
  then have "CHR '';'' \<notin> set (n @ CHR ''='' # v)" by (auto simp: cookie_chars_def)
  then show ?thesis by (simp add: split_on_no_sep)
qed

lemma split_document_cookie_step:
  "cookie_chars n \<Longrightarrow> cookie_chars v \<Longrightarrow>
   split_on (CHR '';'') (document_cookie ((n, v) # (n', v') # jar)) =
   (n @ CHR ''='' # v) # split_on (CHR '';'') (CHR '' '' # document_cookie ((n', v') # jar))"
proof -
  assume "cookie_chars n" "cookie_chars v"
  then have "CHR '';'' \<notin> set (n @ CHR ''='' # v)" by (auto simp: cookie_chars_def)
  from split_on_append_sep [OF this, of "CHR '' '' # document_cookie ((n', v') # jar)"]
  show ?thesis by simp
qed

lemma split_on_Cons_other:
  "x \<noteq> c \<Longrightarrow> split_on c (x # xs) = (x # hd (split_on c xs)) # tl (split_on c xs)"
  by (simp add: Let_def)

lemma split_document_cookie:
  "list_all (\<lambda>(n, v). cookie_chars n \<and> cookie_chars v) ((n, v) # jar) \<Longrightarrow>
   split_on (CHR '';'') (document_cookie ((n, v) # jar)) =
     (n @ CHR ''='' # v) # map (\<lambda>(n, v). CHR '' '' # n @ CHR ''='' # v) jar"
proof (induction jar arbitrary: n v)
  case Nil
  then show ?case using split_document_cookie_single [of n v] by simp
next
  case (Cons p jar)
  obtain n' v' where p: "p = (n', v')" by fastforce
  from Cons.prems p have ih: "split_on (CHR '';'') (document_cookie ((n', v') # jar)) =
      (n' @ CHR ''='' # v') # map (\<lambda>(n, v). CHR '' '' # n @ CHR ''='' # v) jar"
    by (intro Cons.IH) simp
  have "CHR '' '' \<noteq> CHR '';''" by simp
  from split_on_Cons_other [OF this, of "document_cookie ((n', v') # jar)"] ih
    split_document_cookie_step [of n v n' v' jar] Cons.prems p
  show ?case by simp
qed

lemma find_csrf_cookie_map:
  "list_all (\<lambda>(n, v). cookie_chars n \<and> cookie_chars v) jar \<Longrightarrow>
   find_csrf_cookie dec (map (\<lambda>(n, v). CHR '' '' # n @ CHR ''='' # v) jar) = map_option dec (map_of jar ''XSRF-TOKEN'')"
proof (induction jar)
  case (Cons p jar)
  obtain n v where p: "p = (n, v)" by fastforce
  with Cons.prems have c: "cookie_pair (CHR '' '' # n @ CHR ''='' # v) = (n, Some v)" by (simp add: cookie_pair_safe)
  from Cons.prems have "list_all (\<lambda>(n, v). cookie_chars n \<and> cookie_chars v) jar" by simp
  with Cons.IH c p show ?case by simp
qed simp

lemma get_csrf_token_document_cookie:
  assumes ok: "list_all (\<lambda>(n, v). cookie_chars n \<and> cookie_chars v) jar"
  shows "get_csrf_token dec (document_cookie jar) = map_option dec (map_of jar ''XSRF-TOKEN'')"
proof (cases jar)
  case Nil
  then show ?thesis by (simp add: get_csrf_token_def cookie_pair_def js_trim_def)
next
  case (Cons p jar')
  obtain n v where p: "p = (n, v)" by fastforce
  with Cons ok have c: "cookie_pair (n @ CHR ''='' # v) = (n, Some v)" by (simp add: cookie_pair_safe)
  from Cons ok have "list_all (\<lambda>(n, v). cookie_chars n \<and> cookie_chars v) jar'" by simp
  from find_csrf_cookie_map [OF this, of dec] split_document_cookie [of n v jar'] Cons p ok c show ?thesis
    by (simp add: get_csrf_token_def)
qed

lemma lower_headers:
  "js_lower ''User-Agent'' = ''user-agent''" "js_lower ''X-CSRF-Token'' = ''x-csrf-token''"
  "js_lower ''Content-Type'' = ''content-type''"
  by code_simp+

lemma api_request_headers:
  "req_header (api_request dec c ua ip m d) ''user-agent'' = Some ua"
  "req_header (api_request dec c ua ip m d) ''x-csrf-token'' =
     (case get_csrf_token dec c of Some t \<Rightarrow> if m \<noteq> ''GET'' \<and> t \<noteq> [] then Some t else None | None \<Rightarrow> None)"
  by (simp_all add: req_header_def api_request_def api_headers_def lower_headers Let_def split: option.splits)

lemma api_request_fields:
  "hr_ip (api_request dec c ua ip m d) = ip" "hr_remote (api_request dec c ua ip m d) = None"
  "hr_method (api_request dec c ua ip m d) = m"
  "hr_body (api_request dec c ua ip m d) = (case d of None \<Rightarrow> JObj [] | Some x \<Rightarrow> with_csrf (get_csrf_token dec c) m x)"
  by (simp_all add: api_request_def Let_def)

lemma session_id_api_request:
  "session_id rnd (api_request dec c ua ip m d) = js_or_str ip [] @ ''-'' @ ua"
  using api_request_headers(1) [of dec c ua ip m d]
  by (cases "ua = []") (simp_all add: session_id_def js_or_str_def api_request_fields split: option.splits)

text \<open>The random fallback of \<open>generateCsrfToken\<close> is dead code: the session id
  always contains \<open>-\<close>, so the token depends on the address and user agent
  alone.\<close>

lemma session_id_ignores_random: "session_id rnd r = session_id rnd' r \<and> CHR ''-'' \<in> set (session_id rnd r)"
  by (simp add: session_id_def Let_def js_or_str_def)

lemma set_csrf_token_api_request:
  "ck_value (set_csrf_token hmac rnd p (api_request dec c ua ip m d)) = hmac (js_or_str ip [] @ ''-'' @ ua)"
  by (simp add: set_csrf_token_def generate_csrf_token_def session_id_api_request)

subsection \<open>The CSRF token round trip\<close>

text \<open>C14: the CSRF token travels through the browser and back intact: when the
  browser's cookies (names and values without separators or whitespace) hold as
  their first \<open>XSRF-TOKEN\<close> the cookie \<open>setCsrfToken\<close> set on an earlier
  response to the same browser (same address and user agent), every later
  \<open>apiRequest\<close> from it, with any method and body, passes
  \<open>csrfProtection\<close>: \<open>getCsrfToken\<close> reads the token back from
  \<open>document.cookie\<close>, \<open>apiRequest\<close> sends it as \<open>X-CSRF-Token\<close>, and the
  server recomputes the same HMAC.\<close>

theorem csrf_cycle:
  assumes jar: "list_all (\<lambda>(n, v). cookie_chars n \<and> cookie_chars v) jar"
    and stored: "map_of jar ''XSRF-TOKEN'' = Some (ck_value (set_csrf_token hmac rnd p (api_request dec c0 ua ip m0 d0)))"
    and dec: "dec (hmac (js_or_str ip [] @ ''-'' @ ua)) = hmac (js_or_str ip [] @ ''-'' @ ua)"
    and ne: "hmac (js_or_str ip [] @ ''-'' @ ua) \<noteq> []"
  shows "csrf_protection hmac rnd (api_request dec (document_cookie jar) ua ip m d) = None"
proof -
  let ?t = "hmac (js_or_str ip [] @ ''-'' @ ua)"
  have tok: "get_csrf_token dec (document_cookie jar) = Some ?t"
    using get_csrf_token_document_cookie [OF jar, of dec] stored dec by (simp add: set_csrf_token_api_request)
  show ?thesis
  proof (cases "m \<in> set [''GET'', ''HEAD'', ''OPTIONS'']")
    case True
    then show ?thesis by (simp add: csrf_protection_def api_request_fields)
  next
    case False
    then have "m \<noteq> ''GET''" by auto
    with tok ne have "sent_csrf_token (api_request dec (document_cookie jar) ua ip m d) = Some (JStr ?t)"
      by (simp add: sent_csrf_token_def api_request_headers)
    with False ne show ?thesis
      by (simp add: csrf_protection_def api_request_fields generate_csrf_token_def session_id_api_request)
  qed
qed

theorem csrf_cycle_witness:
  "let jar = [(''theme'', ''dark''), (''XSRF-TOKEN'', ''10.0.0.1-Mozilla'')];
       hmac = (\<lambda>s. s :: string); dec = (\<lambda>s. s :: string)
   in list_all (\<lambda>(n, v). cookie_chars n \<and> cookie_chars v) jar \<and>
      map_of jar ''XSRF-TOKEN'' = Some (ck_value (set_csrf_token hmac [] False
        (api_request dec [] ''Mozilla'' (Some ''10.0.0.1'') ''GET'' None))) \<and>
      dec (hmac (js_or_str (Some ''10.0.0.1'') [] @ ''-'' @ ''Mozilla'')) = hmac (js_or_str (Some ''10.0.0.1'') [] @ ''-'' @ ''Mozilla'') \<and>
      hmac (js_or_str (Some ''10.0.0.1'') [] @ ''-'' @ ''Mozilla'') \<noteq> [] \<and>
      csrf_protection hmac [] (api_request dec (document_cookie jar) ''Mozilla'' (Some ''10.0.0.1'') ''POST''
        (Some (JObj [(''title'', JStr ''Q3'')]))) = None"
  unfolding Let_def
proof (intro conjI)
  show h1: "list_all (\<lambda>(n, v). cookie_chars n \<and> cookie_chars v) [(''theme'', ''dark''), (''XSRF-TOKEN'', ''10.0.0.1-Mozilla'')]"
    by (simp add: cookie_chars_def js_whitespace_def)
  show h2: "map_of [(''theme'', ''dark''), (''XSRF-TOKEN'', ''10.0.0.1-Mozilla'')] ''XSRF-TOKEN'' =
     Some (ck_value (set_csrf_token (\<lambda>s. s) [] False (api_request (\<lambda>s. s) [] ''Mozilla'' (Some ''10.0.0.1'') ''GET'' None)))"
    by (simp add: set_csrf_token_api_request)
  show h3: "js_or_str (Some ''10.0.0.1'') [] @ ''-'' @ ''Mozilla'' = js_or_str (Some ''10.0.0.1'') [] @ ''-'' @ ''Mozilla''"
    by (rule refl)
  show h4: "js_or_str (Some ''10.0.0.1'') [] @ ''-'' @ ''Mozilla'' \<noteq> []" by simp
  show "csrf_protection (\<lambda>s. s) [] (api_request (\<lambda>s. s) (document_cookie [(''theme'', ''dark''), (''XSRF-TOKEN'', ''10.0.0.1-Mozilla'')])
      ''Mozilla'' (Some ''10.0.0.1'') ''POST'' (Some (JObj [(''title'', JStr ''Q3'')]))) = None"
    by (rule csrf_cycle [OF h1 h2 h3 h4])
qed

subsection \<open>CSRF protection is never enforced\<close>

lemma csrf_rejects_tokenless:
  "hr_method r \<notin> set [''GET'', ''HEAD'', ''OPTIONS''] \<Longrightarrow> req_header r ''x-csrf-token'' = None \<Longrightarrow>
   json_get (hr_body r) ''_csrf'' = None \<Longrightarrow>
   csrf_protection hmac rnd r = Some (403, Message ''CSRF token validation failed'')"
  by (simp add: csrf_protection_def sent_csrf_token_def)

text \<open>C15: a cross-site \<open>POST /api/boards\<close> carrying no CSRF token, neither
  in the header nor in the body, is one \<open>csrfProtection\<close> rejects with 403,
  yet the application serves it and creates the board: the middleware is
  defined but never installed in the chain of \<open>index.ts\<close>.\<close>

theorem csrf_not_enforced:
  assumes "hr_method r = ''POST''" "req_header r ''x-csrf-token'' = None" "json_get (hr_body r) ''_csrf'' = None"
    "parse_insert_board (hr_body r) = Some ib"
  shows "csrf_protection hmac rnd r = Some (403, Message ''CSRF token validation failed'') \<and>
    app_handle e hmac rnd p r (Req_post_board (hr_body r)) s =
      Some ((security_headers p, set_csrf_token hmac rnd p r, (201, Body_board (fst (create_board ib (env_now e) s)))),
            snd (create_board ib (env_now e) s))"
  using assms csrf_rejects_tokenless [of r hmac rnd]
  by (simp add: app_handle_def post_board_route_def split: prod.splits)

theorem csrf_not_enforced_witness:
  "let r = \<lparr>hr_method = ''POST'', hr_ip = Some ''6.6.6.6'', hr_remote = None, hr_headers = [(''Origin'', ''evil.example'')],
            hr_body = JObj [(''title'', JStr ''pwned''), (''createdBy'', JNum 1)]\<rparr>;
       ib = \<lparr>ib_title = ''pwned'', ib_description = None, ib_color = None, ib_created_by = 1\<rparr>;
       e = \<lparr>env_now = 5, env_hash = [], env_cmp = (\<lambda>a b. a = b)\<rparr>
   in hr_method r = ''POST'' \<and> req_header r ''x-csrf-token'' = None \<and> json_get (hr_body r) ''_csrf'' = None \<and>
      parse_insert_board (hr_body r) = Some ib \<and>
      csrf_protection (\<lambda>s. s) [] r = Some (403, Message ''CSRF token validation failed'') \<and>
      app_handle e (\<lambda>s. s) [] True r (Req_post_board (hr_body r)) init_storage =
        Some ((security_headers True, set_csrf_token (\<lambda>s. s) [] True r,
               (201, Body_board (fst (create_board ib (env_now e) init_storage)))),
              snd (create_board ib (env_now e) init_storage))"
proof -
  let ?r = "\<lparr>hr_method = ''POST'', hr_ip = Some ''6.6.6.6'', hr_remote = None, hr_headers = [(''Origin'', ''evil.example'')],
            hr_body = JObj [(''title'', JStr ''pwned''), (''createdBy'', JNum 1)]\<rparr>"
  let ?ib = "\<lparr>ib_title = ''pwned'', ib_description = None, ib_color = None, ib_created_by = 1\<rparr>"
  have h1: "hr_method ?r = ''POST''" by simp
  have h2: "req_header ?r ''x-csrf-token'' = None" by (simp add: req_header_def js_lower_def)
  have h3: "json_get (hr_body ?r) ''_csrf'' = None" by (simp add: json_get_def)
  have h4: "parse_insert_board (hr_body ?r) = Some ?ib" by (simp add: parse_insert_board_def json_get_def)
  from csrf_not_enforced [OF h1 h2 h3 h4] h1 h2 h3 h4 show ?thesis unfolding Let_def by simp
qed

subsection \<open>The request log\<close>

lemma truncate_log_bounds:
  "length (truncate_log l ell) \<le> 80 \<and> take 79 (truncate_log l ell) = take 79 l \<and>
   (length l \<le> 80 \<longleftrightarrow> truncate_log l ell = l)"
  by (auto simp: truncate_log_def min_def dest: arg_cong [of _ _ length])

text \<open>C21: the logger writes a line only for paths under \<open>/api\<close>, and the line
  is at most 80 code units: the first 79 of the full line, ending in the
  ellipsis when the full line is longer, and the full line itself otherwise.\<close>

theorem request_log_bounded:
  "request_log ell m path st dur cap = Some l \<Longrightarrow>
   take 4 path = ''/api'' \<and> length l \<le> 80 \<and> take 79 l = take 79 (log_line m path st dur cap) \<and>
   (length (log_line m path st dur cap) \<le> 80 \<longleftrightarrow> l = log_line m path st dur cap)"
proof -
  assume "request_log ell m path st dur cap = Some l"
  then have "take 4 path = ''/api''" "l = truncate_log (log_line m path st dur cap) ell"
    by (simp_all add: request_log_def split: if_splits)
  with truncate_log_bounds [of "log_line m path st dur cap" ell] show ?thesis by simp
qed

theorem request_log_bounded_witness:
  "let cap = Some (replicate 100 CHR ''x''); l = take 79 (log_line ''GET'' ''/api/boards'' 200 12 cap) @ [CHR ''~'']
   in request_log CHR ''~'' ''GET'' ''/api/boards'' 200 12 cap = Some l \<and>
      take 4 ''/api/boards'' = ''/api'' \<and> length l \<le> 80 \<and> take 79 l = take 79 (log_line ''GET'' ''/api/boards'' 200 12 cap) \<and>
      (length (log_line ''GET'' ''/api/boards'' 200 12 cap) \<le> 80 \<longleftrightarrow> l = log_line ''GET'' ''/api/boards'' 200 12 cap)"
proof -
  have h: "request_log CHR ''~'' ''GET'' ''/api/boards'' 200 12 (Some (replicate 100 CHR ''x'')) =
      Some (take 79 (log_line ''GET'' ''/api/boards'' 200 12 (Some (replicate 100 CHR ''x''))) @ [CHR ''~''])"
    by code_simp
  from request_log_bounded [OF h] h show ?thesis unfolding Let_def by blast
qed

lemma error_handler_default:
  "error_handler \<lparr>err_status = None, err_status_code = None, err_message = None\<rparr> = (500, Message ''Internal Server Error'')"
  by (simp add: error_handler_def)

end
