(* ===== verification/AuthContext.thy ===== *)
theory AuthContext
  imports Client "HOL-Library.While_Combinator"
begin

text \<open>
  The authentication context \<open>AuthProvider\<close>
  (\<open>src/client/src/lib/contexts/auth-context.tsx\<close>): the signed-in user as React
  state, mirrored in \<open>localStorage\<close> under the key \<open>"user"\<close>, and the two
  effects that depend on \<open>[user]\<close>.  React compares dependencies by object
  identity, so the user state is an object: an allocation number and the
  value.  \<open>JSON.parse\<close> allocates a fresh object on each call.  After each
  render whose user object differs from the one the effects last ran with,
  React runs both effects in order (cleaning up the old subscription first);
  \<open>render\<close> is that loop, as \<open>while_option\<close>: \<open>None\<close> is a loop that never
  settles.  Firebase is a flag \<open>fb\<close> (\<open>auth\<close> initialised); its listener
  callbacks are events, with the user the subscribing effect closed over.
\<close>

text \<open>The \<open>"user"\<close> item of \<open>localStorage\<close>: the \<open>JSON.stringify\<close> of a user
  (a user has no \<open>Date\<close> field, so \<open>JSON.parse\<close> gives it back), or a value
  \<open>JSON.parse\<close> throws on.\<close>

datatype stored = Stored_user user | Stored_garbage

record auth_ctx =
  ac_user :: "(nat \<times> user) option"
  ac_loading :: bool
  ac_storage :: "stored option"
  ac_next :: nat
  ac_deps :: "nat option option"
  ac_listener :: "nat option option"

definition init_ctx :: "stored option \<Rightarrow> auth_ctx" where
  "init_ctx item = \<lparr>ac_user = None, ac_loading = True, ac_storage = item, ac_next = 0,
                    ac_deps = None, ac_listener = None\<rparr>"

definition user_ref :: "auth_ctx \<Rightarrow> nat option" where
  "user_ref st = map_option fst (ac_user st)"

text \<open>\<open>setUser(JSON.parse(storedUser))\<close>: a fresh object.\<close>

definition set_user_fresh :: "user \<Rightarrow> auth_ctx \<Rightarrow> auth_ctx" where
  "set_user_fresh u st = st\<lparr>ac_user := Some (ac_next st, u), ac_next := Suc (ac_next st)\<rparr>"

text \<open>The first effect (lines 28-64): restore the stored user, then subscribe
  to \<open>onAuthStateChanged\<close> with a callback that closes over the rendered
  user; without Firebase, \<open>loading\<close> ends at once.\<close>

definition auth_effect :: "bool \<Rightarrow> nat option \<Rightarrow> auth_ctx \<Rightarrow> auth_ctx" where
  "auth_effect fb ru st =
     (let st1 = (case ac_storage st of
                   Some (Stored_user u) \<Rightarrow> set_user_fresh u st
                 | Some Stored_garbage \<Rightarrow> st\<lparr>ac_storage := None\<rparr>
                 | None \<Rightarrow> st)
      in if fb then st1\<lparr>ac_listener := Some ru\<rparr> else st1\<lparr>ac_loading := False\<rparr>)"

text \<open>The second effect (lines 67-71): save the rendered user.\<close>

definition save_effect :: "(nat \<times> user) option \<Rightarrow> auth_ctx \<Rightarrow> auth_ctx" where
  "save_effect ru st = (case ru of None \<Rightarrow> st | Some (_, u) \<Rightarrow> st\<lparr>ac_storage := Some (Stored_user u)\<rparr>)"

text \<open>One commit: both effects, with the user of the render, in source
  order; the state updates they schedule make the next render.\<close>

definition commit :: "bool \<Rightarrow> auth_ctx \<Rightarrow> auth_ctx" where
  "commit fb st = (let ru = ac_user st
     in (save_effect ru (auth_effect fb (map_option fst ru) st))\<lparr>ac_deps := Some (map_option fst ru)\<rparr>)"

definition effects_pending :: "auth_ctx \<Rightarrow> bool" where
  "effects_pending st \<longleftrightarrow> ac_deps st \<noteq> Some (user_ref st)"

definition render :: "bool \<Rightarrow> auth_ctx \<Rightarrow> auth_ctx option" where
  "render fb st = while_option effects_pending (commit fb) st"

definition mount :: "bool \<Rightarrow> stored option \<Rightarrow> auth_ctx option" where
  "mount fb item = render fb (init_ctx item)"

text \<open>What happens to a settled context.\<close>

datatype ctx_event =
    Set_user user
  | Firebase_changed bool
  | Logout bool
  | Reload

text \<open>The \<open>onAuthStateChanged\<close> callback: a signed-out Firebase clears a user
  the subscribing effect saw.\<close>

definition firebase_changed :: "bool \<Rightarrow> auth_ctx \<Rightarrow> auth_ctx" where
  "firebase_changed signed_in st =
     (case ac_listener st of
        None \<Rightarrow> st
      | Some cu \<Rightarrow> (if \<not> signed_in \<and> cu \<noteq> None then st\<lparr>ac_storage := None, ac_user := None\<rparr> else st)
                    \<lparr>ac_loading := False\<rparr>)"

text \<open>\<open>signOut\<close> of \<open>src/client/src/lib/auth.ts\<close> (lines 122-133), as the
  outcome of \<open>await signOut()\<close>: \<open>Some\<close> of its \<open>success\<close> when it resolves,
  \<open>None\<close> when it rejects.  It resolves without Firebase, and it catches a
  rejection of \<open>firebaseSignOut\<close> (whose outcome is \<open>fb_ok\<close>) and returns
  \<open>{ success: false }\<close>.\<close>

definition sign_out :: "bool \<Rightarrow> bool \<Rightarrow> bool option" where
  "sign_out fb fb_ok = Some (\<not> fb \<or> fb_ok)"

text \<open>\<open>logout\<close>: once \<open>signOut()\<close> resolves, whatever its \<open>success\<close>,
  remove the item and the user; if it rejected, only a toast.\<close>

definition logout :: "bool option \<Rightarrow> auth_ctx \<Rightarrow> auth_ctx" where
  "logout r st = (case r of None \<Rightarrow> st | Some _ \<Rightarrow> st\<lparr>ac_storage := None, ac_user := None\<rparr>)"

fun ctx_handle :: "bool \<Rightarrow> ctx_event \<Rightarrow> auth_ctx \<Rightarrow> auth_ctx" where
  "ctx_handle fb (Set_user u) st = set_user_fresh u st"
| "ctx_handle fb (Firebase_changed b) st = firebase_changed b st"
| "ctx_handle fb (Logout ok) st = logout (sign_out fb ok) st"
| "ctx_handle fb Reload st = init_ctx (ac_storage st)"

definition ctx_step :: "bool \<Rightarrow> ctx_event \<Rightarrow> auth_ctx \<Rightarrow> auth_ctx option" where
  "ctx_step fb e st = render fb (ctx_handle fb e st)"

text \<open>The states of a render loop over a stored user: the stored user's
  object is the latest and the effects last ran with another.\<close>

definition looping :: "user \<Rightarrow> auth_ctx \<Rightarrow> bool" where
  "looping u st \<longleftrightarrow> ac_storage st = Some (Stored_user u) \<and>
     (\<exists>n. ac_user st = Some (n, u) \<and> ac_next st = Suc n \<and> ac_deps st \<noteq> Some (Some n))"

subsection \<open>A stored user: the effects never settle\<close>

text \<open>Each commit reads the stored user back, and \<open>JSON.parse\<close> makes a new
  object of it, which is a changed dependency for the next render.\<close>

lemma looping_commit: "looping u st \<Longrightarrow> looping u (commit fb st)"
  by (auto simp: looping_def commit_def auth_effect_def save_effect_def set_user_fresh_def Let_def)

lemma looping_pending: "looping u st \<Longrightarrow> effects_pending st"
  by (auto simp: looping_def effects_pending_def user_ref_def)

lemma looping_funpow: "looping u st \<Longrightarrow> looping u ((commit fb ^^ k) st)"
  by (induction k) (simp_all add: looping_commit)

lemma init_stored_looping: "looping u (commit fb (init_ctx (Some (Stored_user u))))"
  by (simp add: looping_def commit_def init_ctx_def auth_effect_def save_effect_def set_user_fresh_def Let_def)

lemma render_init_stored: "render fb (init_ctx (Some (Stored_user u))) = None"
proof -
  have "\<forall>k. effects_pending ((commit fb ^^ k) (init_ctx (Some (Stored_user u))))"
  proof
    fix k show "effects_pending ((commit fb ^^ k) (init_ctx (Some (Stored_user u))))"
    proof (cases k)
      case 0 then show ?thesis by (simp add: effects_pending_def init_ctx_def)
    next
      case (Suc j) then show ?thesis
        using looping_pending [OF looping_funpow [OF init_stored_looping, where fb = fb and k = j]]
        by (simp add: funpow_Suc_right del: funpow.simps)
    qed
  qed
  then show ?thesis by (simp add: render_def while_option_def)
qed

text \<open>C11: a page load with a signed-in user in \<open>localStorage\<close> never
  settles: whether or not Firebase is set up, the \<open>[user]\<close> effect restores
  the stored user as a new object on every run, which changes its own
  dependency and makes React render and run it again, without end.\<close>

theorem mount_stored_user_diverges: "mount fb (Some (Stored_user u)) = None"
  by (simp add: mount_def render_init_stored)

subsection \<open>Sign-in and logout\<close>

lemma render_unfold:
  "render fb st = (if effects_pending st then render fb (commit fb st) else Some st)"
  unfolding render_def by (rule while_option_unfold)

lemma settled_render: "\<not> effects_pending st \<Longrightarrow> render fb st = Some st"
  by (simp add: render_unfold)

lemma commit_no_stored:
  "ac_storage st = None \<Longrightarrow> commit fb st =
     st\<lparr>ac_storage := (case ac_user st of None \<Rightarrow> None | Some (_, u) \<Rightarrow> Some (Stored_user u)),
        ac_deps := Some (user_ref st),
        ac_listener := (if fb then Some (user_ref st) else ac_listener st),
        ac_loading := (if fb then ac_loading st else False)\<rparr>"
  by (auto simp: commit_def auth_effect_def save_effect_def user_ref_def Let_def split: option.splits)

lemma render_no_stored:
  "ac_storage st = None \<Longrightarrow> effects_pending st \<Longrightarrow> render fb st = Some (commit fb st)"
  by (simp add: render_unfold [of fb st] settled_render commit_no_stored effects_pending_def user_ref_def
      split: option.splits)

lemma logout_clears:
  "\<exists>st'. ctx_step fb (Logout ok) st = Some st' \<and> ac_user st' = None \<and> ac_storage st' = None \<and>
          \<not> effects_pending st'"
proof (cases "effects_pending (logout (sign_out fb ok) st)")
  case True
  then show ?thesis
    by (simp add: ctx_step_def render_no_stored logout_def sign_out_def commit_no_stored effects_pending_def user_ref_def)
next
  case False
  then show ?thesis by (simp add: ctx_step_def settled_render logout_def sign_out_def)
qed

lemma sign_in_saves:
  assumes "ac_user st = None" "ac_storage st = None" "\<not> effects_pending st"
  shows "ctx_step fb (Set_user u) st =
           Some ((set_user_fresh u st)\<lparr>ac_storage := Some (Stored_user u), ac_deps := Some (Some (ac_next st)),
              ac_listener := (if fb then Some (Some (ac_next st)) else ac_listener st),
              ac_loading := (if fb then ac_loading st else False)\<rparr>)"
  using assms
  by (simp add: ctx_step_def render_no_stored set_user_fresh_def commit_no_stored effects_pending_def user_ref_def)


lemma mount_empty:
  "mount fb None = Some ((init_ctx None)\<lparr>ac_deps := Some None,
     ac_listener := (if fb then Some None else None), ac_loading := fb\<rparr>)"
  by (simp add: mount_def render_no_stored init_ctx_def effects_pending_def user_ref_def commit_no_stored)

text \<open>C17: a first visit settles with nobody signed in; signing in then saves
  the user to \<open>localStorage\<close> and settles; logging out, whatever Firebase
  answers, removes the user from the state and from \<open>localStorage\<close> and
  settles again.\<close>

theorem sign_in_logout_roundtrip:
  "\<exists>st0 st1 st2. mount fb None = Some st0 \<and> ac_user st0 = None \<and>
     ctx_step fb (Set_user u) st0 = Some st1 \<and> map_option snd (ac_user st1) = Some u \<and>
     ac_storage st1 = Some (Stored_user u) \<and> \<not> effects_pending st1 \<and>
     ctx_step fb (Logout ok) st1 = Some st2 \<and> ac_user st2 = None \<and> ac_storage st2 = None \<and>
     \<not> effects_pending st2"
proof -
  let ?st0 = "(init_ctx None)\<lparr>ac_deps := Some None, ac_listener := (if fb then Some None else None), ac_loading := fb\<rparr>"
  have s1: "ctx_step fb (Set_user u) ?st0 =
     Some ((set_user_fresh u ?st0)\<lparr>ac_storage := Some (Stored_user u), ac_deps := Some (Some (ac_next ?st0)),
        ac_listener := (if fb then Some (Some (ac_next ?st0)) else ac_listener ?st0),
        ac_loading := (if fb then ac_loading ?st0 else False)\<rparr>)"
    by (rule sign_in_saves) (simp_all add: init_ctx_def effects_pending_def user_ref_def)
  show ?thesis
    using mount_empty [of fb] s1 logout_clears
    by (simp add: init_ctx_def set_user_fresh_def effects_pending_def user_ref_def)
qed

end
