(* ===== verification/Layout.thy ===== *)
theory Layout
  imports AuthContext BoardPage
begin

text \<open>
  The page shell both pages render: \<open>Header\<close> and \<open>Sidebar\<close>
  (\<open>src/client/src/components/layout/header.tsx\<close>, the sidebar from its line
  72 on), the user menu \<open>UserDropdown\<close> (\<open>src/unnamed/part_002\<close>), and the
  dashboard \<open>Boards\<close> (\<open>src/unnamed/part_006\<close>, lines 859-1002).  The
  sidebar's open flag is state of the page; the sidebar closes itself in an
  effect on \<open>[location, onClose]\<close> when the window is narrower than 768
  pixels, and both pages pass \<open>onClose\<close> as an arrow written in their JSX,
  a new function on every render of the page, so the effect runs after each
  of them.  The window width is a parameter \<open>w\<close> (a resize renders nothing).
  Tailwind's \<open>md:\<close> prefix applies from 768 pixels on.
\<close>

subsection \<open>Header and user menu\<close>

text \<open>The props the header gives the menu: \<open>name\<close>, \<open>email\<close>, \<open>imageUrl\<close>.\<close>

definition dropdown_user :: "user \<Rightarrow> string \<times> string \<times> string option" where
  "dropdown_user u = (js_or_str (display_name u) (username u), phone_number u, photo_url u)"

text \<open>\<open>getInitials\<close> of the menu: the first code unit of each space-separated
  part (\<open>undefined\<close>, written as nothing, for an empty part), upper-cased.\<close>

definition get_initials :: "string \<Rightarrow> string" where
  "get_initials name = js_upper (concat (map (take 1) (split_space name)))"

text \<open>The state of the shell: the auth context, the header's \<open>showSearch\<close>,
  the menu's \<open>isOpen\<close> (the menu is mounted only while a user is signed in;
  unmounted, its state is gone and a new mount starts closed), the page's
  sidebar flag and the location.\<close>

record shell =
  sh_ctx :: auth_ctx
  sh_show_search :: bool
  sh_menu_open :: bool
  sh_sidebar_open :: bool
  sh_location :: string

datatype shell_event =
    Menu_button
  | Search_button
  | Bell_button
  | Avatar_click
  | Mouse_down bool
  | Sign_out bool
  | Navigate string

definition signed_in :: "shell \<Rightarrow> bool" where
  "signed_in sh \<longleftrightarrow> ac_user (sh_ctx sh) \<noteq> None"

text \<open>The sidebar's effect, run after a render of the page.\<close>

definition sidebar_effect :: "nat \<Rightarrow> bool \<Rightarrow> bool" where
  "sidebar_effect w is_open \<longleftrightarrow> (if w < 768 then False else is_open)"

text \<open>\<open>cn(..., isOpen ? "block" : "hidden md:block")\<close>\<close>

definition sidebar_shown :: "nat \<Rightarrow> bool \<Rightarrow> bool" where
  "sidebar_shown w is_open \<longleftrightarrow> is_open \<or> 768 \<le> w"

text \<open>A render of the page: the sidebar effect runs, and the menu is
  unmounted when nobody is signed in.\<close>

definition page_render :: "nat \<Rightarrow> shell \<Rightarrow> shell" where
  "page_render w sh = sh\<lparr>sh_sidebar_open := sidebar_effect w (sh_sidebar_open sh),
                         sh_menu_open := (signed_in sh \<and> sh_menu_open sh)\<rparr>"

text \<open>One event.  The menu button toggles the page's flag; the search button
  and the menu toggle only the header's and the menu's own state (which
  re-renders neither the page nor the sidebar); the bell has no handler; a
  mouse-down outside the menu closes it; Sign out calls \<open>logout()\<close> with
  Firebase's answer to the sign-out; navigation changes the location the sidebar
  depends on.  A context whose effects never settle is \<open>None\<close>.\<close>

fun shell_step :: "nat \<Rightarrow> bool \<Rightarrow> shell_event \<Rightarrow> shell \<Rightarrow> shell option" where
  "shell_step w fb Menu_button sh = Some (page_render w (sh\<lparr>sh_sidebar_open := \<not> sh_sidebar_open sh\<rparr>))"
| "shell_step w fb Search_button sh = Some (sh\<lparr>sh_show_search := \<not> sh_show_search sh\<rparr>)"
| "shell_step w fb Bell_button sh = Some sh"
| "shell_step w fb Avatar_click sh =
     Some (if signed_in sh then sh\<lparr>sh_menu_open := \<not> sh_menu_open sh\<rparr> else sh)"
| "shell_step w fb (Mouse_down inside) sh =
     Some (if inside then sh else sh\<lparr>sh_menu_open := False\<rparr>)"
| "shell_step w fb (Sign_out ok) sh =
     (if signed_in sh \<and> sh_menu_open sh
      then map_option (\<lambda>c. page_render w (sh\<lparr>sh_ctx := c\<rparr>)) (ctx_step fb (Logout ok) (sh_ctx sh))
      else Some sh)"
| "shell_step w fb (Navigate l) sh = Some (page_render w (sh\<lparr>sh_location := l\<rparr>))"

fun shell_run :: "nat \<Rightarrow> bool \<Rightarrow> shell_event list \<Rightarrow> shell \<Rightarrow> shell option" where
  "shell_run w fb [] sh = Some sh"
| "shell_run w fb (e # es) sh = (case shell_step w fb e sh of None \<Rightarrow> None | Some sh' \<Rightarrow> shell_run w fb es sh')"

text \<open>The menu is open only while somebody is signed in.\<close>

definition menu_inv :: "shell \<Rightarrow> bool" where
  "menu_inv sh \<longleftrightarrow> (sh_menu_open sh \<longrightarrow> signed_in sh)"

subsection \<open>The sidebar's board list\<close>

text \<open>The query \<open>['/api/boards', user?.id]\<close>: \<open>GET /api/boards?userId=..\<close>
  for a signed-in user; a failed fetch leaves the default \<open>[]\<close>.\<close>

definition sidebar_boards :: "ident option \<Rightarrow> mem_storage \<Rightarrow> board_with_counts list" where
  "sidebar_boards uid s =
     (case uid of None \<Rightarrow> []
      | Some u \<Rightarrow> (case get_boards_route (Some (js_int_string u)) s of
                    (st, Body_boards bs) \<Rightarrow> if res_ok st then bs else []
                  | _ \<Rightarrow> []))"

definition get_board_color :: "string option \<Rightarrow> string" where
  "get_board_color c = (case c of None \<Rightarrow> ''bg-primary''
     | Some x \<Rightarrow> if x = ''primary'' then ''bg-primary''
                 else if x = ''secondary'' then ''bg-secondary-500''
                 else if x = ''accent'' then ''bg-accent-500''
                 else if x = ''warning'' then ''bg-yellow-500''
                 else if x = ''error'' then ''bg-destructive'' else ''bg-primary'')"

record sidebar_item =
  si_href :: string
  si_active :: bool
  si_color :: string
  si_title :: "string option"
  si_count :: nat

text \<open>One link of \<open>My Boards\<close>; the entry of a board that is not stored has
  no fields, and its id is written \<open>undefined\<close>.\<close>

definition sidebar_item :: "string \<Rightarrow> board_with_counts \<Rightarrow> sidebar_item" where
  "sidebar_item loc bc =
     (let href = ''/boards/'' @ (case bwc_board bc of None \<Rightarrow> ''undefined'' | Some b \<Rightarrow> js_int_string (board_id b))
      in \<lparr>si_href = href, si_active = (loc = href),
          si_color = get_board_color (bwc_board bc \<bind> board_color),
          si_title = bwc_board bc \<bind> board_title, si_count = todo_count bc\<rparr>)"

definition sidebar_items :: "ident option \<Rightarrow> string \<Rightarrow> mem_storage \<Rightarrow> sidebar_item list" where
  "sidebar_items uid loc s = map (sidebar_item loc) (sidebar_boards uid s)"

text \<open>\<open>useRoute('/boards/:id')\<close>: the parameter of a board path.\<close>

definition route_param :: "string \<Rightarrow> string option" where
  "route_param href = (if take 8 href = ''/boards/'' \<and> drop 8 href \<noteq> [] \<and> CHR ''/'' \<notin> set (drop 8 href)
                       then Some (drop 8 href) else None)"

subsection \<open>The board page inside the shell\<close>

text \<open>Every event of the board page changes its state and renders it, and
  the render runs the sidebar's effect.\<close>

definition board_step_rendered ::
  "nat \<Rightarrow> string option \<Rightarrow> ident option \<Rightarrow> board_event \<Rightarrow> board_page \<times> mem_storage \<Rightarrow> board_page \<times> mem_storage" where
  "board_step_rendered w tok uid e ps =
     (let (pg, s) = board_step tok uid e ps in (pg\<lparr>pg_sidebar_open := sidebar_effect w (pg_sidebar_open pg)\<rparr>, s))"

definition board_run_rendered ::
  "nat \<Rightarrow> string option \<Rightarrow> ident option \<Rightarrow> board_event list \<Rightarrow> board_page \<times> mem_storage \<Rightarrow> board_page \<times> mem_storage" where
  "board_run_rendered w tok uid evs = fold (board_step_rendered w tok uid) evs"

subsection \<open>The dashboard (\<open>Boards\<close>)\<close>

record dashboard =
  ds_sidebar_open :: bool
  ds_create_board_open :: bool
  ds_sort :: string

definition init_dashboard :: dashboard where
  "init_dashboard = \<lparr>ds_sidebar_open = False, ds_create_board_open = False, ds_sort = ''recent''\<rparr>"

datatype dashboard_event =
    Dash_toggle_sidebar
  | Dash_close_sidebar
  | Dash_create_board
  | Dash_dialog_open bool
  | Dash_sort string

text \<open>The handlers, each followed by the render and the sidebar effect:
  \<open>toggleSidebar\<close>, the sidebar's \<open>onClose\<close> and \<open>onCreateBoard\<close>, the new-board
  card, the dialog's \<open>onOpenChange\<close> and the sort select.\<close>

fun dashboard_handle :: "dashboard_event \<Rightarrow> dashboard \<Rightarrow> dashboard" where
  "dashboard_handle Dash_toggle_sidebar d = d\<lparr>ds_sidebar_open := \<not> ds_sidebar_open d\<rparr>"
| "dashboard_handle Dash_close_sidebar d = d\<lparr>ds_sidebar_open := False\<rparr>"
| "dashboard_handle Dash_create_board d = d\<lparr>ds_create_board_open := True\<rparr>"
| "dashboard_handle (Dash_dialog_open b) d = d\<lparr>ds_create_board_open := b\<rparr>"
| "dashboard_handle (Dash_sort v) d = d\<lparr>ds_sort := v\<rparr>"

definition dashboard_step :: "nat \<Rightarrow> dashboard_event \<Rightarrow> dashboard \<Rightarrow> dashboard" where
  "dashboard_step w e d = (let d' = dashboard_handle e d in d'\<lparr>ds_sidebar_open := sidebar_effect w (ds_sidebar_open d')\<rparr>)"

text \<open>\<open>getMembersForBoard\<close>: the signed-in user's name, then placeholders
  \<open>Member 1\<close>, \<dots> up to four, by the board's member count.\<close>

definition members_for_board :: "user option \<Rightarrow> board_with_counts \<Rightarrow> string list" where
  "members_for_board u bc =
     js_or_str (u \<bind> display_name) (js_or_str (map_option username u) ''You'') #
     (if 1 < member_count bc then map (\<lambda>i. ''Member '' @ js_int_string (int i)) [1..<min (member_count bc) 5]
      else [])"

text \<open>A signed-in user for the examples.\<close>

definition alice :: user where
  "alice = \<lparr>user_id = 1, username = ''alice'', password = ''hash'', phone_number = ''+15550001'',
            display_name = None, photo_url = None\<rparr>"

subsection \<open>Properties\<close>

lemma sidebar_effect_narrow: "(w::nat) < 768 \<Longrightarrow> \<not> sidebar_effect w b"
  by (simp add: sidebar_effect_def)

lemma board_step_rendered_closed:
  "w < 768 \<Longrightarrow> \<not> pg_sidebar_open (fst (board_step_rendered w tok uid e ps))"
  by (simp add: board_step_rendered_def sidebar_effect_narrow split: prod.splits)

lemma board_run_rendered_closed:
  "w < 768 \<Longrightarrow> \<not> pg_sidebar_open (fst ps) \<Longrightarrow> \<not> pg_sidebar_open (fst (board_run_rendered w tok uid evs ps))"
proof (induction evs arbitrary: ps)
  case Nil then show ?case by (simp add: board_run_rendered_def)
next
  case (Cons e evs)
  then show ?case using board_step_rendered_closed [OF Cons.prems(1)]
    by (simp add: board_run_rendered_def)
qed

text \<open>C12: on the board page the menu button never shows the sidebar: after
  any sequence of events from the page's load, at any window width, the
  sidebar is shown exactly when the window is at least 768 pixels wide (where
  it is always shown), because each render runs the sidebar's effect, which
  closes it on narrow windows.\<close>

theorem board_page_sidebar_never_opens:
  "sidebar_shown w (pg_sidebar_open (fst (board_run_rendered w tok uid evs (init_board_page p, s)))) \<longleftrightarrow> 768 \<le> w"
proof (cases "w < 768")
  case True
  then show ?thesis using board_run_rendered_closed [of w "(init_board_page p, s)" tok uid evs]
    by (simp add: sidebar_shown_def init_board_page_def)
next
  case False
  then show ?thesis by (simp add: sidebar_shown_def)
qed

lemma page_render_menu_inv: "menu_inv (page_render w sh)"
  by (simp add: menu_inv_def page_render_def signed_in_def)

lemma shell_step_menu_inv: "menu_inv sh \<Longrightarrow> shell_step w fb e sh = Some sh' \<Longrightarrow> menu_inv sh'"
  by (cases e) (auto simp: menu_inv_def signed_in_def page_render_def split: if_splits)

text \<open>C30: along any sequence of header and menu events (menu, search and
  bell buttons, avatar clicks, mouse-downs, sign-out whatever
  Firebase answers, navigation) the user menu is open only while a user is
  signed in: signing out unmounts it.\<close>

theorem menu_open_only_signed_in:
  "menu_inv sh \<Longrightarrow> shell_run w fb es sh = Some sh' \<Longrightarrow> menu_inv sh'"
proof (induction es arbitrary: sh)
  case Nil then show ?case by simp
next
  case (Cons e es)
  then obtain sh1 where "shell_step w fb e sh = Some sh1" "shell_run w fb es sh1 = Some sh'"
    by (auto split: option.splits)
  with Cons show ?case using shell_step_menu_inv by blast
qed

lemma digit_char_not_slash: "d < 10 \<Longrightarrow> digit_char d \<noteq> CHR ''/''"
  using of_char_digit_char [of d] by (auto dest: arg_cong [where f = "of_char :: char \<Rightarrow> nat"])

lemma digits_no_slash: "CHR ''/'' \<notin> set (map digit_char (nat_digits n))"
proof
  assume "CHR ''/'' \<in> set (map digit_char (nat_digits n))"
  then obtain d where "d \<in> set (nat_digits n)" "CHR ''/'' = digit_char d" by auto
  then show False using nat_digits_lt digit_char_not_slash by metis
qed

lemma js_int_string_no_slash: "CHR ''/'' \<notin> set (js_int_string i)"
  using digits_no_slash by (simp add: js_int_string_def)

text \<open>Each link of the sidebar's board list opens the page of the board
  it names: \<open>useRoute('/boards/:id')\<close> matches the link, and
  \<open>parseInt\<close> of the parameter is the board's id.\<close>

theorem sidebar_link_opens_board:
  "bwc_board bc = Some b \<Longrightarrow>
   map_option (\<lambda>p. pg_board_id (init_board_page (Some p))) (route_param (si_href (sidebar_item loc bc))) =
   Some (Some (board_id b))"
  by (simp add: sidebar_item_def route_param_def js_int_string_ne js_int_string_no_slash init_board_page_def Let_def)

text \<open>A dashboard card shows \<open>min(memberCount, 5)\<close> names, at least
  one (the signed-in user's), whatever the board's actual members are.\<close>

theorem members_for_board_length:
  "length (members_for_board u bc) = max 1 (min (member_count bc) 5)"
  by (simp add: members_for_board_def)


lemma sidebar_boards_user: "sidebar_boards (Some u) s = get_boards_by_user s u"
  by (simp add: sidebar_boards_def get_boards_route_def res_ok_def)

text \<open>C36: signing out from the open user menu, whatever Firebase answers, ends
  with nobody signed in, nothing stored and the menu gone.\<close>

lemma sign_out_from_menu:
  assumes "signed_in sh" "sh_menu_open sh"
  shows "\<exists>sh'. shell_step w fb (Sign_out ok) sh = Some sh' \<and> \<not> signed_in sh' \<and>
           \<not> sh_menu_open sh' \<and> ac_storage (sh_ctx sh') = None"
  using assms logout_clears [of fb ok "sh_ctx sh"] by (auto simp: page_render_def signed_in_def)

theorem menu_open_only_signed_in_witness:
  "let sh0 = \<lparr>sh_ctx = (init_ctx None)\<lparr>ac_user := Some (0, alice)\<rparr>, sh_show_search = False,
              sh_menu_open = False, sh_sidebar_open = False, sh_location = ''/''\<rparr>
   in menu_inv sh0 \<and> shell_run 500 True [Avatar_click, Mouse_down True, Navigate ''/boards/1''] sh0 =
        Some (sh0\<lparr>sh_menu_open := True, sh_location := ''/boards/1''\<rparr>) \<and>
      menu_inv (sh0\<lparr>sh_menu_open := True, sh_location := ''/boards/1''\<rparr>)"
  unfolding Let_def
proof (intro conjI)
  let ?sh0 = "\<lparr>sh_ctx = (init_ctx None)\<lparr>ac_user := Some (0, alice)\<rparr>, sh_show_search = False,
              sh_menu_open = False, sh_sidebar_open = False, sh_location = ''/''\<rparr>"
  show h1: "menu_inv ?sh0" by (simp add: menu_inv_def)
  show h2: "shell_run 500 True [Avatar_click, Mouse_down True, Navigate ''/boards/1''] ?sh0 =
      Some (?sh0\<lparr>sh_menu_open := True, sh_location := ''/boards/1''\<rparr>)"
    by (simp add: signed_in_def page_render_def sidebar_effect_def)
  show "menu_inv (?sh0\<lparr>sh_menu_open := True, sh_location := ''/boards/1''\<rparr>)"
    by (rule menu_open_only_signed_in [OF h1 h2])
qed

theorem sidebar_link_opens_board_witness:
  "let b = \<lparr>board_id = 7, board_title = Some ''Launch'', board_description = None, board_color = None,
             board_created_by = 1, board_created_at = 1000\<rparr>;
       bc = \<lparr>bwc_board = Some b, todo_count = 2, member_count = 1\<rparr>
   in bwc_board bc = Some b \<and>
      map_option (\<lambda>p. pg_board_id (init_board_page (Some p))) (route_param (si_href (sidebar_item ''/'' bc))) =
      Some (Some 7)"
  unfolding Let_def
proof (intro conjI)
  let ?b = "\<lparr>board_id = 7, board_title = Some ''Launch'', board_description = None, board_color = None,
             board_created_by = 1, board_created_at = 1000\<rparr>"
  let ?bc = "\<lparr>bwc_board = Some ?b, todo_count = 2, member_count = 1\<rparr>"
  show h: "bwc_board ?bc = Some ?b" by simp
  show "map_option (\<lambda>p. pg_board_id (init_board_page (Some p))) (route_param (si_href (sidebar_item ''/'' ?bc))) =
      Some (Some 7)" using sidebar_link_opens_board [OF h, of "''/''"] by simp
qed

text \<open>A witness for C36: alice signed in with the menu open.\<close>

theorem sign_out_from_menu_witness:
  "let sh = \<lparr>sh_ctx = (init_ctx None)\<lparr>ac_user := Some (0, alice), ac_deps := Some (Some 0)\<rparr>, sh_show_search = False,
             sh_menu_open = True, sh_sidebar_open = False, sh_location = ''/''\<rparr>
   in signed_in sh \<and> sh_menu_open sh \<and>
      (\<exists>sh'. shell_step 1024 True (Sign_out False) sh = Some sh' \<and> \<not> signed_in sh' \<and>
           \<not> sh_menu_open sh' \<and> ac_storage (sh_ctx sh') = None)"
  unfolding Let_def
proof (intro conjI)
  let ?sh = "\<lparr>sh_ctx = (init_ctx None)\<lparr>ac_user := Some (0, alice), ac_deps := Some (Some 0)\<rparr>, sh_show_search = False,
             sh_menu_open = True, sh_sidebar_open = False, sh_location = ''/''\<rparr>"
  show h1: "signed_in ?sh" by (simp add: signed_in_def)
  show h2: "sh_menu_open ?sh" by simp
  show "\<exists>sh'. shell_step 1024 True (Sign_out False) ?sh = Some sh' \<and> \<not> signed_in sh' \<and>
           \<not> sh_menu_open sh' \<and> ac_storage (sh_ctx sh') = None"
    by (rule sign_out_from_menu [OF h1 h2])
qed

end
