(* ===== verification/Forms.thy ===== *)
theory Forms
  imports Dialogs Operations
begin

text \<open>
  The two create dialogs as form state machines
  (\<open>src/client/src/components/boards/create-board-dialog.tsx\<close>,
  \<open>src/client/src/components/todos/create-todo-dialog.tsx\<close>).  Both have the
  same shape, so the dialog is one generic machine over the form values
  \<open>'v\<close>: a react-hook-form form with a \<open>zodResolver\<close> (the check \<open>valid\<close>),
  its default values, and a mutation (\<open>send\<close>: the request, served by the
  \<open>Routes\<close> model, and whether it succeeded).  Submitting sets
  \<open>isSubmitting\<close> and sends; the mutation settles later: on success the form
  is reset and the dialog closes, on error a toast is shown and the dialog
  stays as it was.  While submitting, the Submit and Cancel buttons are
  disabled.  The form lives in the dialog component, which stays mounted when
  the dialog closes, so values typed before a cancel are kept.
\<close>

subsection \<open>The generic form dialog\<close>

record 'v form_dialog =
  fd_open :: bool
  fd_values :: 'v
  fd_invalid :: bool
  fd_pending :: "bool option"

datatype 'v dialog_event =
    Dlg_open bool
  | Dlg_edit 'v
  | Dlg_submit timestamp
  | Dlg_settled
  | Dlg_cancel

text \<open>\<open>form.handleSubmit(onSubmit)\<close>: the resolver refuses invalid values (the
  messages are shown and nothing is sent); after a refused submit the form
  re-validates on every change.\<close>

fun dialog_step ::
  "'v \<Rightarrow> ('v \<Rightarrow> bool) \<Rightarrow> ('v \<Rightarrow> timestamp \<Rightarrow> 's \<Rightarrow> bool \<times> 's) \<Rightarrow> 'v dialog_event \<Rightarrow>
   'v form_dialog \<times> 's \<Rightarrow> 'v form_dialog \<times> 's" where
  "dialog_step dflt valid send (Dlg_open b) (d, s) = (d\<lparr>fd_open := b\<rparr>, s)"
| "dialog_step dflt valid send (Dlg_edit v) (d, s) =
     (if fd_open d then (d\<lparr>fd_values := v, fd_invalid := (fd_invalid d \<and> \<not> valid v)\<rparr>, s) else (d, s))"
| "dialog_step dflt valid send (Dlg_submit now) (d, s) =
     (if \<not> fd_open d \<or> fd_pending d \<noteq> None then (d, s)
      else if \<not> valid (fd_values d) then (d\<lparr>fd_invalid := True\<rparr>, s)
      else (let (ok, s') = send (fd_values d) now s in (d\<lparr>fd_invalid := False, fd_pending := Some ok\<rparr>, s')))"
| "dialog_step dflt valid send Dlg_settled (d, s) =
     (case fd_pending d of
        None \<Rightarrow> (d, s)
      | Some ok \<Rightarrow> (if ok then d\<lparr>fd_values := dflt, fd_open := False, fd_pending := None\<rparr>
                   else d\<lparr>fd_pending := None\<rparr>, s))"
| "dialog_step dflt valid send Dlg_cancel (d, s) =
     (if fd_pending d \<noteq> None then (d, s) else (d\<lparr>fd_open := False\<rparr>, s))"

definition dialog_run ::
  "'v \<Rightarrow> ('v \<Rightarrow> bool) \<Rightarrow> ('v \<Rightarrow> timestamp \<Rightarrow> 's \<Rightarrow> bool \<times> 's) \<Rightarrow> 'v dialog_event list \<Rightarrow>
   'v form_dialog \<times> 's \<Rightarrow> 'v form_dialog \<times> 's" where
  "dialog_run dflt valid send evs = fold (dialog_step dflt valid send) evs"

definition init_dialog :: "'v \<Rightarrow> 'v form_dialog" where
  "init_dialog dflt = \<lparr>fd_open = False, fd_values = dflt, fd_invalid = False, fd_pending = None\<rparr>"

subsection \<open>The create-board dialog\<close>

text \<open>\<open>formSchema\<close>: a title of at least one code unit and a colour of the
  enumeration; the description is optional.\<close>

definition board_form_valid :: "board_form \<Rightarrow> bool" where
  "board_form_valid f \<longleftrightarrow> bf_title f \<noteq> [] \<and>
     bf_color f \<in> set [''primary'', ''secondary'', ''accent'', ''warning'', ''error'']"

definition board_form_defaults :: board_form where
  "board_form_defaults = \<lparr>bf_title = [], bf_description = [], bf_color = ''primary''\<rparr>"

text \<open>\<open>createBoardMutation\<close>: without a user it throws before any request;
  otherwise \<open>apiRequest\<close> posts the body and throws on a status that is not
  ok.\<close>

definition board_send ::
  "ident option \<Rightarrow> string option \<Rightarrow> board_form \<Rightarrow> timestamp \<Rightarrow> mem_storage \<Rightarrow> bool \<times> mem_storage" where
  "board_send uid tok f now s = (case uid of
       None \<Rightarrow> (False, s)
     | Some u \<Rightarrow> (let (r, s') = post_board_route (with_csrf tok ''POST'' (board_dialog_body u f)) now s
                  in (res_ok (fst r), s')))"

definition board_dialog_run ::
  "ident option \<Rightarrow> string option \<Rightarrow> board_form dialog_event list \<Rightarrow>
   board_form form_dialog \<times> mem_storage \<Rightarrow> board_form form_dialog \<times> mem_storage" where
  "board_dialog_run uid tok = dialog_run board_form_defaults board_form_valid (board_send uid tok)"

text \<open>The insert object the route builds from a form of the dialog.\<close>

definition board_insert :: "ident \<Rightarrow> board_form \<Rightarrow> insert_board" where
  "board_insert u f = \<lparr>ib_title = bf_title f, ib_description = Some (bf_description f),
                        ib_color = Some (bf_color f), ib_created_by = u\<rparr>"

subsection \<open>The create-todo dialog\<close>

definition todo_form_valid :: "todo_form \<Rightarrow> bool" where
  "todo_form_valid f \<longleftrightarrow> tf_title f \<noteq> [] \<and>
     tf_priority f \<in> set [''low'', ''medium'', ''high'', ''critical''] \<and>
     tf_status f \<in> set [''todo'', ''in-progress'', ''completed'']"

text \<open>\<open>defaultValues\<close>: the signed-in user is preselected as assignee.\<close>

definition todo_form_defaults :: "ident option \<Rightarrow> todo_form" where
  "todo_form_defaults uid = \<lparr>tf_title = [], tf_description = [], tf_due_date = [], tf_priority = ''medium'',
     tf_status = ''todo'', tf_assigned_to = map_option js_int_string uid\<rparr>"

text \<open>The options of the assignee select: value and label.\<close>

definition assignee_options :: "user option \<Rightarrow> user list \<Rightarrow> (string \<times> string) list" where
  "assignee_options u mems =
     ([], ''Unassigned'') #
     (case u of None \<Rightarrow> [] | Some me \<Rightarrow> [(js_int_string (user_id me), ''Myself'')]) @
     map (\<lambda>m. (js_int_string (user_id m), js_or_str (display_name m) (username m)))
       (filter (\<lambda>m. Some (user_id m) \<noteq> map_option user_id u) mems)"

definition todo_send ::
  "ident \<Rightarrow> ident option \<Rightarrow> (string \<Rightarrow> string option) \<Rightarrow> string option \<Rightarrow> todo_form \<Rightarrow> timestamp \<Rightarrow>
   mem_storage \<Rightarrow> bool \<times> mem_storage" where
  "todo_send bid uid to_iso tok f now s = (case uid of
       None \<Rightarrow> (False, s)
     | Some u \<Rightarrow> (case todo_dialog_body bid u to_iso f of
         None \<Rightarrow> (False, s)
       | Some b \<Rightarrow> (let (r, s') = post_todo_route (js_int_string bid) (with_csrf tok ''POST'' b) now s
                    in (res_ok (fst r), s'))))"

definition todo_dialog_run ::
  "ident \<Rightarrow> ident option \<Rightarrow> (string \<Rightarrow> string option) \<Rightarrow> string option \<Rightarrow> todo_form dialog_event list \<Rightarrow>
   todo_form form_dialog \<times> mem_storage \<Rightarrow> todo_form form_dialog \<times> mem_storage" where
  "todo_dialog_run bid uid to_iso tok =
     dialog_run (todo_form_defaults uid) todo_form_valid (todo_send bid uid to_iso tok)"

subsection \<open>The invite dialog\<close>

text \<open>\<open>InviteDialog\<close> (\<open>src/unnamed/part_003\<close>): the form (email, role,
  message), the invite list, and \<open>isSubmitting\<close>.  \<open>addInvite\<close> reads
  \<open>form.formState.isValid\<close>, the event's flag; its email check is
  \<open>z.string().email()\<close>, not modelled.  The send mutation makes no
  request and always succeeds.\<close>

record invite_dialog =
  iv_open :: bool
  iv_email :: string
  iv_role :: string
  iv_message :: string
  iv_invites :: "invite list"
  iv_submitting :: bool

definition init_invite_dialog :: invite_dialog where
  "init_invite_dialog = \<lparr>iv_open = False, iv_email = [], iv_role = ''editor'', iv_message = [],
     iv_invites = [], iv_submitting = False\<rparr>"

datatype invite_event =
    Inv_open bool
  | Inv_email string
  | Inv_role string
  | Inv_message string
  | Inv_add bool
  | Inv_remove string
  | Inv_send
  | Inv_settled
  | Inv_cancel

text \<open>The role badge of a listed invite: \<open>charAt(0).toUpperCase() + slice(1)\<close>.\<close>

definition role_label :: "string \<Rightarrow> string" where
  "role_label r = js_upper (take 1 r) @ drop 1 r"

fun invite_step :: "user list \<Rightarrow> invite_event \<Rightarrow> invite_dialog \<times> mem_storage \<Rightarrow> invite_dialog \<times> mem_storage" where
  "invite_step mems (Inv_open b) (d, s) = (d\<lparr>iv_open := b\<rparr>, s)"
| "invite_step mems (Inv_email e) (d, s) = (d\<lparr>iv_email := e\<rparr>, s)"
| "invite_step mems (Inv_role r) (d, s) = (d\<lparr>iv_role := r\<rparr>, s)"
| "invite_step mems (Inv_message m) (d, s) = (d\<lparr>iv_message := m\<rparr>, s)"
| "invite_step mems (Inv_add valid) (d, s) =
     (let l = add_invite valid mems (iv_email d) (iv_role d) (iv_invites d)
      in (if l = iv_invites d then d else d\<lparr>iv_invites := l, iv_email := []\<rparr>, s))"
| "invite_step mems (Inv_remove e) (d, s) = (d\<lparr>iv_invites := remove_invite e (iv_invites d)\<rparr>, s)"
| "invite_step mems Inv_send (d, s) =
     (if iv_submitting d \<or> iv_invites d = [] then (d, s)
      else (let ((_, l), s') = send_invites (iv_invites d) s in (d\<lparr>iv_submitting := True\<rparr>, s')))"
| "invite_step mems Inv_settled (d, s) =
     (if iv_submitting d
      then (d\<lparr>iv_invites := [], iv_email := [], iv_role := ''editor'', iv_message := [], iv_open := False,
               iv_submitting := False\<rparr>, s)
      else (d, s))"
| "invite_step mems Inv_cancel (d, s) = (if iv_submitting d then (d, s) else (d\<lparr>iv_open := False\<rparr>, s))"

definition invite_run :: "user list \<Rightarrow> invite_event list \<Rightarrow> invite_dialog \<times> mem_storage \<Rightarrow> invite_dialog \<times> mem_storage" where
  "invite_run mems evs = fold (invite_step mems) evs"

subsection \<open>Properties\<close>

lemma exec_run_append: "exec_run (ops @ ops') s = exec_run ops' (exec_run ops s)"
  by (induction ops arbitrary: s) simp_all

lemma exec_run_store_inv: "store_inv s \<Longrightarrow> store_inv (exec_run ops s)"
  by (induction ops arbitrary: s) (simp_all add: exec_op_store_inv)

lemma dialog_step_ops:
  assumes send: "\<And>v now s. valid v \<Longrightarrow> \<exists>ops. snd (send v now s) = exec_run ops s \<and> list_all (Q v now) ops"
  shows "\<exists>ops. snd (dialog_step dflt valid send e (d, s)) = exec_run ops s \<and>
           list_all (\<lambda>op. \<exists>v now. valid v \<and> Q v now op) ops"
proof (cases e)
  case (Dlg_submit now)
  show ?thesis
  proof (cases "\<not> fd_open d \<or> fd_pending d \<noteq> None \<or> \<not> valid (fd_values d)")
    case True
    then show ?thesis using Dlg_submit by (rule_tac x = "[]" in exI) auto
  next
    case False
    then obtain ops where "snd (send (fd_values d) now s) = exec_run ops s" "list_all (Q (fd_values d) now) ops"
      using send by blast
    with False Dlg_submit show ?thesis
      by (rule_tac x = ops in exI) (auto simp: list_all_iff split: prod.splits)
  qed
qed (rule_tac x = "[]" in exI; simp split: option.splits)+

lemma dialog_run_ops:
  assumes send: "\<And>v now s. valid v \<Longrightarrow> \<exists>ops. snd (send v now s) = exec_run ops s \<and> list_all (Q v now) ops"
  shows "\<exists>ops. snd (dialog_run dflt valid send evs (d, s)) = exec_run ops s \<and>
           list_all (\<lambda>op. \<exists>v now. valid v \<and> Q v now op) ops"
proof (induction evs arbitrary: d s)
  case Nil
  then show ?case by (rule_tac x = "[]" in exI) (simp add: dialog_run_def)
next
  case (Cons e evs)
  obtain d1 s1 where st: "dialog_step dflt valid send e (d, s) = (d1, s1)" by fastforce
  from dialog_step_ops [of valid send Q dflt e d s, OF send] st
  obtain ops1 where o1: "s1 = exec_run ops1 s" "list_all (\<lambda>op. \<exists>v now. valid v \<and> Q v now op) ops1"
    by auto
  from Cons.IH [of d1 s1] obtain ops2 where
    o2: "snd (dialog_run dflt valid send evs (d1, s1)) = exec_run ops2 s1"
        "list_all (\<lambda>op. \<exists>v now. valid v \<and> Q v now op) ops2" by blast
  show ?case
    using o1 o2 st by (rule_tac x = "ops1 @ ops2" in exI) (simp add: dialog_run_def exec_run_append)
qed

lemma board_send_ops:
  "\<exists>ops. snd (board_send uid tok f now s) = exec_run ops s \<and>
     list_all (\<lambda>op. \<exists>u. uid = Some u \<and> op = Op_create_board (board_insert u f) now) ops"
proof (cases uid)
  case None
  then show ?thesis by (rule_tac x = "[]" in exI) (simp add: board_send_def)
next
  case (Some u)
  then show ?thesis
    by (rule_tac x = "[Op_create_board (board_insert u f) now]" in exI)
       (simp add: board_send_def board_dialog_creates board_insert_def Let_def split: prod.splits)
qed

lemma board_dialog_changes_ops:
  "\<exists>ops. snd (board_dialog_run uid tok evs (d, s)) = exec_run ops s"
  using dialog_run_ops [where Q = "\<lambda>f now op. \<exists>u. uid = Some u \<and> op = Op_create_board (board_insert u f) now"
      and valid = board_form_valid and send = "board_send uid tok", OF board_send_ops]
  unfolding board_dialog_run_def by blast

text \<open>C24: whatever the user does in the create-board dialog (open, edit,
  submit, cancel, close, in any order and any number of times), the store
  changes only by \<open>createBoard\<close> calls, each with the values of a form the
  dialog's schema accepted and the signed-in user as creator; without a user
  it does not change.\<close>

theorem board_dialog_changes:
  "\<exists>ops. snd (board_dialog_run uid tok evs (d, s)) = exec_run ops s \<and>
     list_all (\<lambda>op. \<exists>f now u. uid = Some u \<and> board_form_valid f \<and> op = Op_create_board (board_insert u f) now) ops"
proof -
  obtain ops where "snd (board_dialog_run uid tok evs (d, s)) = exec_run ops s"
    "list_all (\<lambda>op. \<exists>f now. board_form_valid f \<and> (\<exists>u. uid = Some u \<and> op = Op_create_board (board_insert u f) now)) ops"
    using dialog_run_ops [where Q = "\<lambda>f now op. \<exists>u. uid = Some u \<and> op = Op_create_board (board_insert u f) now"
      and valid = board_form_valid and send = "board_send uid tok", OF board_send_ops]
    unfolding board_dialog_run_def by blast
  then show ?thesis by (intro exI [of _ ops]) (simp add: list_all_iff, blast)
qed

lemma todo_send_due_date:
  "tf_due_date f \<noteq> [] \<Longrightarrow> todo_send bid uid to_iso tok f now s = (False, s)"
  by (auto simp: todo_send_def todo_dialog_due_date_rejected res_ok_def split: option.splits)

text \<open>C26: a todo with a due date can never be created from the dialog:
  submitting a form the dialog accepts, with a due date, changes nothing in
  the store whatever the user and the date conversion, and once the request
  has failed the dialog stays open with the values typed.\<close>

theorem todo_dialog_due_date_stays_open:
  "todo_form_valid f \<Longrightarrow> tf_due_date f \<noteq> [] \<Longrightarrow> fd_pending d = None \<Longrightarrow>
   todo_dialog_run bid uid to_iso tok [Dlg_open True, Dlg_edit f, Dlg_submit now, Dlg_settled] (d, s) =
     (d\<lparr>fd_open := True, fd_values := f, fd_invalid := False\<rparr>, s)"
  by (simp add: todo_dialog_run_def dialog_run_def todo_send_due_date)


lemma board_dialog_store_inv: "store_inv s \<Longrightarrow> store_inv (snd (board_dialog_run uid tok evs (d, s)))"
  using board_dialog_changes_ops exec_run_store_inv by metis

theorem todo_dialog_due_date_stays_open_witness:
  "let f = \<lparr>tf_title = ''Ship'', tf_description = [], tf_due_date = ''2025-01-31'', tf_priority = ''high'',
             tf_status = ''todo'', tf_assigned_to = None\<rparr>;
       d = init_dialog (todo_form_defaults (Some 1))
   in todo_form_valid f \<and> tf_due_date f \<noteq> [] \<and> fd_pending d = None \<and>
      todo_dialog_run 1 (Some 1) (\<lambda>_. Some ''2025-01-31T00:00:00.000Z'') None
        [Dlg_open True, Dlg_edit f, Dlg_submit 5, Dlg_settled] (d, init_storage) =
      (d\<lparr>fd_open := True, fd_values := f, fd_invalid := False\<rparr>, init_storage)"
  unfolding Let_def
proof (intro conjI)
  let ?f = "\<lparr>tf_title = ''Ship'', tf_description = [], tf_due_date = ''2025-01-31'', tf_priority = ''high'',
             tf_status = ''todo'', tf_assigned_to = None\<rparr>"
  let ?d = "init_dialog (todo_form_defaults (Some 1)) :: todo_form form_dialog"
  show h1: "todo_form_valid ?f" by (simp add: todo_form_valid_def)
  show h2: "tf_due_date ?f \<noteq> []" by simp
  show h3: "fd_pending ?d = None" by (simp add: init_dialog_def)
  show "todo_dialog_run 1 (Some 1) (\<lambda>_. Some ''2025-01-31T00:00:00.000Z'') None
        [Dlg_open True, Dlg_edit ?f, Dlg_submit 5, Dlg_settled] (?d, init_storage) =
      (?d\<lparr>fd_open := True, fd_values := ?f, fd_invalid := False\<rparr>, init_storage)"
    by (rule todo_dialog_due_date_stays_open [OF h1 h2 h3])
qed

lemma invites_ok_Nil: "invites_ok []"
  by (simp add: invites_ok_def)

lemma invite_step_ok:
  "invites_ok (iv_invites d) \<Longrightarrow> invite_step mems e (d, s) = (d', s') \<Longrightarrow> invites_ok (iv_invites d') \<and> s' = s"
  by (cases e) (auto simp: invites_ok_add_remove send_invites_def Let_def invites_ok_Nil split: if_splits)

text \<open>C9: along any sequence of invite-dialog events (typing, adding,
  removing, sending, settling, cancelling), the invite list never holds an
  email twice, and the server store is never changed: \<open>sendInvites\<close> makes no
  request, so no membership is ever created from an invite.\<close>

lemma invite_run_ok:
  "invites_ok (iv_invites d) \<Longrightarrow> invite_run mems evs (d, s) = (d', s') \<Longrightarrow> invites_ok (iv_invites d') \<and> s' = s"
proof (induction evs arbitrary: d s)
  case Nil then show ?case by (simp add: invite_run_def)
next
  case (Cons e evs)
  obtain d1 s1 where st: "invite_step mems e (d, s) = (d1, s1)" by fastforce
  with Cons.prems(1) have "invites_ok (iv_invites d1)" "s1 = s" using invite_step_ok by blast+
  with Cons.IH [of d1 s1] Cons.prems(2) st show ?case by (simp add: invite_run_def)
qed

text \<open>A witness for C9: the same email added twice, then the invites sent:
  one invite is listed and the store is the one the dialog started with.\<close>

theorem invite_run_ok_witness:
  "let r = invite_run [] [Inv_open True, Inv_email ''ann@example.com'', Inv_add True,
             Inv_email ''ann@example.com'', Inv_add True, Inv_send] (init_invite_dialog, init_storage)
   in invites_ok (iv_invites init_invite_dialog) \<and> invites_ok (iv_invites (fst r)) \<and>
      snd r = init_storage \<and> length (iv_invites (fst r)) = 1"
proof -
  let ?r = "invite_run [] [Inv_open True, Inv_email ''ann@example.com'', Inv_add True,
             Inv_email ''ann@example.com'', Inv_add True, Inv_send] (init_invite_dialog, init_storage)"
  have h: "invites_ok (iv_invites init_invite_dialog)" by (simp add: init_invite_dialog_def invites_ok_Nil)
  have "length (iv_invites (fst ?r)) = 1"
    by (simp add: invite_run_def add_invite_def init_invite_dialog_def send_invites_def Let_def)
  with h invite_run_ok [OF h surjective_pairing] show ?thesis by simp
qed

end
