(* ===== verification/TodoItem.thy ===== *)
theory TodoItem
  imports Client
begin

text \<open>
  The todo card \<open>TodoItem\<close> (\<open>src/unnamed/part_004\<close>): what it shows of a
  \<open>TodoWithAssignee\<close> and its one handler, the status toggle.  The card's
  \<open>todo\<close> is a prop, the entry of the board's todos query with the same key;
  it changes only when that query is refetched, which the mutation's
  \<open>onSuccess\<close> requests (\<open>invalidateQueries\<close>) without waiting for it.
  \<open>isUpdating\<close> disables the toggle from the click until the mutation
  settles.  \<open>date-fns\<close>' \<open>format\<close> is a parameter \<open>fmt\<close>; dates are
  milliseconds.
\<close>

subsection \<open>What the card shows\<close>

text \<open>\<open>getPriorityBadge\<close>: the label of a known priority, nothing otherwise.\<close>

definition priority_badge :: "string \<Rightarrow> string option" where
  "priority_badge p = (if p = ''low'' then Some ''Low'' else if p = ''medium'' then Some ''Medium''
     else if p = ''high'' then Some ''High'' else if p = ''critical'' then Some ''Critical'' else None)"

datatype status_icon = Hourglass | Loader_pinwheel | Check_circle

definition get_status_icon :: "string \<Rightarrow> status_icon" where
  "get_status_icon st = (if st = ''in-progress'' then Loader_pinwheel
     else if st = ''completed'' then Check_circle else Hourglass)"

definition format_due_date :: "(timestamp \<Rightarrow> string) \<Rightarrow> todo \<Rightarrow> string" where
  "format_due_date fmt t = (case todo_due_date t of None \<Rightarrow> ''No due date'' | Some d \<Rightarrow> fmt d)"

record todo_view =
  tv_completed :: bool
  tv_title :: string
  tv_badge :: "string option"
  tv_description :: string
  tv_due :: string
  tv_overdue :: bool
  tv_icon :: status_icon
  tv_status :: string
  tv_avatar :: "(string option \<times> string \<times> string) option"

text \<open>The card: the completed look, the texts, the \<open>" (Overdue)"\<close> mark and
  the assignee's avatar (image, alt text and initials).\<close>

definition todo_card :: "timestamp \<Rightarrow> (timestamp \<Rightarrow> string) \<Rightarrow> todo_with_assignee \<Rightarrow> todo_view" where
  "todo_card now fmt x = (let t = twa_todo x in
     \<lparr>tv_completed = (todo_status t = ''completed''), tv_title = todo_title t,
      tv_badge = priority_badge (todo_priority t),
      tv_description = js_or_str (todo_description t) ''No description'',
      tv_due = format_due_date fmt t @ (if is_overdue now t then '' (Overdue)'' else []),
      tv_overdue = is_overdue now t, tv_icon = get_status_icon (todo_status t),
      tv_status = status_text (todo_status t),
      tv_avatar = map_option (\<lambda>a. (js_or_null_str (photo_url a), js_or_str (display_name a) (username a),
                                    initials (js_or_str (display_name a) (username a)))) (assignee x)\<rparr>)"

subsection \<open>The toggle\<close>

record todo_item =
  it_todo :: todo_with_assignee
  it_updating :: bool

datatype item_event = Toggle_click timestamp | Update_settled | Todos_refetched

text \<open>\<open>toggleStatus\<close>: the PUT is served when it is sent; a click while
  updating hits a disabled button.  A body outside the typed model of the PUT
  handler leaves the store as it is.\<close>

definition toggle_click :: "string option \<Rightarrow> timestamp \<Rightarrow> todo_item \<times> mem_storage \<Rightarrow> todo_item \<times> mem_storage" where
  "toggle_click tok now ps = (let (it, s) = ps in
     if it_updating it then (it, s)
     else (let (p, b) = toggle_request tok (twa_todo (it_todo it))
           in (it\<lparr>it_updating := True\<rparr>, case put_todo_route p b now s of None \<Rightarrow> s | Some (_, s') \<Rightarrow> s')))"

text \<open>A refetch of \<open>/api/boards/${boardId}/todos\<close> gives the card the entry
  with its key.\<close>

definition refetch_item :: "ident \<Rightarrow> mem_storage \<Rightarrow> todo_item \<Rightarrow> todo_item" where
  "refetch_item bid s it =
     (case find (\<lambda>x. todo_id (twa_todo x) = todo_id (twa_todo (it_todo it))) (get_todos s bid) of
        None \<Rightarrow> it
      | Some x \<Rightarrow> it\<lparr>it_todo := x\<rparr>)"

fun item_step :: "string option \<Rightarrow> ident \<Rightarrow> item_event \<Rightarrow> todo_item \<times> mem_storage \<Rightarrow> todo_item \<times> mem_storage" where
  "item_step tok bid (Toggle_click now) ps = toggle_click tok now ps"
| "item_step tok bid Update_settled (it, s) = (it\<lparr>it_updating := False\<rparr>, s)"
| "item_step tok bid Todos_refetched (it, s) = (refetch_item bid s it, s)"

definition item_run ::
  "string option \<Rightarrow> ident \<Rightarrow> item_event list \<Rightarrow> todo_item \<times> mem_storage \<Rightarrow> todo_item \<times> mem_storage" where
  "item_run tok bid evs = fold (item_step tok bid) evs"

text \<open>A todo in progress, for the examples.\<close>

definition example_todo :: insert_todo where
  "example_todo = \<lparr>it_board_id = 1, it_title = ''Write spec'', it_description = None, it_due_date = None,
     it_priority = None, it_status = Some ''in-progress'', it_assigned_to = None, it_created_by = 1\<rparr>"

subsection \<open>Properties\<close>

lemma put_todo_status:
  "map_of (todos s) i = Some t0 \<Longrightarrow>
   put_todo_route (js_int_string i) (with_csrf tok ''PUT'' (JObj [(''status'', JStr x)])) now s =
   Some ((200, Body_todo (t0\<lparr>todo_status := x, todo_updated_at := now\<rparr>)),
         s\<lparr>todos := AList.update i (t0\<lparr>todo_status := x, todo_updated_at := now\<rparr>) (todos s)\<rparr>)"
  by (cases t0) (simp add: put_todo_route_def todo_updates_def with_csrf_def json_with_def update_todo_def
      apply_todo_patch_def spread_def Let_def split: option.splits)

lemma toggle_click_stored:
  assumes "\<not> it_updating it" "map_of (todos s) (todo_id (twa_todo (it_todo it))) = Some t0"
  shows "toggle_click tok now (it, s) =
           (it\<lparr>it_updating := True\<rparr>,
            s\<lparr>todos := AList.update (todo_id (twa_todo (it_todo it)))
               (t0\<lparr>todo_status := toggle_status (todo_status (twa_todo (it_todo it))), todo_updated_at := now\<rparr>)
               (todos s)\<rparr>)"
  using assms by (simp add: toggle_click_def toggle_request_def put_todo_status)

lemma toggle_twice_before_refetch:
  assumes "\<not> it_updating it" "map_of (todos s) (todo_id (twa_todo (it_todo it))) = Some t0"
  shows "map_option todo_status (get_todo (snd (item_run tok bid [Toggle_click n1, Update_settled, Toggle_click n2] (it, s)))
           (todo_id (twa_todo (it_todo it)))) = Some (toggle_status (todo_status (twa_todo (it_todo it))))"
  using assms by (simp add: item_run_def toggle_click_stored get_todo_def update_conv')

lemma find_keyed_absent:
  "keyed_by f m \<Longrightarrow> k \<notin> set (keys_of m) \<Longrightarrow> find (\<lambda>v. f v = k) (filter P (values_of m)) = None"
  by (induction m) (auto simp: keyed_by_def)

lemma find_keyed:
  "keyed_by f m \<Longrightarrow> distinct (keys_of m) \<Longrightarrow> map_of m k = Some v \<Longrightarrow>
   find (\<lambda>v'. f v' = k) (filter P (values_of m)) = (if P v then Some v else None)"
proof (induction m)
  case Nil then show ?case by simp
next
  case (Cons kv m)
  obtain k' v' where kv: "kv = (k', v')" by fastforce
  have fk: "f v' = k'" and km: "keyed_by f m" using Cons.prems(1) kv by (simp_all add: keyed_by_def)
  show ?case
  proof (cases "k' = k")
    case True
    then have "v = v'" "k \<notin> set (keys_of m)" using Cons.prems kv by auto
    then show ?thesis using True fk find_keyed_absent [OF km] kv by simp
  next
    case False
    then have "distinct (keys_of m)" "map_of m k = Some v" using Cons.prems kv by auto
    then have ih: "find (\<lambda>v'. f v' = k) (filter P (values_of m)) = (if P v then Some v else None)"
      using Cons.IH km by blast
    have "f v' \<noteq> k" using fk False by simp
    then show ?thesis unfolding kv using ih by (cases "P v'") simp_all
  qed
qed

lemma find_map_conv: "find P (map f xs) = map_option f (find (P \<circ> f) xs)"
  by (induction xs) simp_all

lemma find_get_todos:
  "keyed_by todo_id (todos s) \<Longrightarrow> distinct (keys_of (todos s)) \<Longrightarrow> map_of (todos s) i = Some t \<Longrightarrow>
   todo_board_id t = b \<Longrightarrow>
   find (\<lambda>x. todo_id (twa_todo x) = i) (get_todos s b) = Some \<lparr>twa_todo = t, assignee = todo_assignee s t\<rparr>"
  using find_keyed [of todo_id "todos s" i t "\<lambda>t. todo_board_id t = b"]
  by (simp add: get_todos_def find_map_conv comp_def)

lemma toggle_after_refetch:
  assumes "\<not> it_updating it" "keyed_by todo_id (todos s)" "distinct (keys_of (todos s))"
    "map_of (todos s) (todo_id (twa_todo (it_todo it))) = Some t0" "todo_board_id t0 = bid"
  shows "map_option todo_status (get_todo (snd (item_run tok bid [Toggle_click n1, Update_settled, Todos_refetched,
           Toggle_click n2] (it, s))) (todo_id (twa_todo (it_todo it)))) =
         Some (toggle_status (toggle_status (todo_status (twa_todo (it_todo it)))))"
proof -
  let ?i = "todo_id (twa_todo (it_todo it))"
  let ?t1 = "t0\<lparr>todo_status := toggle_status (todo_status (twa_todo (it_todo it))), todo_updated_at := n1\<rparr>"
  let ?s1 = "s\<lparr>todos := AList.update ?i ?t1 (todos s)\<rparr>"
  have id0: "todo_id t0 = ?i" using keyed_by_in [OF assms(2) map_of_SomeD [OF assms(4)]] .
  have k1: "keyed_by todo_id (todos ?s1)" using assms(2) id0 by (simp add: keyed_by_update)
  have d1: "distinct (keys_of (todos ?s1))" using assms(3) by (simp add: distinct_update)
  have m1: "map_of (todos ?s1) ?i = Some ?t1" by (simp add: update_conv')
  have f1: "find (\<lambda>x. todo_id (twa_todo x) = ?i) (get_todos ?s1 bid) = Some \<lparr>twa_todo = ?t1, assignee = todo_assignee ?s1 ?t1\<rparr>"
    using find_get_todos [OF k1 d1 m1] assms(5) by simp
  let ?it2 = "it\<lparr>it_updating := False, it_todo := \<lparr>twa_todo = ?t1, assignee = todo_assignee ?s1 ?t1\<rparr>\<rparr>"
  have st1: "toggle_click tok n1 (it, s) = (it\<lparr>it_updating := True\<rparr>, ?s1)"
    by (rule toggle_click_stored [OF assms(1,4)])
  have rf: "refetch_item bid ?s1 (it\<lparr>it_updating := True, it_updating := False\<rparr>) = ?it2"
    using f1 by (simp add: refetch_item_def)
  have run: "item_run tok bid [Toggle_click n1, Update_settled, Todos_refetched, Toggle_click n2] (it, s) =
             toggle_click tok n2 (?it2, ?s1)"
    using rf by (simp add: item_run_def st1)
  have m2: "map_of (todos ?s1) (todo_id (twa_todo (it_todo ?it2))) = Some ?t1"
    using m1 id0 by simp
  have "toggle_click tok n2 (?it2, ?s1) =
          (?it2\<lparr>it_updating := True\<rparr>, ?s1\<lparr>todos := AList.update ?i
             (?t1\<lparr>todo_status := toggle_status (todo_status ?t1), todo_updated_at := n2\<rparr>) (todos ?s1)\<rparr>)"
    using toggle_click_stored [of ?it2 ?s1 ?t1 tok n2] m2 id0 by simp
  then show ?thesis using run by (simp add: get_todo_def update_conv')
qed


text \<open>C25: the order of the events decides what a second click on a todo's
  toggle does.  After the first update has settled but before the board's todos
  are refetched, the card still shows the old status and the second click sends
  the same status again, so the todo stays toggled; once the refetch has
  arrived, the second click toggles again, and a todo that was in progress ends
  as \<open>todo\<close>, not back in progress.\<close>

theorem toggle_order:
  assumes "\<not> it_updating it" "keyed_by todo_id (todos s)" "distinct (keys_of (todos s))"
    "map_of (todos s) (todo_id (twa_todo (it_todo it))) = Some t0" "todo_board_id t0 = bid"
  shows "map_option todo_status (get_todo (snd (item_run tok bid [Toggle_click n1, Update_settled, Toggle_click n2]
           (it, s))) (todo_id (twa_todo (it_todo it)))) = Some (toggle_status (todo_status (twa_todo (it_todo it)))) \<and>
         map_option todo_status (get_todo (snd (item_run tok bid [Toggle_click n1, Update_settled, Todos_refetched,
           Toggle_click n2] (it, s))) (todo_id (twa_todo (it_todo it)))) =
         Some (toggle_status (toggle_status (todo_status (twa_todo (it_todo it)))))"
  using toggle_twice_before_refetch [OF assms(1,4)] toggle_after_refetch [OF assms] by (intro conjI)

theorem toggle_order_witness:
  "let s = snd (create_todo example_todo 1000 init_storage);
       it = \<lparr>it_todo = \<lparr>twa_todo = fst (create_todo example_todo 1000 init_storage), assignee = None\<rparr>,
             it_updating = False\<rparr>
   in \<not> it_updating it \<and> keyed_by todo_id (todos s) \<and> distinct (keys_of (todos s)) \<and>
      map_of (todos s) (todo_id (twa_todo (it_todo it))) = Some (fst (create_todo example_todo 1000 init_storage)) \<and>
      todo_board_id (fst (create_todo example_todo 1000 init_storage)) = 1 \<and>
      map_option todo_status (get_todo (snd (item_run None 1 [Toggle_click 2000, Update_settled, Todos_refetched,
           Toggle_click 3000] (it, s))) (todo_id (twa_todo (it_todo it)))) = Some ''todo''"
  unfolding Let_def
proof (intro conjI)
  let ?t = "fst (create_todo example_todo 1000 init_storage)"
  let ?s = "snd (create_todo example_todo 1000 init_storage)"
  let ?it = "\<lparr>it_todo = \<lparr>twa_todo = ?t, assignee = None\<rparr>, it_updating = False\<rparr>"
  show h1: "\<not> it_updating ?it" by simp
  show h2: "keyed_by todo_id (todos ?s)"
    by (simp add: create_todo_def new_todo_def init_storage_def keyed_by_def Let_def)
  show h3: "distinct (keys_of (todos ?s))" by (simp add: create_todo_def init_storage_def Let_def)
  show h4: "map_of (todos ?s) (todo_id (twa_todo (it_todo ?it))) = Some ?t"
    by (simp add: create_todo_def new_todo_def init_storage_def Let_def)
  show h5: "todo_board_id ?t = 1" by (simp add: create_todo_def new_todo_def example_todo_def Let_def)
  have "todo_status ?t = ''in-progress''"
    by (simp add: create_todo_def new_todo_def example_todo_def Let_def)
  then show "map_option todo_status (get_todo (snd (item_run None 1 [Toggle_click 2000, Update_settled, Todos_refetched,
           Toggle_click 3000] (?it, ?s))) (todo_id (twa_todo (it_todo ?it)))) = Some ''todo''"
    using conjunct2 [OF toggle_order [OF h1 h2 h3 h4 h5, of None 2000 3000]] by (simp add: toggle_status_def)
qed

end
