(* ===== verification/Query.thy ===== *)
theory Query
  imports Middleware Forms Layout
begin

text \<open>
  The query layer of the client (\<open>src/client/src/lib/queryClient.ts\<close>): the
  default query function \<open>getQueryFn\<close>, the options of \<open>queryClient\<close>, and
  the TanStack query cache those options configure, with the query functions
  the pages install and the \<open>invalidateQueries\<close> calls of every mutation's
  \<open>onSuccess\<close>.  A query key is the array of its parts, compared part by
  part; \<open>invalidateQueries\<close> marks every query whose key starts with the given
  key.  With \<open>staleTime: Infinity\<close> data never ages, so a cached query is
  fetched again only once invalidated; with \<open>retry: false\<close> a query function
  is called once per fetch, and a failed fetch keeps the cached entry.
  Active queries refetch right after an invalidation; the model fetches at the
  next read of the key, which is the same as long as the store does not change
  in between.
\<close>

subsection \<open>\<open>getQueryFn\<close>\<close>

datatype unauthorized_behavior = Return_null | Throw

text \<open>A response as \<open>fetch\<close> gives it: status, status text, the body as text
  and as parsed JSON.\<close>

record 'b fetch_response =
  fr_status :: nat
  fr_status_text :: string
  fr_text :: string
  fr_json :: 'b

text \<open>\<open>throwIfResNotOk\<close>: \<open>None\<close> when \<open>res.ok\<close>, otherwise the message of the
  \<open>Error\<close> it throws, \<open>`${res.status}: ${text}`\<close> with
  \<open>text = (await res.text()) || res.statusText\<close>.\<close>

definition throw_if_res_not_ok :: "'b fetch_response \<Rightarrow> string option" where
  "throw_if_res_not_ok res =
     (if res_ok (fr_status res) then None
      else Some (js_int_string (int (fr_status res)) @ '': '' @
                 (if fr_text res = [] then fr_status_text res else fr_text res)))"

text \<open>The headers of the query's \<open>fetch\<close>: the CSRF token on every request,
  \<open>GET\<close> included, when it is non-empty.\<close>

definition query_headers :: "string option \<Rightarrow> (string \<times> string) list" where
  "query_headers tok = (case tok of Some t \<Rightarrow> if t \<noteq> [] then [(''X-CSRF-Token'', t)] else [] | None \<Rightarrow> [])"

text \<open>The request as the server receives it from a browser with the given
  cookies, user agent and address: a \<open>GET\<close> with no body.\<close>

definition query_request :: "(string \<Rightarrow> string) \<Rightarrow> string \<Rightarrow> string \<Rightarrow> string option \<Rightarrow> http_req" where
  "query_request dec doc_cookie ua ip =
     \<lparr>hr_method = ''GET'', hr_ip = ip, hr_remote = None,
      hr_headers = (''User-Agent'', ua) # query_headers (get_csrf_token dec doc_cookie), hr_body = JObj []\<rparr>"

text \<open>\<open>getQueryFn({ on401 })\<close> applied to \<open>queryKey[0]\<close>: \<open>Inl\<close> is the
  message of the error it throws, \<open>Inr None\<close> is \<open>null\<close>.\<close>

definition get_query_fn ::
  "unauthorized_behavior \<Rightarrow> (string \<Rightarrow> http_req \<Rightarrow> 'b fetch_response) \<Rightarrow> (string \<Rightarrow> string) \<Rightarrow> string \<Rightarrow>
   string \<Rightarrow> string option \<Rightarrow> string \<Rightarrow> string + 'b option" where
  "get_query_fn beh fetch dec doc_cookie ua ip key =
     (let res = fetch key (query_request dec doc_cookie ua ip)
      in if beh = Return_null \<and> fr_status res = 401 then Inr None
         else case throw_if_res_not_ok res of Some e \<Rightarrow> Inl e | None \<Rightarrow> Inr (Some (fr_json res)))"

subsection \<open>The query client and its cache\<close>

text \<open>The default options of \<open>queryClient\<close>; a stale time of \<open>None\<close> is
  \<open>Infinity\<close>, a retry count of \<open>0\<close> is \<open>retry: false\<close>.\<close>

record query_options =
  qo_query_fn :: unauthorized_behavior
  qo_refetch_interval :: "nat option"
  qo_refetch_on_window_focus :: bool
  qo_stale_time :: "nat option"
  qo_retry :: nat
  qo_mutation_retry :: nat

definition query_client :: query_options where
  "query_client = \<lparr>qo_query_fn = Throw, qo_refetch_interval = None, qo_refetch_on_window_focus = False,
     qo_stale_time = None, qo_retry = 0, qo_mutation_retry = 0\<rparr>"

datatype key_part = K_str string | K_num int | K_undefined

type_synonym query_key = "key_part list"

text \<open>\<open>user?.id\<close> as a key part.\<close>

definition key_of_id :: "ident option \<Rightarrow> key_part" where
  "key_of_id u = (case u of None \<Rightarrow> K_undefined | Some i \<Rightarrow> K_num i)"

text \<open>The data of a query of the pages: a response body, or \<open>None\<close> for the
  \<open>null\<close> a query function returns.\<close>

type_synonym query_data = "resp_body option"

record query_entry =
  qe_data :: query_data
  qe_updated :: nat
  qe_invalidated :: bool

type_synonym query_cache = "(query_key \<times> query_entry) list"

definition is_stale :: "query_options \<Rightarrow> nat \<Rightarrow> query_entry \<Rightarrow> bool" where
  "is_stale opts now e \<longleftrightarrow>
     qe_invalidated e \<or> (case qo_stale_time opts of None \<Rightarrow> False | Some t \<Rightarrow> qe_updated e + t \<le> now)"

text \<open>A component reading the query \<open>key\<close> at time \<open>now\<close> (\<open>useQuery\<close>, with
  \<open>enabled\<close>): cached data that is not stale is used as it is; otherwise the
  query function runs once (its result \<open>r\<close>) and a success is cached.  The
  observed result is \<open>None\<close> while there is no data, \<open>Inl\<close> an error.\<close>

definition read_query ::
  "query_options \<Rightarrow> nat \<Rightarrow> bool \<Rightarrow> query_key \<Rightarrow> string + query_data \<Rightarrow> query_cache \<Rightarrow>
   (string + query_data) option \<times> query_cache" where
  "read_query opts now en key r qc =
     (let cached = map_option (Inr \<circ> qe_data) (map_of qc key)
      in if \<not> en then (cached, qc)
      else if (case map_of qc key of None \<Rightarrow> False | Some e \<Rightarrow> \<not> is_stale opts now e) then (cached, qc)
      else case r of
             Inl e \<Rightarrow> (Some (Inl e), qc)
           | Inr d \<Rightarrow> (Some (Inr d), AList.update key \<lparr>qe_data = d, qe_updated = now, qe_invalidated = False\<rparr> qc))"

text \<open>\<open>queryClient.invalidateQueries({ queryKey: p })\<close>, and the invalidations
  of a mutation's \<open>onSuccess\<close> in order.\<close>

definition invalidate_queries :: "query_key \<Rightarrow> query_cache \<Rightarrow> query_cache" where
  "invalidate_queries p qc = map (\<lambda>(k, e). (k, if prefix p k then e\<lparr>qe_invalidated := True\<rparr> else e)) qc"

definition mutation_settled :: "query_key list \<Rightarrow> query_cache \<Rightarrow> query_cache" where
  "mutation_settled ps qc = fold invalidate_queries ps qc"

subsection \<open>The queries of the pages\<close>

text \<open>The boards query of the sidebar (\<open>header.tsx\<close>); the dashboard's is the
  same code.\<close>

definition boards_key :: "ident option \<Rightarrow> query_key" where
  "boards_key uid = [K_str ''/api/boards'', key_of_id uid]"

definition boards_query_fn :: "ident option \<Rightarrow> mem_storage \<Rightarrow> string + query_data" where
  "boards_query_fn uid s = (case uid of
       None \<Rightarrow> Inr (Some (Body_boards []))
     | Some u \<Rightarrow> (case get_boards_route (Some (js_int_string u)) s of
                   (st, b) \<Rightarrow> if res_ok st then Inr (Some b) else Inl ''Failed to fetch boards''))"

text \<open>The two queries of the board page (\<open>part_006\<close>); \<open>!boardId\<close> holds
  for \<open>NaN\<close> and \<open>0\<close>.\<close>

definition board_key :: "int option \<Rightarrow> query_key" where
  "board_key bid = [K_str (''/api/boards/'' @ id_url bid)]"

definition board_query_fn :: "int option \<Rightarrow> mem_storage \<Rightarrow> string + query_data" where
  "board_query_fn bid s =
     (if bid = None \<or> bid = Some 0 then Inr None
      else case get_board_route (id_url bid) s of
             (st, b) \<Rightarrow> if res_ok st then Inr (Some b) else Inl ''Failed to fetch board details'')"

definition todos_key :: "int option \<Rightarrow> query_key" where
  "todos_key bid = [K_str (''/api/boards/'' @ id_url bid @ ''/todos'')]"

definition todos_query_fn :: "int option \<Rightarrow> mem_storage \<Rightarrow> string + query_data" where
  "todos_query_fn bid s =
     (if bid = None \<or> bid = Some 0 then Inr (Some (Body_todos []))
      else case get_todos_route (id_url bid) s of
             (st, b) \<Rightarrow> if res_ok st then Inr (Some b) else Inl ''Failed to fetch todos'')"

subsection \<open>The invalidations of the mutations\<close>

text \<open>\<open>CreateTodoDialog\<close> and \<open>TodoItem\<close>: the board's todos.\<close>

definition create_todo_invalidates :: "ident \<Rightarrow> query_key list" where
  "create_todo_invalidates bid = [[K_str (''/api/boards/'' @ js_int_string bid @ ''/todos'')]]"

definition todo_item_invalidates :: "ident \<Rightarrow> query_key list" where
  "todo_item_invalidates bid = [[K_str (''/api/boards/'' @ js_int_string bid @ ''/todos'')]]"

text \<open>The board page's update and delete mutations.\<close>

definition board_update_invalidates :: "int option \<Rightarrow> ident option \<Rightarrow> query_key list" where
  "board_update_invalidates bid uid = [[K_str (''/api/boards/'' @ id_url bid)], [K_str ''/api/boards'', key_of_id uid]]"

definition board_delete_invalidates :: "ident option \<Rightarrow> query_key list" where
  "board_delete_invalidates uid = [[K_str ''/api/boards'', key_of_id uid]]"

text \<open>\<open>CreateBoardDialog\<close> and \<open>InviteDialog\<close>.\<close>

definition board_create_invalidates :: "ident option \<Rightarrow> query_key list" where
  "board_create_invalidates uid = [[K_str ''/api/boards'', key_of_id uid]]"

definition invite_invalidates :: "ident \<Rightarrow> query_key list" where
  "invite_invalidates bid = [[K_str (''/api/boards/'' @ js_int_string bid @ ''/members'')]]"

subsection \<open>The cache\<close>

text \<open>The entry of a key after a mutation's invalidations: marked when one of
  the invalidated keys is a prefix of it, untouched otherwise.\<close>

lemma map_of_invalidate:
  "map_of (invalidate_queries p qc) k = map_option (\<lambda>e. if prefix p k then e\<lparr>qe_invalidated := True\<rparr> else e) (map_of qc k)"
  by (induction qc) (auto simp: invalidate_queries_def)

lemma map_of_settled:
  "map_of (mutation_settled ps qc) k =
     map_option (\<lambda>e. if \<exists>p \<in> set ps. prefix p k then e\<lparr>qe_invalidated := True\<rparr> else e) (map_of qc k)"
proof (induction ps arbitrary: qc)
  case Nil
  then show ?case by (simp add: mutation_settled_def option.map_ident)
next
  case (Cons p ps)
  then show ?case by (auto simp: mutation_settled_def map_of_invalidate option.map_comp intro!: option.map_cong)
qed

lemma settled_untouched:
  "\<forall>p \<in> set ps. \<not> prefix p k \<Longrightarrow> map_of (mutation_settled ps qc) k = map_of qc k"
  by (simp add: map_of_settled option.map_ident)

lemma read_query_cached:
  "en \<Longrightarrow> map_of qc k = Some e \<Longrightarrow> \<not> is_stale opts now e \<Longrightarrow> read_query opts now en k r qc = (Some (Inr (qe_data e)), qc)"
  by (simp add: read_query_def)

lemma read_query_fetch:
  "en \<Longrightarrow> (case map_of qc k of None \<Rightarrow> True | Some e \<Rightarrow> is_stale opts now e) \<Longrightarrow>
   read_query opts now en k r qc =
     (case r of Inl e \<Rightarrow> (Some (Inl e), qc)
      | Inr d \<Rightarrow> (Some (Inr d), AList.update k \<lparr>qe_data = d, qe_updated = now, qe_invalidated = False\<rparr> qc))"
  by (simp add: read_query_def split: option.splits)

lemma boards_query_fn_user:
  "boards_query_fn (Some u) s = Inr (Some (Body_boards (get_boards_by_user s u)))"
  by (simp add: boards_query_fn_def get_boards_route_def res_ok_def)

lemma read_query_success_inf:
  assumes "qo_stale_time opts = None" "en" "r = Inr d" "read_query opts now en k r qc = (v, qc')"
  shows "\<exists>e. map_of qc' k = Some e \<and> \<not> qe_invalidated e \<and> v = Some (Inr (qe_data e))"
proof (cases "map_of qc k")
  case None
  with assms show ?thesis by (auto simp: read_query_def update_conv')
next
  case (Some e)
  with assms show ?thesis by (cases "qe_invalidated e") (auto simp: read_query_def is_stale_def update_conv')
qed

lemma settled_keeps_cached:
  assumes "qo_stale_time opts = None" "map_of qc k = Some e" "\<not> qe_invalidated e" "\<forall>p \<in> set ps. \<not> prefix p k"
  shows "read_query opts now True k r (mutation_settled ps qc) = (Some (Inr (qe_data e)), mutation_settled ps qc)"
  using assms by (simp add: settled_untouched read_query_cached is_stale_def)

subsection \<open>The sidebar after a todo is created\<close>

text \<open>C39: the sidebar's board list, with each board's \<open>todoCount\<close>, is not
  refreshed when a todo is created: once the boards query of the signed-in
  user has been read, its result after the create-todo dialog's \<open>onSuccess\<close>
  invalidation is the same, whatever the store now holds, because that
  invalidation names only the board's todo list and the stale time is
  \<open>Infinity\<close>.\<close>

theorem todo_created_sidebar_stale:
  assumes "read_query query_client t0 True (boards_key (Some u)) (boards_query_fn (Some u) s) qc = (v, qc1)"
  shows "fst (read_query query_client t1 True (boards_key (Some u)) (boards_query_fn (Some u) s')
               (mutation_settled (create_todo_invalidates bid) qc1)) = v"
proof -
  obtain e where e: "map_of qc1 (boards_key (Some u)) = Some e" "\<not> qe_invalidated e" "v = Some (Inr (qe_data e))"
    using read_query_success_inf [OF _ _ boards_query_fn_user assms] by (auto simp: query_client_def)
  have "\<forall>p \<in> set (create_todo_invalidates bid). \<not> prefix p (boards_key (Some u))"
    by (simp add: create_todo_invalidates_def boards_key_def)
  with e show ?thesis by (simp add: settled_keeps_cached query_client_def)
qed

lemma get_boards_init: "get_boards_by_user init_storage 1 = []"
  by code_simp

text \<open>A witness for C39: the sidebar reads an empty list, a board is then
  created, and after the todo invalidation the sidebar still shows the empty
  list although the query function would now answer otherwise.\<close>

theorem todo_created_sidebar_stale_witness:
  "let qc1 = [(boards_key (Some 1), \<lparr>qe_data = Some (Body_boards []), qe_updated = 0, qe_invalidated = False\<rparr>)];
       s' = snd (create_board \<lparr>ib_title = ''Launch'', ib_description = None, ib_color = None, ib_created_by = 1\<rparr> 3 init_storage)
   in read_query query_client 0 True (boards_key (Some 1)) (boards_query_fn (Some 1) init_storage) [] =
        (Some (Inr (Some (Body_boards []))), qc1) \<and>
      boards_query_fn (Some 1) s' \<noteq> Inr (Some (Body_boards [])) \<and>
      fst (read_query query_client 5 True (boards_key (Some 1)) (boards_query_fn (Some 1) s')
             (mutation_settled (create_todo_invalidates 1) qc1)) = Some (Inr (Some (Body_boards [])))"
  unfolding Let_def
proof (intro conjI)
  let ?qc1 = "[(boards_key (Some 1), \<lparr>qe_data = Some (Body_boards []), qe_updated = 0, qe_invalidated = False\<rparr>)]"
  let ?s' = "snd (create_board \<lparr>ib_title = ''Launch'', ib_description = None, ib_color = None, ib_created_by = 1\<rparr> 3 init_storage)"
  show h: "read_query query_client 0 True (boards_key (Some 1)) (boards_query_fn (Some 1) init_storage) [] =
        (Some (Inr (Some (Body_boards []))), ?qc1)"
    by (simp add: read_query_def boards_query_fn_user get_boards_init)
  show "boards_query_fn (Some 1) ?s' \<noteq> Inr (Some (Body_boards []))"
    by (simp add: boards_query_fn_user) code_simp
  show "fst (read_query query_client 5 True (boards_key (Some 1)) (boards_query_fn (Some 1) ?s')
             (mutation_settled (create_todo_invalidates 1) ?qc1)) = Some (Inr (Some (Body_boards [])))"
    using todo_created_sidebar_stale [OF h] by simp
qed

subsection \<open>The board page's queries\<close>

lemma board_query_fn_enabled:
  "query_enabled uid pg \<Longrightarrow> board_query_fn (pg_board_id pg) s =
     (case get_board_route (id_url (pg_board_id pg)) s of (st, b) \<Rightarrow> if res_ok st then Inr (Some b) else Inl ''Failed to fetch board details'')"
  by (auto simp: board_query_fn_def query_enabled_def split: option.splits)

lemma todos_query_fn_enabled:
  "query_enabled uid pg \<Longrightarrow> todos_query_fn (pg_board_id pg) s =
     (case get_todos_route (id_url (pg_board_id pg)) s of (st, b) \<Rightarrow> if res_ok st then Inr (Some b) else Inl ''Failed to fetch todos'')"
  by (auto simp: todos_query_fn_def query_enabled_def split: option.splits)

text \<open>The board page's reading of the store (\<open>page_board\<close>,
  \<open>page_todos\<close> of \<open>BoardPage\<close>) is what the two queries show when
  they are enabled and the cache holds nothing fresh for their keys (the first
  mount, or after an invalidation): the query functions' fetch of the routes,
  through the cache, gives the same board and the same todo list.\<close>

theorem board_page_queries_refine:
  assumes "query_enabled uid pg"
    and "case map_of qc (board_key (pg_board_id pg)) of None \<Rightarrow> True | Some e \<Rightarrow> is_stale query_client now e"
    and "case map_of qc (todos_key (pg_board_id pg)) of None \<Rightarrow> True | Some e \<Rightarrow> is_stale query_client now e"
  shows "(case fst (read_query query_client now True (board_key (pg_board_id pg)) (board_query_fn (pg_board_id pg) s) qc) of
            Some (Inr (Some (Body_board_with_members b))) \<Rightarrow> Some b | _ \<Rightarrow> None) = BoardPage.page_board uid pg s \<and>
          (case fst (read_query query_client now True (todos_key (pg_board_id pg)) (todos_query_fn (pg_board_id pg) s) qc) of
            Some (Inr (Some (Body_todos ts))) \<Rightarrow> ts | _ \<Rightarrow> []) = BoardPage.page_todos uid pg s"
  using assms
  by (simp add: read_query_fetch board_query_fn_enabled todos_query_fn_enabled page_board_def page_todos_def
      split: prod.split sum.split resp_body.split)

text \<open>An instance on the page of board 1 in the empty store.\<close>

theorem board_page_queries_refine_witness:
  "BoardPage.page_board (Some 1) (init_board_page (Some ''1'')) init_storage = None \<and>
   BoardPage.page_todos (Some 1) (init_board_page (Some ''1'')) init_storage = []"
proof -
  have pi: "parse_int ''1'' = Some 1" by code_simp
  have en: "query_enabled (Some 1) (init_board_page (Some ''1''))"
    by (simp add: query_enabled_def init_board_page_def pi)
  have "read_query query_client 0 True (board_key (Some 1)) (board_query_fn (Some 1) init_storage) [] =
          (Some (Inl ''Failed to fetch board details''), [])"
    by code_simp
  moreover have "read_query query_client 0 True (todos_key (Some 1)) (todos_query_fn (Some 1) init_storage) [] =
          (Some (Inr (Some (Body_todos []))), [(todos_key (Some 1), \<lparr>qe_data = Some (Body_todos []), qe_updated = 0, qe_invalidated = False\<rparr>)])"
    by code_simp
  ultimately show ?thesis
    using board_page_queries_refine [OF en, where qc = "[]" and now = 0 and s = init_storage]
    by (simp add: init_board_page_def pi)
qed

subsection \<open>Invalidations that miss\<close>

text \<open>Deleting a board invalidates only the boards list: the board's own
  query keeps its data, so the board page of a deleted board mounted again
  shows it from the cache.\<close>

lemma board_delete_keeps_page_cached:
  "map_of qc (board_key bid) = Some e \<Longrightarrow> \<not> qe_invalidated e \<Longrightarrow>
   fst (read_query query_client now True (board_key bid) r (mutation_settled (board_delete_invalidates uid) qc)) =
     Some (Inr (qe_data e))"
  by (simp add: settled_keeps_cached query_client_def board_delete_invalidates_def board_key_def)

lemma delete_board_route_204:
  "delete_board_route (js_int_string i) s = (r, s') \<Longrightarrow> fst r = 204 \<Longrightarrow> map_of (boards s') i = None"
  by (cases "map_of (boards s) i")
     (auto simp: delete_board_route_def delete_board_absent delete_board_present board_not_found_def delete_conv')

lemma board_query_fn_gone:
  "i \<noteq> 0 \<Longrightarrow> map_of (boards s) i = None \<Longrightarrow> board_query_fn (Some i) s = Inl ''Failed to fetch board details''"
  by (simp add: board_query_fn_def id_url_def get_board_route_def get_board_with_members_def
      board_not_found_def res_ok_def)

text \<open>C18: after a board is deleted (the \<open>DELETE\<close> answered 204), the server
  no longer has it and the board query's function would now fail, yet the
  page of that board, mounted again, shows the board from the cache: the
  delete mutation invalidates only the boards list, and the stale time is
  \<open>Infinity\<close>.\<close>

theorem deleted_board_page_stays_cached:
  assumes "map_of qc (board_key (Some i)) = Some e" "\<not> qe_invalidated e" "i \<noteq> 0"
    and "delete_board_route (js_int_string i) s = (r, s')" "fst r = 204"
  shows "board_query_fn (Some i) s' = Inl ''Failed to fetch board details'' \<and>
         fst (read_query query_client now True (board_key (Some i)) (board_query_fn (Some i) s')
                (mutation_settled (board_delete_invalidates uid) qc)) = Some (Inr (qe_data e))"
  using board_query_fn_gone [OF assms(3) delete_board_route_204 [OF assms(4,5)]]
    board_delete_keeps_page_cached [OF assms(1,2)] by simp

text \<open>A witness for C18: alice's board 1 is read into the cache, then deleted.\<close>

theorem deleted_board_page_stays_cached_witness:
  "let qc = snd (read_query query_client 0 True (board_key (Some 1)) (board_query_fn (Some 1) example_board_store) []);
       e = the (map_of qc (board_key (Some 1)))
   in map_of qc (board_key (Some 1)) = Some e \<and> \<not> qe_invalidated e \<and>
      fst (fst (delete_board_route (js_int_string 1) example_board_store)) = 204 \<and>
      board_query_fn (Some 1) (snd (delete_board_route (js_int_string 1) example_board_store)) =
        Inl ''Failed to fetch board details'' \<and>
      fst (read_query query_client 5 True (board_key (Some 1))
             (board_query_fn (Some 1) (snd (delete_board_route (js_int_string 1) example_board_store)))
             (mutation_settled (board_delete_invalidates (Some 1)) qc)) = Some (Inr (qe_data e))"
proof -
  let ?qc = "snd (read_query query_client 0 True (board_key (Some 1)) (board_query_fn (Some 1) example_board_store) [])"
  let ?e = "the (map_of ?qc (board_key (Some 1)))"
  have h0: "map_of ?qc (board_key (Some 1)) \<noteq> None" by code_simp
  then have h1: "map_of ?qc (board_key (Some 1)) = Some ?e" by auto
  have h2: "\<not> qe_invalidated ?e" by code_simp
  have h4: "fst (fst (delete_board_route (js_int_string 1) example_board_store)) = 204" by code_simp
  have h3: "(1::int) \<noteq> 0" by simp
  have c: "board_query_fn (Some 1) (snd (delete_board_route (js_int_string 1) example_board_store)) =
        Inl ''Failed to fetch board details'' \<and>
      fst (read_query query_client 5 True (board_key (Some 1))
             (board_query_fn (Some 1) (snd (delete_board_route (js_int_string 1) example_board_store)))
             (mutation_settled (board_delete_invalidates (Some 1)) ?qc)) = Some (Inr (qe_data ?e))"
    by (rule deleted_board_page_stays_cached [OF h1 h2 h3 surjective_pairing h4])
  show ?thesis unfolding Let_def using h1 h2 h4 c by blast
qed

text \<open>The invite dialog invalidates \<open>/api/boards/:id/members\<close>, a key no
  query of the application has.\<close>

lemma append_slash_cancel:
  "CHR ''/'' \<notin> set a \<Longrightarrow> CHR ''/'' \<notin> set b \<Longrightarrow> a @ CHR ''/'' # x = b @ CHR ''/'' # y \<longleftrightarrow> a = b \<and> x = y"
proof (induction a arbitrary: b)
  case Nil
  then show ?case by (cases b) auto
next
  case (Cons c a)
  then show ?case by (cases b) auto
qed

lemma id_url_no_slash: "CHR ''/'' \<notin> set (id_url bid)"
  by (simp add: id_url_def js_int_string_no_slash split: option.split)

lemma invite_invalidates_no_query:
  "\<forall>p \<in> set (invite_invalidates bid). \<not> prefix p (board_key b) \<and> \<not> prefix p (todos_key b) \<and> \<not> prefix p (boards_key u)"
proof -
  have "CHR ''/'' \<in> set (js_int_string bid @ ''/members'')" by simp
  then have "js_int_string bid @ ''/members'' \<noteq> id_url b"
    using id_url_no_slash [of b] by metis
  moreover have "js_int_string bid @ ''/members'' \<noteq> id_url b @ ''/todos''"
    using append_slash_cancel [OF js_int_string_no_slash id_url_no_slash] by simp
  ultimately show ?thesis by (simp add: invite_invalidates_def board_key_def todos_key_def boards_key_def)
qed

subsection \<open>\<open>getQueryFn\<close>\<close>

text \<open>On a 401, \<open>on401: "returnNull"\<close> gives \<open>null\<close> and \<open>"throw"\<close>
  (the default of \<open>queryClient\<close>) throws \<open>"401: "\<close> and the body text.\<close>

lemma js_int_string_401: "js_int_string 401 = ''401''"
  by code_simp

lemma get_query_fn_unauthorized:
  assumes "fetch key (query_request dec c ua ip) = res" "fr_status res = 401"
  shows "get_query_fn Return_null fetch dec c ua ip key = Inr None \<and>
         get_query_fn Throw fetch dec c ua ip key =
           Inl (''401: '' @ (if fr_text res = [] then fr_status_text res else fr_text res))"
  using assms by (simp add: get_query_fn_def throw_if_res_not_ok_def res_ok_def js_int_string_401)

text \<open>A query's request passes \<open>csrfProtection\<close> (it is a \<open>GET\<close>) and
  carries the token of the browser's \<open>XSRF-TOKEN\<close> cookie.\<close>

lemma query_request_passes_csrf: "csrf_protection hmac rnd (query_request dec c ua ip) = None"
  by (simp add: csrf_protection_def query_request_def)

lemma query_request_token:
  assumes "list_all (\<lambda>(n, v). cookie_chars n \<and> cookie_chars v) jar"
  shows "req_header (query_request dec (document_cookie jar) ua ip) ''x-csrf-token'' =
           (case map_of jar ''XSRF-TOKEN'' of None \<Rightarrow> None | Some v \<Rightarrow> if dec v = [] then None else Some (dec v))"
  by (simp add: req_header_def query_request_def query_headers_def lower_headers get_csrf_token_document_cookie [OF assms]
      split: option.split)

end
