(* ===== verification/Cards.thy ===== *)
theory Cards
  imports Layout Dialogs
begin

text \<open>
  The dashboard's board cards: \<open>BoardCard\<close>
  (\<open>src/client/src/components/boards/board-card.tsx\<close>) and the
  \<open>AvatarGroup\<close> it renders (\<open>src/client/src/components/ui/avatar-group.tsx\<close>),
  fed by the dashboard with the mock member names of \<open>getMembersForBoard\<close>
  (\<open>members_for_board\<close> of \<open>Layout\<close>).  A card is the record of what it
  shows: link, colour class, title, description, todo count, the avatars with
  their fallback initials, and the \<open>+n\<close> overflow badge.  The card of a board
  the store does not hold (\<open>{...undefined, todoCount, memberCount}\<close>) has no
  fields, so its id is written \<open>undefined\<close>.
\<close>

datatype avatar_size = Size_sm | Size_md | Size_lg

definition avatar_size_class :: "avatar_size \<Rightarrow> string" where
  "avatar_size_class sz = (case sz of
       Size_sm \<Rightarrow> ''h-6 w-6 text-xs'' | Size_md \<Rightarrow> ''h-8 w-8 text-sm'' | Size_lg \<Rightarrow> ''h-10 w-10 text-base'')"

text \<open>One avatar: size class, image source, alt text and the fallback initials
  (\<open>getInitials\<close>, the same code as the todo card's \<open>initials\<close>).\<close>

record avatar_view =
  av_size_class :: string
  av_image :: "string option"
  av_alt :: string
  av_fallback :: string

text \<open>The rendered group: the avatars of \<open>displayItems\<close> and the badge
  \<open>+{overflowCount}\<close> when \<open>overflowCount > 0\<close>.\<close>

definition avatar_group_view ::
  "avatar_size \<Rightarrow> nat \<Rightarrow> (string \<times> string option) list \<Rightarrow> avatar_view list \<times> string option" where
  "avatar_group_view sz limit items =
     (let (shown, overflow) = avatar_group limit items
      in (map (\<lambda>(n, img). \<lparr>av_size_class = avatar_size_class sz, av_image = img, av_alt = n,
                            av_fallback = initials n\<rparr>) shown,
          if 0 < overflow then Some (''+'' @ js_int_string overflow) else None))"

record card_view =
  cv_href :: string
  cv_color_class :: string
  cv_title :: "string option"
  cv_description :: string
  cv_todo_label :: string
  cv_avatars :: "avatar_view list"
  cv_overflow :: "string option"

text \<open>\<open>BoardCard({ board, members })\<close>, with \<open>limit={3}\<close> and \<open>size="sm"\<close>.\<close>

definition board_card :: "(string \<times> string option) list \<Rightarrow> board_with_counts \<Rightarrow> card_view" where
  "board_card ms bc =
     (let (avs, badge) = avatar_group_view Size_sm 3 ms
      in \<lparr>cv_href = ''/boards/'' @ (case bwc_board bc of None \<Rightarrow> ''undefined'' | Some b \<Rightarrow> js_int_string (board_id b)),
          cv_color_class = board_color_class (bwc_board bc \<bind> board_color),
          cv_title = bwc_board bc \<bind> board_title,
          cv_description = js_or_str (bwc_board bc \<bind> board_description) ''No description'',
          cv_todo_label = todo_count_label (todo_count bc),
          cv_avatars = avs, cv_overflow = badge\<rparr>)"

text \<open>The dashboard's card of a board: \<open>members={getMembersForBoard(board)}\<close>,
  names without images.\<close>

definition dashboard_card :: "user option \<Rightarrow> board_with_counts \<Rightarrow> card_view" where
  "dashboard_card u bc = board_card (map (\<lambda>n. (n, None)) (members_for_board u bc)) bc"

subsection \<open>What a card shows\<close>

lemma avatar_group_view_counts:
  "length (fst (avatar_group_view sz limit items)) = min limit (length items) \<and>
   (snd (avatar_group_view sz limit items) \<noteq> None \<longleftrightarrow> limit < length items)"
  by (simp add: avatar_group_view_def avatar_group_def split: prod.split)

lemma avatar_group_view_badge:
  "snd (avatar_group_view sz limit items) =
     (if limit < length items then Some (''+'' @ js_int_string (int (length items) - int limit)) else None)"
  by (simp add: avatar_group_view_def avatar_group_def split: prod.split)

text \<open>C19: a dashboard card shows one to three avatars and a badge of at most
  \<open>+2\<close>, whatever the board's member count: the mock list never has more
  than five names.\<close>

lemma dashboard_card_avatars:
  "length (cv_avatars (dashboard_card u bc)) = min 3 (max 1 (min (member_count bc) 5)) \<and>
   cv_overflow (dashboard_card u bc) =
     (if member_count bc \<le> 3 then None else Some (''+'' @ js_int_string (int (min (member_count bc) 5) - 3)))"
proof -
  let ?ms = "map (\<lambda>n. (n, None)) (members_for_board u bc) :: (string \<times> string option) list"
  have len: "length ?ms = max 1 (min (member_count bc) 5)"
    by (simp add: members_for_board_length)
  have "length (fst (avatar_group_view Size_sm 3 ?ms)) = min 3 (max 1 (min (member_count bc) 5))"
    using avatar_group_view_counts [of Size_sm 3 ?ms] len by simp
  moreover have "snd (avatar_group_view Size_sm 3 ?ms) =
     (if member_count bc \<le> 3 then None else Some (''+'' @ js_int_string (int (min (member_count bc) 5) - 3)))"
    using len by (auto simp: avatar_group_view_badge)
  ultimately show ?thesis
    by (cases "avatar_group_view Size_sm 3 ?ms") (simp add: dashboard_card_def board_card_def)
qed

text \<open>The card and the sidebar link of a board open the same page.\<close>

lemma dashboard_card_href: "cv_href (dashboard_card u bc) = si_href (sidebar_item loc bc)"
  by (simp add: dashboard_card_def board_card_def sidebar_item_def Let_def split: prod.split)

end
