(* ===== verification/App.thy ===== *)
theory App
  imports Layout
begin

text \<open>
  The application shell of \<open>App.tsx\<close> (concatenated into
  \<open>src/client/src/components/todos/create-todo-dialog.tsx\<close>, lines 286-350):
  the routes of \<open>Router\<close> (\<open>/auth\<close>, \<open>/\<close>, \<open>/boards/:id\<close>, and the
  catch-all), \<open>ProtectedRoute\<close> (a spinner while the auth context loads,
  nothing and a redirect to \<open>/auth\<close> when nobody is signed in, the page
  otherwise), and \<open>Router\<close>'s effect that sends a signed-in user on
  \<open>/auth\<close> to \<open>/\<close> by \<open>window.location.href\<close>, a full page load that
  mounts the \<open>AuthProvider\<close> of \<open>AuthContext\<close> again from
  \<open>localStorage\<close>.  The state is the auth context and the location; the
  effects run after every render, the protected route's (a child) before the
  router's, until none fires.  The loop is a \<open>partial_function (option)\<close>:
  \<open>None\<close> when it never settles, which happens exactly when a page load
  never settles.
\<close>

datatype app_route = Route_auth | Route_boards | Route_board string | Route_not_found

text \<open>\<open>Switch\<close>: the first route whose pattern matches; \<open>/boards/:id\<close> takes one
  non-empty segment (\<open>route_param\<close>).\<close>

definition match_route :: "string \<Rightarrow> app_route" where
  "match_route loc =
     (if loc = ''/auth'' then Route_auth
      else if loc = ''/'' then Route_boards
      else case route_param loc of Some p \<Rightarrow> Route_board p | None \<Rightarrow> Route_not_found)"

datatype app_view = View_auth | View_loading | View_blank | View_boards | View_board_detail string | View_not_found

text \<open>\<open>ProtectedRoute\<close>'s render.\<close>

definition protected_route :: "auth_ctx \<Rightarrow> app_view \<Rightarrow> app_view" where
  "protected_route ctx v = (if ac_loading ctx then View_loading else if ac_user ctx = None then View_blank else v)"

definition app_view :: "auth_ctx \<Rightarrow> string \<Rightarrow> app_view" where
  "app_view ctx loc = (case match_route loc of
       Route_auth \<Rightarrow> View_auth
     | Route_boards \<Rightarrow> protected_route ctx View_boards
     | Route_board p \<Rightarrow> protected_route ctx (View_board_detail p)
     | Route_not_found \<Rightarrow> View_not_found)"

record app =
  app_ctx :: auth_ctx
  app_location :: string

datatype app_effect = Stay | Set_location string | Full_load string

text \<open>\<open>ProtectedRoute\<close>'s effect: \<open>if (!loading && !user) setLocation("/auth")\<close>.\<close>

definition protected_effect :: "auth_ctx \<Rightarrow> app_effect" where
  "protected_effect ctx = (if \<not> ac_loading ctx \<and> ac_user ctx = None then Set_location ''/auth'' else Stay)"

text \<open>\<open>Router\<close>'s effect: \<open>if (user && location === "/auth") window.location.href = "/"\<close>.\<close>

definition router_effect :: "auth_ctx \<Rightarrow> string \<Rightarrow> app_effect" where
  "router_effect ctx loc = (if ac_user ctx \<noteq> None \<and> loc = ''/auth'' then Full_load ''/'' else Stay)"

definition app_effects :: "app \<Rightarrow> app_effect" where
  "app_effects a =
     (let ctx = app_ctx a; loc = app_location a
      in case match_route loc of
           Route_boards \<Rightarrow> (case protected_effect ctx of Stay \<Rightarrow> router_effect ctx loc | e \<Rightarrow> e)
         | Route_board _ \<Rightarrow> (case protected_effect ctx of Stay \<Rightarrow> router_effect ctx loc | e \<Rightarrow> e)
         | _ \<Rightarrow> router_effect ctx loc)"

text \<open>Render and run effects until none fires; a full load mounts the auth
  context again from what \<open>localStorage\<close> holds.\<close>

partial_function (option) app_render :: "bool \<Rightarrow> app \<Rightarrow> app option" where
  "app_render fb a = (case app_effects a of
       Stay \<Rightarrow> Some a
     | Set_location l \<Rightarrow> app_render fb (a\<lparr>app_location := l\<rparr>)
     | Full_load l \<Rightarrow> (case mount fb (ac_storage (app_ctx a)) of
                        None \<Rightarrow> None
                      | Some c \<Rightarrow> app_render fb \<lparr>app_ctx = c, app_location = l\<rparr>))"

text \<open>A page load at \<open>loc\<close>, and the events of a running application: a change
  of the auth context (\<open>ctx_step\<close>) or a navigation (\<open>setLocation\<close>, a
  link).\<close>

definition app_load :: "bool \<Rightarrow> stored option \<Rightarrow> string \<Rightarrow> app option" where
  "app_load fb item loc = (case mount fb item of
       None \<Rightarrow> None | Some c \<Rightarrow> app_render fb \<lparr>app_ctx = c, app_location = loc\<rparr>)"

text \<open>The events: a successful verification on the sign-in page
  (\<open>handleVerifyOTP\<close>, \<open>src/unnamed/part_006\<close> lines 675-680:
  \<open>setUser(result.user)\<close> and then \<open>setLocation("/")\<close>, updates React
  renders together), the Firebase callback, a logout, and a navigation
  (\<open>setLocation\<close>, a link).\<close>

datatype app_event = App_sign_in user | App_firebase bool | App_logout bool | App_navigate string

definition app_ctx_then :: "bool \<Rightarrow> ctx_event \<Rightarrow> (app \<Rightarrow> app) \<Rightarrow> app \<Rightarrow> app option" where
  "app_ctx_then fb e f a = (case ctx_step fb e (app_ctx a) of
       None \<Rightarrow> None | Some c \<Rightarrow> app_render fb (f (a\<lparr>app_ctx := c\<rparr>)))"

fun app_step :: "bool \<Rightarrow> app_event \<Rightarrow> app \<Rightarrow> app option" where
  "app_step fb (App_sign_in u) a = app_ctx_then fb (Set_user u) (\<lambda>a. a\<lparr>app_location := ''/''\<rparr>) a"
| "app_step fb (App_firebase b) a = app_ctx_then fb (Firebase_changed b) id a"
| "app_step fb (App_logout ok) a = app_ctx_then fb (Logout ok) id a"
| "app_step fb (App_navigate l) a = app_render fb (a\<lparr>app_location := l\<rparr>)"

subsection \<open>Where the application settles\<close>

lemma app_render_stay: "app_effects a = Stay \<Longrightarrow> app_render fb a = Some a"
  by (simp add: app_render.simps)

lemma app_render_set: "app_effects a = Set_location l \<Longrightarrow> app_render fb a = app_render fb (a\<lparr>app_location := l\<rparr>)"
  by (simp add: app_render.simps)

lemma app_render_full_load:
  "app_effects a = Full_load l \<Longrightarrow>
   app_render fb a = (case mount fb (ac_storage (app_ctx a)) of None \<Rightarrow> None | Some c \<Rightarrow> app_render fb \<lparr>app_ctx = c, app_location = l\<rparr>)"
  by (simp add: app_render.simps)

lemma match_route_auth [simp]: "match_route ''/auth'' = Route_auth"
  by (simp add: match_route_def)

lemma signed_out_effects:
  "ac_user ctx = None \<Longrightarrow> \<not> ac_loading ctx \<Longrightarrow>
   app_effects \<lparr>app_ctx = ctx, app_location = loc\<rparr> =
     (case match_route loc of Route_boards \<Rightarrow> Set_location ''/auth'' | Route_board _ \<Rightarrow> Set_location ''/auth'' | _ \<Rightarrow> Stay)"
  by (simp add: app_effects_def protected_effect_def router_effect_def split: app_route.split)

lemma signed_out_render:
  assumes "ac_user ctx = None" "\<not> ac_loading ctx"
  shows "app_render fb \<lparr>app_ctx = ctx, app_location = loc\<rparr> =
           Some \<lparr>app_ctx = ctx, app_location =
             (case match_route loc of Route_boards \<Rightarrow> ''/auth'' | Route_board _ \<Rightarrow> ''/auth'' | _ \<Rightarrow> loc)\<rparr>"
proof -
  have auth: "app_render fb \<lparr>app_ctx = ctx, app_location = ''/auth''\<rparr> = Some \<lparr>app_ctx = ctx, app_location = ''/auth''\<rparr>"
    by (rule app_render_stay) (simp add: signed_out_effects assms)
  show ?thesis
  proof (cases "match_route loc")
    case Route_boards
    then show ?thesis using auth app_render_set [of "\<lparr>app_ctx = ctx, app_location = loc\<rparr>" "''/auth''" fb]
      by (simp add: signed_out_effects assms)
  next
    case (Route_board p)
    then show ?thesis using auth app_render_set [of "\<lparr>app_ctx = ctx, app_location = loc\<rparr>" "''/auth''" fb]
      by (simp add: signed_out_effects assms)
  qed (simp_all add: app_render_stay signed_out_effects assms)
qed

text \<open>C27: signed out, the application never shows a protected page: once the
  auth context has finished loading with nobody signed in, the render and
  effect loop settles, \<open>ProtectedRoute\<close>'s effect has replaced \<open>/\<close> and
  \<open>/boards/:id\<close> by \<open>/auth\<close>, and the page shown is the sign-in page (or the
  not-found page for any other path).\<close>

theorem signed_out_lands_on_auth:
  assumes "ac_user ctx = None" "\<not> ac_loading ctx"
  shows "app_render fb \<lparr>app_ctx = ctx, app_location = loc\<rparr> =
           Some \<lparr>app_ctx = ctx, app_location =
             (case match_route loc of Route_boards \<Rightarrow> ''/auth'' | Route_board _ \<Rightarrow> ''/auth'' | _ \<Rightarrow> loc)\<rparr> \<and>
         app_view ctx (case match_route loc of Route_boards \<Rightarrow> ''/auth'' | Route_board _ \<Rightarrow> ''/auth'' | _ \<Rightarrow> loc) \<in>
           {View_auth, View_not_found}"
  using signed_out_render [OF assms, of fb loc]
  by (cases "match_route loc") (simp_all add: app_view_def)

text \<open>A witness for C27: the first load without Firebase, on a board's page.\<close>

theorem signed_out_lands_on_auth_witness:
  "app_render False \<lparr>app_ctx = (init_ctx None)\<lparr>ac_deps := Some None, ac_loading := False\<rparr>,
                     app_location = ''/boards/7''\<rparr> =
     Some \<lparr>app_ctx = (init_ctx None)\<lparr>ac_deps := Some None, ac_loading := False\<rparr>, app_location = ''/auth''\<rparr> \<and>
   app_view ((init_ctx None)\<lparr>ac_deps := Some None, ac_loading := False\<rparr>) ''/auth'' = View_auth"
proof -
  let ?c = "(init_ctx None)\<lparr>ac_deps := Some None, ac_loading := False\<rparr>"
  have h1: "ac_user ?c = None" and h2: "\<not> ac_loading ?c" by (simp_all add: init_ctx_def)
  have r: "match_route ''/boards/7'' = Route_board ''7''" by code_simp
  from signed_out_lands_on_auth [OF h1 h2, of False "''/boards/7''"] r
  show ?thesis by (simp add: app_view_def)
qed

text \<open>A first load with nothing stored: without Firebase the context settles
  signed out at once and a protected route goes to \<open>/auth\<close>; with Firebase
  the spinner stays until its first callback.\<close>

lemma first_load_without_firebase:
  "app_load False None loc =
     Some \<lparr>app_ctx = (init_ctx None)\<lparr>ac_deps := Some None, ac_listener := None, ac_loading := False\<rparr>,
           app_location = (case match_route loc of Route_boards \<Rightarrow> ''/auth'' | Route_board _ \<Rightarrow> ''/auth'' | _ \<Rightarrow> loc)\<rparr>"
  using signed_out_render [of "(init_ctx None)\<lparr>ac_deps := Some None, ac_listener := None, ac_loading := False\<rparr>"]
  by (simp add: app_load_def mount_empty init_ctx_def)

lemma first_load_with_firebase:
  "app_load True None loc =
     Some \<lparr>app_ctx = (init_ctx None)\<lparr>ac_deps := Some None, ac_listener := Some None, ac_loading := True\<rparr>,
           app_location = loc\<rparr> \<and>
   app_view ((init_ctx None)\<lparr>ac_deps := Some None, ac_listener := Some None, ac_loading := True\<rparr>) loc \<noteq> View_boards"
  by (simp add: app_load_def mount_empty init_ctx_def app_render_stay app_effects_def protected_effect_def
      router_effect_def app_view_def protected_route_def split: app_route.split)

text \<open>A verified sign-in on \<open>/auth\<close> (the state \<open>AuthPage.auth_page_never_signs_in\<close>
  shows the page never reaches) would land on the dashboard: \<open>setUser\<close> and
  \<open>setLocation("/")\<close> render together, so \<open>Router\<close>'s reload never fires.\<close>

lemma sign_in_lands_on_boards:
  assumes "ac_user c = None" "ac_storage c = None" "\<not> effects_pending c" "\<not> ac_loading c"
  shows "\<exists>c'. app_step fb (App_sign_in u) \<lparr>app_ctx = c, app_location = ''/auth''\<rparr> =
                 Some \<lparr>app_ctx = c', app_location = ''/''\<rparr> \<and> app_view c' ''/'' = View_boards"
proof -
  let ?c' = "(set_user_fresh u c)\<lparr>ac_storage := Some (Stored_user u), ac_deps := Some (Some (ac_next c)),
              ac_listener := (if fb then Some (Some (ac_next c)) else ac_listener c),
              ac_loading := (if fb then ac_loading c else False)\<rparr>"
  have "app_effects \<lparr>app_ctx = ?c', app_location = ''/''\<rparr> = Stay"
    using assms(4) by (simp add: app_effects_def match_route_def protected_effect_def router_effect_def set_user_fresh_def)
  then show ?thesis
    using sign_in_saves [OF assms(1-3), of fb u] assms(4)
    by (simp add: app_ctx_then_def app_render_stay app_view_def match_route_def protected_route_def set_user_fresh_def)
qed

text \<open>A signed-in user who opens \<open>/auth\<close> is sent to \<open>/\<close> by a full page load,
  which restores the stored user and never settles.\<close>

lemma auth_visit_signed_in_never_settles:
  assumes "ac_user c \<noteq> None" "ac_storage c = Some (Stored_user u)"
  shows "app_step fb (App_navigate ''/auth'') \<lparr>app_ctx = c, app_location = l\<rparr> = None"
proof -
  have "app_effects \<lparr>app_ctx = c, app_location = ''/auth''\<rparr> = Full_load ''/''"
    using assms by (simp add: app_effects_def router_effect_def)
  moreover have "mount fb (Some (Stored_user u)) = None"
    by (simp add: mount_def render_init_stored)
  ultimately show ?thesis using assms by (simp add: app_render_full_load)
qed

end
