(* ===== verification/Spec2Isabelle.thy ===== *)
theory Spec2Isabelle
  imports Dialogs AuthPage BoardPage Typing Middleware AuthContext Layout Forms TodoItem Query Cards App
begin

text \<open>
  \<^bold>\<open>A verification model of the TaskHub board/membership/todo storage.\<close>

  \<^bold>\<open>The program.\<close>  TaskHub is an Express server (\<open>src/server/routes.ts\<close>)
  over an in-memory store (\<open>class MemStorage\<close>, \<open>src/unnamed/part_000\<close>,
  the server's \<open>storage.ts\<close>), with entity types from \<open>src/shared/schema.ts\<close>
  and a React client.  The store is the stateful core: four JS \<open>Map\<close>s (users,
  boards, board members, todos) keyed by integer ids, four id counters, read
  joins over the maps, and compound writes (\<open>createBoard\<close> also adds the
  creator as admin; \<open>deleteBoard\<close> cascades to memberships and todos).  The
  route handlers translate requests into store calls and map absent results to
  404; the client calls the routes.

  \<^bold>\<open>Theories and what they model.\<close>
  \<^item> \<open>Prelude\<close>: JS maps as association lists (\<open>AList.update\<close> is
    \<open>Map.set\<close>: an existing key keeps its place, a new key is appended, so
    iteration order is insertion order), the \<open>||\<close> defaulting of the code
    (\<open>js_or_str\<close>, \<open>js_or_null_str\<close>, \<open>js_or_null_num\<close>, \<open>js_truthy_num\<close>),
    the JS \<open>Set\<close> insertion \<open>js_set_add\<close>, and the delete-while-iterating
    loop \<open>js_delete_where\<close> with its equivalence to a filter; shared lemmas.
  \<^item> \<open>Schema\<close>: the records of \<open>schema.ts\<close> (rows, insert types, joined
    types, \<open>Partial<_>\<close> update objects with object-spread \<open>spread\<close>), and
    the role/status enumerations named by its comments.
  \<^item> \<open>Store\<close>: the state \<open>mem_storage\<close> (the fields of \<open>MemStorage\<close>), its
    constructor \<open>init_storage\<close>, and \<open>getUser\<close>, \<open>getUserByUsername\<close>,
    \<open>getUserByPhoneNumber\<close>, \<open>createUser\<close>.
  \<^item> \<open>Members\<close>: \<open>getBoardMembers\<close>, \<open>addBoardMember\<close>,
    \<open>removeBoardMember\<close>, \<open>updateBoardMemberRole\<close>; the loops of the last two
    are \<open>find_member_entry\<close>.
  \<^item> \<open>Todos\<close>: \<open>getTodos\<close>, \<open>getTodo\<close>, \<open>createTodo\<close>, \<open>updateTodo\<close>,
    \<open>deleteTodo\<close>.
  \<^item> \<open>Boards\<close>: \<open>getBoards\<close>, \<open>getBoardsByUser\<close>, \<open>getBoard\<close>,
    \<open>getBoardWithMembers\<close>, \<open>createBoard\<close>, \<open>updateBoard\<close>, \<open>deleteBoard\<close>.
  \<^item> \<open>Operations\<close>: the store as a state machine: \<open>storage_op\<close> has one
    constructor per state-changing method, \<open>exec_op\<close> runs one call,
    \<open>exec_run\<close> a sequence, \<open>reachable\<close> is the set of states of any
    sequence of calls from \<open>init_storage\<close>, and \<open>store_inv\<close> the invariant.
  \<^item> \<open>Json\<close>: what a handler reads from a request: the JSON body
    (\<open>json\<close>, as \<open>express.json()\<close> of \<open>src/unnamed/part_001\<close> parses it),
    property reads, truthiness, ECMAScript \<open>parseInt\<close> (\<open>parse_int\<close>, with
    the round trip from the client's \<open>String(id)\<close>), and the zod field checks.
  \<^item> \<open>Validation\<close>: the zod insert schemas of \<open>schema.ts\<close>
    (\<open>parse_insert_user\<close>, \<dots>), the body spread \<open>{ ...req.body, boardId }\<close>
    (\<open>json_with\<close>), and the update objects the two PUT handlers build
    (\<open>board_updates\<close>, \<open>todo_updates\<close>).
  \<^item> \<open>Routes\<close>: one definition per handler of \<open>registerRoutes\<close>
    (\<open>src/server/routes.ts\<close>), returning status code and body and the new
    store; registration is split at its \<open>await hashPassword\<close> into
    \<open>register_check\<close> and \<open>register_commit\<close>.
  \<^item> \<open>Server\<close>: all routes as one \<open>request\<close> type, \<open>serve\<close> running one
    request, \<open>req_op\<close> naming the store call each request makes, and the
    interleaved server \<open>server_step\<close>, in which registrations wait for their
    hash while other requests run (\<open>server_reach\<close> its reachable states).
  \<^item> \<open>Client\<close>: the client logic that decides what is sent and shown:
    \<open>apiRequest\<close>'s body and status handling (\<open>with_csrf\<close>, \<open>res_ok\<close>),
    the backend part of \<open>verifyOTP\<close> (\<open>verify_otp_backend\<close>, run against
    the \<open>Routes\<close> handlers) and of \<open>sendOTP\<close> (\<open>send_otp_backend\<close>), the board page's saves, filter and sort
    (\<open>save_title\<close>, \<open>save_description\<close>, \<open>todo_visible\<close>,
    \<open>js_sort\<close> with \<open>todo_cmp\<close>), the todo item (\<open>toggle_status\<close>,
    \<open>is_overdue\<close>, \<open>initials\<close>) and the auth page (\<open>phone_input\<close>,
    \<open>otp_change\<close>, \<open>otp_key_down\<close>, \<open>timer_tick\<close>, \<open>format_time\<close>).
  \<^item> \<open>Dialogs\<close>: the request bodies of the create-board and create-todo
    dialogs (\<open>board_dialog_body\<close>, \<open>todo_dialog_body\<close>), run through the
    \<open>Routes\<close> handlers; the invite dialog's list (\<open>add_invite\<close>,
    \<open>remove_invite\<close>, \<open>send_invites\<close>); the board card's colour and count
    labels and the avatar group's overflow.
  \<^item> \<open>AuthPage\<close>: the sign-in page (\<open>Auth\<close> of \<open>src/unnamed/part_006\<close>) as a
    state machine: \<open>auth_page\<close> is its state, \<open>auth_event\<close> its handlers,
    \<open>auth_step\<close> one handler run over the page and the server store
    (verification goes through \<open>verify_otp_backend\<close> and the routes), and
    \<open>countdown\<close> the countdown effect as a loop with its termination measure.
  \<^item> \<open>BoardPage\<close>: the board page (\<open>BoardDetail\<close> of
    \<open>src/unnamed/part_006\<close>) as a state machine: \<open>board_page\<close> holds its
    \<open>useState\<close> hooks, \<open>page_board\<close> and \<open>page_todos\<close> its two queries
    read from the store, \<open>board_event\<close> its handlers and \<open>board_step\<close> one
    of them over the page and the store (saves through \<open>put_after\<close> and the
    \<open>PUT\<close> route, \<open>handle_delete_board\<close>, the \<open>[board]\<close> effect
    \<open>sync_board\<close>), and the member avatars of each render
    (\<open>board_avatar_items\<close>, \<open>None\<close> when the render throws) and the todo
    list with its empty states (\<open>render_todo_list\<close>).
  \<^item> \<open>AuthContext\<close>: \<open>AuthProvider\<close>
    (\<open>src/client/src/lib/contexts/auth-context.tsx\<close>): the user state as an
    object (an allocation number and the value, since React compares
    dependencies by identity), \<open>localStorage\<close>'s \<open>"user"\<close> item, its two
    \<open>[user]\<close> effects (\<open>auth_effect\<close>, \<open>save_effect\<close>, run together by
    \<open>commit\<close>), the render/effect cycle \<open>render\<close> as \<open>while_option\<close>
    (\<open>None\<close> when it never settles), \<open>setUser\<close>, \<open>logout\<close> and the
    \<open>onAuthStateChanged\<close> callback (\<open>ctx_step\<close>); \<open>logout\<close> goes through
    \<open>signOut\<close> of \<open>auth.ts\<close> (\<open>sign_out\<close>), which catches every Firebase
    error and so never rejects.
  \<^item> \<open>Layout\<close>: the page shell of \<open>header.tsx\<close> and \<open>part_002\<close>: the
    header's buttons, the user menu (\<open>shell_step\<close> over \<open>shell\<close>, with
    \<open>Sign out\<close> through \<open>AuthContext\<close> and the menu unmounted when
    nobody is signed in), the sidebar's board list (\<open>sidebar_items\<close> from
    \<open>GET /api/boards?userId=\<close>) and its close effect
    (\<open>sidebar_effect\<close>), which runs after every render of the page because
    both pages pass \<open>onClose\<close> as a new arrow (\<open>board_step_rendered\<close>,
    \<open>dashboard_step\<close>); the dashboard's state and mock member lists.
  \<^item> \<open>Forms\<close>: both create dialogs as one generic form machine
    (\<open>dialog_step\<close> over \<open>form_dialog\<close>: zod check, submit, pending
    mutation, reset and close on success, unchanged on error, buttons
    disabled while pending), instantiated with each dialog's schema, defaults
    and request (\<open>board_send\<close>, \<open>todo_send\<close>, through the \<open>Routes\<close>
    handlers); the assignee options of the create-todo dialog; the invite
    dialog as events \<open>invite_step\<close> over \<open>invite_dialog\<close> (email, role,
    add, remove, send, settle, cancel).
  \<^item> \<open>TodoItem\<close>: the todo card of \<open>src/unnamed/part_004\<close>: its rendered
    fields (\<open>todo_card\<close>) and its toggle as events \<open>item_step\<close> (the
    click serves the PUT, the mutation settles, the todos query is refetched).
  \<^item> \<open>Query\<close>: \<open>getQueryFn\<close> and the options of \<open>queryClient\<close>
    (\<open>src/client/src/lib/queryClient.ts\<close>: \<open>get_query_fn\<close>,
    \<open>query_client\<close>), the TanStack cache they configure (\<open>read_query\<close> for
    a \<open>useQuery\<close> read, \<open>invalidate_queries\<close> by key prefix, staleness
    \<open>is_stale\<close>; library behaviour, written from its documented semantics),
    the keys and query functions of the sidebar and the board page
    (\<open>boards_key\<close>, \<open>boards_query_fn\<close>, \<open>board_query_fn\<close>,
    \<open>todos_query_fn\<close>), and the keys each mutation's \<open>onSuccess\<close>
    invalidates (\<open>create_todo_invalidates\<close>, \<open>board_delete_invalidates\<close>,
    \<dots>).
  \<^item> \<open>Cards\<close>: the dashboard's board card (\<open>board_card\<close>, \<open>board-card.tsx\<close>)
    and the avatar group it renders (\<open>avatar_group_view\<close>,
    \<open>avatar-group.tsx\<close>) as records of what they show, fed with the mock
    member names (\<open>dashboard_card\<close>).
  \<^item> \<open>App\<close>: \<open>App.tsx\<close> (concatenated into \<open>create-todo-dialog.tsx\<close>):
    the routes of \<open>Router\<close> (\<open>match_route\<close>, \<open>app_view\<close>),
    \<open>ProtectedRoute\<close> (\<open>protected_route\<close>, \<open>protected_effect\<close>) and
    \<open>Router\<close>'s redirect of a signed-in user on \<open>/auth\<close> by a full page
    load (\<open>router_effect\<close>), composed with \<open>AuthContext\<close> into the
    render-and-effect loop \<open>app_render\<close> (a \<open>partial_function (option)\<close>,
    \<open>None\<close> when it never settles), \<open>app_load\<close> and \<open>app_step\<close>.
  \<^item> \<open>Typing\<close>: the tables of \<open>schema.ts\<close> as column lists, the zod field
    \<open>createInsertSchema\<close> derives from each column (\<open>insert_field\<close>,
    \<open>insert_schema\<close>), and the typing judgement \<open>conforms\<close> of a JSON body.
  \<^item> \<open>Middleware\<close>: the Express chain of \<open>src/unnamed/part_001\<close>
    (\<open>app_handle\<close>), the CSRF scheme of \<open>middleware/csrf.ts\<close>
    (\<open>generate_csrf_token\<close>, \<open>csrf_protection\<close>, \<open>set_csrf_token\<close>) with
    the client's \<open>getCsrfToken\<close> and \<open>apiRequest\<close> (\<open>get_csrf_token\<close>,
    \<open>api_request\<close>), the request log line and the error handler.
  \<^item> \<open>Abstract\<close>: the specification the store implements, as maps from
    ids to rows (\<open>abs_store\<close>, read off a store by \<open>abs_of\<close>) with one
    abstract operation per storage call (\<open>a_exec\<close>) and the calling
    contract \<open>op_ok\<close> (an update patch does not overwrite ids or creation
    times, as no route sends them).

  Each method is a function from its arguments and the state to its result and
  the new state.  \<open>new Date()\<close> is an argument \<open>now\<close> (milliseconds): the
  clock is outside the program.  The methods are \<open>async\<close>, but none awaits
  anything except \<open>createBoard\<close>, whose one await follows both of its writes
  (\<open>addBoardMember\<close> runs synchronously up to its return), so every method is
  one atomic step, as \<open>exec_op\<close> takes it.  Non-null assertions \<open>!\<close> check
  nothing at run time, so the values they guard are options
  (\<open>bwc_board\<close>, \<open>members\<close>).  Ids and counters are \<open>int\<close>: route
  parameters come from \<open>parseInt\<close>, which also yields zero and negative ids,
  and a JS number is exact up to \<open>2^53\<close>, far beyond any counter a process
  reaches, so no wrap-around is modelled.

  \<^bold>\<open>What is proved.\<close>
  \<^item> Cascade and not-found behaviour of \<open>deleteBoard\<close>
    (\<open>Boards.delete_board_cascade\<close>, \<open>Boards.delete_board_result\<close>), and that
    its loop equals a filter (\<open>Boards.delete_board_members_filter\<close>).
  \<^item> Idempotent membership (\<open>Members.add_board_member_idempotent\<close>), removal
    and role update (\<open>Members.remove_board_member_gone\<close>, \<dots>).
  \<^item> The invariant: distinct keys, every key below its counter, users and
    memberships stored under their own id, at most one membership per
    (board, user); it holds in every reachable state
    (\<open>Operations.reachable_store_inv\<close>, by rule induction over \<open>reachable\<close>
    with one preservation case per operation), hence
    \<open>Operations.reachable_unique_membership\<close> and
    \<open>Operations.reachable_todo_id_fresh\<close>; ids grow along any run
    (\<open>Operations.todo_ids_increase\<close>).
  \<^item> Union semantics of \<open>getBoardsByUser\<close> (\<open>Boards.user_board_ids_union\<close>),
    the admin bootstrap of \<open>createBoard\<close> (\<open>Boards.create_board_admin\<close>),
    \<open>updateTodo\<close>'s merge and timestamp (\<open>Todos.update_todo_result\<close>,
    \<open>Todos.update_todo_refreshes\<close>, \<open>Todos.update_todo_strict_iff\<close>), the
    unguarded status transitions (\<open>Todos.update_todo_status\<close>), insert/lookup
    round trips (\<open>Todos.create_todo_lookup\<close>, \<open>Store.create_user_phone_lookup\<close>)
    and the spec's end-to-end scenario run on the model (\<open>spec_scenario\<close>
    below).
  \<^item> What the modelling showed: a membership added for a board id before the
    board exists survives its creation: whenever \<open>createBoard\<close>'s own lookup
    finds such a membership of the creator, no admin membership is added and
    the creator keeps the earlier role
    (\<open>Boards.create_board_inherits_membership\<close>); removing a member deletes
    exactly that row (\<open>Members.remove_board_member_gone\<close>); dangling ids surface as
    \<open>undefined\<close> in \<open>getBoardWithMembers\<close> and \<open>getBoardsByUser\<close>
    (\<open>Boards.get_board_with_members_dangling\<close>,
    \<open>Boards.get_boards_by_user_dangling\<close>); \<open>updatedAt\<close> grows strictly only
    when the clock has advanced (\<open>Todos.update_todo_strict_iff\<close>).

  \<^item> The HTTP layer: every route answers 400 on an id \<open>parseInt\<close> cannot
    read and 404 on an absent board, leaving the store unchanged
    (\<open>Routes.routes_bad_id\<close>, \<open>Routes.board_routes_not_found\<close>); the role
    check of the member PATCH (\<open>Routes.patch_member_route_role_check\<close>);
    login succeeds only on a matching password
    (\<open>Routes.login_ok\<close>) and does after registration
    (\<open>Routes.register_then_login\<close>); the client's id URLs reach the right
    board (\<open>Routes.get_board_route_id\<close>).
  \<^item> Refinement and interleaving: every store state the server reaches, under
    any interleaving of requests and hash completions, is a reachable store
    state, so \<open>store_inv\<close> holds there (the lemma
    \<open>Server.server_reach_store\<close>); the store implements its abstract specification: from any state
    satisfying \<open>store_inv\<close>, every run of calls respecting \<open>op_ok\<close>
    changes the abstract maps as the abstract operations do
    (\<open>Abstract.exec_run_refines\<close>, from the one-call simulation
    \<open>Abstract.exec_op_refines\<close>);
    served one at a time, requests keep phone numbers unique
    (\<open>Server.serve_phones_unique\<close>), but two registrations for one phone
    interleaved across the \<open>await\<close> both succeed
    (\<open>Server.register_race\<close>).
  \<^item> What the HTTP model showed: \<open>PUT /api/boards/:id\<close> erases the fields
    it is not sent (\<open>Routes.put_board_route_title_only\<close>); \<open>PUT
    /api/todos/:id\<close> rewrites \<open>id\<close> and \<open>boardId\<close>
    (\<open>Routes.put_todo_route_id_board\<close>); a todo with a due date, sent as
    the client sends it, is always rejected (\<open>Routes.post_todo_route_due_date\<close>);
    \<open>POST\<close> of a member keeps the board of the URL and stores any role string
    (\<open>Routes.post_member_route_url_board\<close>).

  \<^item> The client: its OTP sign-in never succeeds, because it logs in
    without a password and treats the resulting 400 as an exception
    (\<open>Client.verify_otp_backend_fails\<close>); saving a description erases the
    board's title (\<open>Client.save_description_erases_title\<close>); the OTP boxes
    keep their shape (\<open>Client.otp_handlers_ok\<close>); the date sorts of the
    board page are the stable key sorts of the library
    (\<open>Client.board_sorts_by_date\<close>, through \<open>Client.js_sort_key\<close>);
    after the code is sent the resend countdown reaches zero, and only then
    enables resending (\<open>Client.timer_ticks\<close>,
    \<open>Client.timer_reaches_resend\<close>), and every time it shows is two digits,
    a colon and two digits that read back as minutes and seconds
    (\<open>Client.format_time_read_back\<close>).
  \<^item> The sign-in page as a whole: it keeps its invariant along any run
    (\<open>AuthPage.auth_run_inv\<close>), never signs anyone in whatever the user does
    (\<open>AuthPage.auth_page_never_signs_in\<close>), cannot resend the code before the
    countdown has run out (\<open>AuthPage.resend_cooldown\<close>), and its countdown
    loop terminates after exactly \<open>t + 1\<close> values
    (\<open>AuthPage.countdown_terminates\<close>).
  \<^item> The board page: whatever the user does there, in any order, the store
    changes only at the page's board (\<open>BoardPage.board_page_frame\<close>, from
    the abstract frame \<open>board_frame\<close> and the one-call simulation of
    \<open>Abstract\<close>); after a description save the synced title is
    \<open>undefined\<close> and the title's Save does nothing
    (\<open>BoardPage.description_save_blocks_title_save\<close>); a member added for a
    user id no user has is accepted, and from then on the page throws at every
    render while building the member avatars
    (\<open>BoardPage.unknown_member_breaks_board_page\<close>).
  \<^item> The auth context: a page load with a stored user never settles,
    because each effect run restores the user as a new object
    (\<open>AuthContext.mount_stored_user_diverges\<close>, an infinite run of
    \<open>while_option\<close> shown by an invariant of all its iterates); a first
    visit, a sign-in and a logout each settle, saving and then removing the
    user (\<open>AuthContext.sign_in_logout_roundtrip\<close>); signing out from the
    open user menu closes it, clears the user and the stored user, and leaves
    the page at \<open>/auth\<close> (\<open>Layout.sign_out_from_menu\<close>).
  \<^item> The shell: the menu button never shows the sidebar, at any width
    (\<open>Layout.board_page_sidebar_never_opens\<close>); the user menu is open only
    while someone is signed in (\<open>Layout.menu_open_only_signed_in\<close>); each
    sidebar link opens its board's page (\<open>Layout.sidebar_link_opens_board\<close>);
    a dashboard card shows \<open>min(memberCount, 5)\<close> names
    (\<open>Layout.members_for_board_length\<close>).
  \<^item> The dialogs and the todo card: whatever the user does in the
    create-board dialog, the store changes only by \<open>createBoard\<close> calls with
    accepted forms of the signed-in user (\<open>Forms.board_dialog_changes\<close>, via
    the generic \<open>dialog_run_ops\<close>, so \<open>store_inv\<close> is kept); a todo with a
    due date can never be created and the dialog stays open
    (\<open>Forms.todo_dialog_due_date_stays_open\<close>); a second toggle before the
    refetch repeats the first, after it toggles back, and in-progress is lost
    (\<open>TodoItem.toggle_order\<close>); along any sequence of invite-dialog events
    the list never holds an email twice and sending leaves the store as it
    was (\<open>Forms.invite_run_ok\<close>).
  \<^item> Types: every insert validator accepts exactly the bodies typed by the
    schema drizzle-zod derives from the table (the lemma
    \<open>Typing.insert_validators_typed\<close>).
  \<^item> Middleware: the CSRF token goes through the cookie, \<open>getCsrfToken\<close> and
    \<open>apiRequest\<close> and is accepted by \<open>csrfProtection\<close>
    (\<open>Middleware.csrf_cycle\<close>), but \<open>csrfProtection\<close> is never installed,
    so a tokenless cross-site request is served
    (\<open>Middleware.csrf_not_enforced\<close>); log lines are at most 80 code units
    (\<open>Middleware.request_log_bounded\<close>).
  \<^item> The query cache: while the cache holds nothing fresh for them, the
    board page's queries show exactly what \<open>BoardPage\<close> reads from the store
    (the lemma \<open>Query.board_page_queries_refine\<close>), which justifies that model; but
    with \<open>staleTime: Infinity\<close> only invalidations refresh data, and creating
    a todo leaves the sidebar's boards and their \<open>todoCount\<close> as they were
    (\<open>Query.todo_created_sidebar_stale\<close>); a deleted board stays in its
    query: after a \<open>DELETE\<close> answered 204 the board's query function fails,
    yet the page still reads the board it had cached
    (\<open>Query.board_delete_keeps_page_cached\<close>,
    \<open>Query.deleted_board_page_stays_cached\<close>), and the invite dialog
    invalidates a key no query has (\<open>Query.invite_invalidates_no_query\<close>).
  \<^item> The application: signed out, every protected route ends on
    \<open>/auth\<close> (\<open>App.signed_out_lands_on_auth\<close>, \<open>App.first_load_without_firebase\<close>);
    a sign-in (\<open>setUser\<close> and then \<open>setLocation("/")\<close>) lands on the
    dashboard and settles (\<open>App.sign_in_lands_on_boards\<close>), but a signed-in
    visit of \<open>/auth\<close> never settles, because the router reloads the page
    and the reload restores the stored user
    (\<open>App.auth_visit_signed_in_never_settles\<close>).  A dashboard card shows at
    most three avatars and a badge of at most \<open>+2\<close>
    (\<open>Cards.dashboard_card_avatars\<close>), and links to the same page as the
    sidebar (\<open>Cards.dashboard_card_href\<close>).
  \<^item> Liveness: every registration waiting for its hash is answered once the
    hashes arrive in the order the registrations came in
    (\<open>Server.pending_registrations_complete\<close>).
  \<^item> The dialogs: the create-board dialog's request always creates the board
    with the form's values (\<open>Dialogs.board_dialog_creates\<close>); the
    create-todo dialog's request is rejected whenever a due date is set
    (\<open>Dialogs.todo_dialog_due_date_rejected\<close>) and creates the todo
    otherwise (\<open>Dialogs.todo_dialog_creates\<close>); the invite list never holds
    an email twice (\<open>Dialogs.invites_ok_add_remove\<close>), while sending it
    makes no request at all (\<open>send_invites\<close> passes the store through).

  \<^bold>\<open>Modelling bounds.\<close>  JSON numbers are their integer values (every number
  the program reads is an id, a count or a flag).  The two PUT handlers are
  modelled for bodies whose values fit the declared field types; a body that
  would store, say, a number as a title gives \<open>None\<close> (outside the typed
  model), and keys that are not fields (the client's \<open>_csrf\<close>) are dropped.
  A query parameter given twice (an array) is not modelled.  No fuel is used:
  every function of the model is total, structurally recursive or, for
  \<open>nat_digits\<close> (by \<open>div\<close>) and \<open>countdown\<close> (by the measure \<open>nat t\<close>
  on the remaining seconds), terminating by a measure.  Strings are lists of
  UTF-16 code units within Latin-1; the log line's ellipsis U+2026 is a
  parameter \<open>ell\<close>; \<open>parseInt\<close>'s leading white space is the part of
  JavaScript's within Latin-1 (tab to carriage return, space, U+00A0).  Request headers reach the middleware as the client
  sent them, each once, looked up lowercased as Node does.

  \<^bold>\<open>Not modelled.\<close>  bcrypt (\<open>hashPassword\<close>, \<open>comparePassword\<close>: their
  results are inputs, \<open>env_hash\<close> and the check \<open>cmp\<close>); \<open>localeCompare\<close>
  (a parameter \<open>collate\<close>: it depends on the browser's locale); the CSRF
  HMAC and the clock (parameters of the CSRF and logging models), Vite and
  static serving, Firebase, the network side of \<open>fetch\<close> (a response is an
  input), the cache's garbage collection and background refetch timing (the
  model fetches at the next read of an invalidated key), and the rendering of
  the React components (I/O and presentation, no state of the store).

  The dashboard's board sort is not modelled: its name sorts call
  \<open>localeCompare\<close> on titles that may be \<open>undefined\<close>, and whether that
  throws depends on the order in which the engine compares.

  \<^bold>\<open>Open directions.\<close>  A refinement of the route layer to the abstract
  store (today the routes reach \<open>Abstract\<close> through \<open>Server\<close> and
  \<open>Operations\<close>), and the dashboard's sort once \<open>localeCompare\<close> on
  \<open>undefined\<close> is pinned down.
\<close>

subsection \<open>The scenario of the specification\<close>

text \<open>The end-to-end scenario of the specification, run on the model:
  register alice, create a board (one admin membership, no todos), create a
  todo (listed with no assignee, status todo), complete it later (status
  completed, \<open>updatedAt\<close> past \<open>createdAt\<close>), delete the board (true; no todos,
  no memberships and no board left).\<close>

theorem spec_scenario:
  "let alice = \<lparr>iu_username = ''alice'', iu_password = ''hash'', iu_phone_number = ''+15550001'',
                 iu_display_name = None, iu_photo_url = None\<rparr>;
       launch = \<lparr>ib_title = ''Launch Plan'', ib_description = None, ib_color = None, ib_created_by = 1\<rparr>;
       spec = \<lparr>it_board_id = 1, it_title = ''Write spec'', it_description = None, it_due_date = None,
                it_priority = None, it_status = None, it_assigned_to = None, it_created_by = 1\<rparr>;
       s1 = snd (create_user alice init_storage);
       s2 = snd (create_board launch 1000 s1);
       (t, s3) = create_todo spec 2000 s2;
       (t', s4) = update_todo (todo_id t) (empty_todo_patch\<lparr>tp_status := Some ''completed''\<rparr>) 3000 s3;
       (r, s5) = delete_board 1 s4
   in map (\<lambda>m. (member_board_id m, member_user_id m, member_role m)) (get_board_members s2 1)
        = [(1, 1, ''admin'')] \<and>
      get_todos s2 1 = [] \<and>
      map (\<lambda>x. (assignee x, todo_status (twa_todo x))) (get_todos s3 1) = [(None, ''todo'')] \<and>
      map_option todo_status t' = Some ''completed'' \<and>
      map_option todo_updated_at t' = Some 3000 \<and> todo_created_at t < 3000 \<and>
      r \<and> get_todos s5 1 = [] \<and> get_board_members s5 1 = [] \<and> get_board s5 1 = None"
  by (simp add: create_user_def create_board_def add_board_member_def init_storage_def
      create_todo_def update_todo_def delete_board_def js_map_delete_def get_board_members_def
      get_todos_def get_board_def todo_assignee_def apply_todo_patch_def empty_todo_patch_def
      new_member_def new_user_def new_todo_def member_of_def Let_def)

end
